(* ===== verification/VPA_Prelude.thy ===== *)
theory VPA_Prelude
  imports Main "HOL-Library.Finite_Map" "HOL-Library.State_Monad"
    "HOL-Library.Char_ord" "HOL-Library.List_Lexorder"
begin

text \<open>
  Shared vocabulary of the development: how Go's nil-able maps and slices, error values,
  strings and decimal integers are represented, the state-monad lemmas that every
  handler proof uses, and the collections of simplification rules the components share.

  \<^item> A Go string is a byte list, so it is a \<^typ>\<open>string\<close> here.
  \<^item> A Go map \<open>map[string]V\<close> whose nil value is told apart from the empty map by the code
    is an \<open>option\<close> of a finite map (\<open>None\<close> is nil); where the code only ranges over the map,
    measures its length or compares it semantically, it is the finite map itself.
  \<^item> A Go \<open>error\<close> is a value of \<open>go_error\<close>; a nil error is \<open>None\<close>.
  \<^item> Code that talks to the API server is a program of the state monad
    \<^typ>\<open>('s, 'a) state\<close>, so the order of the calls is explicit.
\<close>

named_theorems run_simps \<open>evaluation of monadic programs\<close>
named_theorems go_defs \<open>unfolding rules of the small constant definitions of the model\<close>

section \<open>Maps and slices\<close>

type_synonym strmap = "(string, string) fmap"

definition nilmap :: "('k, 'v) fmap option \<Rightarrow> ('k, 'v) fmap" where
  "nilmap m = (case m of None \<Rightarrow> fmempty | Some f \<Rightarrow> f)"

definition nilslice :: "'a list option \<Rightarrow> 'a list" where
  "nilslice xs = (case xs of None \<Rightarrow> [] | Some ys \<Rightarrow> ys)"

lemma nilmap_simps [simp]: "nilmap None = fmempty" "nilmap (Some f) = f"
  by (simp_all add: nilmap_def)

lemma nilslice_simps [simp]: "nilslice None = []" "nilslice (Some xs) = xs"
  by (simp_all add: nilslice_def)

text \<open>Go map literals and lookups that agree as finite maps.\<close>

lemma fmupd_absorb: "fmlookup m k = Some v \<Longrightarrow> fmupd k v m = m"
  by (rule fmap_ext) auto

lemma fmupd2_fixed:
  assumes "m = fmupd k' v' (fmupd k v m)" and "k \<noteq> k'"
  shows "fmlookup m k = Some v \<and> fmlookup m k' = Some v'"
  using arg_cong [OF assms(1), of "\<lambda>f. fmlookup f k"] arg_cong [OF assms(1), of "\<lambda>f. fmlookup f k'"]
    assms(2) by simp

section \<open>Errors\<close>

text \<open>
  \<open>StatusError\<close> is apimachinery's error with its reason, HTTP code and message;
  \<open>PlainError\<close> is an error with a text only (\<open>errors.New\<close>, or \<open>fmt.Errorf\<close> with \<open>%v\<close>);
  \<open>WrapError\<close> is \<open>fmt.Errorf("...: %w", err)\<close>, which keeps the wrapped error reachable
  for \<open>errors.As\<close>.
\<close>

datatype go_error =
    StatusError (se_reason: string) (se_code: int) (se_message: string)
  | PlainError string
  | WrapError string go_error

fun Error :: "go_error \<Rightarrow> string" where
  "Error (StatusError r c m) = m"
| "Error (PlainError m) = m"
| "Error (WrapError m e) = m @ Error e"

section \<open>Strings\<close>

definition HasPrefix :: "string \<Rightarrow> string \<Rightarrow> bool" where
  "HasPrefix s p \<longleftrightarrow> take (length p) s = p"

fun Join :: "string list \<Rightarrow> string \<Rightarrow> string" where
  "Join [] sep = ''''"
| "Join [x] sep = x"
| "Join (x # y # xs) sep = x @ sep @ Join (y # xs) sep"

text \<open>\<open>strings.Cut\<close> at a one-character separator: the text before its first occurrence, and the text after it if it occurs.\<close>

fun Cut :: "char \<Rightarrow> string \<Rightarrow> string \<times> string option" where
  "Cut sep [] = ([], None)"
| "Cut sep (c # cs) =
     (if c = sep then ([], Some cs) else (case Cut sep cs of (before, after) \<Rightarrow> (c # before, after)))"

lemma Cut_append [simp]: "sep \<notin> set s \<Longrightarrow> Cut sep (s @ sep # t) = (s, Some t)"
  by (induction s) auto

lemma Cut_none [simp]: "sep \<notin> set s \<Longrightarrow> Cut sep s = (s, None)"
  by (induction s) auto

lemma HasPrefix_iff: "HasPrefix s p \<longleftrightarrow> (\<exists>t. s = p @ t)"
  unfolding HasPrefix_def by (metis append_eq_conv_conj append_take_drop_id)

lemma HasPrefix_append [simp]: "HasPrefix (p @ t) p"
  by (auto simp: HasPrefix_iff)

lemma HasPrefix_simps [simp]:
  "HasPrefix s [] = True"
  "HasPrefix [] (c # p) = False"
  "HasPrefix (a # s) (c # p) = (a = c \<and> HasPrefix s p)"
  by (auto simp: HasPrefix_def)

section \<open>Decimal integers: the text of an int and strconv.Atoi\<close>

definition digit_char :: "nat \<Rightarrow> char" where
  "digit_char d = char_of (48 + d)"

fun nat_text :: "nat \<Rightarrow> string" where
  "nat_text n = (if n < 10 then [digit_char n] else nat_text (n div 10) @ [digit_char (n mod 10)])"

declare nat_text.simps [simp del]

definition int_text :: "int \<Rightarrow> string" where
  "int_text i = (if i < 0 then CHR ''-'' # nat_text (nat (- i)) else nat_text (nat i))"

definition char_digit :: "char \<Rightarrow> nat option" where
  "char_digit c = (let n = of_char c in if 48 \<le> n \<and> n \<le> 57 then Some (n - 48) else None)"

fun parse_digits :: "nat \<Rightarrow> string \<Rightarrow> nat option" where
  "parse_digits acc [] = Some acc"
| "parse_digits acc (c # cs) =
     (case char_digit c of None \<Rightarrow> None | Some d \<Rightarrow> parse_digits (acc * 10 + d) cs)"

text \<open>
  \<open>strconv.Atoi\<close>: an optional sign, at least one decimal digit and nothing else; a value
  outside of the 64-bit signed range is an error. \<open>None\<close> stands for a non-nil error.
\<close>

definition Atoi :: "string \<Rightarrow> int option" where
  "Atoi s =
     (let neg = (case s of [] \<Rightarrow> False | c # _ \<Rightarrow> c = CHR ''-'');
          body = (case s of [] \<Rightarrow> [] | c # cs \<Rightarrow> if c = CHR ''-'' \<or> c = CHR ''+'' then cs else s)
      in if body = [] then None
         else (case parse_digits 0 body of
             None \<Rightarrow> None
           | Some n \<Rightarrow>
               (let v = (if neg then - int n else int n)
                in if - (2 ^ 63) \<le> v \<and> v < 2 ^ 63 then Some v else None)))"

text \<open>\<open>strconv.ParseUint(s, 10, 64)\<close>.\<close>

definition ParseUint :: "string \<Rightarrow> nat option" where
  "ParseUint s = (if s = [] then None
     else case parse_digits 0 s of None \<Rightarrow> None | Some n \<Rightarrow> if n < 2 ^ 64 then Some n else None)"

lemma of_char_digit_char: "d < 10 \<Longrightarrow> of_char (digit_char d) = 48 + d"
  by (simp add: digit_char_def of_char_of)

lemma char_digit_digit_char [simp]: "d < 10 \<Longrightarrow> char_digit (digit_char d) = Some d"
  by (simp add: char_digit_def of_char_digit_char)

lemma parse_digits_append:
  "parse_digits acc (xs @ ys) =
     (case parse_digits acc xs of None \<Rightarrow> None | Some a \<Rightarrow> parse_digits a ys)"
  by (induction acc xs rule: parse_digits.induct) (auto split: option.splits)

lemma parse_digits_nat_text: "parse_digits 0 (nat_text n) = Some n"
proof (induction n rule: nat_text.induct)
  case (1 n)
  show ?case
  proof (cases "n < 10")
    case True
    then show ?thesis by (simp add: nat_text.simps [of n])
  next
    case False
    with "1.IH" have "parse_digits 0 (nat_text (n div 10)) = Some (n div 10)" by simp
    with False show ?thesis
      by (simp add: nat_text.simps [of n] parse_digits_append)
  qed
qed

lemma nat_text_hd_digit: "\<exists>d cs. d < 10 \<and> nat_text n = digit_char d # cs"
proof (induction n rule: nat_text.induct)
  case (1 n)
  show ?case
  proof (cases "n < 10")
    case True
    then show ?thesis by (auto simp: nat_text.simps [of n])
  next
    case False
    with "1.IH" obtain d cs where "d < 10" "nat_text (n div 10) = digit_char d # cs" by blast
    with False show ?thesis by (auto simp: nat_text.simps [of n])
  qed
qed

lemma digit_char_not_sign: "d < 10 \<Longrightarrow> digit_char d \<noteq> CHR ''-'' \<and> digit_char d \<noteq> CHR ''+''"
  using of_char_digit_char [of d] by auto

lemma nat_text_digits: "set (nat_text n) \<subseteq> digit_char ` {..<10}"
proof (induction n rule: nat_text.induct)
  case (1 n)
  then show ?case by (cases "n < 10") (auto simp: nat_text.simps [of n])
qed

lemma Atoi_int_text:
  assumes "- (2 ^ 63) \<le> i" and "i < 2 ^ 63"
  shows "Atoi (int_text i) = Some i"
proof (cases "i < 0")
  case True
  then have "nat_text (nat (- i)) \<noteq> []" using nat_text_hd_digit [of "nat (- i)"] by auto
  with True assms show ?thesis
    by (simp add: Atoi_def int_text_def parse_digits_nat_text Let_def)
next
  case False
  obtain d cs where d: "d < 10" "nat_text (nat i) = digit_char d # cs"
    using nat_text_hd_digit by blast
  from False assms d digit_char_not_sign [OF d(1)] show ?thesis
    using parse_digits_nat_text [of "nat i"]
    by (simp add: Atoi_def int_text_def Let_def)
qed

lemma ParseUint_nat_text: "n < 2 ^ 64 \<Longrightarrow> ParseUint (nat_text n) = Some n"
  using nat_text_hd_digit [of n] by (auto simp: ParseUint_def parse_digits_nat_text)

section \<open>Running monadic programs\<close>

lemma run_state_if [run_simps]:
  "run_state (if b then p else q) s = (if b then run_state p s else run_state q s)"
  by simp

lemma run_state_case_sum [run_simps]:
  "run_state (case x of Inl a \<Rightarrow> f a | Inr b \<Rightarrow> g b) s =
     (case x of Inl a \<Rightarrow> run_state (f a) s | Inr b \<Rightarrow> run_state (g b) s)"
  by (cases x) simp_all

lemma run_state_case_option [run_simps]:
  "run_state (case x of None \<Rightarrow> p | Some a \<Rightarrow> f a) s =
     (case x of None \<Rightarrow> run_state p s | Some a \<Rightarrow> run_state (f a) s)"
  by (cases x) simp_all

lemma run_state_case_prod [run_simps]:
  "run_state (case x of (a, b) \<Rightarrow> f a b) s = (case x of (a, b) \<Rightarrow> run_state (f a b) s)"
  by (cases x) simp

lemma run_state_let [run_simps]: "run_state (Let x f) s = run_state (f x) s"
  by (simp add: Let_def)

end
