(* ===== verification/Kube_Types.thy ===== *)
theory Kube_Types
  imports VPA_Prelude
begin

text \<open>
  The Kubernetes API objects the operator reads and writes, as the vendored API packages
  declare them (\<open>vendor/k8s.io/api\<close>, \<open>vendor/k8s.io/apimachinery\<close>), the error predicates of
  \<open>apimachinery/pkg/api/errors\<close>, group-version-kind parsing, owner references
  (\<open>controllerutil.SetControllerReference\<close>) and the semantic comparison
  \<open>equality.Semantic.DeepEqual\<close>.

  Every field the operator reads or writes is a record field. The remaining fields of a Go
  struct are kept together in one field ending in \<open>_rest\<close>: a finite map from the JSON name of
  a field to its serialised value, in which a field at its zero value is absent. The operator
  never looks inside, but comparisons and copies of whole objects include it.

  \<^item> Pointers are options. Lists and maps that the code only ranges over, measures with \<open>len\<close>
    or compares with \<open>equality.Semantic.DeepEqual\<close> (for which nil and empty are the same) are
    plain lists and finite maps; where the code tells nil from empty (annotations, labels and
    resource lists) they are options.
  \<^item> A \<open>resource.Quantity\<close> is its exact value in nano-units, the finest amount a quantity can
    hold; \<open>Semantic.DeepEqual\<close> compares quantities by value.
\<close>

section \<open>Errors of the API machinery\<close>

definition StatusReasonNotFound :: string where "StatusReasonNotFound = ''NotFound''"
definition StatusReasonAlreadyExists :: string where "StatusReasonAlreadyExists = ''AlreadyExists''"
definition StatusReasonConflict :: string where "StatusReasonConflict = ''Conflict''"
definition StatusReasonInvalid :: string where "StatusReasonInvalid = ''Invalid''"
definition StatusReasonBadRequest :: string where "StatusReasonBadRequest = ''BadRequest''"

definition knownReasons :: "string list" where
  "knownReasons = [''Unauthorized'', ''Forbidden'', ''NotFound'', ''AlreadyExists'', ''Conflict'',
     ''Gone'', ''Invalid'', ''ServerTimeout'', ''StorageReadError'', ''Timeout'', ''TooManyRequests'',
     ''BadRequest'', ''MethodNotAllowed'', ''NotAcceptable'', ''RequestEntityTooLarge'',
     ''UnsupportedMediaType'', ''InternalError'', ''Expired'', ''ServiceUnavailable'']"

fun reasonAndCodeForError :: "go_error \<Rightarrow> string \<times> int" where
  "reasonAndCodeForError (StatusError r c m) = (r, c)"
| "reasonAndCodeForError (PlainError m) = ('''', 0)"
| "reasonAndCodeForError (WrapError m e) = reasonAndCodeForError e"

definition IsNotFound :: "go_error \<Rightarrow> bool" where
  "IsNotFound e = (case reasonAndCodeForError e of (reason, code) \<Rightarrow>
     if reason = StatusReasonNotFound then True
     else if reason \<notin> set knownReasons \<and> code = 404 then True
     else False)"

definition IsAlreadyExists :: "go_error \<Rightarrow> bool" where
  "IsAlreadyExists e \<longleftrightarrow> fst (reasonAndCodeForError e) = StatusReasonAlreadyExists"

section \<open>Group, version and kind\<close>

record GroupVersionKind =
  gvk_Group :: string
  gvk_Version :: string
  gvk_Kind :: string

definition GVK_Empty :: "GroupVersionKind \<Rightarrow> bool" where
  "GVK_Empty g \<longleftrightarrow> gvk_Group g = '''' \<and> gvk_Version g = '''' \<and> gvk_Kind g = ''''"

definition GroupVersion_String :: "GroupVersionKind \<Rightarrow> string" where
  "GroupVersion_String g =
     (if gvk_Group g \<noteq> '''' then gvk_Group g @ ''/'' @ gvk_Version g else gvk_Version g)"

text \<open>\<open>ParseGroupVersion\<close>: the group and the version, or an error for two or more slashes.\<close>

definition ParseGroupVersion :: "string \<Rightarrow> (string \<times> string) option" where
  "ParseGroupVersion gv =
     (if gv = [] \<or> gv = ''/'' then Some ('''', '''')
      else if count_list gv (CHR ''/'') = 0 then Some ('''', gv)
      else if count_list gv (CHR ''/'') = 1
        then Some (takeWhile (\<lambda>c. c \<noteq> CHR ''/'') gv, tl (dropWhile (\<lambda>c. c \<noteq> CHR ''/'') gv))
      else None)"

definition FromAPIVersionAndKind :: "string \<Rightarrow> string \<Rightarrow> GroupVersionKind" where
  "FromAPIVersionAndKind apiVersion kind =
     (case ParseGroupVersion apiVersion of
        Some (g, v) \<Rightarrow> \<lparr>gvk_Group = g, gvk_Version = v, gvk_Kind = kind\<rparr>
      | None \<Rightarrow> \<lparr>gvk_Group = '''', gvk_Version = '''', gvk_Kind = kind\<rparr>)"

section \<open>Object metadata\<close>

record TypeMeta =
  tm_APIVersion :: string
  tm_Kind :: string

record NamespacedName =
  nn_Namespace :: string
  nn_Name :: string

definition NamespacedName_String :: "NamespacedName \<Rightarrow> string" where
  "NamespacedName_String n = nn_Namespace n @ ''/'' @ nn_Name n"

record OwnerReference =
  or_APIVersion :: string
  or_Kind :: string
  or_Name :: string
  or_UID :: string
  or_Controller :: "bool option"
  or_BlockOwnerDeletion :: "bool option"

record ObjectMeta =
  om_Name :: string
  om_Namespace :: string
  om_UID :: string
  om_ResourceVersion :: string
  om_Generation :: int
  om_Labels :: "strmap option"
  om_Annotations :: "strmap option"
  om_OwnerReferences :: "OwnerReference list"
  om_rest :: strmap

definition zero_TypeMeta :: TypeMeta where
  "zero_TypeMeta = \<lparr>tm_APIVersion = '''', tm_Kind = ''''\<rparr>"

definition zero_ObjectMeta :: ObjectMeta where
  "zero_ObjectMeta = \<lparr>om_Name = '''', om_Namespace = '''', om_UID = '''', om_ResourceVersion = '''',
     om_Generation = 0, om_Labels = None, om_Annotations = None, om_OwnerReferences = [],
     om_rest = fmempty\<rparr>"

text \<open>The normal form under \<open>Semantic.DeepEqual\<close>: a nil map is the empty map.\<close>

definition norm_meta :: "ObjectMeta \<Rightarrow> ObjectMeta" where
  "norm_meta m = m\<lparr>om_Labels := Some (nilmap (om_Labels m)),
                   om_Annotations := Some (nilmap (om_Annotations m))\<rparr>"

definition meta_key :: "ObjectMeta \<Rightarrow> NamespacedName" where
  "meta_key m = \<lparr>nn_Namespace = om_Namespace m, nn_Name = om_Name m\<rparr>"

section \<open>Pods\<close>

type_synonym Quantity = int

record ResourceRequirements =
  rr_Limits :: "(string, Quantity) fmap option"
  rr_Requests :: "(string, Quantity) fmap option"
  rr_Claims :: "(string \<times> string) list option"

definition zero_ResourceRequirements :: ResourceRequirements where
  "zero_ResourceRequirements = \<lparr>rr_Limits = None, rr_Requests = None, rr_Claims = None\<rparr>"

definition norm_resources :: "ResourceRequirements \<Rightarrow> ResourceRequirements" where
  "norm_resources r = \<lparr>rr_Limits = Some (nilmap (rr_Limits r)),
     rr_Requests = Some (nilmap (rr_Requests r)), rr_Claims = Some (nilslice (rr_Claims r))\<rparr>"

record Toleration =
  tol_Key :: string
  tol_Operator :: string
  tol_Value :: string
  tol_Effect :: string
  tol_TolerationSeconds :: "int option"

record ContainerPort =
  cp_Name :: string
  cp_HostPort :: int
  cp_ContainerPort :: int
  cp_Protocol :: string
  cp_HostIP :: string

record VolumeMount =
  vm_Name :: string
  vm_ReadOnly :: bool
  vm_MountPath :: string
  vm_rest :: strmap

datatype VolumeSource =
    SecretVolume (sv_SecretName: string) (sv_DefaultMode: "int option")
  | ConfigMapVolume (cmv_Name: string) (cmv_DefaultMode: "int option")
  | OtherVolume string

record Volume =
  vol_Name :: string
  vol_Source :: VolumeSource

record ObjectFieldSelector =
  ofs_APIVersion :: string
  ofs_FieldPath :: string

record EnvVar =
  env_Name :: string
  env_Value :: string
  env_FieldRef :: "ObjectFieldSelector option"
  env_rest :: strmap

text \<open>The capabilities of a security context are the pair of its \<open>Add\<close> and \<open>Drop\<close> lists.\<close>

record SecurityContext =
  sc_AllowPrivilegeEscalation :: "bool option"
  sc_Capabilities :: "(string list \<times> string list) option"
  sc_RunAsNonRoot :: "bool option"
  sc_SeccompProfileType :: "string option"
  sc_rest :: strmap

record Container =
  c_Name :: string
  c_Image :: string
  c_ImagePullPolicy :: string
  c_Command :: "string list"
  c_Args :: "string list"
  c_Env :: "EnvVar list"
  c_Ports :: "ContainerPort list"
  c_Resources :: ResourceRequirements
  c_VolumeMounts :: "VolumeMount list"
  c_SecurityContext :: "SecurityContext option"
  c_TerminationMessagePath :: string
  c_TerminationMessagePolicy :: string
  c_rest :: strmap

record PodSpec =
  ps_ServiceAccountName :: string
  ps_DeprecatedServiceAccount :: string
  ps_PriorityClassName :: string
  ps_NodeSelector :: strmap
  ps_Containers :: "Container list"
  ps_Volumes :: "Volume list"
  ps_DNSPolicy :: string
  ps_RestartPolicy :: string
  ps_TerminationGracePeriodSeconds :: "int option"
  ps_SchedulerName :: string
  ps_SecurityContext :: "strmap option"
  ps_Tolerations :: "Toleration list"
  ps_rest :: strmap

definition norm_container :: "Container \<Rightarrow> Container" where
  "norm_container c = c\<lparr>c_Resources := norm_resources (c_Resources c)\<rparr>"

definition norm_podspec :: "PodSpec \<Rightarrow> PodSpec" where
  "norm_podspec p = p\<lparr>ps_Containers := map norm_container (ps_Containers p)\<rparr>"

definition semeq_podspec :: "PodSpec \<Rightarrow> PodSpec \<Rightarrow> bool" where
  "semeq_podspec p q \<longleftrightarrow> norm_podspec p = norm_podspec q"

section \<open>Deployments, services, config maps, namespaces\<close>

record LabelSelectorRequirement =
  lsr_Key :: string
  lsr_Operator :: string
  lsr_Values :: "string list"

record LabelSelector =
  ls_MatchLabels :: strmap
  ls_MatchExpressions :: "LabelSelectorRequirement list"

record DeploymentStatus =
  ds_ObservedGeneration :: int
  ds_Replicas :: int
  ds_UpdatedReplicas :: int
  ds_AvailableReplicas :: int
  ds_rest :: strmap

record PodTemplateSpec =
  pt_Meta :: ObjectMeta
  pt_Spec :: PodSpec

record Deployment =
  dep_TypeMeta :: TypeMeta
  dep_Meta :: ObjectMeta
  dep_Replicas :: "int option"
  dep_Selector :: "LabelSelector option"
  dep_Template :: PodTemplateSpec
  dep_SpecRest :: strmap
  dep_Status :: DeploymentStatus

definition zero_DeploymentStatus :: DeploymentStatus where
  "zero_DeploymentStatus = \<lparr>ds_ObservedGeneration = 0, ds_Replicas = 0, ds_UpdatedReplicas = 0,
     ds_AvailableReplicas = 0, ds_rest = fmempty\<rparr>"

datatype IntOrString = IntVal int | StrVal string

record ServicePort =
  sp_Name :: string
  sp_Protocol :: string
  sp_AppProtocol :: "string option"
  sp_Port :: int
  sp_TargetPort :: IntOrString
  sp_NodePort :: int

record Service =
  svc_TypeMeta :: TypeMeta
  svc_Meta :: ObjectMeta
  svc_Ports :: "ServicePort list"
  svc_Selector :: strmap
  svc_SpecRest :: strmap
  svc_StatusRest :: strmap

record ConfigMap =
  cm_TypeMeta :: TypeMeta
  cm_Meta :: ObjectMeta
  cm_Data :: strmap
  cm_rest :: strmap

record Namespace =
  ns_TypeMeta :: TypeMeta
  ns_Meta :: ObjectMeta
  ns_rest :: strmap

definition semeq_service :: "Service \<Rightarrow> Service \<Rightarrow> bool" where
  "semeq_service a b \<longleftrightarrow>
     a\<lparr>svc_Meta := norm_meta (svc_Meta a)\<rparr> = b\<lparr>svc_Meta := norm_meta (svc_Meta b)\<rparr>"

definition semeq_configmap :: "ConfigMap \<Rightarrow> ConfigMap \<Rightarrow> bool" where
  "semeq_configmap a b \<longleftrightarrow>
     a\<lparr>cm_Meta := norm_meta (cm_Meta a)\<rparr> = b\<lparr>cm_Meta := norm_meta (cm_Meta b)\<rparr>"

section \<open>Network policies\<close>

record NetworkPolicyPort =
  npp_Protocol :: "string option"
  npp_Port :: "IntOrString option"
  npp_EndPort :: "int option"

record NetworkPolicyPeer =
  npe_PodSelector :: "LabelSelector option"
  npe_NamespaceSelector :: "LabelSelector option"
  npe_IPBlock :: "(string \<times> string list) option"

record NetworkPolicyIngressRule =
  nir_Ports :: "NetworkPolicyPort list"
  nir_From :: "NetworkPolicyPeer list"

record NetworkPolicyEgressRule =
  ner_Ports :: "NetworkPolicyPort list"
  ner_To :: "NetworkPolicyPeer list"

record NetworkPolicySpec =
  nps_PodSelector :: LabelSelector
  nps_Ingress :: "NetworkPolicyIngressRule list"
  nps_Egress :: "NetworkPolicyEgressRule list"
  nps_PolicyTypes :: "string list"

record NetworkPolicy =
  np_TypeMeta :: TypeMeta
  np_Meta :: ObjectMeta
  np_Spec :: NetworkPolicySpec

text \<open>Lists and maps of a policy are compared up to nil, so the comparison is equality here.\<close>

definition semeq_policyspec :: "NetworkPolicySpec \<Rightarrow> NetworkPolicySpec \<Rightarrow> bool" where
  "semeq_policyspec a b \<longleftrightarrow> a = b"

section \<open>Owner references\<close>

definition GetControllerOf :: "ObjectMeta \<Rightarrow> OwnerReference option" where
  "GetControllerOf m = find (\<lambda>r. or_Controller r = Some True) (om_OwnerReferences m)"

definition referSameObject :: "OwnerReference \<Rightarrow> OwnerReference \<Rightarrow> bool" where
  "referSameObject a b =
     (case ParseGroupVersion (or_APIVersion a) of
        None \<Rightarrow> False
      | Some (ag, av) \<Rightarrow>
          (case ParseGroupVersion (or_APIVersion b) of
             None \<Rightarrow> False
           | Some (bg, bv) \<Rightarrow> ag = bg \<and> or_Kind a = or_Kind b \<and> or_Name a = or_Name b))"

text \<open>\<open>upsertOwnerRef\<close>: the first reference to the same object is replaced, else it is appended.\<close>

fun upsertOwnerRef :: "OwnerReference \<Rightarrow> OwnerReference list \<Rightarrow> OwnerReference list" where
  "upsertOwnerRef ref [] = [ref]"
| "upsertOwnerRef ref (r # rs) =
     (if referSameObject r ref then ref # rs else r # upsertOwnerRef ref rs)"

definition validateOwner :: "ObjectMeta \<Rightarrow> ObjectMeta \<Rightarrow> go_error option" where
  "validateOwner owner obj =
     (let ownerNs = om_Namespace owner; objNs = om_Namespace obj
      in if ownerNs \<noteq> ''''
         then if objNs = '''' then Some (PlainError
                (''cluster-scoped resource must not have a namespace-scoped owner, owner's namespace ''
                 @ ownerNs))
              else if ownerNs \<noteq> objNs then Some (PlainError
                (''cross-namespace owner references are disallowed, owner's namespace '' @ ownerNs
                 @ '', obj's namespace '' @ objNs))
              else None
         else None)"

text \<open>
  \<open>SetControllerReference\<close> on the metadata of the owner and of the controlled object; the
  group-version-kind of the owner's Go type (looked up in the scheme, which can fail) is an
  argument. The result is the error, or the controlled object's new metadata.
\<close>

definition SetControllerReference ::
  "ObjectMeta \<Rightarrow> go_error + GroupVersionKind \<Rightarrow> ObjectMeta \<Rightarrow> go_error + ObjectMeta" where
  "SetControllerReference owner gvkr controlled =
     (case validateOwner owner controlled of
        Some e \<Rightarrow> Inl e
      | None \<Rightarrow>
          (case gvkr of
             Inl e \<Rightarrow> Inl e
           | Inr gvk \<Rightarrow>
               (let ref = \<lparr>or_APIVersion = GroupVersion_String gvk, or_Kind = gvk_Kind gvk,
                           or_Name = om_Name owner, or_UID = om_UID owner,
                           or_Controller = Some True, or_BlockOwnerDeletion = Some True\<rparr>
                in case GetControllerOf controlled of
                     Some existing \<Rightarrow>
                       if \<not> referSameObject existing ref
                       then Inl (PlainError (''Object '' @ om_Namespace controlled @ ''/''
                              @ om_Name controlled @ '' is already owned by another ''
                              @ or_Kind existing @ '' controller '' @ or_Name existing))
                       else Inr (controlled\<lparr>om_OwnerReferences :=
                              upsertOwnerRef ref (om_OwnerReferences controlled)\<rparr>)
                   | None \<Rightarrow> Inr (controlled\<lparr>om_OwnerReferences :=
                              upsertOwnerRef ref (om_OwnerReferences controlled)\<rparr>))))"

section \<open>Basic facts\<close>

lemma semeq_podspec_refl [simp]: "semeq_podspec p p"
  by (simp add: semeq_podspec_def)

lemma semeq_podspec_sym: "semeq_podspec p q \<Longrightarrow> semeq_podspec q p"
  by (simp add: semeq_podspec_def)

lemma semeq_podspec_trans: "semeq_podspec p q \<Longrightarrow> semeq_podspec q r \<Longrightarrow> semeq_podspec p r"
  by (simp add: semeq_podspec_def)

lemma semeq_service_refl [simp]: "semeq_service s s"
  by (simp add: semeq_service_def)

lemma semeq_configmap_refl [simp]: "semeq_configmap c c"
  by (simp add: semeq_configmap_def)

lemma SetControllerReference_Inr:
  assumes "SetControllerReference owner gvkr m = Inr m'"
  shows "\<exists>refs. m' = m\<lparr>om_OwnerReferences := refs\<rparr> \<and>
           (om_Namespace owner = '''' \<or> om_Namespace owner = om_Namespace m)"
  using assms
  by (auto simp: SetControllerReference_def validateOwner_def Let_def
        split: option.splits sum.splits if_splits)

lemma upsertOwnerRef_mem: "ref \<in> set (upsertOwnerRef ref rs)"
  by (induction ref rs rule: upsertOwnerRef.induct) auto

lemma SetControllerReference_fresh:
  assumes "om_OwnerReferences m = []"
    and "om_Namespace owner = '''' \<or> om_Namespace owner = om_Namespace m"
  shows "SetControllerReference owner (Inr gvk) m = Inr (m\<lparr>om_OwnerReferences :=
           [\<lparr>or_APIVersion = GroupVersion_String gvk, or_Kind = gvk_Kind gvk,
             or_Name = om_Name owner, or_UID = om_UID owner,
             or_Controller = Some True, or_BlockOwnerDeletion = Some True\<rparr>]\<rparr>)"
  using assms
  by (auto simp: SetControllerReference_def validateOwner_def Let_def GetControllerOf_def)

lemma SetControllerReference_cross_namespace:
  assumes "om_Namespace owner \<noteq> ''''" and "om_Namespace owner \<noteq> om_Namespace m"
  shows "\<exists>e. SetControllerReference owner gvkr m = Inl e"
  using assms by (auto simp: SetControllerReference_def validateOwner_def Let_def)

end
