(* ===== verification/Go_Fmt.thy ===== *)
theory Go_Fmt
  imports VPA_Prelude "HOL-Library.Word"
begin

text \<open>
  What \<open>fmt.Sprintf("%s=%v", ...)\<close> prints for the values the operator formats: strings,
  integers and \<open>float64\<close>. A \<open>float64\<close> is its IEEE 754 bit pattern, a 64-bit word. \<open>%v\<close> of a
  \<open>float64\<close> is \<open>strconv.FormatFloat(v, 'g', -1, 64)\<close>: the fewest decimal digits that read back
  as the same number, in exponent form when the decimal exponent is below -4 or at least 6
  (the precision Go uses for that choice when the shortest form is asked for).

  The search for the number of digits stops after 18 digits; \<open>shortest_digits_exists\<close> shows
  that 18 are always enough for a finite non-zero number.
\<close>

type_synonym float64 = "64 word"

definition f64_neg :: "float64 \<Rightarrow> bool" where
  "f64_neg w \<longleftrightarrow> unat w div 2 ^ 63 = 1"

definition f64_expbits :: "float64 \<Rightarrow> nat" where
  "f64_expbits w = (unat w div 2 ^ 52) mod 2048"

definition f64_frac :: "float64 \<Rightarrow> nat" where
  "f64_frac w = unat w mod 2 ^ 52"

definition f64_mant :: "float64 \<Rightarrow> nat" where
  "f64_mant w = (if f64_expbits w = 0 then f64_frac w else 2 ^ 52 + f64_frac w)"

text \<open>The binary exponent, minus the two extra bits that the rounding interval needs.\<close>

definition f64_scale :: "float64 \<Rightarrow> int" where
  "f64_scale w = (if f64_expbits w = 0 then - 1074 else int (f64_expbits w) - 1075) - 2"

definition f64_lower :: "float64 \<Rightarrow> nat" where
  "f64_lower w = (if f64_mant w > 2 ^ 52 \<or> f64_expbits w \<le> 1
                  then 4 * f64_mant w - 2 else 4 * f64_mant w - 1)"

definition f64_upper :: "float64 \<Rightarrow> nat" where
  "f64_upper w = 4 * f64_mant w + 2"

text \<open>Numerator and denominator of \<open>x * 2 ^ s * 10 ^ p\<close>.\<close>

definition scaled_num :: "int \<Rightarrow> int \<Rightarrow> nat \<Rightarrow> nat" where
  "scaled_num s p x = x * 2 ^ nat s * 10 ^ nat p"

definition scaled_den :: "int \<Rightarrow> int \<Rightarrow> nat" where
  "scaled_den s p = 2 ^ nat (- s) * 10 ^ nat (- p)"

fun lead_zeros :: "nat \<Rightarrow> nat \<Rightarrow> nat \<Rightarrow> nat" where
  "lead_zeros 0 n d = 0"
| "lead_zeros (Suc fuel) n d = (if d \<le> 10 * n then 0 else Suc (lead_zeros fuel (10 * n) d))"

text \<open>The position of the decimal point: \<open>value = 0.d1d2... * 10 ^ dp\<close> with \<open>d1\<close> not 0.\<close>

definition decimal_point :: "float64 \<Rightarrow> int" where
  "decimal_point w =
     (let n = scaled_num (f64_scale w) 0 (4 * f64_mant w); d = scaled_den (f64_scale w) 0
      in if d \<le> n then int (length (nat_text (n div d))) else - int (lead_zeros 330 n d))"

text \<open>The candidate with \<open>n\<close> digits: truncated or rounded up, if it stays within the interval.\<close>

definition digits_at :: "float64 \<Rightarrow> int \<Rightarrow> nat \<Rightarrow> nat option" where
  "digits_at w dp n =
     (let s = f64_scale w; p = int n - dp; den = scaled_den s p;
          num = scaled_num s p (4 * f64_mant w);
          lo = scaled_num s p (f64_lower w); hi = scaled_num s p (f64_upper w);
          incl = even (f64_mant w);
          down = num div den; up = down + 1;
          okdown = (lo < down * den \<or> incl \<and> lo = down * den);
          okup = (up * den < hi \<or> incl \<and> up * den = hi)
      in if okdown \<and> okup
         then Some (if 2 * (num mod den) > den \<or> 2 * (num mod den) = den \<and> odd down
                    then up else down)
         else if okdown then Some down
         else if okup then Some up
         else None)"

definition shortest_digits :: "float64 \<Rightarrow> (nat \<times> nat) option" where
  "shortest_digits w =
     (case List.find (\<lambda>n. digits_at w (decimal_point w) n \<noteq> None) [1..<19] of
        None \<Rightarrow> None
      | Some n \<Rightarrow> map_option (Pair n) (digits_at w (decimal_point w) n))"

definition trim_zeros :: "string \<Rightarrow> string" where
  "trim_zeros ds = rev (dropWhile (\<lambda>c. c = CHR ''0'') (rev ds))"

definition exp_text :: "int \<Rightarrow> string" where
  "exp_text e = (let t = nat_text (nat \<bar>e\<bar>)
     in (if e < 0 then ''e-'' else ''e+'') @ (if length t < 2 then ''0'' @ t else t))"

definition fmtE :: "string \<Rightarrow> int \<Rightarrow> string" where
  "fmtE ds dp = take 1 ds @ (if length ds > 1 then ''.'' @ drop 1 ds else '''') @ exp_text (dp - 1)"

definition fmtF :: "string \<Rightarrow> int \<Rightarrow> string" where
  "fmtF ds dp =
     (if 0 < dp
      then take (nat dp) ds @ replicate (nat dp - length ds) (CHR ''0'')
           @ (if nat dp < length ds then ''.'' @ drop (nat dp) ds else '''')
      else ''0.'' @ replicate (nat (- dp)) (CHR ''0'') @ ds)"

definition float_text :: "float64 \<Rightarrow> string" where
  "float_text w =
     (if f64_expbits w = 2047
      then if f64_frac w \<noteq> 0 then ''NaN'' else if f64_neg w then ''-Inf'' else ''+Inf''
      else (if f64_neg w then ''-'' else '''') @
        (if f64_mant w = 0 then ''0''
         else (case shortest_digits w of
             None \<Rightarrow> ''''
           | Some (n, c) \<Rightarrow>
               (let t = nat_text c; ds = trim_zeros t;
                    dp = decimal_point w + (int (length t) - int n); e = dp - 1
                in if e < - 4 \<or> 6 \<le> e then fmtE ds dp else fmtF ds dp))))"

section \<open>Eighteen digits are enough\<close>

lemma nat_text_length_ge: "0 < n \<Longrightarrow> 10 ^ (length (nat_text n) - 1) \<le> n"
proof (induction n rule: nat_text.induct)
  case (1 n)
  show ?case
  proof (cases "n < 10")
    case True
    with "1.prems" show ?thesis by (simp add: nat_text.simps [of n])
  next
    case False
    with "1.IH" have IH: "10 ^ (length (nat_text (n div 10)) - 1) \<le> n div 10" by simp
    have len: "length (nat_text n) - 1 = Suc (length (nat_text (n div 10)) - 1)"
      using False nat_text_hd_digit [of "n div 10"] by (auto simp: nat_text.simps [of n])
    have "10 * 10 ^ (length (nat_text (n div 10)) - 1) \<le> 10 * (n div 10)"
      using IH by simp
    also have "\<dots> \<le> n" by simp
    finally show ?thesis by (simp only: len power_Suc)
  qed
qed

lemma lead_zeros_enough: "d \<le> 10 ^ Suc fuel * n \<Longrightarrow> d \<le> 10 ^ Suc (lead_zeros fuel n d) * n"
  by (induction fuel n d rule: lead_zeros.induct) (auto simp: algebra_simps)

lemma f64_mant_bounds: "f64_mant w < 2 ^ 53"
  unfolding f64_mant_def f64_frac_def
  using mod_less_divisor [of "2 ^ 52" "unat w"] by (auto simp del: mod_less_divisor)

lemma f64_scale_ge: "- 1076 \<le> f64_scale w"
  by (simp add: f64_scale_def)

lemma decimal_point_le:
  assumes m: "0 < f64_mant w"
  defines "n0 \<equiv> scaled_num (f64_scale w) 0 (4 * f64_mant w)" and "d0 \<equiv> scaled_den (f64_scale w) 0"
  shows "10 ^ nat (decimal_point w - 1) * d0 \<le> 10 ^ nat (1 - decimal_point w) * n0"
proof (cases "d0 \<le> n0")
  case True
  have d0: "0 < d0" by (simp add: d0_def scaled_den_def)
  let ?L = "length (nat_text (n0 div d0))"
  have dp: "decimal_point w = int ?L"
    using True by (simp add: decimal_point_def n0_def d0_def Let_def)
  have L: "1 \<le> ?L" using nat_text_hd_digit [of "n0 div d0"] by auto
  have "0 < n0 div d0" using True d0 by (simp add: div_greater_zero_iff)
  then have "10 ^ (?L - 1) \<le> n0 div d0" by (rule nat_text_length_ge)
  then have "10 ^ (?L - 1) * d0 \<le> (n0 div d0) * d0" by (rule mult_le_mono1)
  also have "\<dots> \<le> n0" by simp
  finally have "10 ^ (?L - 1) * d0 \<le> n0" .
  moreover have "nat (int ?L - 1) = ?L - 1" "nat (1 - int ?L) = 0" using L by auto
  ultimately show ?thesis by (simp add: dp)
next
  case False
  let ?z = "lead_zeros 330 n0 d0"
  have dp: "decimal_point w = - int ?z"
    using False by (simp add: decimal_point_def n0_def d0_def Let_def)
  have "nat (- f64_scale w) \<le> 1076" using f64_scale_ge [of w] by linarith
  then have "(2 :: nat) ^ nat (- f64_scale w) \<le> 2 ^ 1076"
    by (rule power_increasing) (rule one_le_numeral)
  then have "d0 \<le> 2 ^ 1076" by (simp only: d0_def scaled_den_def) simp
  also have "\<dots> \<le> (10 :: nat) ^ 330" by simp
  also have "\<dots> \<le> 10 ^ Suc 330 * n0" using m by (simp add: n0_def scaled_num_def)
  finally have "d0 \<le> 10 ^ Suc ?z * n0" by (rule lead_zeros_enough)
  moreover have "nat (- int ?z - 1) = 0" "nat (1 + int ?z) = Suc ?z" by auto
  ultimately show ?thesis by (simp add: dp)
qed

lemma scaled_18_large:
  assumes "0 < f64_mant w"
  shows "10 ^ 17 * scaled_den (f64_scale w) (18 - decimal_point w)
           \<le> scaled_num (f64_scale w) (18 - decimal_point w) (4 * f64_mant w)"
proof -
  let ?dp = "decimal_point w"
  let ?d0 = "scaled_den (f64_scale w) 0" and ?n0 = "scaled_num (f64_scale w) 0 (4 * f64_mant w)"
  have eq: "17 + nat (?dp - 18) + nat (1 - ?dp) = nat (?dp - 1) + nat (18 - ?dp)" by linarith
  have "10 ^ nat (1 - ?dp) * (10 ^ 17 * 10 ^ nat (?dp - 18) * ?d0)
      = 10 ^ (17 + nat (?dp - 18) + nat (1 - ?dp)) * ?d0"
    by (simp only: power_add mult_ac)
  also have "\<dots> = 10 ^ nat (18 - ?dp) * (10 ^ nat (?dp - 1) * ?d0)"
    by (simp only: eq power_add mult_ac)
  also have "\<dots> \<le> 10 ^ nat (18 - ?dp) * (10 ^ nat (1 - ?dp) * ?n0)"
    using decimal_point_le [OF assms] by simp
  finally have "10 ^ nat (1 - ?dp) * (10 ^ 17 * 10 ^ nat (?dp - 18) * ?d0)
      \<le> 10 ^ nat (1 - ?dp) * (10 ^ nat (18 - ?dp) * ?n0)" by (simp add: mult_ac)
  then have "10 ^ 17 * 10 ^ nat (?dp - 18) * ?d0 \<le> 10 ^ nat (18 - ?dp) * ?n0" by simp
  then show ?thesis by (simp add: scaled_num_def scaled_den_def mult_ac)
qed

lemma truncation_in_interval:
  fixes num den lo K m l :: nat
  assumes "num = m * K" "lo = l * K" "l < m" "m < 2 ^ 55" "0 < den" "10 ^ 17 * den \<le> num"
  shows "lo < (num div den) * den"
proof -
  have "10 ^ 17 * den \<le> m * K" using assms by simp
  also have "\<dots> \<le> 10 ^ 17 * K" using assms(4) by (intro mult_le_mono1) simp
  finally have "den \<le> K" by simp
  have "lo + K \<le> num" using assms(1-3) by (metis Suc_leI mult_Suc add.commute mult_le_mono1)
  moreover have "num < (num div den) * den + den"
    using assms(5) by (metis add.commute div_mult_mod_eq add_less_cancel_left mod_less_divisor)
  ultimately show ?thesis using \<open>den \<le> K\<close> by linarith
qed

lemma f64_lower_less: "0 < f64_mant w \<Longrightarrow> f64_lower w < 4 * f64_mant w"
  by (simp add: f64_lower_def)

lemma digits_at_18:
  assumes "0 < f64_mant w"
  shows "digits_at w (decimal_point w) 18 \<noteq> None"
proof -
  let ?s = "f64_scale w" and ?p = "18 - decimal_point w"
  have "scaled_num ?s ?p (f64_lower w)
      < (scaled_num ?s ?p (4 * f64_mant w) div scaled_den ?s ?p) * scaled_den ?s ?p"
  proof (rule truncation_in_interval [where K = "2 ^ nat ?s * 10 ^ nat ?p"])
    show "scaled_num ?s ?p (4 * f64_mant w) = (4 * f64_mant w) * (2 ^ nat ?s * 10 ^ nat ?p)"
      by (simp add: scaled_num_def)
    show "scaled_num ?s ?p (f64_lower w) = f64_lower w * (2 ^ nat ?s * 10 ^ nat ?p)"
      by (simp add: scaled_num_def)
    show "f64_lower w < 4 * f64_mant w" using assms by (rule f64_lower_less)
    show "4 * f64_mant w < 2 ^ 55" using f64_mant_bounds [of w] by simp
    show "0 < scaled_den ?s ?p" by (simp add: scaled_den_def)
    show "10 ^ 17 * scaled_den ?s ?p \<le> scaled_num ?s ?p (4 * f64_mant w)"
      using assms by (rule scaled_18_large)
  qed
  then show ?thesis by (simp add: digits_at_def Let_def)
qed

lemma shortest_digits_exists:
  assumes "0 < f64_mant w"
  shows "\<exists>n c. shortest_digits w = Some (n, c) \<and> 1 \<le> n \<and> n \<le> 18"
proof -
  have "\<exists>n \<in> set [1..<19]. digits_at w (decimal_point w) n \<noteq> None"
    by (rule bexI [of _ 18]) (use digits_at_18 [OF assms] in auto)
  then obtain n where n: "List.find (\<lambda>n. digits_at w (decimal_point w) n \<noteq> None) [1..<19] = Some n"
    by (metis (mono_tags, lifting) find_None_iff not_None_eq)
  then have "n \<in> set [1..<19]" and "digits_at w (decimal_point w) n \<noteq> None"
    by (auto simp: find_Some_iff simp del: upt_Suc)
  with n show ?thesis by (auto simp: shortest_digits_def)
qed

section \<open>Evaluating the text of a float\<close>

lemma lead_zeros_0: "d \<le> 10 * n \<Longrightarrow> lead_zeros f n d = 0"
  by (cases f) simp_all

lemma find_skip: "(\<And>x. x \<in> set xs \<Longrightarrow> \<not> P x) \<Longrightarrow> P y \<Longrightarrow> List.find P (xs @ y # ys) = Some y"
  by (induction xs) auto

lemma shortest_digits_first:
  assumes "decimal_point w = dp" and "digits_at w dp n = Some d" and "1 \<le> n" and "n < 19"
    and "\<And>m. 1 \<le> m \<Longrightarrow> m < n \<Longrightarrow> digits_at w dp m = None"
  shows "shortest_digits w = Some (n, d)"
proof -
  have "[1..<19] = [1..<n] @ n # [Suc n..<19]"
    using assms(3,4) upt_add_eq_append [of 1 n "19 - n"] by (simp add: upt_conv_Cons)
  then show ?thesis
    using assms find_skip [of "[1..<n]" "\<lambda>n. digits_at w dp n \<noteq> None" n] by (simp add: shortest_digits_def)
qed

lemma float_text_positive:
  assumes "f64_expbits w \<noteq> 2047" and "\<not> f64_neg w" and "f64_mant w \<noteq> 0"
    and "decimal_point w = dp" and "shortest_digits w = Some (n, d)" and "nat_text d = t"
  shows "float_text w = (let ds = trim_zeros t; dp' = dp + (int (length t) - int n); e = dp' - 1
     in if e < - 4 \<or> 6 \<le> e then fmtE ds dp' else fmtF ds dp')"
  using assms by (simp add: float_text_def Let_def)

end
