(* ===== verification/VPA_Api.thy ===== *)
theory VPA_Api
  imports Kube_Types Go_Fmt
begin

text \<open>
  \<open>api/v1\<close>: the \<open>VerticalPodAutoscalerController\<close> custom resource, its group and version, and
  the registration of its Go types in a scheme. The resource's status type has no fields and
  is left out. The generated deep copies are the identity on these values (theory \<open>Deep_Copy\<close>).
\<close>

record ContainerOverride =
  cov_Args :: "string list"
  cov_Resources :: ResourceRequirements

record DeploymentOverride =
  do_Container :: ContainerOverride
  do_NodeSelector :: strmap
  do_Tolerations :: "Toleration list"

record DeploymentOverrides =
  dos_Admission :: DeploymentOverride
  dos_Recommender :: DeploymentOverride
  dos_Updater :: DeploymentOverride

record VerticalPodAutoscalerControllerSpec =
  vs_SafetyMarginFraction :: "float64 option"
  vs_PodMinCPUMillicores :: "float64 option"
  vs_PodMinMemoryMb :: "float64 option"
  vs_RecommendationOnly :: "bool option"
  vs_MinReplicas :: "int option"
  vs_DeploymentOverrides :: DeploymentOverrides

record VerticalPodAutoscalerController =
  vpa_TypeMeta :: TypeMeta
  vpa_Meta :: ObjectMeta
  vpa_Spec :: VerticalPodAutoscalerControllerSpec

definition zero_DeploymentOverride :: DeploymentOverride where
  "zero_DeploymentOverride = \<lparr>do_Container = \<lparr>cov_Args = [], cov_Resources = zero_ResourceRequirements\<rparr>,
     do_NodeSelector = fmempty, do_Tolerations = []\<rparr>"

definition zero_VPASpec :: VerticalPodAutoscalerControllerSpec where
  "zero_VPASpec = \<lparr>vs_SafetyMarginFraction = None, vs_PodMinCPUMillicores = None,
     vs_PodMinMemoryMb = None, vs_RecommendationOnly = None, vs_MinReplicas = None,
     vs_DeploymentOverrides = \<lparr>dos_Admission = zero_DeploymentOverride,
       dos_Recommender = zero_DeploymentOverride, dos_Updater = zero_DeploymentOverride\<rparr>\<rparr>"

text \<open>The resources of the overrides up to nil and empty maps.\<close>

definition map_override_resources ::
  "(ResourceRequirements \<Rightarrow> ResourceRequirements) \<Rightarrow> DeploymentOverride \<Rightarrow> DeploymentOverride" where
  "map_override_resources f ov = ov\<lparr>do_Container := (do_Container ov)\<lparr>cov_Resources :=
     f (cov_Resources (do_Container ov))\<rparr>\<rparr>"

definition map_vpaspec_resources ::
  "(ResourceRequirements \<Rightarrow> ResourceRequirements) \<Rightarrow> VerticalPodAutoscalerControllerSpec \<Rightarrow>
     VerticalPodAutoscalerControllerSpec" where
  "map_vpaspec_resources f s =
     (let ovs = vs_DeploymentOverrides s
      in s\<lparr>vs_DeploymentOverrides := \<lparr>dos_Admission = map_override_resources f (dos_Admission ovs),
            dos_Recommender = map_override_resources f (dos_Recommender ovs),
            dos_Updater = map_override_resources f (dos_Updater ovs)\<rparr>\<rparr>)"

lemma map_vpaspec_resources_comp:
  "map_vpaspec_resources f (map_vpaspec_resources g s) = map_vpaspec_resources (f \<circ> g) s"
  by (simp add: map_vpaspec_resources_def map_override_resources_def Let_def)

section \<open>Group, version and scheme registration\<close>

text \<open>A scheme lists the group-version-kinds registered for a Go type, by the type's name.\<close>

type_synonym Scheme = "(string \<times> GroupVersionKind) list"

definition VPA_Group :: string where "VPA_Group = ''autoscaling.openshift.io''"
definition VPA_Version :: string where "VPA_Version = ''v1''"

definition register :: "string \<Rightarrow> Scheme \<Rightarrow> Scheme" where
  "register kind sch =
     sch @ [(kind, \<lparr>gvk_Group = VPA_Group, gvk_Version = VPA_Version, gvk_Kind = kind\<rparr>)]"

definition AddToScheme :: "Scheme \<Rightarrow> Scheme" where
  "AddToScheme sch =
     register ''VerticalPodAutoscalerControllerList''
       (register ''VerticalPodAutoscalerController'' sch)"

text \<open>
  \<open>apiutil.GVKForObject\<close> for a typed object with the given type metadata: the registration of
  its Go type when there is exactly one; of several, the one the object names. The error
  texts give the type's name only.
\<close>

definition GVKForObject :: "string \<Rightarrow> TypeMeta \<Rightarrow> Scheme \<Rightarrow> go_error + GroupVersionKind" where
  "GVKForObject kind tm sch =
     (case map snd (filter (\<lambda>(t, g). t = kind) sch) of
        [] \<Rightarrow> Inl (PlainError (''no kind is registered for the type '' @ kind))
      | [g] \<Rightarrow> Inr g
      | gvks \<Rightarrow>
          (let currentGVK = FromAPIVersionAndKind (tm_APIVersion tm) (tm_Kind tm);
               err = PlainError (''multiple GroupVersionKinds associated with Go type '' @ kind)
           in if \<not> GVK_Empty currentGVK
              then if currentGVK \<in> set gvks then Inr currentGVK
                   else Inl (WrapError ''the object's supplied GroupVersionKind was not found: '' err)
              else Inl (WrapError ''refusing to guess at one: '' err)))"

definition VPA_GVK :: GroupVersionKind where
  "VPA_GVK = \<lparr>gvk_Group = VPA_Group, gvk_Version = VPA_Version,
     gvk_Kind = ''VerticalPodAutoscalerController''\<rparr>"

lemma GVKForObject_AddToScheme:
  "''VerticalPodAutoscalerController'' \<notin> fst ` set sch \<Longrightarrow>
     GVKForObject ''VerticalPodAutoscalerController'' tm (AddToScheme sch) = Inr VPA_GVK"
proof -
  assume "''VerticalPodAutoscalerController'' \<notin> fst ` set sch"
  then have "filter (\<lambda>(t, g). t = ''VerticalPodAutoscalerController'') sch = []"
    by (force simp: filter_empty_conv)
  then show ?thesis
    by (simp add: GVKForObject_def AddToScheme_def register_def VPA_GVK_def)
qed

end
