(* ===== verification/TLS_Profiles.thy ===== *)
theory TLS_Profiles
  imports VPA_Prelude
begin

text \<open>
  TLS settings: the OpenShift TLS profile types and the functions the operator takes from
  the vendored libraries (\<open>ShouldHonorClusterTLSProfile\<close>, \<open>GetTLSProfileSpec\<close> with the table of
  predefined profiles, \<open>OpenSSLToIANACipherSuites\<close> with its table), and
  \<open>internal/util/tls.go\<close>, which turns a profile into the admission webhook's arguments.
\<close>

record TLSProfileSpec =
  tps_Ciphers :: "string list"
  tps_Groups :: "string list"
  tps_MinTLSVersion :: string

record TLSSecurityProfile =
  tsp_Type :: string
  tsp_Custom :: "TLSProfileSpec option"

record APIServerSpec =
  as_TLSSecurityProfile :: "TLSSecurityProfile option"
  as_TLSAdherence :: string
  as_rest :: strmap

definition VersionTLS10 :: string where [go_defs]: "VersionTLS10 = ''VersionTLS10''"
definition VersionTLS11 :: string where [go_defs]: "VersionTLS11 = ''VersionTLS11''"
definition VersionTLS12 :: string where [go_defs]: "VersionTLS12 = ''VersionTLS12''"
definition VersionTLS13 :: string where [go_defs]: "VersionTLS13 = ''VersionTLS13''"

definition ShouldHonorClusterTLSProfile :: "string \<Rightarrow> bool" where
  "ShouldHonorClusterTLSProfile tlsAdherence =
     (if tlsAdherence = '''' \<or> tlsAdherence = ''LegacyAdheringComponentsOnly'' then False else True)"

definition tls_groups :: "string list" where
  "tls_groups = [''X25519MLKEM768'', ''X25519'', ''secp256r1'', ''secp384r1'']"

definition tls13_ciphers :: "string list" where
  "tls13_ciphers = [''TLS_AES_128_GCM_SHA256'', ''TLS_AES_256_GCM_SHA384'',
     ''TLS_CHACHA20_POLY1305_SHA256'']"

definition intermediate_ciphers :: "string list" where
  "intermediate_ciphers = tls13_ciphers @ [''ECDHE-ECDSA-AES128-GCM-SHA256'',
     ''ECDHE-RSA-AES128-GCM-SHA256'', ''ECDHE-ECDSA-AES256-GCM-SHA384'',
     ''ECDHE-RSA-AES256-GCM-SHA384'', ''ECDHE-ECDSA-CHACHA20-POLY1305'',
     ''ECDHE-RSA-CHACHA20-POLY1305'']"

definition old_ciphers :: "string list" where
  "old_ciphers = intermediate_ciphers @ [''ECDHE-ECDSA-AES128-SHA256'', ''ECDHE-RSA-AES128-SHA256'',
     ''ECDHE-ECDSA-AES128-SHA'', ''ECDHE-RSA-AES128-SHA'', ''ECDHE-ECDSA-AES256-SHA384'',
     ''ECDHE-RSA-AES256-SHA384'', ''ECDHE-ECDSA-AES256-SHA'', ''ECDHE-RSA-AES256-SHA'',
     ''AES128-GCM-SHA256'', ''AES256-GCM-SHA384'', ''AES128-SHA256'', ''AES256-SHA256'',
     ''AES128-SHA'', ''AES256-SHA'', ''DES-CBC3-SHA'']"

definition TLSProfiles :: "(string \<times> TLSProfileSpec) list" where
  "TLSProfiles =
    [(''Old'', \<lparr>tps_Ciphers = old_ciphers, tps_Groups = tls_groups,
        tps_MinTLSVersion = VersionTLS10\<rparr>),
     (''Intermediate'', \<lparr>tps_Ciphers = intermediate_ciphers, tps_Groups = tls_groups,
        tps_MinTLSVersion = VersionTLS12\<rparr>),
     (''Modern'', \<lparr>tps_Ciphers = tls13_ciphers, tps_Groups = tls_groups,
        tps_MinTLSVersion = VersionTLS13\<rparr>)]"

definition defaultProfile :: TLSProfileSpec where
  "defaultProfile = \<lparr>tps_Ciphers = intermediate_ciphers, tps_Groups = tls_groups,
     tps_MinTLSVersion = VersionTLS12\<rparr>"

definition ErrCustomProfileNil :: go_error where
  "ErrCustomProfileNil = PlainError ''custom TLS profile specified but Custom field is nil''"

definition GetTLSProfileSpec :: "TLSSecurityProfile option \<Rightarrow> go_error + TLSProfileSpec" where
  "GetTLSProfileSpec profile =
     (case profile of
        None \<Rightarrow> Inr defaultProfile
      | Some p \<Rightarrow>
          if tsp_Type p = '''' then Inr defaultProfile
          else if tsp_Type p \<noteq> ''Custom''
            then (case map_of TLSProfiles (tsp_Type p) of
                    Some c \<Rightarrow> Inr c
                  | None \<Rightarrow> Inr defaultProfile)
          else (case tsp_Custom p of
                  None \<Rightarrow> Inl ErrCustomProfileNil
                | Some c \<Rightarrow> Inr c))"

text \<open>The OpenSSL names and their IANA counterparts.\<close>

definition openSSLToIANACiphersMap :: "(string \<times> string) list" where
  "openSSLToIANACiphersMap =
    [(''TLS_AES_128_GCM_SHA256'', ''TLS_AES_128_GCM_SHA256''),
     (''TLS_AES_256_GCM_SHA384'', ''TLS_AES_256_GCM_SHA384''),
     (''TLS_CHACHA20_POLY1305_SHA256'', ''TLS_CHACHA20_POLY1305_SHA256''),
     (''ECDHE-ECDSA-AES128-GCM-SHA256'', ''TLS_ECDHE_ECDSA_WITH_AES_128_GCM_SHA256''),
     (''ECDHE-RSA-AES128-GCM-SHA256'', ''TLS_ECDHE_RSA_WITH_AES_128_GCM_SHA256''),
     (''ECDHE-ECDSA-AES256-GCM-SHA384'', ''TLS_ECDHE_ECDSA_WITH_AES_256_GCM_SHA384''),
     (''ECDHE-RSA-AES256-GCM-SHA384'', ''TLS_ECDHE_RSA_WITH_AES_256_GCM_SHA384''),
     (''ECDHE-ECDSA-CHACHA20-POLY1305'', ''TLS_ECDHE_ECDSA_WITH_CHACHA20_POLY1305_SHA256''),
     (''ECDHE-RSA-CHACHA20-POLY1305'', ''TLS_ECDHE_RSA_WITH_CHACHA20_POLY1305_SHA256''),
     (''ECDHE-ECDSA-AES128-SHA256'', ''TLS_ECDHE_ECDSA_WITH_AES_128_CBC_SHA256''),
     (''ECDHE-RSA-AES128-SHA256'', ''TLS_ECDHE_RSA_WITH_AES_128_CBC_SHA256''),
     (''AES128-GCM-SHA256'', ''TLS_RSA_WITH_AES_128_GCM_SHA256''),
     (''AES256-GCM-SHA384'', ''TLS_RSA_WITH_AES_256_GCM_SHA384''),
     (''AES128-SHA256'', ''TLS_RSA_WITH_AES_128_CBC_SHA256''),
     (''ECDHE-ECDSA-AES128-SHA'', ''TLS_ECDHE_ECDSA_WITH_AES_128_CBC_SHA''),
     (''ECDHE-RSA-AES128-SHA'', ''TLS_ECDHE_RSA_WITH_AES_128_CBC_SHA''),
     (''ECDHE-ECDSA-AES256-SHA'', ''TLS_ECDHE_ECDSA_WITH_AES_256_CBC_SHA''),
     (''ECDHE-RSA-AES256-SHA'', ''TLS_ECDHE_RSA_WITH_AES_256_CBC_SHA''),
     (''AES128-SHA'', ''TLS_RSA_WITH_AES_128_CBC_SHA''),
     (''AES256-SHA'', ''TLS_RSA_WITH_AES_256_CBC_SHA''),
     (''DES-CBC3-SHA'', ''TLS_RSA_WITH_3DES_EDE_CBC_SHA''),
     (''ECDHE-RSA-DES-CBC3-SHA'', ''TLS_ECDHE_RSA_WITH_3DES_EDE_CBC_SHA'')]"

fun OpenSSLToIANACipherSuites :: "string list \<Rightarrow> string list" where
  "OpenSSLToIANACipherSuites [] = []"
| "OpenSSLToIANACipherSuites (c # cs) =
     (case map_of openSSLToIANACiphersMap c of
        Some i \<Rightarrow> i # OpenSSLToIANACipherSuites cs
      | None \<Rightarrow> OpenSSLToIANACipherSuites cs)"

section \<open>internal/util/tls.go\<close>

definition TLSVersionToArg :: "string \<Rightarrow> string" where
  "TLSVersionToArg v =
     (if v = VersionTLS10 then ''tls1_0''
      else if v = VersionTLS11 then ''tls1_1''
      else if v = VersionTLS12 then ''tls1_2''
      else if v = VersionTLS13 then ''tls1_3''
      else v)"

definition TLSCiphersToArgs :: "string list \<Rightarrow> string list" where
  "TLSCiphersToArgs ciphers =
     (let iana = OpenSSLToIANACipherSuites ciphers
      in if length iana = 0 then ciphers else iana)"

section \<open>Facts\<close>

lemma OpenSSLToIANACipherSuites_eq:
  "OpenSSLToIANACipherSuites cs = List.map_filter (map_of openSSLToIANACiphersMap) cs"
  by (induction cs) (auto simp: List.map_filter_simps split: option.splits)

lemma set_OpenSSLToIANACipherSuites:
  "set (OpenSSLToIANACipherSuites cs) = {i. \<exists>c \<in> set cs. map_of openSSLToIANACiphersMap c = Some i}"
  by (induction cs) (auto split: option.splits)

lemma length_OpenSSLToIANACipherSuites: "length (OpenSSLToIANACipherSuites cs) \<le> length cs"
  by (induction cs) (auto split: option.splits)

lemma OpenSSLToIANACipherSuites_Nil:
  "OpenSSLToIANACipherSuites cs = [] \<longleftrightarrow> (\<forall>c \<in> set cs. map_of openSSLToIANACiphersMap c = None)"
  by (induction cs) (auto split: option.splits)

lemma TLSVersionToArg_inj:
  assumes "v \<notin> {''tls1_0'', ''tls1_1'', ''tls1_2'', ''tls1_3''}"
    and "u \<notin> {''tls1_0'', ''tls1_1'', ''tls1_2'', ''tls1_3''}"
    and "TLSVersionToArg u = TLSVersionToArg v"
  shows "u = v"
  using assms by (auto simp: TLSVersionToArg_def go_defs split: if_splits)

lemma GetTLSProfileSpec_error_iff:
  "GetTLSProfileSpec p = Inl e \<longleftrightarrow>
     e = ErrCustomProfileNil \<and> (\<exists>q. p = Some q \<and> tsp_Type q = ''Custom'' \<and> tsp_Custom q = None)"
  by (auto simp: GetTLSProfileSpec_def split: option.splits if_splits)

end
