(* ===== verification/Kube_Client.thy ===== *)
theory Kube_Client
  imports VPA_Api TLS_Profiles
begin

text \<open>
  The interface between the operator and the Kubernetes API server: the objects that travel
  over it, the client operations the operator calls (\<open>client.Client\<close> of controller-runtime:
  \<open>Get\<close>, \<open>Create\<close>, \<open>Update\<close> and \<open>Patch\<close>) as a record of functions over an unspecified world, and the
  locales that state what the operator relies on.

  The API server is not part of the repository, so the definitions that use it take the
  client as an argument. \<open>kube_api\<close> states the laws of a client whose successful calls mean
  what the API documents; any call may fail, and a failed write may or may not have reached
  its object. \<open>reliable_api\<close> adds that calls succeed when their preconditions hold.
  Theory \<open>Fake_Client\<close> interprets both on the in-memory client of controller-runtime.
\<close>

section \<open>Objects\<close>

datatype Kind = KDeployment | KService | KConfigMap | KNetworkPolicy | KNamespace | KVPA | KAPIServer

record APIServer =
  api_TypeMeta :: TypeMeta
  api_Meta :: ObjectMeta
  api_Spec :: APIServerSpec

datatype KObject =
    ODeployment Deployment
  | OService Service
  | OConfigMap ConfigMap
  | ONetworkPolicy NetworkPolicy
  | ONamespace Namespace
  | OVPA VerticalPodAutoscalerController
  | OAPIServer APIServer

fun obj_kind :: "KObject \<Rightarrow> Kind" where
  "obj_kind (ODeployment d) = KDeployment"
| "obj_kind (OService s) = KService"
| "obj_kind (OConfigMap m) = KConfigMap"
| "obj_kind (ONetworkPolicy p) = KNetworkPolicy"
| "obj_kind (ONamespace n) = KNamespace"
| "obj_kind (OVPA v) = KVPA"
| "obj_kind (OAPIServer a) = KAPIServer"

fun obj_meta :: "KObject \<Rightarrow> ObjectMeta" where
  "obj_meta (ODeployment d) = dep_Meta d"
| "obj_meta (OService s) = svc_Meta s"
| "obj_meta (OConfigMap m) = cm_Meta m"
| "obj_meta (ONetworkPolicy p) = np_Meta p"
| "obj_meta (ONamespace n) = ns_Meta n"
| "obj_meta (OVPA v) = vpa_Meta v"
| "obj_meta (OAPIServer a) = api_Meta a"

fun map_meta :: "(ObjectMeta \<Rightarrow> ObjectMeta) \<Rightarrow> KObject \<Rightarrow> KObject" where
  "map_meta f (ODeployment d) = ODeployment (d\<lparr>dep_Meta := f (dep_Meta d)\<rparr>)"
| "map_meta f (OService s) = OService (s\<lparr>svc_Meta := f (svc_Meta s)\<rparr>)"
| "map_meta f (OConfigMap m) = OConfigMap (m\<lparr>cm_Meta := f (cm_Meta m)\<rparr>)"
| "map_meta f (ONetworkPolicy p) = ONetworkPolicy (p\<lparr>np_Meta := f (np_Meta p)\<rparr>)"
| "map_meta f (ONamespace n) = ONamespace (n\<lparr>ns_Meta := f (ns_Meta n)\<rparr>)"
| "map_meta f (OVPA v) = OVPA (v\<lparr>vpa_Meta := f (vpa_Meta v)\<rparr>)"
| "map_meta f (OAPIServer a) = OAPIServer (a\<lparr>api_Meta := f (api_Meta a)\<rparr>)"

type_synonym objkey = "Kind \<times> NamespacedName"

definition obj_key :: "KObject \<Rightarrow> objkey" where
  "obj_key obj = (obj_kind obj, meta_key (obj_meta obj))"

section \<open>The client\<close>

text \<open>
  \<open>Patch\<close> is used once, to change annotations: its argument is the strategic merge patch of an
  object's annotations, where \<open>None\<close> deletes a key.
\<close>

type_synonym annotation_patch = "(string \<times> string option) list"

record 'w client =
  cl_Get :: "Kind \<Rightarrow> NamespacedName \<Rightarrow> 'w \<Rightarrow> (go_error + KObject) \<times> 'w"
  cl_Create :: "KObject \<Rightarrow> 'w \<Rightarrow> go_error option \<times> 'w"
  cl_Update :: "KObject \<Rightarrow> 'w \<Rightarrow> go_error option \<times> 'w"
  cl_Patch :: "Kind \<Rightarrow> NamespacedName \<Rightarrow> annotation_patch \<Rightarrow> 'w \<Rightarrow> go_error option \<times> 'w"

definition apply_annotation_patch :: "annotation_patch \<Rightarrow> strmap \<Rightarrow> strmap" where
  "apply_annotation_patch p m =
     fold (\<lambda>(k, v) a. case v of None \<Rightarrow> fmdrop k a | Some x \<Rightarrow> fmupd k x a) p m"

text \<open>Decoding into the Go type the caller passed; an object of another kind does not decode.\<close>

definition decode_error :: go_error where
  "decode_error = PlainError ''unable to decode the object into the requested type''"

fun as_deployment :: "KObject \<Rightarrow> go_error + Deployment" where
  "as_deployment (ODeployment d) = Inr d" | "as_deployment _ = Inl decode_error"
fun as_service :: "KObject \<Rightarrow> go_error + Service" where
  "as_service (OService s) = Inr s" | "as_service _ = Inl decode_error"
fun as_configmap :: "KObject \<Rightarrow> go_error + ConfigMap" where
  "as_configmap (OConfigMap m) = Inr m" | "as_configmap _ = Inl decode_error"
fun as_policy :: "KObject \<Rightarrow> go_error + NetworkPolicy" where
  "as_policy (ONetworkPolicy p) = Inr p" | "as_policy _ = Inl decode_error"
fun as_namespace :: "KObject \<Rightarrow> go_error + Namespace" where
  "as_namespace (ONamespace n) = Inr n" | "as_namespace _ = Inl decode_error"
fun as_vpa :: "KObject \<Rightarrow> go_error + VerticalPodAutoscalerController" where
  "as_vpa (OVPA v) = Inr v" | "as_vpa _ = Inl decode_error"
fun as_apiserver :: "KObject \<Rightarrow> go_error + APIServer" where
  "as_apiserver (OAPIServer a) = Inr a" | "as_apiserver _ = Inl decode_error"

definition decoded :: "(KObject \<Rightarrow> go_error + 'o) \<Rightarrow> go_error + KObject \<Rightarrow> go_error + 'o" where
  "decoded f r = (case r of Inl e \<Rightarrow> Inl e | Inr obj \<Rightarrow> f obj)"

section \<open>How an accepted object is stored\<close>

text \<open>
  An accepted object is stored as it was sent, up to what the server owns: the resource
  version, the UID, the generation, other system metadata, the status, and defaults for the
  parts of a deployment's or a service's specification that the operator leaves unset. Nil
  and empty maps are not told apart. The operator spells out the pod template it wants, so the template
  is stored as sent.
\<close>

definition server_meta :: "ObjectMeta \<Rightarrow> ObjectMeta" where
  "server_meta m = (norm_meta m)\<lparr>om_UID := '''', om_ResourceVersion := '''', om_Generation := 0,
     om_rest := fmempty\<rparr>"

fun server_view :: "KObject \<Rightarrow> KObject" where
  "server_view (ODeployment d) = ODeployment (d\<lparr>dep_TypeMeta := zero_TypeMeta,
     dep_Meta := server_meta (dep_Meta d), dep_SpecRest := fmempty,
     dep_Template := \<lparr>pt_Meta = norm_meta (pt_Meta (dep_Template d)),
                      pt_Spec = norm_podspec (pt_Spec (dep_Template d))\<rparr>,
     dep_Status := zero_DeploymentStatus\<rparr>)"
| "server_view (OService s) = OService (s\<lparr>svc_TypeMeta := zero_TypeMeta,
     svc_Meta := server_meta (svc_Meta s), svc_SpecRest := fmempty, svc_StatusRest := fmempty\<rparr>)"
| "server_view (OConfigMap m) = OConfigMap (m\<lparr>cm_TypeMeta := zero_TypeMeta,
     cm_Meta := server_meta (cm_Meta m)\<rparr>)"
| "server_view (ONetworkPolicy p) = ONetworkPolicy (p\<lparr>np_TypeMeta := zero_TypeMeta,
     np_Meta := server_meta (np_Meta p)\<rparr>)"
| "server_view (ONamespace n) = ONamespace (n\<lparr>ns_TypeMeta := zero_TypeMeta,
     ns_Meta := server_meta (ns_Meta n), ns_rest := fmempty\<rparr>)"
| "server_view (OVPA v) = OVPA (v\<lparr>vpa_TypeMeta := zero_TypeMeta,
     vpa_Meta := server_meta (vpa_Meta v),
     vpa_Spec := map_vpaspec_resources norm_resources (vpa_Spec v)\<rparr>)"
| "server_view (OAPIServer a) = OAPIServer (a\<lparr>api_TypeMeta := zero_TypeMeta,
     api_Meta := server_meta (api_Meta a)\<rparr>)"

definition stored_as :: "KObject \<Rightarrow> KObject \<Rightarrow> bool" where
  "stored_as sent stored \<longleftrightarrow> server_view sent = server_view stored"

section \<open>The interface\<close>

locale kube_api =
  fixes c :: "'w client"
    and view :: "'w \<Rightarrow> objkey \<Rightarrow> KObject option"
    and wf :: "'w \<Rightarrow> bool"
  assumes view_key: "wf w \<Longrightarrow> view w key = Some obj \<Longrightarrow> obj_key obj = key"
    and get_found: "wf w \<Longrightarrow> cl_Get c k n w = (Inr obj, w') \<Longrightarrow> view w (k, n) = Some obj"
    and get_missing: "wf w \<Longrightarrow> cl_Get c k n w = (Inl e, w') \<Longrightarrow> IsNotFound e \<Longrightarrow> view w (k, n) = None"
    and get_frame: "wf w \<Longrightarrow> cl_Get c k n w = (g, w') \<Longrightarrow> wf w' \<and> view w' = view w"
    and create_stored: "wf w \<Longrightarrow> cl_Create c obj w = (None, w') \<Longrightarrow>
      \<exists>obj'. view w' (obj_key obj) = Some obj' \<and> stored_as obj obj'"
    and create_frame: "wf w \<Longrightarrow> cl_Create c obj w = (r, w') \<Longrightarrow>
      wf w' \<and> (\<forall>key. key \<noteq> obj_key obj \<longrightarrow> view w' key = view w key)"
    and create_exists: "wf w \<Longrightarrow> cl_Create c obj w = (Some e, w') \<Longrightarrow> IsAlreadyExists e \<Longrightarrow>
      view w' (obj_key obj) \<noteq> None"
    and update_stored: "wf w \<Longrightarrow> cl_Update c obj w = (None, w') \<Longrightarrow>
      \<exists>obj'. view w' (obj_key obj) = Some obj' \<and> stored_as obj obj'"
    and update_frame: "wf w \<Longrightarrow> cl_Update c obj w = (r, w') \<Longrightarrow>
      wf w' \<and> (\<forall>key. key \<noteq> obj_key obj \<longrightarrow> view w' key = view w key)"
    and patch_stored: "wf w \<Longrightarrow> cl_Patch c k n p w = (None, w') \<Longrightarrow>
      \<exists>obj obj'. view w (k, n) = Some obj \<and> view w' (k, n) = Some obj' \<and>
        nilmap (om_Annotations (obj_meta obj')) =
          apply_annotation_patch p (nilmap (om_Annotations (obj_meta obj)))"
    and patch_frame: "wf w \<Longrightarrow> cl_Patch c k n p w = (r, w') \<Longrightarrow>
      wf w' \<and> (\<forall>key. key \<noteq> (k, n) \<longrightarrow> view w' key = view w key)"

text \<open>
  A client that does not fail when the call's preconditions hold. \<open>unconditional\<close> says for
  which kinds an update without a resource version is accepted.
\<close>

locale reliable_api = kube_api c view wf
  for c :: "'w client" and view :: "'w \<Rightarrow> objkey \<Rightarrow> KObject option" and wf :: "'w \<Rightarrow> bool" +
  fixes unconditional :: "Kind \<Rightarrow> bool"
  assumes get_total: "wf w \<Longrightarrow> view w (k, n) = Some obj \<Longrightarrow> \<exists>w'. cl_Get c k n w = (Inr obj, w')"
    and get_none: "wf w \<Longrightarrow> view w (k, n) = None \<Longrightarrow>
      \<exists>e w'. cl_Get c k n w = (Inl e, w') \<and> IsNotFound e"
    and create_total: "wf w \<Longrightarrow> view w (obj_key obj) = None \<Longrightarrow> om_Name (obj_meta obj) \<noteq> '''' \<Longrightarrow>
      om_ResourceVersion (obj_meta obj) = '''' \<Longrightarrow> \<exists>w'. cl_Create c obj w = (None, w')"
    and update_total: "wf w \<Longrightarrow> view w (obj_key obj) = Some old \<Longrightarrow> om_Name (obj_meta obj) \<noteq> '''' \<Longrightarrow>
      om_ResourceVersion (obj_meta obj) = om_ResourceVersion (obj_meta old) \<or>
      om_ResourceVersion (obj_meta obj) = '''' \<and> unconditional (obj_kind obj) \<Longrightarrow>
      \<exists>w'. cl_Update c obj w = (None, w')"
    and patch_total: "wf w \<Longrightarrow> view w (k, n) = Some obj \<Longrightarrow> \<exists>w'. cl_Patch c k n p w = (None, w')"

section \<open>Facts about stored objects\<close>

lemma obj_kind_server_view [simp]: "obj_kind (server_view obj) = obj_kind obj"
  by (cases obj) simp_all

lemma stored_as_kind: "stored_as a b \<Longrightarrow> obj_kind a = obj_kind b"
  unfolding stored_as_def using obj_kind_server_view by metis

lemma stored_as_refl [simp]: "stored_as obj obj"
  by (simp add: stored_as_def)

lemma server_meta_annotations: "nilmap (om_Annotations (server_meta m)) = nilmap (om_Annotations m)"
  by (simp add: server_meta_def norm_meta_def)

lemma obj_meta_server_view: "obj_meta (server_view obj) = server_meta (obj_meta obj)"
  by (cases obj) simp_all

lemma stored_as_meta:
  assumes "stored_as a b"
  shows "nilmap (om_Annotations (obj_meta b)) = nilmap (om_Annotations (obj_meta a))"
    and "om_Name (obj_meta b) = om_Name (obj_meta a)"
    and "om_Namespace (obj_meta b) = om_Namespace (obj_meta a)"
    and "om_OwnerReferences (obj_meta b) = om_OwnerReferences (obj_meta a)"
    and "nilmap (om_Labels (obj_meta b)) = nilmap (om_Labels (obj_meta a))"
proof -
  have eq: "server_meta (obj_meta b) = server_meta (obj_meta a)"
    using assms obj_meta_server_view unfolding stored_as_def by metis
  show "nilmap (om_Annotations (obj_meta b)) = nilmap (om_Annotations (obj_meta a))"
    using eq server_meta_annotations by metis
  show "om_Name (obj_meta b) = om_Name (obj_meta a)"
    using arg_cong [OF eq, of om_Name] by (simp add: server_meta_def norm_meta_def)
  show "om_Namespace (obj_meta b) = om_Namespace (obj_meta a)"
    using arg_cong [OF eq, of om_Namespace] by (simp add: server_meta_def norm_meta_def)
  show "om_OwnerReferences (obj_meta b) = om_OwnerReferences (obj_meta a)"
    using arg_cong [OF eq, of om_OwnerReferences] by (simp add: server_meta_def norm_meta_def)
  show "nilmap (om_Labels (obj_meta b)) = nilmap (om_Labels (obj_meta a))"
    using arg_cong [OF eq, of "\<lambda>m. nilmap (om_Labels m)"] by (simp add: server_meta_def norm_meta_def)
qed

lemma stored_as_deployment:
  assumes "stored_as (ODeployment d) obj"
  shows "\<exists>d'. obj = ODeployment d' \<and> dep_Replicas d' = dep_Replicas d \<and>
    semeq_podspec (pt_Spec (dep_Template d')) (pt_Spec (dep_Template d)) \<and>
    nilmap (om_Annotations (dep_Meta d')) = nilmap (om_Annotations (dep_Meta d)) \<and>
    nilmap (om_Labels (pt_Meta (dep_Template d'))) = nilmap (om_Labels (pt_Meta (dep_Template d))) \<and>
    dep_Selector d' = dep_Selector d \<and>
    om_OwnerReferences (dep_Meta d') = om_OwnerReferences (dep_Meta d)"
proof (cases obj)
  case (ODeployment d')
  have eq: "d\<lparr>dep_TypeMeta := zero_TypeMeta, dep_Meta := server_meta (dep_Meta d),
      dep_SpecRest := fmempty, dep_Template := \<lparr>pt_Meta = norm_meta (pt_Meta (dep_Template d)),
        pt_Spec = norm_podspec (pt_Spec (dep_Template d))\<rparr>, dep_Status := zero_DeploymentStatus\<rparr>
    = d'\<lparr>dep_TypeMeta := zero_TypeMeta, dep_Meta := server_meta (dep_Meta d'),
      dep_SpecRest := fmempty, dep_Template := \<lparr>pt_Meta = norm_meta (pt_Meta (dep_Template d')),
        pt_Spec = norm_podspec (pt_Spec (dep_Template d'))\<rparr>, dep_Status := zero_DeploymentStatus\<rparr>"
    using assms by (simp add: stored_as_def ODeployment)
  have tmpl: "norm_meta (pt_Meta (dep_Template d)) = norm_meta (pt_Meta (dep_Template d'))"
    "norm_podspec (pt_Spec (dep_Template d)) = norm_podspec (pt_Spec (dep_Template d'))"
    using arg_cong [OF eq, of dep_Template] by simp_all
  have "nilmap (om_Labels (pt_Meta (dep_Template d))) = nilmap (om_Labels (pt_Meta (dep_Template d')))"
    using arg_cong [OF tmpl(1), of om_Labels] by (simp add: norm_meta_def)
  then show ?thesis
    using ODeployment stored_as_meta [OF assms] arg_cong [OF eq, of dep_Replicas]
      arg_cong [OF eq, of dep_Selector] tmpl(2)
    by (simp add: semeq_podspec_def)
qed (use stored_as_kind [OF assms] in simp_all)

lemma stored_as_service:
  assumes "stored_as (OService s) obj"
  shows "\<exists>s'. obj = OService s' \<and> svc_Ports s' = svc_Ports s \<and> svc_Selector s' = svc_Selector s \<and>
    nilmap (om_Annotations (svc_Meta s')) = nilmap (om_Annotations (svc_Meta s)) \<and>
    om_OwnerReferences (svc_Meta s') = om_OwnerReferences (svc_Meta s)"
proof (cases obj)
  case (OService s')
  have eq: "s\<lparr>svc_TypeMeta := zero_TypeMeta, svc_Meta := server_meta (svc_Meta s),
      svc_SpecRest := fmempty, svc_StatusRest := fmempty\<rparr>
    = s'\<lparr>svc_TypeMeta := zero_TypeMeta, svc_Meta := server_meta (svc_Meta s'),
      svc_SpecRest := fmempty, svc_StatusRest := fmempty\<rparr>"
    using assms by (simp add: stored_as_def OService)
  show ?thesis
    using OService stored_as_meta [OF assms] arg_cong [OF eq, of svc_Ports]
      arg_cong [OF eq, of svc_Selector]
    by simp
qed (use stored_as_kind [OF assms] in simp_all)

lemma stored_as_configmap:
  assumes "stored_as (OConfigMap m) obj"
  shows "\<exists>m'. obj = OConfigMap m' \<and>
    nilmap (om_Annotations (cm_Meta m')) = nilmap (om_Annotations (cm_Meta m)) \<and>
    om_OwnerReferences (cm_Meta m') = om_OwnerReferences (cm_Meta m)"
  using stored_as_kind [OF assms] stored_as_meta [OF assms] by (cases obj) simp_all

lemma stored_as_policy:
  assumes "stored_as (ONetworkPolicy p) obj"
  shows "\<exists>p'. obj = ONetworkPolicy p' \<and> np_Spec p' = np_Spec p \<and>
    om_OwnerReferences (np_Meta p') = om_OwnerReferences (np_Meta p)"
proof (cases obj)
  case (ONetworkPolicy p')
  have eq: "p\<lparr>np_TypeMeta := zero_TypeMeta, np_Meta := server_meta (np_Meta p)\<rparr>
    = p'\<lparr>np_TypeMeta := zero_TypeMeta, np_Meta := server_meta (np_Meta p')\<rparr>"
    using assms by (simp add: stored_as_def ONetworkPolicy)
  show ?thesis
    using ONetworkPolicy stored_as_meta [OF assms] arg_cong [OF eq, of np_Spec] by simp
qed (use stored_as_kind [OF assms] in simp_all)

lemmas stored_as_simps = stored_as_deployment stored_as_service stored_as_configmap stored_as_policy

end
