(* ===== verification/VPA_Util.thy ===== *)
theory VPA_Util
  imports Kube_Types
begin

text \<open>
  \<open>internal/util/util.go\<close>: the helpers on strings, release-version annotations, deployment
  roll-out and command line arguments. (\<open>ResetProgressingTime\<close> works on cluster operator
  conditions and is in theory \<open>Resource_Merge\<close>.)
\<close>

definition ReleaseVersionAnnotation :: string where
  [go_defs]: "ReleaseVersionAnnotation = ''release.openshift.io/version''"

text \<open>\<open>FilterString\<close>: the loop appends to \<open>newSlice\<close> or counts in \<open>found\<close>.\<close>

fun FilterString_loop :: "string list \<Rightarrow> string \<Rightarrow> string list \<Rightarrow> nat \<Rightarrow> string list \<times> nat" where
  "FilterString_loop [] needle newSlice found = (newSlice, found)"
| "FilterString_loop (x # haystack) needle newSlice found =
     (if x \<noteq> needle then FilterString_loop haystack needle (newSlice @ [x]) found
      else FilterString_loop haystack needle newSlice (found + 1))"

definition FilterString :: "string list \<Rightarrow> string \<Rightarrow> string list \<times> nat" where
  "FilterString haystack needle = FilterString_loop haystack needle [] 0"

definition ReleaseVersionMatches :: "ObjectMeta \<Rightarrow> string \<Rightarrow> bool" where
  "ReleaseVersionMatches obj version =
     (case fmlookup (nilmap (om_Annotations obj)) ReleaseVersionAnnotation of
        None \<Rightarrow> False
      | Some value \<Rightarrow> if value \<noteq> version then False else True)"

definition DeploymentUpdated :: "Deployment \<Rightarrow> bool" where
  "DeploymentUpdated dep =
     (if ds_ObservedGeneration (dep_Status dep) < om_Generation (dep_Meta dep) then False
      else if ds_UpdatedReplicas (dep_Status dep) \<noteq> ds_Replicas (dep_Status dep) then False
      else if ds_AvailableReplicas (dep_Status dep) = 0 then False
      else True)"

definition ArgExists :: "string list \<Rightarrow> string \<Rightarrow> bool" where
  "ArgExists args arg = list_ex (\<lambda>a. HasPrefix a (arg @ ''='')) args"

section \<open>Facts\<close>

lemma FilterString_loop_eq:
  "FilterString_loop xs n acc k = (acc @ filter (\<lambda>x. x \<noteq> n) xs, k + count_list xs n)"
  by (induction xs n acc k rule: FilterString_loop.induct) auto

lemma ReleaseVersionMatches_iff:
  "ReleaseVersionMatches m v \<longleftrightarrow> fmlookup (nilmap (om_Annotations m)) ReleaseVersionAnnotation = Some v"
  by (auto simp: ReleaseVersionMatches_def split: option.splits)

lemma ArgExists_iff: "ArgExists args arg \<longleftrightarrow> (\<exists>v. arg @ ''='' @ v \<in> set args)"
  by (auto simp: ArgExists_def list_ex_iff HasPrefix_iff)

text \<open>
  \<open>FilterString\<close> removes every instance of the needle, keeps the other strings in their
  order, and counts the removed ones; so the lengths add up and the needle is gone.
\<close>

theorem FilterString_correct:
  "case FilterString haystack needle of (kept, found) \<Rightarrow>
     kept = filter (\<lambda>x. x \<noteq> needle) haystack \<and> found = count_list haystack needle \<and>
     length kept + found = length haystack \<and> needle \<notin> set kept"
proof -
  have "length (filter (\<lambda>x. x \<noteq> needle) haystack) + count_list haystack needle = length haystack"
    by (induction haystack) auto
  then show ?thesis
    by (simp add: FilterString_def FilterString_loop_eq)
qed

end
