(* ===== verification/Operand_Args.thy ===== *)
theory Operand_Args
  imports VPA_Api VPA_Util TLS_Profiles
begin

text \<open>
  The command lines of the three operands: \<open>recommender.go\<close>, \<open>updater.go\<close> and
  \<open>admission_plugin.go\<close> of \<open>internal/controller/verticalpodautoscaler\<close>, and the reconciler's
  configuration they read. The lemmas describe a command line by the value each flag ends up
  with: an argument \<open>flag=value\<close> sets the flag and the last one wins, as in Go's flag package.
\<close>

text \<open>The reconciler's \<open>Config\<close>.\<close>

record Config =
  cfg_ReleaseVersion :: string
  cfg_Name :: string
  cfg_Namespace :: string
  cfg_Image :: string
  cfg_Verbosity :: int
  cfg_ExtraArgs :: string
  cfg_TLSProfileSpec :: "TLSProfileSpec option"
  cfg_IsExternalControlPlane :: bool

text \<open>\<open>Value\<close>: the argument with a value, whose \<open>%v\<close> text is given.\<close>

definition Value :: "string \<Rightarrow> string \<Rightarrow> string" where
  "Value a v = a @ ''='' @ v"

definition LogToStderrArg :: string where [go_defs]: "LogToStderrArg = ''--logtostderr''"
definition VerbosityArg :: string where [go_defs]: "VerbosityArg = ''--v''"
definition SafetyMarginFractionArg :: string where
  [go_defs]: "SafetyMarginFractionArg = ''--recommendation-margin-fraction''"
definition PodMinCPUMillicoresArg :: string where
  [go_defs]: "PodMinCPUMillicoresArg = ''--pod-recommendation-min-cpu-millicores''"
definition PodMinMemoryMbArg :: string where
  [go_defs]: "PodMinMemoryMbArg = ''--pod-recommendation-min-memory-mb''"
definition MinReplicasArg :: string where [go_defs]: "MinReplicasArg = ''--min-replicas''"
definition KubeAPIQPSArg :: string where [go_defs]: "KubeAPIQPSArg = ''--kube-api-qps''"
definition KubeAPIBurstArg :: string where [go_defs]: "KubeAPIBurstArg = ''--kube-api-burst''"
definition TLSCertFileArg :: string where [go_defs]: "TLSCertFileArg = ''--tls-cert-file''"
definition TLSKeyFileArg :: string where [go_defs]: "TLSKeyFileArg = ''--tls-private-key''"
definition TLSCACertFileArg :: string where [go_defs]: "TLSCACertFileArg = ''--client-ca-file''"
definition WebhookTimeout :: string where [go_defs]: "WebhookTimeout = ''--webhook-timeout-seconds''"
definition MinTLSVersionArg :: string where [go_defs]: "MinTLSVersionArg = ''--min-tls-version''"
definition TLSCiphersArg :: string where [go_defs]: "TLSCiphersArg = ''--tls-ciphers''"

definition RecommenderArgs :: "VerticalPodAutoscalerController \<Rightarrow> Config \<Rightarrow> string list" where
  "RecommenderArgs vpa cfg =
     (let s = vpa_Spec vpa;
          args0 = [LogToStderrArg, Value VerbosityArg (int_text (cfg_Verbosity cfg))];
          args1 = (case vs_SafetyMarginFraction s of None \<Rightarrow> args0
                   | Some v \<Rightarrow> args0 @ [Value SafetyMarginFractionArg (float_text v)]);
          args2 = (case vs_PodMinCPUMillicores s of None \<Rightarrow> args1
                   | Some v \<Rightarrow> args1 @ [Value PodMinCPUMillicoresArg (float_text v)]);
          args3 = (case vs_PodMinMemoryMb s of None \<Rightarrow> args2
                   | Some v \<Rightarrow> args2 @ [Value PodMinMemoryMbArg (float_text v)])
      in args3)"

definition UpdaterArgs :: "VerticalPodAutoscalerController \<Rightarrow> Config \<Rightarrow> string list" where
  "UpdaterArgs vpa cfg =
     (let s = vpa_Spec vpa;
          args0 = [LogToStderrArg, Value VerbosityArg (int_text (cfg_Verbosity cfg))]
      in case vs_MinReplicas s of None \<Rightarrow> args0
         | Some v \<Rightarrow> args0 @ [Value MinReplicasArg (int_text v)])"

definition AdmissionPluginArgs :: "VerticalPodAutoscalerController \<Rightarrow> Config \<Rightarrow> string list" where
  "AdmissionPluginArgs vpa cfg =
     (let user = cov_Args (do_Container (dos_Admission (vs_DeploymentOverrides (vpa_Spec vpa))));
          args0 = [LogToStderrArg,
                   Value VerbosityArg (int_text (cfg_Verbosity cfg)),
                   Value TLSCertFileArg ''/data/tls-certs/tls.crt'',
                   Value TLSKeyFileArg ''/data/tls-certs/tls.key'',
                   Value TLSCACertFileArg ''/data/tls-ca-certs/service-ca.crt'',
                   Value WebhookTimeout ''10''];
          args1 = (if \<not> ArgExists user KubeAPIQPSArg
                   then args0 @ [Value KubeAPIQPSArg ''25.0''] else args0);
          args2 = (if \<not> ArgExists user KubeAPIBurstArg
                   then args1 @ [Value KubeAPIBurstArg ''50.0''] else args1);
          args3 = (case cfg_TLSProfileSpec cfg of
                     None \<Rightarrow> args2
                   | Some p \<Rightarrow> if tps_MinTLSVersion p \<noteq> ''''
                       then args2 @ [Value MinTLSVersionArg (TLSVersionToArg (tps_MinTLSVersion p))]
                       else args2);
          args4 = (case cfg_TLSProfileSpec cfg of
                     None \<Rightarrow> args3
                   | Some p \<Rightarrow> if length (tps_Ciphers p) > 0
                       then args3 @ [Value TLSCiphersArg (Join (TLSCiphersToArgs (tps_Ciphers p)) '','')]
                       else args3)
      in args4)"

section \<open>The effect of a command line\<close>

definition flag_values :: "string list \<Rightarrow> string \<Rightarrow> string list" where
  "flag_values args f =
     map (drop (length f + 1)) (filter (\<lambda>a. HasPrefix a (f @ ''='')) args)"

definition effective :: "string list \<Rightarrow> string \<Rightarrow> string option" where
  "effective args f =
     (if flag_values args f = [] then None else Some (last (flag_values args f)))"

lemma flag_values_append [simp]: "flag_values (xs @ ys) f = flag_values xs f @ flag_values ys f"
  by (simp add: flag_values_def)

lemma flag_values_Nil [simp]: "flag_values [] f = []"
  by (simp add: flag_values_def)

lemma HasPrefix_Value_same [simp]: "HasPrefix (Value f v) (f @ ''='')"
  by (auto simp: Value_def HasPrefix_iff)

lemma flag_values_Cons:
  "flag_values (a # xs) f =
     (if HasPrefix a (f @ ''='') then [drop (length f + 1) a] else []) @ flag_values xs f"
  by (simp add: flag_values_def)

lemma drop_Value: "drop (length f + 1) (Value f v) = v"
  by (simp add: Value_def)

lemma flag_values_Nil_iff: "flag_values args f = [] \<longleftrightarrow> \<not> ArgExists args f"
  by (auto simp: flag_values_def ArgExists_def filter_empty_conv list_ex_iff)

lemma effective_None_iff: "effective args f = None \<longleftrightarrow> \<not> ArgExists args f"
  by (simp add: effective_def flag_values_Nil_iff)

lemma effective_append:
  "effective (xs @ ys) f = (case effective ys f of None \<Rightarrow> effective xs f | Some v \<Rightarrow> Some v)"
  by (simp add: effective_def)

lemma effective_append_if:
  "effective (xs @ ys) f = (if ArgExists ys f then effective ys f else effective xs f)"
  using effective_None_iff [of ys f] by (auto simp: effective_append split: option.split)

text \<open>A flag's own argument counts, the argument of a flag with another name does not.\<close>

lemmas args_eval = flag_values_Cons drop_Value Value_def effective_def go_defs

text \<open>
  The recommender's flags are the custom resource's settings: a setting that is given
  becomes its flag, printed as Go prints a float64, and a setting that is absent leaves the
  flag unset; the verbosity is the operator's.
\<close>

theorem RecommenderArgs_flags:
  "effective (RecommenderArgs vpa cfg) ''--v'' = Some (int_text (cfg_Verbosity cfg)) \<and>
   effective (RecommenderArgs vpa cfg) ''--recommendation-margin-fraction'' =
     map_option float_text (vs_SafetyMarginFraction (vpa_Spec vpa)) \<and>
   effective (RecommenderArgs vpa cfg) ''--pod-recommendation-min-cpu-millicores'' =
     map_option float_text (vs_PodMinCPUMillicores (vpa_Spec vpa)) \<and>
   effective (RecommenderArgs vpa cfg) ''--pod-recommendation-min-memory-mb'' =
     map_option float_text (vs_PodMinMemoryMb (vpa_Spec vpa))"
  by (simp add: RecommenderArgs_def Let_def args_eval split: option.split)

text \<open>
  The updater's minimum replica count survives its way through the command line: reading
  the flag back as a decimal integer gives the custom resource's int64 value, whatever it is.
\<close>

theorem UpdaterArgs_min_replicas_roundtrip:
  assumes "vs_MinReplicas (vpa_Spec vpa) = Some n" and "- (2 ^ 63) \<le> n" and "n < 2 ^ 63"
  shows "Option.bind (effective (UpdaterArgs vpa cfg) ''--min-replicas'') Atoi = Some n"
  using assms by (simp add: UpdaterArgs_def Let_def args_eval Atoi_int_text)

theorem UpdaterArgs_min_replicas_roundtrip_witness:
  "Option.bind (effective (UpdaterArgs
     \<lparr>vpa_TypeMeta = zero_TypeMeta, vpa_Meta = zero_ObjectMeta,
      vpa_Spec = zero_VPASpec\<lparr>vs_MinReplicas := Some 2\<rparr>\<rparr>
     \<lparr>cfg_ReleaseVersion = '''', cfg_Name = '''', cfg_Namespace = '''', cfg_Image = '''', cfg_Verbosity = 1,
      cfg_ExtraArgs = '''', cfg_TLSProfileSpec = None, cfg_IsExternalControlPlane = False\<rparr>) ''--min-replicas'') Atoi = Some 2"
  by (rule UpdaterArgs_min_replicas_roundtrip) simp_all

text \<open>The admission plugin's command line by its parts.\<close>

definition tls_args :: "Config \<Rightarrow> string list" where
  "tls_args cfg = (case cfg_TLSProfileSpec cfg of None \<Rightarrow> []
     | Some p \<Rightarrow>
         (if tps_MinTLSVersion p = '''' then []
          else [Value MinTLSVersionArg (TLSVersionToArg (tps_MinTLSVersion p))]) @
         (if tps_Ciphers p = [] then []
          else [Value TLSCiphersArg (Join (TLSCiphersToArgs (tps_Ciphers p)) '','')]))"

definition rate_args :: "string list \<Rightarrow> string list" where
  "rate_args user =
     (if ArgExists user KubeAPIQPSArg then [] else [Value KubeAPIQPSArg ''25.0'']) @
     (if ArgExists user KubeAPIBurstArg then [] else [Value KubeAPIBurstArg ''50.0''])"

lemma AdmissionPluginArgs_parts:
  "AdmissionPluginArgs vpa cfg =
     [LogToStderrArg, Value VerbosityArg (int_text (cfg_Verbosity cfg)),
      Value TLSCertFileArg ''/data/tls-certs/tls.crt'',
      Value TLSKeyFileArg ''/data/tls-certs/tls.key'',
      Value TLSCACertFileArg ''/data/tls-ca-certs/service-ca.crt'',
      Value WebhookTimeout ''10''] @
     rate_args (cov_Args (do_Container (dos_Admission (vs_DeploymentOverrides (vpa_Spec vpa))))) @
     tls_args cfg"
  by (cases "cfg_TLSProfileSpec cfg")
    (simp_all add: AdmissionPluginArgs_def Let_def tls_args_def rate_args_def)

lemma effective_rate_args:
  "effective (rate_args user) ''--min-tls-version'' = None"
  "effective (rate_args user) ''--tls-ciphers'' = None"
  "effective (rate_args user) ''--kube-api-qps'' =
     (if ArgExists user ''--kube-api-qps'' then None else Some ''25.0'')"
  "effective (rate_args user) ''--kube-api-burst'' =
     (if ArgExists user ''--kube-api-burst'' then None else Some ''50.0'')"
  by (simp_all add: rate_args_def args_eval)

lemma effective_tls_args:
  "effective (tls_args cfg) ''--kube-api-qps'' = None"
  "effective (tls_args cfg) ''--kube-api-burst'' = None"
  "effective (tls_args cfg) ''--min-tls-version'' =
     (case cfg_TLSProfileSpec cfg of None \<Rightarrow> None
      | Some p \<Rightarrow> if tps_MinTLSVersion p = '''' then None
          else Some (TLSVersionToArg (tps_MinTLSVersion p)))"
  "effective (tls_args cfg) ''--tls-ciphers'' =
     (case cfg_TLSProfileSpec cfg of None \<Rightarrow> None
      | Some p \<Rightarrow> if tps_Ciphers p = [] then None
          else Some (Join (TLSCiphersToArgs (tps_Ciphers p)) '',''))"
  by (cases "cfg_TLSProfileSpec cfg"; simp add: tls_args_def args_eval)+

lemma effective_AdmissionPluginArgs:
  assumes "f \<in> {''--min-tls-version'', ''--tls-ciphers'', ''--kube-api-qps'', ''--kube-api-burst''}"
  shows "effective (AdmissionPluginArgs vpa cfg) f =
    (case effective (tls_args cfg) f of
       None \<Rightarrow> effective (rate_args (cov_Args (do_Container (dos_Admission
                  (vs_DeploymentOverrides (vpa_Spec vpa)))))) f
     | Some v \<Rightarrow> Some v)"
proof -
  have "effective [LogToStderrArg, Value VerbosityArg (int_text (cfg_Verbosity cfg)),
      Value TLSCertFileArg ''/data/tls-certs/tls.crt'',
      Value TLSKeyFileArg ''/data/tls-certs/tls.key'',
      Value TLSCACertFileArg ''/data/tls-ca-certs/service-ca.crt'',
      Value WebhookTimeout ''10''] f = None"
    using assms by (auto simp: args_eval)
  then show ?thesis
    unfolding AdmissionPluginArgs_parts effective_append by (simp split: option.split)
qed

text \<open>
  The admission plugin's TLS flags follow the TLS profile: without a profile neither flag
  is given; with one, the minimum version is given unless it is empty and the cipher list
  unless it is empty, in IANA names when at least one of the names is known.
\<close>

theorem AdmissionPluginArgs_tls:
  "effective (AdmissionPluginArgs vpa cfg) ''--min-tls-version'' =
     (case cfg_TLSProfileSpec cfg of None \<Rightarrow> None
      | Some p \<Rightarrow> if tps_MinTLSVersion p = '''' then None
          else Some (TLSVersionToArg (tps_MinTLSVersion p))) \<and>
   effective (AdmissionPluginArgs vpa cfg) ''--tls-ciphers'' =
     (case cfg_TLSProfileSpec cfg of None \<Rightarrow> None
      | Some p \<Rightarrow> if tps_Ciphers p = [] then None
          else Some (Join (if \<exists>c \<in> set (tps_Ciphers p). map_of openSSLToIANACiphersMap c \<noteq> None
                           then List.map_filter (map_of openSSLToIANACiphersMap) (tps_Ciphers p)
                           else tps_Ciphers p) '',''))"
proof -
  have iana: "TLSCiphersToArgs cs =
      (if \<exists>c \<in> set cs. map_of openSSLToIANACiphersMap c \<noteq> None
       then List.map_filter (map_of openSSLToIANACiphersMap) cs else cs)" for cs
    unfolding TLSCiphersToArgs_def Let_def length_0_conv OpenSSLToIANACipherSuites_Nil
    by (auto simp: OpenSSLToIANACipherSuites_eq)
  show ?thesis
    unfolding iana [symmetric]
    by (simp add: effective_AdmissionPluginArgs effective_tls_args effective_rate_args split: option.split)
qed

lemma AdmissionPluginArgs_rate:
  assumes "user = cov_Args (do_Container (dos_Admission (vs_DeploymentOverrides (vpa_Spec vpa))))"
  shows "effective (AdmissionPluginArgs vpa cfg) ''--kube-api-qps'' =
      (if ArgExists user ''--kube-api-qps'' then None else Some ''25.0'')"
    and "effective (AdmissionPluginArgs vpa cfg) ''--kube-api-burst'' =
      (if ArgExists user ''--kube-api-burst'' then None else Some ''50.0'')"
  by (simp_all add: effective_AdmissionPluginArgs effective_tls_args effective_rate_args assms)

end
