(* ===== verification/Kube_Semantics.thy ===== *)
theory Kube_Semantics
  imports Kube_Types
begin

text \<open>
  What the objects the operator writes mean to the cluster, after the API's documentation in
  the vendored packages: label selectors (\<open>metav1.LabelSelectorAsSelector\<close>), tolerations
  (\<open>core/v1/toleration.go\<close>), node selection, and the isolation of pods by network policies
  (the field comments of \<open>networking/v1/types.go\<close>). The operator does not run this code; the
  definitions are the abstract specification against which the objects it builds are judged.
\<close>

section \<open>Label selectors\<close>

definition labels_match :: "strmap \<Rightarrow> strmap \<Rightarrow> bool" where
  "labels_match want labels = fmpred (\<lambda>k v. fmlookup labels k = Some v) want"

definition requirement_matches :: "LabelSelectorRequirement \<Rightarrow> strmap \<Rightarrow> bool" where
  "requirement_matches r labels =
     (let v = fmlookup labels (lsr_Key r)
      in if lsr_Operator r = ''In'' then (case v of None \<Rightarrow> False | Some x \<Rightarrow> x \<in> set (lsr_Values r))
         else if lsr_Operator r = ''NotIn''
           then (case v of None \<Rightarrow> True | Some x \<Rightarrow> x \<notin> set (lsr_Values r))
         else if lsr_Operator r = ''Exists'' then v \<noteq> None
         else if lsr_Operator r = ''DoesNotExist'' then v = None
         else False)"

definition selector_matches :: "LabelSelector \<Rightarrow> strmap \<Rightarrow> bool" where
  "selector_matches s labels \<longleftrightarrow> labels_match (ls_MatchLabels s) labels \<and>
     list_all (\<lambda>r. requirement_matches r labels) (ls_MatchExpressions s)"

section \<open>Scheduling\<close>

record Taint =
  tnt_Key :: string
  tnt_Value :: string
  tnt_Effect :: string

text \<open>\<open>ToleratesTaint\<close> with the comparison operators \<open>Lt\<close> and \<open>Gt\<close> disabled, the default.\<close>

definition ToleratesTaint :: "Toleration \<Rightarrow> Taint \<Rightarrow> bool" where
  "ToleratesTaint t taint =
     (if tol_Effect t \<noteq> '''' \<and> tol_Effect t \<noteq> tnt_Effect taint then False
      else if tol_Key t \<noteq> '''' \<and> tol_Key t \<noteq> tnt_Key taint then False
      else if tol_Operator t = '''' \<or> tol_Operator t = ''Equal'' then tol_Value t = tnt_Value taint
      else if tol_Operator t = ''Exists'' then True
      else False)"

text \<open>A node has labels and taints; a taint repels a pod that does not tolerate it.\<close>

definition may_schedule :: "PodSpec \<Rightarrow> strmap \<Rightarrow> Taint list \<Rightarrow> bool" where
  "may_schedule ps nodeLabels taints \<longleftrightarrow> labels_match (ps_NodeSelector ps) nodeLabels \<and>
     list_all (\<lambda>tt. tnt_Effect tt \<in> {''NoSchedule'', ''NoExecute''} \<longrightarrow>
       list_ex (\<lambda>t. ToleratesTaint t tt) (ps_Tolerations ps)) taints"

section \<open>Network policies\<close>

text \<open>
  The other end of a connection: a pod (with its namespace, the labels of both, and its named
  ports) or an address outside of the cluster. \<open>ep_LocalNode\<close> marks the pod's own node.
\<close>

record Endpoint =
  ep_IsPod :: bool
  ep_Namespace :: string
  ep_NamespaceLabels :: strmap
  ep_Labels :: strmap
  ep_NamedPorts :: "(string \<times> string \<times> int) list"
  ep_IP :: string
  ep_LocalNode :: bool

text \<open>\<open>in_block\<close> decides whether an address is in a CIDR block without its exceptions.\<close>

definition peer_matches ::
  "(string \<times> string list \<Rightarrow> string \<Rightarrow> bool) \<Rightarrow> string \<Rightarrow> NetworkPolicyPeer \<Rightarrow> Endpoint \<Rightarrow> bool" where
  "peer_matches in_block policyNs peer e =
     (case npe_IPBlock peer of
        Some b \<Rightarrow> in_block b (ep_IP e)
      | None \<Rightarrow> ep_IsPod e \<and>
          (case npe_NamespaceSelector peer of
             Some s \<Rightarrow> selector_matches s (ep_NamespaceLabels e)
           | None \<Rightarrow> ep_Namespace e = policyNs) \<and>
          (case npe_PodSelector peer of
             Some s \<Rightarrow> selector_matches s (ep_Labels e)
           | None \<Rightarrow> True))"

text \<open>\<open>dest\<close> is the end whose port is meant: the pod itself (ingress) or the peer (egress).\<close>

definition port_matches :: "NetworkPolicyPort \<Rightarrow> Endpoint \<Rightarrow> string \<Rightarrow> int \<Rightarrow> bool" where
  "port_matches p dest proto port \<longleftrightarrow>
     (case npp_Protocol p of None \<Rightarrow> ''TCP'' | Some x \<Rightarrow> x) = proto \<and>
     (case npp_Port p of
        None \<Rightarrow> True
      | Some (IntVal n) \<Rightarrow>
          (case npp_EndPort p of None \<Rightarrow> port = n | Some e \<Rightarrow> n \<le> port \<and> port \<le> e)
      | Some (StrVal nm) \<Rightarrow> (nm, proto, port) \<in> set (ep_NamedPorts dest))"

definition ports_match :: "NetworkPolicyPort list \<Rightarrow> Endpoint \<Rightarrow> string \<Rightarrow> int \<Rightarrow> bool" where
  "ports_match ps dest proto port \<longleftrightarrow> ps = [] \<or> list_ex (\<lambda>p. port_matches p dest proto port) ps"

definition peers_match ::
  "(string \<times> string list \<Rightarrow> string \<Rightarrow> bool) \<Rightarrow> string \<Rightarrow> NetworkPolicyPeer list \<Rightarrow> Endpoint \<Rightarrow> bool" where
  "peers_match in_block ns ps e \<longleftrightarrow> ps = [] \<or> list_ex (\<lambda>p. peer_matches in_block ns p e) ps"

definition policy_types :: "NetworkPolicySpec \<Rightarrow> string list" where
  "policy_types s =
     (if nps_PolicyTypes s \<noteq> [] then nps_PolicyTypes s
      else ''Ingress'' # (if nps_Egress s \<noteq> [] then [''Egress''] else []))"

definition policy_selects :: "NetworkPolicy \<Rightarrow> string \<Rightarrow> Endpoint \<Rightarrow> bool" where
  "policy_selects p dir pod \<longleftrightarrow> om_Namespace (np_Meta p) = ep_Namespace pod \<and>
     selector_matches (nps_PodSelector (np_Spec p)) (ep_Labels pod) \<and>
     dir \<in> set (policy_types (np_Spec p))"

definition egress_allowed ::
  "(string \<times> string list \<Rightarrow> string \<Rightarrow> bool) \<Rightarrow> NetworkPolicy list \<Rightarrow> Endpoint \<Rightarrow> Endpoint \<Rightarrow>
     string \<Rightarrow> int \<Rightarrow> bool" where
  "egress_allowed in_block pols pod peer proto port =
     (let sel = filter (\<lambda>p. policy_selects p ''Egress'' pod) pols
      in sel = [] \<or>
         list_ex (\<lambda>p. list_ex (\<lambda>r. ports_match (ner_Ports r) peer proto port \<and>
           peers_match in_block (om_Namespace (np_Meta p)) (ner_To r) peer) (nps_Egress (np_Spec p))) sel)"

definition ingress_allowed ::
  "(string \<times> string list \<Rightarrow> string \<Rightarrow> bool) \<Rightarrow> NetworkPolicy list \<Rightarrow> Endpoint \<Rightarrow> Endpoint \<Rightarrow>
     string \<Rightarrow> int \<Rightarrow> bool" where
  "ingress_allowed in_block pols pod peer proto port =
     (let sel = filter (\<lambda>p. policy_selects p ''Ingress'' pod) pols
      in sel = [] \<or> ep_LocalNode peer \<or>
         list_ex (\<lambda>p. list_ex (\<lambda>r. ports_match (nir_Ports r) pod proto port \<and>
           peers_match in_block (om_Namespace (np_Meta p)) (nir_From r) peer) (nps_Ingress (np_Spec p))) sel)"

section \<open>Facts\<close>

lemma labels_match_empty [simp]: "labels_match fmempty labels"
  by (simp add: labels_match_def)

lemma labels_match_iff: "labels_match want labels \<longleftrightarrow> want \<subseteq>\<^sub>f labels"
  by (auto simp: labels_match_def fmpred_iff fmsubset_alt_def)

lemma labels_match_upd:
  "fmlookup want k = None \<Longrightarrow>
     labels_match (fmupd k v want) labels \<longleftrightarrow> fmlookup labels k = Some v \<and> labels_match want labels"
  by (auto simp: labels_match_def fmpred_iff)

lemma selector_matches_labels [simp]:
  "selector_matches \<lparr>ls_MatchLabels = m, ls_MatchExpressions = []\<rparr> labels = labels_match m labels"
  by (simp add: selector_matches_def)

text \<open>Policies only add permissions to a pod that some policy isolates already.\<close>

lemma egress_allowed_mono:
  assumes "list_ex (\<lambda>p. policy_selects p ''Egress'' pod) pols"
    and "egress_allowed in_block pols pod peer proto port"
  shows "egress_allowed in_block (pols @ extra) pod peer proto port"
  using assms by (auto simp: egress_allowed_def Let_def filter_empty_conv list_ex_iff)

end
