(* ===== verification/Operand_Specs.thy ===== *)
theory Operand_Specs
  imports Operand_Args Kube_Semantics
begin

text \<open>
  The objects the reconciler wants to exist for a \<open>VerticalPodAutoscalerController\<close>: names,
  annotations, pod specifications and deployments of the three operands, the webhook service,
  the CA config map and the default custom resource (the pure methods of
  \<open>verticalpodautoscaler_controller.go\<close>). A method of the reconciler reads only its
  configuration, which is the first argument here.
\<close>

section \<open>Constants\<close>

definition ControllerName :: string where
  [go_defs]: "ControllerName = ''vertical-pod-autoscaler-controller''"
definition DefaultVPAControllerAnnotation :: string where
  [go_defs]: "DefaultVPAControllerAnnotation = ''autoscaling.openshift.io/default-vpa-controller-created''"
definition WebhookServiceName :: string where [go_defs]: "WebhookServiceName = ''vpa-webhook''"
definition WebhookCertSecretName :: string where [go_defs]: "WebhookCertSecretName = ''vpa-tls-certs''"
definition webhookCertAnnotationName :: string where
  [go_defs]: "webhookCertAnnotationName = ''service.beta.openshift.io/serving-cert-secret-name''"
definition cACertAnnotationName :: string where
  [go_defs]: "cACertAnnotationName = ''service.beta.openshift.io/inject-cabundle''"
definition CACertConfigMapName :: string where [go_defs]: "CACertConfigMapName = ''vpa-tls-ca-certs''"
definition AdmissionControllerAppName :: string where
  [go_defs]: "AdmissionControllerAppName = ''vpa-admission-controller''"
definition AdmissionWebhookPort :: int where [go_defs]: "AdmissionWebhookPort = 8000"

text \<open>The default settings; 0.15, 25 and 250 by their IEEE 754 bit patterns.\<close>

definition DefaultSafetyMarginFraction :: float64 where
  "DefaultSafetyMarginFraction = 0x3FC3333333333333"
definition DefaultPodMinCPUMillicores :: float64 where
  "DefaultPodMinCPUMillicores = 0x4039000000000000"
definition DefaultPodMinMemoryMb :: float64 where
  "DefaultPodMinMemoryMb = 0x406F400000000000"
definition DefaultRecommendationOnly :: bool where "DefaultRecommendationOnly = False"
definition DefaultMinReplicas :: int where "DefaultMinReplicas = 2"

text \<open>Quantities in nano-units: \<open>25m\<close> of CPU, \<open>50Mi\<close> and \<open>100Mi\<close> of memory.\<close>

definition requests :: "int \<Rightarrow> int \<Rightarrow> ResourceRequirements" where
  "requests cpuMilli memMi = zero_ResourceRequirements\<lparr>rr_Requests :=
     Some (fmupd ''memory'' (memMi * 2 ^ 20 * 10 ^ 9) (fmupd ''cpu'' (cpuMilli * 10 ^ 6) fmempty))\<rparr>"

definition AdmissionResourceRequirements :: ResourceRequirements where
  "AdmissionResourceRequirements = requests 25 50"
definition RecommenderResourceRequirements :: ResourceRequirements where
  "RecommenderResourceRequirements = requests 25 100"
definition UpdaterResourceRequirements :: ResourceRequirements where
  "UpdaterResourceRequirements = requests 25 100"

section \<open>Names and switches\<close>

definition RecommenderName :: "Config \<Rightarrow> VerticalPodAutoscalerController \<Rightarrow> NamespacedName" where
  "RecommenderName cfg vpa =
     \<lparr>nn_Namespace = cfg_Namespace cfg, nn_Name = ''vpa-recommender-'' @ om_Name (vpa_Meta vpa)\<rparr>"

definition UpdaterName :: "Config \<Rightarrow> VerticalPodAutoscalerController \<Rightarrow> NamespacedName" where
  "UpdaterName cfg vpa =
     \<lparr>nn_Namespace = cfg_Namespace cfg, nn_Name = ''vpa-updater-'' @ om_Name (vpa_Meta vpa)\<rparr>"

definition AdmissionPluginName :: "Config \<Rightarrow> VerticalPodAutoscalerController \<Rightarrow> NamespacedName" where
  "AdmissionPluginName cfg vpa =
     \<lparr>nn_Namespace = cfg_Namespace cfg, nn_Name = ''vpa-admission-plugin-'' @ om_Name (vpa_Meta vpa)\<rparr>"

definition RecommenderEnabled :: "VerticalPodAutoscalerController \<Rightarrow> bool" where
  "RecommenderEnabled vpa = True"

definition UpdaterEnabled :: "VerticalPodAutoscalerController \<Rightarrow> bool" where
  "UpdaterEnabled vpa =
     (case vs_RecommendationOnly (vpa_Spec vpa) of None \<Rightarrow> True | Some b \<Rightarrow> \<not> b)"

definition AdmissionPluginEnabled :: "VerticalPodAutoscalerController \<Rightarrow> bool" where
  "AdmissionPluginEnabled vpa =
     (case vs_RecommendationOnly (vpa_Spec vpa) of None \<Rightarrow> True | Some b \<Rightarrow> \<not> b)"

section \<open>Annotations\<close>

definition UpdateAnnotations :: "Config \<Rightarrow> ObjectMeta \<Rightarrow> ObjectMeta" where
  "UpdateAnnotations cfg obj =
     (let annotations = (case om_Annotations obj of None \<Rightarrow> fmempty | Some a \<Rightarrow> a)
      in obj\<lparr>om_Annotations :=
           Some (fmupd ReleaseVersionAnnotation (cfg_ReleaseVersion cfg) annotations)\<rparr>)"

definition UpdateServiceAnnotations :: "Config \<Rightarrow> ObjectMeta \<Rightarrow> ObjectMeta" where
  "UpdateServiceAnnotations cfg obj =
     (let annotations = (case om_Annotations obj of None \<Rightarrow> fmempty | Some a \<Rightarrow> a);
          annotations = fmupd ReleaseVersionAnnotation (cfg_ReleaseVersion cfg) annotations;
          annotations = fmupd webhookCertAnnotationName WebhookCertSecretName annotations
      in obj\<lparr>om_Annotations := Some annotations\<rparr>)"

definition UpdateConfigMapAnnotations :: "Config \<Rightarrow> ObjectMeta \<Rightarrow> ObjectMeta" where
  "UpdateConfigMapAnnotations cfg obj =
     (let annotations = (case om_Annotations obj of None \<Rightarrow> fmempty | Some a \<Rightarrow> a);
          annotations = fmupd ReleaseVersionAnnotation (cfg_ReleaseVersion cfg) annotations;
          annotations = fmupd cACertAnnotationName ''true'' annotations
      in obj\<lparr>om_Annotations := Some annotations\<rparr>)"

section \<open>Parameters of the operands\<close>

text \<open>
  \<open>ControllerParams\<close> holds methods as fields. The pod specification method takes the parameters
  themselves as its last argument, but no such method reads the field it is stored in, so it
  is given the parameters without that field.
\<close>

record ControllerParamsBase =
  par_Command :: string
  par_NameMethod :: "Config \<Rightarrow> VerticalPodAutoscalerController \<Rightarrow> NamespacedName"
  par_AppName :: string
  par_ServiceAccount :: string
  par_PriorityClassName :: string
  par_GetArgs :: "VerticalPodAutoscalerController \<Rightarrow> Config \<Rightarrow> string list"
  par_EnabledMethod :: "VerticalPodAutoscalerController \<Rightarrow> bool"
  par_ResourceRequirements :: ResourceRequirements

record ControllerParams = ControllerParamsBase +
  par_PodSpecMethod ::
    "Config \<Rightarrow> VerticalPodAutoscalerController \<Rightarrow> ControllerParamsBase \<Rightarrow> PodSpec"

section \<open>Pod specifications\<close>

definition getDefaultNodeSelector :: "Config \<Rightarrow> strmap" where
  "getDefaultNodeSelector cfg =
     (if cfg_IsExternalControlPlane cfg
      then fmupd ''kubernetes.io/os'' ''linux'' fmempty
      else fmupd ''kubernetes.io/os'' ''linux''
             (fmupd ''node-role.kubernetes.io/control-plane'' '''' fmempty))"

definition toleration :: "string \<Rightarrow> string \<Rightarrow> Toleration" where
  "toleration key effect = \<lparr>tol_Key = key, tol_Operator = ''Exists'', tol_Value = '''',
     tol_Effect = effect, tol_TolerationSeconds = None\<rparr>"

definition getDefaultTolerations :: "Config \<Rightarrow> Toleration list" where
  "getDefaultTolerations cfg =
     (let tolerations = [toleration ''CriticalAddonsOnly'' '''']
      in if \<not> cfg_IsExternalControlPlane cfg
         then tolerations
              @ [toleration ''node-role.kubernetes.io/master'' ''NoSchedule'']
              @ [toleration ''node-role.kubernetes.io/control-plane'' ''NoSchedule'']
         else tolerations)"

definition VPAPodSpec ::
  "Config \<Rightarrow> VerticalPodAutoscalerController \<Rightarrow> ControllerParamsBase \<Rightarrow> PodSpec" where
  "VPAPodSpec cfg vpa params =
     (let args = par_GetArgs params vpa cfg;
          args = (if cfg_ExtraArgs cfg \<noteq> '''' then args @ [cfg_ExtraArgs cfg] else args)
      in \<lparr>ps_ServiceAccountName = par_ServiceAccount params,
          ps_DeprecatedServiceAccount = par_ServiceAccount params,
          ps_PriorityClassName = par_PriorityClassName params,
          ps_NodeSelector = getDefaultNodeSelector cfg,
          ps_Containers =
            [\<lparr>c_Name = ''vertical-pod-autoscaler'',
              c_Image = cfg_Image cfg,
              c_ImagePullPolicy = ''Always'',
              c_Command = [par_Command params],
              c_Args = args,
              c_Env = [\<lparr>env_Name = ''NAMESPACE'', env_Value = '''',
                 env_FieldRef = Some \<lparr>ofs_APIVersion = ''v1'', ofs_FieldPath = ''metadata.namespace''\<rparr>,
                 env_rest = fmempty\<rparr>],
              c_Ports = [],
              c_Resources = par_ResourceRequirements params,
              c_VolumeMounts = [],
              c_SecurityContext = Some \<lparr>sc_AllowPrivilegeEscalation = Some False,
                 sc_Capabilities = Some ([], [''ALL'']),
                 sc_RunAsNonRoot = Some True,
                 sc_SeccompProfileType = Some ''RuntimeDefault'',
                 sc_rest = fmempty\<rparr>,
              c_TerminationMessagePath = ''/dev/termination-log'',
              c_TerminationMessagePolicy = ''File'',
              c_rest = fmempty\<rparr>],
          ps_Volumes = [],
          ps_DNSPolicy = ''ClusterFirst'',
          ps_RestartPolicy = ''Always'',
          ps_TerminationGracePeriodSeconds = Some 30,
          ps_SchedulerName = ''default-scheduler'',
          ps_SecurityContext = Some fmempty,
          ps_Tolerations = getDefaultTolerations cfg,
          ps_rest = fmempty\<rparr>)"

text \<open>
  An update of \<open>spec.Containers[0]\<close>; Go panics on an empty slice, and \<open>VPAPodSpec\<close> always has
  one container.
\<close>

definition map_container0 :: "(Container \<Rightarrow> Container) \<Rightarrow> PodSpec \<Rightarrow> PodSpec" where
  "map_container0 f spec = spec\<lparr>ps_Containers :=
     (case ps_Containers spec of [] \<Rightarrow> [] | c # cs \<Rightarrow> f c # cs)\<rparr>"

text \<open>The four override steps the three pod specification methods share, in their order.\<close>

definition apply_overrides :: "DeploymentOverride \<Rightarrow> PodSpec \<Rightarrow> PodSpec" where
  "apply_overrides ov spec =
     (let res = cov_Resources (do_Container ov);
          user = cov_Args (do_Container ov);
          spec = (if res \<noteq> zero_ResourceRequirements
                  then map_container0 (\<lambda>c. c\<lparr>c_Resources := res\<rparr>) spec else spec);
          spec = (if length user > 0
                  then map_container0 (\<lambda>c. c\<lparr>c_Args := c_Args c @ user\<rparr>) spec else spec);
          spec = (if do_NodeSelector ov \<noteq> fmempty
                  then spec\<lparr>ps_NodeSelector := do_NodeSelector ov\<rparr> else spec);
          spec = (if length (do_Tolerations ov) > 0
                  then spec\<lparr>ps_Tolerations := do_Tolerations ov\<rparr> else spec)
      in spec)"

definition RecommenderControllerPodSpec ::
  "Config \<Rightarrow> VerticalPodAutoscalerController \<Rightarrow> ControllerParamsBase \<Rightarrow> PodSpec" where
  "RecommenderControllerPodSpec cfg vpa params =
     apply_overrides (dos_Recommender (vs_DeploymentOverrides (vpa_Spec vpa))) (VPAPodSpec cfg vpa params)"

definition UpdaterControllerPodSpec ::
  "Config \<Rightarrow> VerticalPodAutoscalerController \<Rightarrow> ControllerParamsBase \<Rightarrow> PodSpec" where
  "UpdaterControllerPodSpec cfg vpa params =
     apply_overrides (dos_Updater (vs_DeploymentOverrides (vpa_Spec vpa))) (VPAPodSpec cfg vpa params)"

definition AdmissionControllerPodSpec ::
  "Config \<Rightarrow> VerticalPodAutoscalerController \<Rightarrow> ControllerParamsBase \<Rightarrow> PodSpec" where
  "AdmissionControllerPodSpec cfg vpa params =
     (let spec = apply_overrides (dos_Admission (vs_DeploymentOverrides (vpa_Spec vpa)))
                   (VPAPodSpec cfg vpa params);
          spec = map_container0 (\<lambda>c. c\<lparr>c_Ports := c_Ports c @
                   [\<lparr>cp_Name = '''', cp_HostPort = 0, cp_ContainerPort = AdmissionWebhookPort,
                     cp_Protocol = ''TCP'', cp_HostIP = ''''\<rparr>]\<rparr>) spec;
          spec = map_container0 (\<lambda>c. c\<lparr>c_VolumeMounts := c_VolumeMounts c @
                   [\<lparr>vm_Name = ''tls-certs'', vm_ReadOnly = True, vm_MountPath = ''/data/tls-certs'',
                     vm_rest = fmempty\<rparr>]\<rparr>) spec;
          spec = map_container0 (\<lambda>c. c\<lparr>c_VolumeMounts := c_VolumeMounts c @
                   [\<lparr>vm_Name = ''tls-ca-certs'', vm_ReadOnly = True, vm_MountPath = ''/data/tls-ca-certs'',
                     vm_rest = fmempty\<rparr>]\<rparr>) spec;
          spec = spec\<lparr>ps_Volumes := ps_Volumes spec @
                   [\<lparr>vol_Name = ''tls-certs'', vol_Source = SecretVolume WebhookCertSecretName (Some 420)\<rparr>]\<rparr>;
          spec = spec\<lparr>ps_Volumes := ps_Volumes spec @
                   [\<lparr>vol_Name = ''tls-ca-certs'', vol_Source = ConfigMapVolume CACertConfigMapName (Some 420)\<rparr>]\<rparr>
      in spec)"

section \<open>The table of operands\<close>

definition recommender_params :: ControllerParams where
  "recommender_params =
     \<lparr>par_Command = ''recommender'', par_NameMethod = RecommenderName,
      par_AppName = ''vpa-recommender'', par_ServiceAccount = ''vpa-recommender'',
      par_PriorityClassName = ''system-cluster-critical'', par_GetArgs = RecommenderArgs,
      par_EnabledMethod = RecommenderEnabled, par_ResourceRequirements = RecommenderResourceRequirements,
      par_PodSpecMethod = RecommenderControllerPodSpec\<rparr>"

definition updater_params :: ControllerParams where
  "updater_params =
     \<lparr>par_Command = ''updater'', par_NameMethod = UpdaterName,
      par_AppName = ''vpa-updater'', par_ServiceAccount = ''vpa-updater'',
      par_PriorityClassName = ''system-cluster-critical'', par_GetArgs = UpdaterArgs,
      par_EnabledMethod = UpdaterEnabled, par_ResourceRequirements = UpdaterResourceRequirements,
      par_PodSpecMethod = UpdaterControllerPodSpec\<rparr>"

definition admission_params :: ControllerParams where
  "admission_params =
     \<lparr>par_Command = ''admission-controller'', par_NameMethod = AdmissionPluginName,
      par_AppName = AdmissionControllerAppName, par_ServiceAccount = ''vpa-admission-controller'',
      par_PriorityClassName = ''system-cluster-critical'', par_GetArgs = AdmissionPluginArgs,
      par_EnabledMethod = AdmissionPluginEnabled, par_ResourceRequirements = AdmissionResourceRequirements,
      par_PodSpecMethod = AdmissionControllerPodSpec\<rparr>"

definition controllerParams :: "ControllerParams list" where
  "controllerParams = [recommender_params, updater_params, admission_params]"

text \<open>A call of the stored pod specification method on the parameters it is stored in.\<close>

definition PodSpecMethod :: "Config \<Rightarrow> VerticalPodAutoscalerController \<Rightarrow> ControllerParams \<Rightarrow> PodSpec" where
  "PodSpecMethod cfg vpa params =
     par_PodSpecMethod params cfg vpa (ControllerParamsBase.truncate params)"

section \<open>Deployments, service, config map, default resource\<close>

definition AutoscalerDeployment ::
  "Config \<Rightarrow> VerticalPodAutoscalerController \<Rightarrow> ControllerParams \<Rightarrow> Deployment" where
  "AutoscalerDeployment cfg vpa params =
     (let namespacedName = par_NameMethod params cfg vpa;
          labels = fmupd ''app'' (par_AppName params)
                     (fmupd ''vertical-pod-autoscaler'' (om_Name (vpa_Meta vpa)) fmempty);
          annotations = fmupd ReleaseVersionAnnotation (cfg_ReleaseVersion cfg) fmempty;
          podSpec = PodSpecMethod cfg vpa params;
          replicas = (if \<not> par_EnabledMethod params vpa then 0 else 1)
      in \<lparr>dep_TypeMeta = \<lparr>tm_APIVersion = ''apps/v1'', tm_Kind = ''Deployment''\<rparr>,
          dep_Meta = zero_ObjectMeta\<lparr>om_Name := nn_Name namespacedName,
             om_Namespace := nn_Namespace namespacedName, om_Annotations := Some annotations\<rparr>,
          dep_Replicas = Some replicas,
          dep_Selector = Some \<lparr>ls_MatchLabels = labels, ls_MatchExpressions = []\<rparr>,
          dep_Template = \<lparr>pt_Meta = zero_ObjectMeta\<lparr>om_Labels := Some labels,
                            om_Annotations := Some annotations\<rparr>,
                          pt_Spec = podSpec\<rparr>,
          dep_SpecRest = fmempty,
          dep_Status = zero_DeploymentStatus\<rparr>)"

definition DefaultVPAController :: "Config \<Rightarrow> VerticalPodAutoscalerController" where
  "DefaultVPAController cfg =
     \<lparr>vpa_TypeMeta = zero_TypeMeta,
      vpa_Meta = zero_ObjectMeta\<lparr>om_Name := cfg_Name cfg, om_Namespace := cfg_Namespace cfg\<rparr>,
      vpa_Spec = zero_VPASpec\<lparr>vs_SafetyMarginFraction := Some DefaultSafetyMarginFraction,
        vs_PodMinCPUMillicores := Some DefaultPodMinCPUMillicores,
        vs_PodMinMemoryMb := Some DefaultPodMinMemoryMb,
        vs_RecommendationOnly := Some DefaultRecommendationOnly,
        vs_MinReplicas := Some DefaultMinReplicas\<rparr>\<rparr>"

definition WebhookService :: "Config \<Rightarrow> VerticalPodAutoscalerController \<Rightarrow> Service" where
  "WebhookService cfg vpa =
     (let service =
        \<lparr>svc_TypeMeta = \<lparr>tm_APIVersion = ''core/v1'', tm_Kind = ''Service''\<rparr>,
         svc_Meta = zero_ObjectMeta\<lparr>om_Name := WebhookServiceName, om_Namespace := cfg_Namespace cfg\<rparr>,
         svc_Ports = [\<lparr>sp_Name = '''', sp_Protocol = ''TCP'', sp_AppProtocol = None, sp_Port = 443,
                       sp_TargetPort = IntVal AdmissionWebhookPort, sp_NodePort = 0\<rparr>],
         svc_Selector = fmupd ''app'' AdmissionControllerAppName fmempty,
         svc_SpecRest = fmempty, svc_StatusRest = fmempty\<rparr>
      in service\<lparr>svc_Meta := UpdateServiceAnnotations cfg (svc_Meta service)\<rparr>)"

definition CAConfigMap :: "Config \<Rightarrow> VerticalPodAutoscalerController \<Rightarrow> ConfigMap" where
  "CAConfigMap cfg vpa =
     (let cm =
        \<lparr>cm_TypeMeta = \<lparr>tm_APIVersion = ''core/v1'', tm_Kind = ''ConfigMap''\<rparr>,
         cm_Meta = zero_ObjectMeta\<lparr>om_Name := CACertConfigMapName, om_Namespace := cfg_Namespace cfg\<rparr>,
         cm_Data = fmempty, cm_rest = fmempty\<rparr>
      in cm\<lparr>cm_Meta := UpdateConfigMapAnnotations cfg (cm_Meta cm)\<rparr>)"

end
