(* ===== verification/Operand_Props.thy ===== *)
theory Operand_Props
  imports Operand_Specs
begin

text \<open>
  Properties of the objects of theory \<open>Operand_Specs\<close>: what the user's overrides do, where the
  operands run, how the webhook's service, certificate, port and pods fit together, and that
  the operands stay apart.
\<close>

section \<open>Overrides\<close>

lemma map_container0_simps [simp]:
  "ps_Containers spec = [c] \<Longrightarrow> ps_Containers (map_container0 f spec) = [f c]"
  "ps_NodeSelector (map_container0 f spec) = ps_NodeSelector spec"
  "ps_Tolerations (map_container0 f spec) = ps_Tolerations spec"
  "ps_Volumes (map_container0 f spec) = ps_Volumes spec"
  by (simp_all add: map_container0_def)

lemma apply_overrides_simps:
  "ps_Containers spec = [c] \<Longrightarrow> ps_Containers (apply_overrides ov spec) =
     [c\<lparr>c_Resources := (if cov_Resources (do_Container ov) = zero_ResourceRequirements
          then c_Resources c else cov_Resources (do_Container ov)),
        c_Args := c_Args c @ cov_Args (do_Container ov)\<rparr>]"
  "ps_NodeSelector (apply_overrides ov spec) =
     (if do_NodeSelector ov = fmempty then ps_NodeSelector spec else do_NodeSelector ov)"
  "ps_Tolerations (apply_overrides ov spec) =
     (if do_Tolerations ov = [] then ps_Tolerations spec else do_Tolerations ov)"
  "ps_Volumes (apply_overrides ov spec) = ps_Volumes spec"
  by (simp_all add: apply_overrides_def Let_def)

definition webhook_port :: ContainerPort where
  "webhook_port = \<lparr>cp_Name = '''', cp_HostPort = 0, cp_ContainerPort = AdmissionWebhookPort,
     cp_Protocol = ''TCP'', cp_HostIP = ''''\<rparr>"

definition webhook_mounts :: "VolumeMount list" where
  "webhook_mounts =
     [\<lparr>vm_Name = ''tls-certs'', vm_ReadOnly = True, vm_MountPath = ''/data/tls-certs'', vm_rest = fmempty\<rparr>,
      \<lparr>vm_Name = ''tls-ca-certs'', vm_ReadOnly = True, vm_MountPath = ''/data/tls-ca-certs'',
       vm_rest = fmempty\<rparr>]"

definition webhook_volumes :: "Volume list" where
  "webhook_volumes =
     [\<lparr>vol_Name = ''tls-certs'', vol_Source = SecretVolume WebhookCertSecretName (Some 420)\<rparr>,
      \<lparr>vol_Name = ''tls-ca-certs'', vol_Source = ConfigMapVolume CACertConfigMapName (Some 420)\<rparr>]"

lemma AdmissionControllerPodSpec_simps:
  assumes spec: "spec = apply_overrides (dos_Admission (vs_DeploymentOverrides (vpa_Spec vpa)))
      (VPAPodSpec cfg vpa params)"
  shows "ps_Containers spec = [c] \<Longrightarrow> ps_Containers (AdmissionControllerPodSpec cfg vpa params) =
      [c\<lparr>c_Ports := c_Ports c @ [webhook_port], c_VolumeMounts := c_VolumeMounts c @ webhook_mounts\<rparr>]"
    "ps_NodeSelector (AdmissionControllerPodSpec cfg vpa params) = ps_NodeSelector spec"
    "ps_Tolerations (AdmissionControllerPodSpec cfg vpa params) = ps_Tolerations spec"
    "ps_Volumes (AdmissionControllerPodSpec cfg vpa params) = ps_Volumes spec @ webhook_volumes"
  by (simp_all add: AdmissionControllerPodSpec_def Let_def flip: spec)
    (simp_all add: webhook_port_def webhook_mounts_def webhook_volumes_def)

definition operator_args :: "Config \<Rightarrow> VerticalPodAutoscalerController \<Rightarrow> ControllerParamsBase \<Rightarrow> string list" where
  "operator_args cfg vpa params =
     par_GetArgs params vpa cfg @ (if cfg_ExtraArgs cfg = '''' then [] else [cfg_ExtraArgs cfg])"

lemma VPAPodSpec_simps:
  "\<exists>c. ps_Containers (VPAPodSpec cfg vpa params) = [c] \<and> c_Args c = operator_args cfg vpa params \<and>
     c_Resources c = par_ResourceRequirements params \<and> c_Ports c = [] \<and> c_VolumeMounts c = [] \<and>
     c_Image c = cfg_Image cfg \<and> c_Command c = [par_Command params] \<and>
     c_SecurityContext c = Some \<lparr>sc_AllowPrivilegeEscalation = Some False,
       sc_Capabilities = Some ([], [''ALL'']), sc_RunAsNonRoot = Some True,
       sc_SeccompProfileType = Some ''RuntimeDefault'', sc_rest = fmempty\<rparr>"
  "ps_NodeSelector (VPAPodSpec cfg vpa params) = getDefaultNodeSelector cfg"
  "ps_Tolerations (VPAPodSpec cfg vpa params) = getDefaultTolerations cfg"
  "ps_Volumes (VPAPodSpec cfg vpa params) = []"
  by (simp_all add: VPAPodSpec_def Let_def operator_args_def)

text \<open>Each operand with the override of the custom resource that is meant for it.\<close>

definition operands :: "(ControllerParams \<times> (DeploymentOverrides \<Rightarrow> DeploymentOverride)) list" where
  "operands = [(recommender_params, dos_Recommender), (updater_params, dos_Updater),
     (admission_params, dos_Admission)]"

lemma map_fst_operands: "map fst operands = controllerParams"
  by (simp add: operands_def controllerParams_def)

text \<open>The pod specification of every operand, by the fields that overrides can touch.\<close>

lemma operand_podspec:
  assumes "(params, sel) \<in> set operands"
    and "ov = sel (vs_DeploymentOverrides (vpa_Spec vpa))"
  obtains c where
    "ps_Containers (PodSpecMethod cfg vpa params) = [c]"
    "c_Args c = operator_args cfg vpa (ControllerParamsBase.truncate params) @ cov_Args (do_Container ov)"
    "c_Resources c = (if cov_Resources (do_Container ov) = zero_ResourceRequirements
        then par_ResourceRequirements params else cov_Resources (do_Container ov))"
    "c_SecurityContext c = Some \<lparr>sc_AllowPrivilegeEscalation = Some False,
       sc_Capabilities = Some ([], [''ALL'']), sc_RunAsNonRoot = Some True,
       sc_SeccompProfileType = Some ''RuntimeDefault'', sc_rest = fmempty\<rparr>"
    "ps_NodeSelector (PodSpecMethod cfg vpa params) =
       (if do_NodeSelector ov = fmempty then getDefaultNodeSelector cfg else do_NodeSelector ov)"
    "ps_Tolerations (PodSpecMethod cfg vpa params) =
       (if do_Tolerations ov = [] then getDefaultTolerations cfg else do_Tolerations ov)"
proof -
  let ?b = "ControllerParamsBase.truncate params"
  obtain c where c: "ps_Containers (VPAPodSpec cfg vpa ?b) = [c]" "c_Args c = operator_args cfg vpa ?b"
      "c_Resources c = par_ResourceRequirements ?b"
      "c_SecurityContext c = Some \<lparr>sc_AllowPrivilegeEscalation = Some False,
       sc_Capabilities = Some ([], [''ALL'']), sc_RunAsNonRoot = Some True,
       sc_SeccompProfileType = Some ''RuntimeDefault'', sc_rest = fmempty\<rparr>"
    using VPAPodSpec_simps(1) by blast
  consider "params = recommender_params" "ov = dos_Recommender (vs_DeploymentOverrides (vpa_Spec vpa))"
    | "params = updater_params" "ov = dos_Updater (vs_DeploymentOverrides (vpa_Spec vpa))"
    | "params = admission_params" "ov = dos_Admission (vs_DeploymentOverrides (vpa_Spec vpa))"
    using assms by (auto simp: operands_def)
  note p = this
  have trunc: "par_ResourceRequirements ?b = par_ResourceRequirements params"
    by (simp add: ControllerParamsBase.truncate_def)
  have spec: "PodSpecMethod cfg vpa params =
      (if params = admission_params then AdmissionControllerPodSpec cfg vpa ?b
       else apply_overrides ov (VPAPodSpec cfg vpa ?b))"
    using p
    by cases (simp_all add: PodSpecMethod_def recommender_params_def updater_params_def
        admission_params_def RecommenderControllerPodSpec_def UpdaterControllerPodSpec_def)
  note ao = apply_overrides_simps(1) [OF c(1), of ov]
  show thesis
  proof (cases "params = admission_params")
    case True
    then have "ov = dos_Admission (vs_DeploymentOverrides (vpa_Spec vpa))"
      using p by cases (simp_all add: recommender_params_def updater_params_def admission_params_def)
    then have eq: "apply_overrides ov (VPAPodSpec cfg vpa ?b) =
        apply_overrides (dos_Admission (vs_DeploymentOverrides (vpa_Spec vpa))) (VPAPodSpec cfg vpa ?b)"
      by simp
    have adm_spec: "PodSpecMethod cfg vpa params = AdmissionControllerPodSpec cfg vpa ?b"
      using spec True by simp
    show thesis
      using that [unfolded adm_spec, OF AdmissionControllerPodSpec_simps(1) [OF eq ao]]
      by (simp add: AdmissionControllerPodSpec_simps(2,3) [OF eq] c(2-4) trunc
          VPAPodSpec_simps(2,3) apply_overrides_simps(2,3))
  next
    case False
    then have spec': "PodSpecMethod cfg vpa params = apply_overrides ov (VPAPodSpec cfg vpa ?b)"
      using spec by simp
    show thesis
      using that [unfolded spec', OF ao]
      by (simp add: c(2-4) trunc VPAPodSpec_simps(2,3) apply_overrides_simps(2,3))
  qed
qed

text \<open>
  C35: Every operand gets exactly one container, and the user's overrides win field by field:
  the value each command line flag ends up with is the user's when the user sets the flag and
  the operator's otherwise; resources, node selector and tolerations are replaced when given
  and keep the operator's defaults when not.
\<close>

theorem user_overrides_win:
  "list_all (\<lambda>(params, sel).
     let ov = sel (vs_DeploymentOverrides (vpa_Spec vpa)); spec = PodSpecMethod cfg vpa params
     in \<exists>c. ps_Containers spec = [c] \<and>
          (\<forall>flag. effective (c_Args c) flag =
             (case effective (cov_Args (do_Container ov)) flag of
                Some v \<Rightarrow> Some v
              | None \<Rightarrow> effective (operator_args cfg vpa (ControllerParamsBase.truncate params)) flag)) \<and>
          c_Resources c = (if cov_Resources (do_Container ov) = zero_ResourceRequirements
             then par_ResourceRequirements params else cov_Resources (do_Container ov)) \<and>
          ps_NodeSelector spec =
            (if do_NodeSelector ov = fmempty then getDefaultNodeSelector cfg else do_NodeSelector ov) \<and>
          ps_Tolerations spec =
            (if do_Tolerations ov = [] then getDefaultTolerations cfg else do_Tolerations ov)) operands"
proof (unfold list_all_iff, intro ballI, clarify)
  fix params sel
  assume mem: "(params, sel) \<in> set operands"
  let ?ov = "sel (vs_DeploymentOverrides (vpa_Spec vpa))"
  obtain c where c: "ps_Containers (PodSpecMethod cfg vpa params) = [c]"
    "c_Args c = operator_args cfg vpa (ControllerParamsBase.truncate params) @ cov_Args (do_Container ?ov)"
    "c_Resources c = (if cov_Resources (do_Container ?ov) = zero_ResourceRequirements
        then par_ResourceRequirements params else cov_Resources (do_Container ?ov))"
    "ps_NodeSelector (PodSpecMethod cfg vpa params) =
       (if do_NodeSelector ?ov = fmempty then getDefaultNodeSelector cfg else do_NodeSelector ?ov)"
    "ps_Tolerations (PodSpecMethod cfg vpa params) =
       (if do_Tolerations ?ov = [] then getDefaultTolerations cfg else do_Tolerations ?ov)"
    by (rule operand_podspec [OF mem refl])
  show "let ov = ?ov; spec = PodSpecMethod cfg vpa params
     in \<exists>c. ps_Containers spec = [c] \<and>
          (\<forall>flag. effective (c_Args c) flag =
             (case effective (cov_Args (do_Container ov)) flag of
                Some v \<Rightarrow> Some v
              | None \<Rightarrow> effective (operator_args cfg vpa (ControllerParamsBase.truncate params)) flag)) \<and>
          c_Resources c = (if cov_Resources (do_Container ov) = zero_ResourceRequirements
             then par_ResourceRequirements params else cov_Resources (do_Container ov)) \<and>
          ps_NodeSelector spec =
            (if do_NodeSelector ov = fmempty then getDefaultNodeSelector cfg else do_NodeSelector ov) \<and>
          ps_Tolerations spec =
            (if do_Tolerations ov = [] then getDefaultTolerations cfg else do_Tolerations ov)"
    unfolding Let_def
    by (intro exI [of _ c] conjI allI c(1,3-5)) (simp add: c(2) effective_append split: option.split)
qed

text \<open>
  The admission controller always runs with a client rate limit and a burst limit: the
  user's when the user gives one (\<open>--kube-api-qps=\<close>, \<open>--kube-api-burst=\<close>), else 25.0 and 50.0,
  unless the operator's extra arguments give one.
\<close>

theorem admission_rate_limits:
  assumes "cfg_ExtraArgs cfg = ''''"
  shows "\<exists>c. ps_Containers (PodSpecMethod cfg vpa admission_params) = [c] \<and>
    (let user = cov_Args (do_Container (dos_Admission (vs_DeploymentOverrides (vpa_Spec vpa))))
     in effective (c_Args c) ''--kube-api-qps'' =
          (if ArgExists user ''--kube-api-qps'' then effective user ''--kube-api-qps'' else Some ''25.0'') \<and>
        effective (c_Args c) ''--kube-api-burst'' =
          (if ArgExists user ''--kube-api-burst'' then effective user ''--kube-api-burst'' else Some ''50.0''))"
proof -
  have "(admission_params, dos_Admission) \<in> set operands" by (simp add: operands_def)
  then obtain c where c: "ps_Containers (PodSpecMethod cfg vpa admission_params) = [c]"
    "c_Args c = operator_args cfg vpa (ControllerParamsBase.truncate admission_params) @
       cov_Args (do_Container (dos_Admission (vs_DeploymentOverrides (vpa_Spec vpa))))"
    by (rule operand_podspec [OF _ refl])
  have "operator_args cfg vpa (ControllerParamsBase.truncate admission_params) = AdmissionPluginArgs vpa cfg"
    using assms by (simp add: operator_args_def admission_params_def ControllerParamsBase.truncate_def)
  with c show ?thesis
    by (intro exI [of _ c])
      (simp add: effective_append_if AdmissionPluginArgs_rate [OF refl] Let_def)
qed

text \<open>Inputs of the witnesses.\<close>

definition example_cfg :: Config where
  "example_cfg = \<lparr>cfg_ReleaseVersion = ''4.20'', cfg_Name = ''default'', cfg_Namespace = ''vpa'',
     cfg_Image = ''vpa:1'', cfg_Verbosity = 1, cfg_ExtraArgs = '''', cfg_TLSProfileSpec = None,
     cfg_IsExternalControlPlane = False\<rparr>"

definition example_vpa :: VerticalPodAutoscalerController where
  "example_vpa = \<lparr>vpa_TypeMeta = zero_TypeMeta,
     vpa_Meta = zero_ObjectMeta\<lparr>om_Name := ''default'', om_Namespace := ''vpa'', om_UID := ''u1'',
       om_ResourceVersion := ''1''\<rparr>,
     vpa_Spec = zero_VPASpec\<rparr>"

theorem admission_rate_limits_witness:
  "\<exists>c. ps_Containers (PodSpecMethod example_cfg example_vpa admission_params) = [c] \<and>
     effective (c_Args c) ''--kube-api-qps'' = Some ''25.0''"
proof -
  have "cfg_ExtraArgs example_cfg = ''''" by (simp add: example_cfg_def)
  from admission_rate_limits [OF this, of example_vpa] show ?thesis
    by (auto simp: Let_def example_vpa_def zero_VPASpec_def zero_DeploymentOverride_def ArgExists_def)
qed

definition restricted :: "Container \<Rightarrow> bool" where
  "restricted c = (case c_SecurityContext c of
     None \<Rightarrow> False
   | Some s \<Rightarrow> sc_AllowPrivilegeEscalation s = Some False \<and> sc_RunAsNonRoot s = Some True \<and>
       sc_SeccompProfileType s \<in> {Some ''RuntimeDefault'', Some ''Localhost''} \<and>
       (case sc_Capabilities s of None \<Rightarrow> False
        | Some (add, drp) \<Rightarrow> ''ALL'' \<in> set drp \<and> set add \<subseteq> {''NET_BIND_SERVICE''}))"

text \<open>
  C36: No override weakens the security context of an operand: every container of every operand
  runs as non-root, without privilege escalation, with all capabilities dropped and the default
  seccomp profile, as the restricted pod security standard requires.
\<close>

theorem operands_restricted:
  "list_all (\<lambda>params. list_all restricted (ps_Containers (PodSpecMethod cfg vpa params)) \<and>
     ps_Containers (PodSpecMethod cfg vpa params) \<noteq> []) controllerParams"
proof -
  have "list_all restricted (ps_Containers (PodSpecMethod cfg vpa params)) \<and>
      ps_Containers (PodSpecMethod cfg vpa params) \<noteq> []"
    if "(params, sel) \<in> set operands" for params sel
    by (rule operand_podspec [OF that refl, where vpa = vpa and cfg = cfg]) (simp add: restricted_def)
  from this [of recommender_params dos_Recommender] this [of updater_params dos_Updater]
    this [of admission_params dos_Admission]
  show ?thesis
    by (simp add: operands_def controllerParams_def)
qed

section \<open>Placement\<close>

lemma ToleratesTaint_toleration:
  "ToleratesTaint (toleration k e) tt \<longleftrightarrow>
     (e = '''' \<or> e = tnt_Effect tt) \<and> (k = '''' \<or> k = tnt_Key tt)"
  by (auto simp: toleration_def ToleratesTaint_def)

lemma labels_match_default_selector:
  "labels_match (getDefaultNodeSelector cfg) labels \<longleftrightarrow>
     fmlookup labels ''kubernetes.io/os'' = Some ''linux'' \<and>
     (\<not> cfg_IsExternalControlPlane cfg \<longrightarrow>
        fmlookup labels ''node-role.kubernetes.io/control-plane'' = Some '''')"
  by (auto simp: getDefaultNodeSelector_def labels_match_upd)

lemma default_tolerations_tolerate:
  "list_ex (\<lambda>t. ToleratesTaint t tt) (getDefaultTolerations cfg) \<longleftrightarrow>
     tnt_Key tt = ''CriticalAddonsOnly'' \<or>
     \<not> cfg_IsExternalControlPlane cfg \<and> tnt_Effect tt = ''NoSchedule'' \<and>
       tnt_Key tt \<in> {''node-role.kubernetes.io/master'', ''node-role.kubernetes.io/control-plane''}"
  by (auto simp: getDefaultTolerations_def ToleratesTaint_toleration Let_def)

text \<open>
  Without placement overrides, an operand may run on exactly these nodes. With a standard
  control plane: Linux control plane nodes whose repelling taints are \<open>CriticalAddonsOnly\<close> or
  the master and control-plane NoSchedule taints. With an external control plane: Linux nodes
  whose repelling taints are \<open>CriticalAddonsOnly\<close>, control plane label or not.
\<close>

theorem default_placement:
  assumes "(params, sel) \<in> set operands"
    and "do_NodeSelector (sel (vs_DeploymentOverrides (vpa_Spec vpa))) = fmempty"
    and "do_Tolerations (sel (vs_DeploymentOverrides (vpa_Spec vpa))) = []"
  shows "may_schedule (PodSpecMethod cfg vpa params) labels taints \<longleftrightarrow>
    fmlookup labels ''kubernetes.io/os'' = Some ''linux'' \<and>
    (cfg_IsExternalControlPlane cfg \<or>
       fmlookup labels ''node-role.kubernetes.io/control-plane'' = Some '''') \<and>
    (\<forall>tt \<in> set taints. tnt_Effect tt \<in> {''NoSchedule'', ''NoExecute''} \<longrightarrow>
       tnt_Key tt = ''CriticalAddonsOnly'' \<or>
       \<not> cfg_IsExternalControlPlane cfg \<and> tnt_Effect tt = ''NoSchedule'' \<and>
         tnt_Key tt \<in> {''node-role.kubernetes.io/master'', ''node-role.kubernetes.io/control-plane''})"
proof -
  have "ps_NodeSelector (PodSpecMethod cfg vpa params) = getDefaultNodeSelector cfg \<and>
      ps_Tolerations (PodSpecMethod cfg vpa params) = getDefaultTolerations cfg"
    by (rule operand_podspec [OF assms(1) refl, where vpa = vpa and cfg = cfg]) (simp add: assms(2,3))
  then show ?thesis
    unfolding may_schedule_def list_all_iff
    by (simp only: labels_match_default_selector default_tolerations_tolerate) blast
qed

theorem default_placement_witness:
  "may_schedule (PodSpecMethod example_cfg example_vpa updater_params)
     (fmap_of_list [(''kubernetes.io/os'', ''linux''), (''node-role.kubernetes.io/control-plane'', '''')])
     [\<lparr>tnt_Key = ''node-role.kubernetes.io/master'', tnt_Value = '''', tnt_Effect = ''NoSchedule''\<rparr>]"
proof -
  have "(updater_params, dos_Updater) \<in> set operands" by (simp add: operands_def)
  moreover have "do_NodeSelector (dos_Updater (vs_DeploymentOverrides (vpa_Spec example_vpa))) = fmempty"
    "do_Tolerations (dos_Updater (vs_DeploymentOverrides (vpa_Spec example_vpa))) = []"
    by (simp_all add: example_vpa_def zero_VPASpec_def zero_DeploymentOverride_def)
  ultimately show ?thesis
    by (subst default_placement) (simp_all add: example_cfg_def fmlookup_of_list)
qed

section \<open>The operands fit together and stay apart\<close>

lemma operand_labels:
  "nilmap (om_Labels (pt_Meta (dep_Template (AutoscalerDeployment cfg vpa params)))) =
     fmupd ''app'' (par_AppName params)
       (fmupd ''vertical-pod-autoscaler'' (om_Name (vpa_Meta vpa)) fmempty)"
  by (simp add: AutoscalerDeployment_def Let_def)

lemma app_names:
  "par_AppName recommender_params = ''vpa-recommender''" "par_AppName updater_params = ''vpa-updater''"
  "par_AppName admission_params = ''vpa-admission-controller''"
  by (simp_all add: recommender_params_def updater_params_def admission_params_def go_defs)

lemma WebhookService_simps:
  "svc_Selector (WebhookService cfg vpa) = fmupd ''app'' AdmissionControllerAppName fmempty"
  "svc_Ports (WebhookService cfg vpa) =
     [\<lparr>sp_Name = '''', sp_Protocol = ''TCP'', sp_AppProtocol = None, sp_Port = 443,
       sp_TargetPort = IntVal AdmissionWebhookPort, sp_NodePort = 0\<rparr>]"
  "fmlookup (nilmap (om_Annotations (svc_Meta (WebhookService cfg vpa)))) webhookCertAnnotationName =
     Some WebhookCertSecretName"
  by (simp_all add: WebhookService_def Let_def UpdateServiceAnnotations_def zero_ObjectMeta_def)

lemma admission_webhook_container:
  "\<exists>c. ps_Containers (PodSpecMethod cfg vpa admission_params) = [c] \<and>
     c_Ports c = [webhook_port] \<and> c_VolumeMounts c = webhook_mounts"
  "ps_Volumes (PodSpecMethod cfg vpa admission_params) = webhook_volumes"
proof -
  let ?b = "ControllerParamsBase.truncate admission_params"
  have eq: "PodSpecMethod cfg vpa admission_params = AdmissionControllerPodSpec cfg vpa ?b"
    by (simp add: PodSpecMethod_def admission_params_def)
  obtain c where c: "ps_Containers (VPAPodSpec cfg vpa ?b) = [c]" "c_Ports c = []" "c_VolumeMounts c = []"
    using VPAPodSpec_simps(1) by blast
  show "\<exists>c. ps_Containers (PodSpecMethod cfg vpa admission_params) = [c] \<and>
     c_Ports c = [webhook_port] \<and> c_VolumeMounts c = webhook_mounts"
    unfolding eq AdmissionControllerPodSpec_simps(1) [OF refl apply_overrides_simps(1) [OF c(1)]]
    using c(2,3) by simp
  show "ps_Volumes (PodSpecMethod cfg vpa admission_params) = webhook_volumes"
    unfolding eq AdmissionControllerPodSpec_simps(4) [OF refl]
    by (simp add: apply_overrides_simps(4) VPAPodSpec_simps(4))
qed

lemma operand_verbosity:
  assumes "(params, sel) \<in> set operands"
  shows "effective (par_GetArgs params vpa cfg) ''--v'' = Some (int_text (cfg_Verbosity cfg))"
proof -
  have "effective (rate_args user) ''--v'' = None \<and> effective (tls_args cfg) ''--v'' = None" for user
    by (cases "cfg_TLSProfileSpec cfg") (auto simp: rate_args_def tls_args_def args_eval)
  then have "effective (AdmissionPluginArgs vpa cfg) ''--v'' = Some (int_text (cfg_Verbosity cfg))"
    unfolding AdmissionPluginArgs_parts effective_append by (simp add: args_eval)
  moreover have "effective (RecommenderArgs vpa cfg) ''--v'' = Some (int_text (cfg_Verbosity cfg))"
    "effective (UpdaterArgs vpa cfg) ''--v'' = Some (int_text (cfg_Verbosity cfg))"
    by (auto simp: RecommenderArgs_def UpdaterArgs_def Let_def args_eval split: option.split)
  ultimately show ?thesis
    using assms by (auto simp: operands_def recommender_params_def updater_params_def admission_params_def)
qed

lemma AdmissionPluginArgs_cert_files:
  "effective (AdmissionPluginArgs vpa cfg) ''--tls-cert-file'' = Some ''/data/tls-certs/tls.crt''"
  "effective (AdmissionPluginArgs vpa cfg) ''--tls-private-key'' = Some ''/data/tls-certs/tls.key''"
  "effective (AdmissionPluginArgs vpa cfg) ''--client-ca-file'' = Some ''/data/tls-ca-certs/service-ca.crt''"
proof -
  have "effective (rate_args user) f = None \<and> effective (tls_args cfg) f = None"
    if "f \<in> {''--tls-cert-file'', ''--tls-private-key'', ''--client-ca-file''}" for f user
    using that by (cases "cfg_TLSProfileSpec cfg") (auto simp: rate_args_def tls_args_def args_eval)
  then show
    "effective (AdmissionPluginArgs vpa cfg) ''--tls-cert-file'' = Some ''/data/tls-certs/tls.crt''"
    "effective (AdmissionPluginArgs vpa cfg) ''--tls-private-key'' = Some ''/data/tls-certs/tls.key''"
    "effective (AdmissionPluginArgs vpa cfg) ''--client-ca-file'' = Some ''/data/tls-ca-certs/service-ca.crt''"
    unfolding AdmissionPluginArgs_parts effective_append by (simp_all add: args_eval)
qed

text \<open>
  C37: The parts of the admission webhook agree: the service selects the pods of the admission
  deployment and of no other operand; its target port is the port of the container; the secret
  that its annotation asks for is the one the pod mounts, the CA config map is the other one,
  and the certificate files named on the command line lie in the mounted directories.
\<close>

theorem webhook_wiring:
  "map (\<lambda>params. labels_match (svc_Selector (WebhookService cfg vpa))
       (nilmap (om_Labels (pt_Meta (dep_Template (AutoscalerDeployment cfg vpa params))))))
     controllerParams = [False, False, True] \<and>
   (\<exists>c. ps_Containers (PodSpecMethod cfg vpa admission_params) = [c] \<and>
      map sp_TargetPort (svc_Ports (WebhookService cfg vpa)) = map (IntVal \<circ> cp_ContainerPort) (c_Ports c) \<and>
      map sp_Protocol (svc_Ports (WebhookService cfg vpa)) = map cp_Protocol (c_Ports c) \<and>
      (\<exists>s m mc. fmlookup (nilmap (om_Annotations (svc_Meta (WebhookService cfg vpa))))
            ''service.beta.openshift.io/serving-cert-secret-name'' = Some s \<and>
         map vol_Source (ps_Volumes (PodSpecMethod cfg vpa admission_params)) =
           [SecretVolume s (Some 420), ConfigMapVolume (om_Name (cm_Meta (CAConfigMap cfg vpa))) (Some 420)] \<and>
         map vol_Name (ps_Volumes (PodSpecMethod cfg vpa admission_params)) = map vm_Name (c_VolumeMounts c) \<and>
         c_VolumeMounts c = [m, mc] \<and> vm_ReadOnly m \<and> vm_ReadOnly mc \<and>
         (\<exists>crt key ca. effective (AdmissionPluginArgs vpa cfg) ''--tls-cert-file'' = Some (vm_MountPath m @ ''/'' @ crt) \<and>
           effective (AdmissionPluginArgs vpa cfg) ''--tls-private-key'' = Some (vm_MountPath m @ ''/'' @ key) \<and>
           effective (AdmissionPluginArgs vpa cfg) ''--client-ca-file'' = Some (vm_MountPath mc @ ''/'' @ ca))))"
proof -
  obtain c where c: "ps_Containers (PodSpecMethod cfg vpa admission_params) = [c]"
    "c_Ports c = [webhook_port]" "c_VolumeMounts c = webhook_mounts"
    using admission_webhook_container(1) by blast
  have files: "\<exists>crt key ca.
      effective (AdmissionPluginArgs vpa cfg) ''--tls-cert-file'' = Some (vm_MountPath (webhook_mounts ! 0) @ ''/'' @ crt) \<and>
      effective (AdmissionPluginArgs vpa cfg) ''--tls-private-key'' = Some (vm_MountPath (webhook_mounts ! 0) @ ''/'' @ key) \<and>
      effective (AdmissionPluginArgs vpa cfg) ''--client-ca-file'' = Some (vm_MountPath (webhook_mounts ! 1) @ ''/'' @ ca)"
    by (intro exI [of _ "''tls.crt''"] exI [of _ "''tls.key''"] exI [of _ "''service-ca.crt''"])
      (simp add: AdmissionPluginArgs_cert_files webhook_mounts_def)
  have sel: "map (\<lambda>params. labels_match (svc_Selector (WebhookService cfg vpa))
       (nilmap (om_Labels (pt_Meta (dep_Template (AutoscalerDeployment cfg vpa params))))))
     controllerParams = [False, False, True]"
    by (simp add: controllerParams_def operand_labels app_names WebhookService_simps labels_match_upd go_defs)
  obtain s m mc where mounts:
      "fmlookup (nilmap (om_Annotations (svc_Meta (WebhookService cfg vpa))))
            ''service.beta.openshift.io/serving-cert-secret-name'' = Some s"
      "map vol_Source webhook_volumes =
           [SecretVolume s (Some 420), ConfigMapVolume (om_Name (cm_Meta (CAConfigMap cfg vpa))) (Some 420)]"
      "map vol_Name webhook_volumes = map vm_Name webhook_mounts"
      "webhook_mounts = [m, mc]" "vm_ReadOnly m" "vm_ReadOnly mc"
    using WebhookService_simps(3) [of cfg vpa]
    by (simp add: webhook_mounts_def webhook_volumes_def CAConfigMap_def Let_def
        UpdateConfigMapAnnotations_def webhookCertAnnotationName_def)
  have ports: "map sp_TargetPort (svc_Ports (WebhookService cfg vpa)) = map (IntVal \<circ> cp_ContainerPort) (c_Ports c)"
    "map sp_Protocol (svc_Ports (WebhookService cfg vpa)) = map cp_Protocol (c_Ports c)"
    by (simp_all add: c(2) WebhookService_simps webhook_port_def)
  have nth: "webhook_mounts ! 0 = m" "webhook_mounts ! 1 = mc"
    by (simp_all add: mounts(4))
  show ?thesis
    by (rule conjI [OF sel], rule exI [of _ c], intro conjI c(1) ports,
        rule exI [of _ s], rule exI [of _ m], rule exI [of _ mc],
        unfold c(3) admission_webhook_container(2),
        intro conjI mounts files [unfolded nth])
qed

text \<open>
  The three deployments do not interfere: their names differ, and the selector of each
  matches the pods of its own template and of no other operand's.
\<close>

theorem operands_disjoint:
  "distinct (map (\<lambda>params. meta_key (dep_Meta (AutoscalerDeployment cfg vpa params))) controllerParams) \<and>
   map (\<lambda>p. map (\<lambda>q. case dep_Selector (AutoscalerDeployment cfg vpa p) of
        None \<Rightarrow> False
      | Some s \<Rightarrow> selector_matches s
          (nilmap (om_Labels (pt_Meta (dep_Template (AutoscalerDeployment cfg vpa q)))))) controllerParams)
     controllerParams =
   [[True, False, False], [False, True, False], [False, False, True]]"
proof -
  have sel: "dep_Selector (AutoscalerDeployment cfg vpa p) =
      Some \<lparr>ls_MatchLabels = fmupd ''app'' (par_AppName p)
        (fmupd ''vertical-pod-autoscaler'' (om_Name (vpa_Meta vpa)) fmempty), ls_MatchExpressions = []\<rparr>" for p
    by (simp add: AutoscalerDeployment_def Let_def)
  have name: "meta_key (dep_Meta (AutoscalerDeployment cfg vpa p)) =
      \<lparr>nn_Namespace = nn_Namespace (par_NameMethod p cfg vpa), nn_Name = nn_Name (par_NameMethod p cfg vpa)\<rparr>" for p
    by (simp add: AutoscalerDeployment_def Let_def meta_key_def)
  show ?thesis
    by (simp add: sel operand_labels labels_match_upd app_names name controllerParams_def)
      (simp add: recommender_params_def updater_params_def admission_params_def RecommenderName_def
        UpdaterName_def AdmissionPluginName_def)
qed

end
