(* ===== verification/Network_Policies.thy ===== *)
theory Network_Policies
  imports Operand_Props
begin

text \<open>
  The network policies of the operands (\<open>makePort\<close> and \<open>NetworkPolicies\<close> of
  \<open>verticalpodautoscaler_controller.go\<close>) and, over the policy semantics of theory
  \<open>Kube_Semantics\<close>, exactly which connections they leave to the operands' pods.
\<close>

definition makePort :: "string option \<Rightarrow> IntOrString \<Rightarrow> int \<Rightarrow> NetworkPolicyPort" where
  "makePort proto port endPort =
     (let r = \<lparr>npp_Protocol = proto, npp_Port = None, npp_EndPort = None\<rparr>;
          r = (if port \<noteq> IntVal 0 \<and> port \<noteq> StrVal '''' \<and> port \<noteq> StrVal ''0''
               then r\<lparr>npp_Port := Some port\<rparr> else r);
          r = (if endPort \<noteq> 0 then r\<lparr>npp_EndPort := Some endPort\<rparr> else r)
      in r)"

definition NetworkPolicies :: "Config \<Rightarrow> VerticalPodAutoscalerController \<Rightarrow> NetworkPolicy list" where
  "NetworkPolicies cfg vpa =
     (let protocolTCP = ''TCP''; protocolUDP = ''UDP'';
          name = om_Name (vpa_Meta vpa);
          tm = \<lparr>tm_APIVersion = ''networking.k8s.io/v1'', tm_Kind = ''NetworkPolicy''\<rparr>
      in
      [\<lparr>np_TypeMeta = tm,
        np_Meta = zero_ObjectMeta\<lparr>om_Name := ''vpa-default-deny'', om_Namespace := cfg_Namespace cfg\<rparr>,
        np_Spec = \<lparr>
          nps_PodSelector = \<lparr>ls_MatchLabels = fmupd ''vertical-pod-autoscaler'' name fmempty,
                             ls_MatchExpressions = []\<rparr>,
          nps_Ingress = [], nps_Egress = [],
          nps_PolicyTypes = [''Egress'', ''Ingress'']\<rparr>\<rparr>,
       \<lparr>np_TypeMeta = tm,
        np_Meta = zero_ObjectMeta\<lparr>om_Name := ''vpa-allow-egress-to-dns'', om_Namespace := cfg_Namespace cfg\<rparr>,
        np_Spec = \<lparr>
          nps_PodSelector = \<lparr>ls_MatchLabels = fmupd ''vertical-pod-autoscaler'' name fmempty,
                             ls_MatchExpressions = []\<rparr>,
          nps_Ingress = [],
          nps_Egress =
            [\<lparr>ner_Ports = [makePort (Some protocolTCP) (IntVal 5353) 0,
                           makePort (Some protocolUDP) (IntVal 5353) 0],
              ner_To = [\<lparr>
                npe_PodSelector = Some \<lparr>ls_MatchLabels =
                   fmupd ''dns.operator.openshift.io/daemonset-dns'' ''default'' fmempty,
                   ls_MatchExpressions = []\<rparr>,
                npe_NamespaceSelector = Some \<lparr>ls_MatchLabels =
                   fmupd ''kubernetes.io/metadata.name'' ''openshift-dns'' fmempty,
                   ls_MatchExpressions = []\<rparr>,
                npe_IPBlock = None\<rparr>]\<rparr>],
          nps_PolicyTypes = [''Egress'']\<rparr>\<rparr>,
       \<lparr>np_TypeMeta = tm,
        np_Meta = zero_ObjectMeta\<lparr>om_Name := ''vpa-allow-egress-to-api-server'',
                                   om_Namespace := cfg_Namespace cfg\<rparr>,
        np_Spec = \<lparr>
          nps_PodSelector = \<lparr>ls_MatchLabels = fmupd ''vertical-pod-autoscaler'' name fmempty,
                             ls_MatchExpressions = []\<rparr>,
          nps_Ingress = [],
          nps_Egress = [\<lparr>ner_Ports = [makePort (Some protocolTCP) (IntVal 6443) 0], ner_To = []\<rparr>],
          nps_PolicyTypes = [''Egress'']\<rparr>\<rparr>,
       \<lparr>np_TypeMeta = tm,
        np_Meta = zero_ObjectMeta\<lparr>om_Name := ''vpa-allow-ingress-to-admission-webhook'',
                                   om_Namespace := cfg_Namespace cfg\<rparr>,
        np_Spec = \<lparr>
          nps_PodSelector = \<lparr>ls_MatchLabels = fmupd ''app'' AdmissionControllerAppName
                               (fmupd ''vertical-pod-autoscaler'' name fmempty),
                             ls_MatchExpressions = []\<rparr>,
          nps_Ingress = [\<lparr>nir_Ports = [makePort (Some protocolTCP) (IntVal AdmissionWebhookPort) 0],
                          nir_From = []\<rparr>],
          nps_Egress = [],
          nps_PolicyTypes = [''Ingress'']\<rparr>\<rparr>,
       \<lparr>np_TypeMeta = tm,
        np_Meta = zero_ObjectMeta\<lparr>om_Name := ''vpa-allow-ingress-to-metrics'',
                                   om_Namespace := cfg_Namespace cfg\<rparr>,
        np_Spec = \<lparr>
          nps_PodSelector = \<lparr>ls_MatchLabels = fmupd ''vertical-pod-autoscaler'' name fmempty,
                             ls_MatchExpressions = []\<rparr>,
          nps_Ingress = [\<lparr>nir_Ports = [makePort (Some protocolTCP) (IntVal 8942) 0,
                                       makePort (Some protocolTCP) (IntVal 8943) 0,
                                       makePort (Some protocolTCP) (IntVal 8944) 0],
                          nir_From = []\<rparr>],
          nps_Egress = [],
          nps_PolicyTypes = [''Ingress'']\<rparr>\<rparr>])"

section \<open>Properties\<close>

lemma NetworkPolicies_meta:
  "map (\<lambda>p. om_Name (np_Meta p)) (NetworkPolicies cfg vpa) =
     [''vpa-default-deny'', ''vpa-allow-egress-to-dns'', ''vpa-allow-egress-to-api-server'',
      ''vpa-allow-ingress-to-admission-webhook'', ''vpa-allow-ingress-to-metrics'']"
  "p \<in> set (NetworkPolicies cfg vpa) \<Longrightarrow>
     \<exists>n. np_Meta p = zero_ObjectMeta\<lparr>om_Name := n, om_Namespace := cfg_Namespace cfg\<rparr>"
  by (auto simp: NetworkPolicies_def Let_def)

lemma port_matches_makePort:
  "n \<noteq> 0 \<Longrightarrow> port_matches (makePort (Some pr) (IntVal n) 0) dest proto port \<longleftrightarrow> proto = pr \<and> port = n"
  by (auto simp: port_matches_def makePort_def Let_def)

definition vpa_pod :: "Config \<Rightarrow> VerticalPodAutoscalerController \<Rightarrow> Endpoint \<Rightarrow> bool" where
  "vpa_pod cfg vpa pod \<longleftrightarrow> ep_Namespace pod = cfg_Namespace cfg \<and>
     fmlookup (ep_Labels pod) ''vertical-pod-autoscaler'' = Some (om_Name (vpa_Meta vpa))"

lemmas policy_eval = policy_selects_def policy_types_def labels_match_upd port_matches_makePort
  ports_match_def peers_match_def peer_matches_def

text \<open>The pods of the operands' deployments are such pods.\<close>

definition pod_of :: "Deployment \<Rightarrow> Endpoint" where
  "pod_of d = \<lparr>ep_IsPod = True, ep_Namespace = om_Namespace (dep_Meta d), ep_NamespaceLabels = fmempty,
     ep_Labels = nilmap (om_Labels (pt_Meta (dep_Template d))), ep_NamedPorts = [], ep_IP = '''',
     ep_LocalNode = False\<rparr>"

lemma vpa_pod_of_operand:
  assumes "params \<in> set controllerParams"
  shows "vpa_pod cfg vpa (pod_of (AutoscalerDeployment cfg vpa params))"
proof -
  have "nn_Namespace (par_NameMethod params cfg vpa) = cfg_Namespace cfg"
    using assms by (auto simp: controllerParams_def recommender_params_def updater_params_def
        admission_params_def RecommenderName_def UpdaterName_def AdmissionPluginName_def)
  then show ?thesis
    by (simp add: vpa_pod_def pod_of_def operand_labels) (simp add: AutoscalerDeployment_def Let_def)
qed

text \<open>
  C38: Under the operator's policies alone, a pod of the autoscaler may open exactly these
  connections: TCP to port 6443 anywhere (the API server), and TCP or UDP to port 5353 of the
  cluster DNS pods.
\<close>

theorem operand_egress:
  assumes "vpa_pod cfg vpa pod"
  shows "egress_allowed in_block (NetworkPolicies cfg vpa) pod peer proto port \<longleftrightarrow>
    proto = ''TCP'' \<and> port = 6443 \<or>
    (proto = ''TCP'' \<or> proto = ''UDP'') \<and> port = 5353 \<and> ep_IsPod peer \<and>
      fmlookup (ep_NamespaceLabels peer) ''kubernetes.io/metadata.name'' = Some ''openshift-dns'' \<and>
      fmlookup (ep_Labels peer) ''dns.operator.openshift.io/daemonset-dns'' = Some ''default''"
  using assms
  by (auto simp: egress_allowed_def NetworkPolicies_def Let_def vpa_pod_def policy_eval zero_ObjectMeta_def)

theorem operand_egress_witness:
  "egress_allowed (\<lambda>b ip. False) (NetworkPolicies example_cfg example_vpa)
     (pod_of (AutoscalerDeployment example_cfg example_vpa recommender_params))
     (pod_of (AutoscalerDeployment example_cfg example_vpa updater_params)) ''TCP'' 6443 \<and>
   \<not> egress_allowed (\<lambda>b ip. False) (NetworkPolicies example_cfg example_vpa)
     (pod_of (AutoscalerDeployment example_cfg example_vpa recommender_params))
     (pod_of (AutoscalerDeployment example_cfg example_vpa updater_params)) ''TCP'' 443"
proof -
  have "vpa_pod example_cfg example_vpa (pod_of (AutoscalerDeployment example_cfg example_vpa recommender_params))"
    by (rule vpa_pod_of_operand) (simp add: controllerParams_def)
  from operand_egress [OF this] show ?thesis by simp
qed

text \<open>
  C39: Under the operator's policies alone, a pod of the autoscaler accepts exactly these
  connections, other than those from its own node: TCP to the metrics ports 8942 to 8944, and,
  if it is a pod of the admission controller, TCP to the webhook port 8000.
\<close>

theorem operand_ingress:
  assumes "vpa_pod cfg vpa pod" and "\<not> ep_LocalNode peer"
  shows "ingress_allowed in_block (NetworkPolicies cfg vpa) pod peer proto port \<longleftrightarrow>
    proto = ''TCP'' \<and> (port \<in> {8942, 8943, 8944} \<or>
      port = 8000 \<and> fmlookup (ep_Labels pod) ''app'' = Some ''vpa-admission-controller'')"
  using assms
  by (auto simp: ingress_allowed_def NetworkPolicies_def Let_def vpa_pod_def policy_eval go_defs
      zero_ObjectMeta_def)

theorem operand_ingress_witness:
  "ingress_allowed (\<lambda>b ip. False) (NetworkPolicies example_cfg example_vpa)
     (pod_of (AutoscalerDeployment example_cfg example_vpa admission_params))
     (pod_of (AutoscalerDeployment example_cfg example_vpa updater_params)) ''TCP'' 8000"
proof -
  have "vpa_pod example_cfg example_vpa (pod_of (AutoscalerDeployment example_cfg example_vpa admission_params))"
    by (rule vpa_pod_of_operand) (simp add: controllerParams_def)
  moreover have "\<not> ep_LocalNode (pod_of (AutoscalerDeployment example_cfg example_vpa updater_params))"
    by (simp add: pod_of_def)
  ultimately show ?thesis
    by (subst operand_ingress) (simp_all add: pod_of_def operand_labels app_names)
qed

text \<open>
  The policies touch no other pods: a pod of another namespace, or without the label of
  this autoscaler, keeps every connection that it has without them.
\<close>

theorem other_pods_unaffected:
  assumes "\<not> vpa_pod cfg vpa pod"
  shows "egress_allowed in_block (pols @ NetworkPolicies cfg vpa) pod peer proto port =
      egress_allowed in_block pols pod peer proto port \<and>
    ingress_allowed in_block (pols @ NetworkPolicies cfg vpa) pod peer proto port =
      ingress_allowed in_block pols pod peer proto port"
proof -
  have "\<not> policy_selects p dir pod" if "p \<in> set (NetworkPolicies cfg vpa)" for p dir
    using that assms
    by (auto simp: NetworkPolicies_def Let_def vpa_pod_def policy_selects_def labels_match_upd
        zero_ObjectMeta_def)
  then have "filter (\<lambda>p. policy_selects p dir pod) (NetworkPolicies cfg vpa) = []" for dir
    by (simp add: filter_empty_conv)
  then show ?thesis
    by (simp add: egress_allowed_def ingress_allowed_def)
qed

theorem other_pods_unaffected_witness:
  "egress_allowed (\<lambda>b ip. False) ([] @ NetworkPolicies example_cfg example_vpa)
     (pod_of (AutoscalerDeployment (example_cfg\<lparr>cfg_Namespace := ''other''\<rparr>) example_vpa updater_params))
     (pod_of (AutoscalerDeployment example_cfg example_vpa updater_params)) ''TCP'' 80"
proof -
  have "\<not> vpa_pod example_cfg example_vpa
      (pod_of (AutoscalerDeployment (example_cfg\<lparr>cfg_Namespace := ''other''\<rparr>) example_vpa updater_params))"
    by (simp add: vpa_pod_def pod_of_def AutoscalerDeployment_def Let_def updater_params_def
        UpdaterName_def example_cfg_def)
  from other_pods_unaffected [OF this, of _ "[]"] show ?thesis
    by (simp add: egress_allowed_def)
qed

end
