(* ===== verification/Controller.thy ===== *)
theory Controller
  imports Kube_Client Network_Policies
begin

text \<open>
  The reconciler of \<open>verticalpodautoscaler_controller.go\<close>: \<open>Reconcile\<close> with \<open>syncTLSProfile\<close>,
  \<open>objectReference\<close>, the create and update methods of the deployments, the webhook service and
  the CA config map, and the inline handling of the network policies.

  The reconciler's methods are programs of the state monad over \<open>'w rstate\<close>: the world behind
  the client, the reconciler's configuration (which \<open>syncTLSProfile\<close> changes) and the events
  recorded so far. The client and the scheme do not change and are in the environment. Each
  program makes the client calls of the code in the code's order. Log lines are left out.
\<close>

record ObjectReference =
  ref_Kind :: string
  ref_Namespace :: string
  ref_Name :: string
  ref_UID :: string
  ref_APIVersion :: string
  ref_ResourceVersion :: string

record Event =
  ev_Regarding :: "ObjectReference option"
  ev_Type :: string
  ev_Reason :: string
  ev_Action :: string
  ev_Note :: string

record 'w env =
  en_Client :: "'w client"
  en_Scheme :: Scheme

record 'w rstate =
  rs_world :: 'w
  rs_Config :: Config
  rs_events :: "Event list"

record Result =
  res_Requeue :: bool
  res_RequeueAfter :: nat

definition zero_Result :: Result where
  "zero_Result = \<lparr>res_Requeue = False, res_RequeueAfter = 0\<rparr>"

section \<open>Client calls and events as programs\<close>

definition getConfig :: "('w rstate, Config) state" where
  "getConfig = State (\<lambda>s. (rs_Config s, s))"

definition kget :: "'w env \<Rightarrow> Kind \<Rightarrow> NamespacedName \<Rightarrow> ('w rstate, go_error + KObject) state" where
  "kget e k n = State (\<lambda>s. case cl_Get (en_Client e) k n (rs_world s) of
     (r, w) \<Rightarrow> (r, s\<lparr>rs_world := w\<rparr>))"

definition kcreate :: "'w env \<Rightarrow> KObject \<Rightarrow> ('w rstate, go_error option) state" where
  "kcreate e obj = State (\<lambda>s. case cl_Create (en_Client e) obj (rs_world s) of
     (r, w) \<Rightarrow> (r, s\<lparr>rs_world := w\<rparr>))"

definition kupdate :: "'w env \<Rightarrow> KObject \<Rightarrow> ('w rstate, go_error option) state" where
  "kupdate e obj = State (\<lambda>s. case cl_Update (en_Client e) obj (rs_world s) of
     (r, w) \<Rightarrow> (r, s\<lparr>rs_world := w\<rparr>))"

definition kpatch ::
  "'w env \<Rightarrow> Kind \<Rightarrow> NamespacedName \<Rightarrow> annotation_patch \<Rightarrow> ('w rstate, go_error option) state" where
  "kpatch e k n p = State (\<lambda>s. case cl_Patch (en_Client e) k n p (rs_world s) of
     (r, w) \<Rightarrow> (r, s\<lparr>rs_world := w\<rparr>))"

text \<open>\<open>Recorder.Eventf\<close> with the note already formatted.\<close>

definition Eventf ::
  "ObjectReference option \<Rightarrow> string \<Rightarrow> string \<Rightarrow> string \<Rightarrow> string \<Rightarrow> ('w rstate, unit) state" where
  "Eventf regarding type reason action note = State (\<lambda>s. ((), s\<lparr>rs_events := rs_events s @
     [\<lparr>ev_Regarding = regarding, ev_Type = type, ev_Reason = reason, ev_Action = action,
       ev_Note = note\<rparr>]\<rparr>))"

definition EventTypeNormal :: string where "EventTypeNormal = ''Normal''"
definition EventTypeWarning :: string where "EventTypeWarning = ''Warning''"

text \<open>Record a warning and return the error; record a normal event and go on.\<close>

definition fail_with ::
  "ObjectReference option \<Rightarrow> string \<Rightarrow> string \<Rightarrow> string \<Rightarrow> go_error \<Rightarrow>
     ('w rstate, go_error option) state" where
  "fail_with vpaRef reason action errMsg err =
     do { Eventf vpaRef EventTypeWarning reason action errMsg; State_Monad.return (Some err) }"

definition succeed_with ::
  "ObjectReference option \<Rightarrow> string \<Rightarrow> string \<Rightarrow> string \<Rightarrow> ('w rstate, go_error option) state" where
  "succeed_with vpaRef reason action msg =
     do { Eventf vpaRef EventTypeNormal reason action msg; State_Monad.return None }"

section \<open>syncTLSProfile, objectReference\<close>

definition APIServerName :: string where [go_defs]: "APIServerName = ''cluster''"

definition synced_profile :: "APIServerSpec \<Rightarrow> TLSProfileSpec option \<Rightarrow> TLSProfileSpec option" where
  "synced_profile spec old =
     (if ShouldHonorClusterTLSProfile (as_TLSAdherence spec)
      then (case GetTLSProfileSpec (as_TLSSecurityProfile spec) of
              Inl err \<Rightarrow> old
            | Inr tlsProfile \<Rightarrow> Some tlsProfile)
      else None)"

definition syncTLSProfile :: "'w env \<Rightarrow> ('w rstate, unit) state" where
  "syncTLSProfile e =
     do { got \<leftarrow> kget e KAPIServer \<lparr>nn_Namespace = '''', nn_Name = APIServerName\<rparr>;
          case decoded as_apiserver got of
            Inl err \<Rightarrow> State_Monad.return ()
          | Inr apiServerConfig \<Rightarrow>
              State_Monad.update (\<lambda>s. s\<lparr>rs_Config := (rs_Config s)\<lparr>cfg_TLSProfileSpec :=
                synced_profile (api_Spec apiServerConfig) (cfg_TLSProfileSpec (rs_Config s))\<rparr>\<rparr>) }"

text \<open>\<open>GetReference\<close> for a typed object with object metadata.\<close>

definition GetReference :: "Scheme \<Rightarrow> string \<Rightarrow> TypeMeta \<Rightarrow> ObjectMeta \<Rightarrow> go_error + ObjectReference" where
  "GetReference sch goType tm om =
     (let gvk0 = FromAPIVersionAndKind (tm_APIVersion tm) (tm_Kind tm);
          gvkr = (if GVK_Empty gvk0
                  then (case map snd (filter (\<lambda>(t, g). t = goType) sch) of
                          [] \<Rightarrow> Inl (PlainError (''no kind is registered for the type '' @ goType))
                        | g # gs \<Rightarrow> if GVK_Empty g
                            then Inl (PlainError (''unexpected gvks registered for object '' @ goType))
                            else Inr g)
                  else Inr gvk0)
      in case gvkr of
           Inl err \<Rightarrow> Inl err
         | Inr gvk \<Rightarrow> Inr \<lparr>ref_Kind = gvk_Kind gvk, ref_Namespace = om_Namespace om,
             ref_Name = om_Name om, ref_UID = om_UID om, ref_APIVersion = GroupVersion_String gvk,
             ref_ResourceVersion = om_ResourceVersion om\<rparr>)"

definition VPA_GoType :: string where "VPA_GoType = ''VerticalPodAutoscalerController''"

definition objectReference ::
  "Config \<Rightarrow> Scheme \<Rightarrow> VerticalPodAutoscalerController \<Rightarrow> ObjectReference option" where
  "objectReference cfg sch obj =
     (case GetReference sch VPA_GoType (vpa_TypeMeta obj) (vpa_Meta obj) of
        Inl err \<Rightarrow> None
      | Inr ref \<Rightarrow> if ref_Namespace ref = '''' then Some (ref\<lparr>ref_Namespace := cfg_Namespace cfg\<rparr>)
                   else Some ref)"

text \<open>\<open>SetControllerReference\<close> with the custom resource as the owner.\<close>

definition set_owner ::
  "'w env \<Rightarrow> VerticalPodAutoscalerController \<Rightarrow> ObjectMeta \<Rightarrow> go_error + ObjectMeta" where
  "set_owner e vpa m = SetControllerReference (vpa_Meta vpa)
     (GVKForObject VPA_GoType (vpa_TypeMeta vpa) (en_Scheme e)) m"

section \<open>Deployments\<close>

definition CreateAutoscaler ::
  "'w env \<Rightarrow> VerticalPodAutoscalerController \<Rightarrow> ControllerParams \<Rightarrow>
     ('w rstate, go_error option) state" where
  "CreateAutoscaler e vpa params =
     do { cfg \<leftarrow> getConfig;
          let deployment = AutoscalerDeployment cfg vpa params;
          case set_owner e vpa (dep_Meta deployment) of
            Inl err \<Rightarrow> State_Monad.return (Some err)
          | Inr m \<Rightarrow> kcreate e (ODeployment (deployment\<lparr>dep_Meta := m\<rparr>)) }"

text \<open>
  The update methods return \<open>(updated, err)\<close>, where \<open>updated\<close> is false whenever \<open>err\<close> is not
  nil: \<open>Inl err\<close> or \<open>Inr updated\<close>.
\<close>

definition update_result :: "go_error option \<Rightarrow> go_error + bool" where
  "update_result r = (case r of Some err \<Rightarrow> Inl err | None \<Rightarrow> Inr True)"

definition expected_replicas :: "VerticalPodAutoscalerController \<Rightarrow> ControllerParams \<Rightarrow> int" where
  "expected_replicas vpa params = (if \<not> par_EnabledMethod params vpa then 0 else 1)"

definition deployment_current ::
  "Config \<Rightarrow> VerticalPodAutoscalerController \<Rightarrow> ControllerParams \<Rightarrow> Deployment \<Rightarrow> bool" where
  "deployment_current cfg vpa params d \<longleftrightarrow>
     semeq_podspec (pt_Spec (dep_Template d)) (PodSpecMethod cfg vpa params) \<and>
     dep_Replicas d = Some (expected_replicas vpa params) \<and>
     ReleaseVersionMatches (dep_Meta d) (cfg_ReleaseVersion cfg)"

definition updated_deployment ::
  "Config \<Rightarrow> VerticalPodAutoscalerController \<Rightarrow> ControllerParams \<Rightarrow> Deployment \<Rightarrow> Deployment" where
  "updated_deployment cfg vpa params d =
     d\<lparr>dep_Replicas := Some (expected_replicas vpa params),
       dep_Meta := UpdateAnnotations cfg (dep_Meta d),
       dep_Template := \<lparr>pt_Meta = UpdateAnnotations cfg (pt_Meta (dep_Template d)),
                        pt_Spec = PodSpecMethod cfg vpa params\<rparr>\<rparr>"

definition UpdateAutoscaler ::
  "'w env \<Rightarrow> VerticalPodAutoscalerController \<Rightarrow> ControllerParams \<Rightarrow>
     ('w rstate, go_error + bool) state" where
  "UpdateAutoscaler e vpa params =
     do { cfg \<leftarrow> getConfig;
          got \<leftarrow> kget e KDeployment (par_NameMethod params cfg vpa);
          case decoded as_deployment got of
            Inl err \<Rightarrow> State_Monad.return (Inl err)
          | Inr existingDeployment \<Rightarrow>
              if deployment_current cfg vpa params existingDeployment
              then State_Monad.return (Inr False)
              else do { r \<leftarrow> kupdate e (ODeployment (updated_deployment cfg vpa params existingDeployment));
                        State_Monad.return (update_result r) } }"

definition reconcile_deployment ::
  "'w env \<Rightarrow> VerticalPodAutoscalerController \<Rightarrow> ObjectReference option \<Rightarrow> ControllerParams \<Rightarrow>
     ('w rstate, go_error option) state" where
  "reconcile_deployment e vpa vpaRef params =
     do { cfg \<leftarrow> getConfig;
          let nn = par_NameMethod params cfg vpa;
          got \<leftarrow> kget e KDeployment nn;
          case decoded as_deployment got of
            Inl err \<Rightarrow>
              if \<not> IsNotFound err
              then fail_with vpaRef ''FailedGetDeployment'' ''GetDeployment''
                     (''Error getting vertical-pod-autoscaler deployment: '' @ Error err) err
              else do { r \<leftarrow> CreateAutoscaler e vpa params;
                        case r of
                          Some err' \<Rightarrow> fail_with vpaRef ''FailedCreate'' ''Create''
                            (''Error creating VerticalPodAutoscalerController deployment: '' @ Error err') err'
                        | None \<Rightarrow> succeed_with vpaRef ''SuccessfulCreate'' ''Create''
                            (''Created VerticalPodAutoscalerController deployment: ''
                             @ NamespacedName_String nn) }
          | Inr deployment \<Rightarrow>
              do { r \<leftarrow> UpdateAutoscaler e vpa params;
                   case r of
                     Inl err' \<Rightarrow> fail_with vpaRef ''FailedUpdate'' ''Update''
                       (''Error updating vertical-pod-autoscaler deployment: '' @ Error err') err'
                   | Inr updated \<Rightarrow>
                       if updated then succeed_with vpaRef ''SuccessfulUpdate'' ''Update''
                         (''Updated VerticalPodAutoscalerController deployment: ''
                          @ NamespacedName_String nn)
                       else State_Monad.return None } }"

section \<open>The webhook service\<close>

definition service_name :: "Config \<Rightarrow> NamespacedName" where
  "service_name cfg = \<lparr>nn_Namespace = cfg_Namespace cfg, nn_Name = WebhookServiceName\<rparr>"

definition CreateWebhookService ::
  "'w env \<Rightarrow> VerticalPodAutoscalerController \<Rightarrow> ('w rstate, go_error option) state" where
  "CreateWebhookService e vpa =
     do { cfg \<leftarrow> getConfig;
          let service = WebhookService cfg vpa;
          case set_owner e vpa (svc_Meta service) of
            Inl err \<Rightarrow> State_Monad.return (Some err)
          | Inr m \<Rightarrow> kcreate e (OService (service\<lparr>svc_Meta := m\<rparr>)) }"

definition merged_service :: "Config \<Rightarrow> VerticalPodAutoscalerController \<Rightarrow> Service \<Rightarrow> Service" where
  "merged_service cfg vpa existing =
     (let expected = WebhookService cfg vpa;
          merged = existing\<lparr>svc_Ports := svc_Ports expected\<rparr>;
          merged = merged\<lparr>svc_Selector := svc_Selector expected\<rparr>
      in merged\<lparr>svc_Meta := UpdateServiceAnnotations cfg (svc_Meta merged)\<rparr>)"

definition UpdateWebhookService ::
  "'w env \<Rightarrow> VerticalPodAutoscalerController \<Rightarrow> ('w rstate, go_error + bool) state" where
  "UpdateWebhookService e vpa =
     do { cfg \<leftarrow> getConfig;
          got \<leftarrow> kget e KService (service_name cfg);
          case decoded as_service got of
            Inl err \<Rightarrow> State_Monad.return (Inl err)
          | Inr existingService \<Rightarrow>
              do { let merged = merged_service cfg vpa existingService;
                   if semeq_service existingService merged
                   then State_Monad.return (Inr False)
                   else do { r \<leftarrow> kupdate e (OService merged);
                             State_Monad.return (update_result r) } } }"

definition reconcile_service ::
  "'w env \<Rightarrow> VerticalPodAutoscalerController \<Rightarrow> ObjectReference option \<Rightarrow>
     ('w rstate, go_error option) state" where
  "reconcile_service e vpa vpaRef =
     do { cfg \<leftarrow> getConfig;
          got \<leftarrow> kget e KService (service_name cfg);
          case decoded as_service got of
            Inl err \<Rightarrow>
              if \<not> IsNotFound err
              then fail_with vpaRef ''FailedGetService'' ''GetService''
                     (''Error getting vertical-pod-autoscaler webhook service '' @ WebhookServiceName
                      @ '': '' @ Error err) err
              else do { r \<leftarrow> CreateWebhookService e vpa;
                        case r of
                          Some err' \<Rightarrow> fail_with vpaRef ''FailedCreate'' ''Create''
                            (''Error creating VerticalPodAutoscalerController service: '' @ Error err') err'
                        | None \<Rightarrow> succeed_with vpaRef ''SuccessfulCreate'' ''Create''
                            (''Created VerticalPodAutoscalerController service: '' @ WebhookServiceName) }
          | Inr service \<Rightarrow>
              do { r \<leftarrow> UpdateWebhookService e vpa;
                   case r of
                     Inl err' \<Rightarrow> fail_with vpaRef ''FailedUpdate'' ''Update''
                       (''Error updating vertical-pod-autoscaler webhook service: '' @ Error err') err'
                   | Inr updated \<Rightarrow>
                       if updated then succeed_with vpaRef ''SuccessfulUpdate'' ''Update''
                         (''Updated VerticalPodAutoscalerController service: '' @ WebhookServiceName)
                       else State_Monad.return None } }"

section \<open>The CA config map\<close>

definition configmap_name :: "Config \<Rightarrow> NamespacedName" where
  "configmap_name cfg = \<lparr>nn_Namespace = cfg_Namespace cfg, nn_Name = CACertConfigMapName\<rparr>"

definition CreateCAConfigMap ::
  "'w env \<Rightarrow> VerticalPodAutoscalerController \<Rightarrow> ('w rstate, go_error option) state" where
  "CreateCAConfigMap e vpa =
     do { cfg \<leftarrow> getConfig;
          let cm = CAConfigMap cfg vpa;
          case set_owner e vpa (cm_Meta cm) of
            Inl err \<Rightarrow> State_Monad.return (Some err)
          | Inr m \<Rightarrow> kcreate e (OConfigMap (cm\<lparr>cm_Meta := m\<rparr>)) }"

definition UpdateCAConfigMap ::
  "'w env \<Rightarrow> VerticalPodAutoscalerController \<Rightarrow> ('w rstate, go_error + bool) state" where
  "UpdateCAConfigMap e vpa =
     do { cfg \<leftarrow> getConfig;
          got \<leftarrow> kget e KConfigMap (configmap_name cfg);
          case decoded as_configmap got of
            Inl err \<Rightarrow> State_Monad.return (Inl err)
          | Inr existingCM \<Rightarrow>
              do { let merged = existingCM\<lparr>cm_Meta := UpdateConfigMapAnnotations cfg (cm_Meta existingCM)\<rparr>;
                   if semeq_configmap existingCM merged
                   then State_Monad.return (Inr False)
                   else do { r \<leftarrow> kupdate e (OConfigMap merged);
                             State_Monad.return (update_result r) } } }"

definition reconcile_configmap ::
  "'w env \<Rightarrow> VerticalPodAutoscalerController \<Rightarrow> ObjectReference option \<Rightarrow>
     ('w rstate, go_error option) state" where
  "reconcile_configmap e vpa vpaRef =
     do { cfg \<leftarrow> getConfig;
          got \<leftarrow> kget e KConfigMap (configmap_name cfg);
          case decoded as_configmap got of
            Inl err \<Rightarrow>
              if \<not> IsNotFound err
              then fail_with vpaRef ''FailedGetConfigMap'' ''GetConfigMap''
                     (''Error getting vertical-pod-autoscaler CA ConfigMap '' @ CACertConfigMapName
                      @ '': '' @ Error err) err
              else do { r \<leftarrow> CreateCAConfigMap e vpa;
                        case r of
                          Some err' \<Rightarrow> fail_with vpaRef ''FailedCreate'' ''Create''
                            (''Error creating VerticalPodAutoscalerController ConfigMap: '' @ Error err') err'
                        | None \<Rightarrow> succeed_with vpaRef ''SuccessfulCreate'' ''Create''
                            (''Created VerticalPodAutoscalerController ConfigMap: '' @ CACertConfigMapName) }
          | Inr cm \<Rightarrow>
              do { r \<leftarrow> UpdateCAConfigMap e vpa;
                   case r of
                     Inl err' \<Rightarrow> fail_with vpaRef ''FailedUpdate'' ''Update''
                       (''Error updating vertical-pod-autoscaler CA ConfigMap: '' @ Error err') err'
                   | Inr updated \<Rightarrow>
                       if updated then succeed_with vpaRef ''SuccessfulUpdate'' ''Update''
                         (''Updated VerticalPodAutoscalerController ConfigMap: '' @ CACertConfigMapName)
                       else State_Monad.return None } }"

section \<open>Network policies\<close>

definition reconcile_policy ::
  "'w env \<Rightarrow> VerticalPodAutoscalerController \<Rightarrow> ObjectReference option \<Rightarrow> NetworkPolicy \<Rightarrow>
     ('w rstate, go_error option) state" where
  "reconcile_policy e vpa vpaRef policy =
     do { cfg \<leftarrow> getConfig;
          let name = om_Name (np_Meta policy);
          got \<leftarrow> kget e KNetworkPolicy \<lparr>nn_Namespace = cfg_Namespace cfg, nn_Name = name\<rparr>;
          case decoded as_policy got of
            Inl err \<Rightarrow>
              if \<not> IsNotFound err
              then fail_with vpaRef ''FailedGetNetworkPolicy'' ''GetNetworkPolicy''
                     (''Error getting VerticalPodAutoscalerController networkpolicy '' @ name
                      @ '': '' @ Error err) err
              else (case set_owner e vpa (np_Meta policy) of
                      Inl err' \<Rightarrow> State_Monad.return (Some err')
                    | Inr m \<Rightarrow>
                        do { r \<leftarrow> kcreate e (ONetworkPolicy (policy\<lparr>np_Meta := m\<rparr>));
                             case r of
                               Some err' \<Rightarrow> fail_with vpaRef ''FailedCreate'' ''Create''
                                 (''Error creating VerticalPodAutoscalerController networkpolicy '' @ name
                                  @ '': '' @ Error err') err'
                             | None \<Rightarrow> succeed_with vpaRef ''SuccessfulCreate'' ''Create''
                                 (''Created VerticalPodAutoscalerController networkpolicy: '' @ name) })
          | Inr oldpolicy \<Rightarrow>
              if semeq_policyspec (np_Spec policy) (np_Spec oldpolicy)
              then State_Monad.return None
              else do { r \<leftarrow> kupdate e (ONetworkPolicy policy);
                        case r of
                          Some err' \<Rightarrow> fail_with vpaRef ''FailedUpdate'' ''Update''
                            (''Error updating VerticalPodAutoscalerController networkpolicy '' @ name
                             @ '': '' @ Error err') err'
                        | None \<Rightarrow> succeed_with vpaRef ''SuccessfulUpdate'' ''Update''
                            (''Updated VerticalPodAutoscalerController networkpolicy: '' @ name) } }"

section \<open>Reconcile\<close>

text \<open>The steps of \<open>Reconcile\<close> in order; the first error ends it.\<close>

fun until_error :: "('s, go_error option) state list \<Rightarrow> ('s, go_error option) state" where
  "until_error [] = State_Monad.return None"
| "until_error (m # ms) =
     do { r \<leftarrow> m;
          case r of None \<Rightarrow> until_error ms | Some err \<Rightarrow> State_Monad.return (Some err) }"

definition reconcile_steps ::
  "'w env \<Rightarrow> Config \<Rightarrow> VerticalPodAutoscalerController \<Rightarrow> ObjectReference option \<Rightarrow>
     ('w rstate, go_error option) state list" where
  "reconcile_steps e cfg vpa vpaRef =
     map (reconcile_deployment e vpa vpaRef) controllerParams
     @ [reconcile_service e vpa vpaRef]
     @ [reconcile_configmap e vpa vpaRef]
     @ map (reconcile_policy e vpa vpaRef) (NetworkPolicies cfg vpa)"

definition Reconcile :: "'w env \<Rightarrow> NamespacedName \<Rightarrow> ('w rstate, Result \<times> go_error option) state" where
  "Reconcile e req =
     do { syncTLSProfile e;
          got \<leftarrow> kget e KVPA req;
          case decoded as_vpa got of
            Inl err \<Rightarrow>
              if IsNotFound err then State_Monad.return (zero_Result, None)
              else State_Monad.return (zero_Result, Some err)
          | Inr vpa \<Rightarrow>
              do { cfg \<leftarrow> getConfig;
                   let vpaRef = objectReference cfg (en_Scheme e) vpa;
                   err \<leftarrow> until_error (reconcile_steps e cfg vpa vpaRef);
                   State_Monad.return (zero_Result, err) } }"

section \<open>Watches\<close>

text \<open>
  \<open>SetupWithManager\<close>: which objects lead to which reconcile requests. A custom resource event
  passes the name predicate and requests the object itself; any API server configuration event
  requests the configured singleton.
\<close>

definition NamePredicate :: "Config \<Rightarrow> ObjectMeta \<Rightarrow> bool" where
  "NamePredicate cfg meta = (if om_Name meta \<noteq> cfg_Name cfg then False else True)"

definition apiServerToVPA :: "Config \<Rightarrow> APIServer \<Rightarrow> NamespacedName list" where
  "apiServerToVPA cfg obj = [\<lparr>nn_Namespace = cfg_Namespace cfg, nn_Name = cfg_Name cfg\<rparr>]"

definition SetConfig :: "Config \<Rightarrow> 'w rstate \<Rightarrow> 'w rstate" where
  "SetConfig cfg r = r\<lparr>rs_Config := cfg\<rparr>"

end
