(* ===== verification/Step_Contracts.thy ===== *)
theory Step_Contracts
  imports Controller
begin

text \<open>
  The contract of a step of \<open>Reconcile\<close> over any client that satisfies the laws of \<open>kube_api\<close>:
  it writes no object but its own; if it returns nil, its object is as desired; it records at
  most one event; on an object that is as desired already it writes nothing. Here are the
  composition of contracts over a sequence of steps, the contract of the common
  get-create-update program, and what it means for the service and the config map to be as
  desired. Theory \<open>Controller_Props\<close> applies this to the steps of \<open>Reconcile\<close>.
\<close>

section \<open>Running the programs\<close>

lemma run_state_bind [run_simps]:
  "run_state (State_Monad.bind m f) s = (case run_state m s of (a, s') \<Rightarrow> run_state (f a) s')"
  by (simp add: State_Monad.bind_def split: prod.split)

lemma run_state_return [run_simps]: "run_state (State_Monad.return a) s = (a, s)"
  by (simp add: State_Monad.return_def)

lemma run_client_calls [run_simps]:
  "run_state getConfig s = (rs_Config s, s)"
  "run_state (kget e k n) s = (case cl_Get (en_Client e) k n (rs_world s) of
     (r, w) \<Rightarrow> (r, s\<lparr>rs_world := w\<rparr>))"
  "run_state (kcreate e obj) s = (case cl_Create (en_Client e) obj (rs_world s) of
     (r, w) \<Rightarrow> (r, s\<lparr>rs_world := w\<rparr>))"
  "run_state (kupdate e obj) s = (case cl_Update (en_Client e) obj (rs_world s) of
     (r, w) \<Rightarrow> (r, s\<lparr>rs_world := w\<rparr>))"
  "run_state (kpatch e k n p) s = (case cl_Patch (en_Client e) k n p (rs_world s) of
     (r, w) \<Rightarrow> (r, s\<lparr>rs_world := w\<rparr>))"
  by (simp_all add: getConfig_def kget_def kcreate_def kupdate_def kpatch_def)

definition Event_of ::
  "ObjectReference option \<Rightarrow> string \<Rightarrow> string \<Rightarrow> string \<Rightarrow> string \<Rightarrow> Event" where
  "Event_of regarding type reason action note =
     \<lparr>ev_Regarding = regarding, ev_Type = type, ev_Reason = reason, ev_Action = action, ev_Note = note\<rparr>"

lemma ev_Type_Event_of [simp]: "ev_Type (Event_of g t r a n) = t"
  by (simp add: Event_of_def)

lemma run_events [run_simps]:
  "run_state (fail_with ref reason action msg err) s =
     (Some err, s\<lparr>rs_events := rs_events s @ [Event_of ref EventTypeWarning reason action msg]\<rparr>)"
  "run_state (succeed_with ref reason action msg) s =
     (None, s\<lparr>rs_events := rs_events s @ [Event_of ref EventTypeNormal reason action msg]\<rparr>)"
  by (simp_all add: fail_with_def succeed_with_def Eventf_def Event_of_def run_state_bind run_state_return)

text \<open>The event after a write.\<close>

definition write_event ::
  "ObjectReference option \<Rightarrow> string \<Rightarrow> string \<Rightarrow> (go_error \<Rightarrow> string) \<Rightarrow> go_error option \<Rightarrow> Event" where
  "write_event ref verb ok fail r =
     (case r of None \<Rightarrow> Event_of ref EventTypeNormal (''Successful'' @ verb) verb ok
      | Some err \<Rightarrow> Event_of ref EventTypeWarning (''Failed'' @ verb) verb (fail err))"

lemma write_event_simps [simp]:
  "write_event ref verb ok fail None = Event_of ref EventTypeNormal (''Successful'' @ verb) verb ok"
  "write_event ref verb ok fail (Some err) = Event_of ref EventTypeWarning (''Failed'' @ verb) verb (fail err)"
  by (simp_all add: write_event_def)

section \<open>Contracts\<close>

text \<open>
  A step with the object it manages, what is desired of the object, and how the object after
  a successful step relates to the object before it, if there was one.
\<close>

record 'w step =
  stp_prog :: "('w rstate, go_error option) state"
  stp_key :: objkey
  stp_desired :: "KObject \<Rightarrow> bool"
  stp_rel :: "KObject option \<Rightarrow> KObject \<Rightarrow> bool"

text \<open>What one run of a step may do; \<open>loud\<close> asks for an event with every error.\<close>

definition outcome ::
  "('w \<Rightarrow> objkey \<Rightarrow> KObject option) \<Rightarrow> ('w \<Rightarrow> bool) \<Rightarrow> bool \<Rightarrow> objkey \<Rightarrow> (KObject \<Rightarrow> bool) \<Rightarrow>
     (KObject option \<Rightarrow> KObject \<Rightarrow> bool) \<Rightarrow> 'w rstate \<Rightarrow> go_error option \<Rightarrow> 'w rstate \<Rightarrow> bool" where
  "outcome view good loud key desired rel s r s' \<longleftrightarrow>
     good (rs_world s') \<and> rs_Config s' = rs_Config s \<and>
     (\<forall>k. k \<noteq> key \<longrightarrow> view (rs_world s') k = view (rs_world s) k) \<and>
     (r = None \<longrightarrow> (\<exists>obj. view (rs_world s') key = Some obj \<and> desired obj \<and>
        rel (view (rs_world s) key) obj)) \<and>
     (\<exists>evs. rs_events s' = rs_events s @ evs \<and> length evs \<le> 1 \<and>
        (r = None \<longrightarrow> (\<forall>ev \<in> set evs. ev_Type ev = EventTypeNormal)) \<and>
        (r \<noteq> None \<longrightarrow> (\<forall>ev \<in> set evs. ev_Type ev = EventTypeWarning)) \<and>
        (loud \<longrightarrow> r \<noteq> None \<longrightarrow> evs \<noteq> [])) \<and>
     (\<forall>obj. view (rs_world s) key = Some obj \<longrightarrow> desired obj \<longrightarrow>
        view (rs_world s') = view (rs_world s) \<and> (r = None \<longrightarrow> rs_events s' = rs_events s))"

definition contract ::
  "('w \<Rightarrow> objkey \<Rightarrow> KObject option) \<Rightarrow> ('w \<Rightarrow> bool) \<Rightarrow> Config \<Rightarrow> bool \<Rightarrow> 'w step \<Rightarrow> bool" where
  "contract view good cfg loud stp \<longleftrightarrow> (\<forall>s r s'.
     good (rs_world s) \<longrightarrow> rs_Config s = cfg \<longrightarrow> run_state (stp_prog stp) s = (r, s') \<longrightarrow>
       outcome view good loud (stp_key stp) (stp_desired stp) (stp_rel stp) s r s')"

lemma contract_quiet: "contract view good cfg True stp \<Longrightarrow> contract view good cfg loud stp"
  unfolding contract_def outcome_def by blast

lemma outcome_failed_read:
  assumes "good w'" and "view w' = view (rs_world s)"
  shows "outcome view good loud key Q R s (Some err)
    (s\<lparr>rs_world := w', rs_events := rs_events s @ [Event_of ref EventTypeWarning reason action msg]\<rparr>)"
  using assms by (simp add: outcome_def)

lemma outcome_silent:
  assumes "good w'" and "view w' = view (rs_world s)"
  shows "outcome view good False key Q R s (Some err) (s\<lparr>rs_world := w'\<rparr>)"
  using assms by (simp add: outcome_def)

lemma outcome_failed_write:
  assumes "good w'" and "\<And>k. k \<noteq> key \<Longrightarrow> view w' k = view (rs_world s) k"
    and "\<And>obj. view (rs_world s) key = Some obj \<Longrightarrow> \<not> Q obj"
  shows "outcome view good loud key Q R s (Some err)
    (s\<lparr>rs_world := w', rs_events := rs_events s @ [Event_of ref EventTypeWarning reason action msg]\<rparr>)"
  using assms by (simp add: outcome_def)

lemma outcome_written:
  assumes "good w'" and "\<And>k. k \<noteq> key \<Longrightarrow> view w' k = view (rs_world s) k"
    and "\<And>obj. view (rs_world s) key = Some obj \<Longrightarrow> \<not> Q obj"
    and "view w' key = Some obj" "Q obj" "R (view (rs_world s) key) obj"
  shows "outcome view good loud key Q R s None
    (s\<lparr>rs_world := w', rs_events := rs_events s @ [Event_of ref EventTypeNormal reason action msg]\<rparr>)"
  using assms by (simp add: outcome_def)

lemma outcome_current:
  assumes "good w'" and "view w' = view (rs_world s)"
    and "view (rs_world s) key = Some obj" "Q obj" "R (Some obj) obj"
  shows "outcome view good loud key Q R s None (s\<lparr>rs_world := w'\<rparr>)"
  using assms by (simp add: outcome_def)

lemma contractD:
  assumes "contract view good cfg loud stp" "good (rs_world s)" "rs_Config s = cfg"
    and "run_state (stp_prog stp) s = (r, s')"
  shows "good (rs_world s')" "rs_Config s' = cfg"
    and "k \<noteq> stp_key stp \<Longrightarrow> view (rs_world s') k = view (rs_world s) k"
    and "r = None \<Longrightarrow> \<exists>obj. view (rs_world s') (stp_key stp) = Some obj \<and> stp_desired stp obj \<and>
          stp_rel stp (view (rs_world s) (stp_key stp)) obj"
    and "\<exists>evs. rs_events s' = rs_events s @ evs \<and> length evs \<le> 1 \<and>
          (r = None \<longrightarrow> (\<forall>ev \<in> set evs. ev_Type ev = EventTypeNormal)) \<and>
          (r \<noteq> None \<longrightarrow> (\<forall>ev \<in> set evs. ev_Type ev = EventTypeWarning)) \<and>
          (loud \<longrightarrow> r \<noteq> None \<longrightarrow> evs \<noteq> [])"
    and "view (rs_world s) (stp_key stp) = Some obj \<Longrightarrow> stp_desired stp obj \<Longrightarrow>
          view (rs_world s') = view (rs_world s) \<and> (r = None \<longrightarrow> rs_events s' = rs_events s)"
  using assms unfolding contract_def outcome_def by blast+

text \<open>What a sequence of steps on different objects may do, up to the step that fails.\<close>

definition steps_outcome ::
  "('w \<Rightarrow> objkey \<Rightarrow> KObject option) \<Rightarrow> ('w \<Rightarrow> bool) \<Rightarrow> bool \<Rightarrow> 'w step list \<Rightarrow> 'w rstate \<Rightarrow> go_error option \<Rightarrow> 'w rstate \<Rightarrow> bool" where
  "steps_outcome view good loud sps s r s' \<longleftrightarrow>
     good (rs_world s') \<and> rs_Config s' = rs_Config s \<and>
     (\<forall>k. k \<notin> stp_key ` set sps \<longrightarrow> view (rs_world s') k = view (rs_world s) k) \<and>
     (r = None \<longrightarrow> (\<forall>stp \<in> set sps. \<exists>obj. view (rs_world s') (stp_key stp) = Some obj \<and>
        stp_desired stp obj \<and> stp_rel stp (view (rs_world s) (stp_key stp)) obj)) \<and>
     (\<exists>evs. rs_events s' = rs_events s @ evs \<and>
        (r = None \<longrightarrow> (\<forall>ev \<in> set evs. ev_Type ev = EventTypeNormal)) \<and>
        (loud \<longrightarrow> r \<noteq> None \<longrightarrow> evs \<noteq> [] \<and> ev_Type (last evs) = EventTypeWarning)) \<and>
     ((\<forall>stp \<in> set sps. \<exists>obj. view (rs_world s) (stp_key stp) = Some obj \<and> stp_desired stp obj) \<longrightarrow>
        view (rs_world s') = view (rs_world s) \<and> (r = None \<longrightarrow> rs_events s' = rs_events s))"

lemma steps_outcome_stop:
  assumes "outcome view good loud (stp_key stp) (stp_desired stp) (stp_rel stp) s (Some err) s'"
  shows "steps_outcome view good loud (stp # sps) s (Some err) s'"
  using assms unfolding outcome_def steps_outcome_def by (auto simp: last_in_set)

lemma steps_outcome_Cons:
  assumes first: "outcome view good loud (stp_key stp) (stp_desired stp) (stp_rel stp) s None s1"
    and rest: "steps_outcome view good loud sps s1 r s'" and new: "stp_key stp \<notin> stp_key ` set sps"
  shows "steps_outcome view good loud (stp # sps) s r s'"
proof -
  note F = first [unfolded outcome_def] and R = rest [unfolded steps_outcome_def]
  obtain ev1 where ev1: "rs_events s1 = rs_events s @ ev1" "\<forall>ev \<in> set ev1. ev_Type ev = EventTypeNormal" using F by blast
  obtain ev2 where ev2: "rs_events s' = rs_events s1 @ ev2"
      "r = None \<longrightarrow> (\<forall>ev \<in> set ev2. ev_Type ev = EventTypeNormal)"
      "loud \<longrightarrow> r \<noteq> None \<longrightarrow> ev2 \<noteq> [] \<and> ev_Type (last ev2) = EventTypeWarning"
    using R by blast
  have same: "view (rs_world s1) (stp_key x) = view (rs_world s) (stp_key x)" if "x \<in> set sps" for x
    using that new F by (metis image_eqI)
  have own: "view (rs_world s') (stp_key stp) = view (rs_world s1) (stp_key stp)" using R new by blast
  have frame: "\<forall>k. k \<notin> stp_key ` set (stp # sps) \<longrightarrow> view (rs_world s') k = view (rs_world s) k" using R F by simp
  have desired: "\<forall>x \<in> set (stp # sps). \<exists>obj. view (rs_world s') (stp_key x) = Some obj \<and>
      stp_desired x obj \<and> stp_rel x (view (rs_world s) (stp_key x)) obj" if "r = None"
    using R F that own same by auto
  have events: "\<exists>evs. rs_events s' = rs_events s @ evs \<and>
      (r = None \<longrightarrow> (\<forall>ev \<in> set evs. ev_Type ev = EventTypeNormal)) \<and>
      (loud \<longrightarrow> r \<noteq> None \<longrightarrow> evs \<noteq> [] \<and> ev_Type (last evs) = EventTypeWarning)"
    using ev1 ev2 by (intro exI [of _ "ev1 @ ev2"]) auto
  have idle: "view (rs_world s') = view (rs_world s) \<and> (r = None \<longrightarrow> rs_events s' = rs_events s)"
    if all: "\<forall>x \<in> set (stp # sps). \<exists>obj. view (rs_world s) (stp_key x) = Some obj \<and> stp_desired x obj"
  proof -
    have "view (rs_world s1) = view (rs_world s) \<and> rs_events s1 = rs_events s" using F all by auto
    then show ?thesis using R all by simp
  qed
  have base: "good (rs_world s')" "rs_Config s' = rs_Config s" using R F by simp_all
  show ?thesis
    unfolding steps_outcome_def
    by (intro conjI impI, rule base, rule base, rule frame, rule desired, assumption, rule events, use idle in blast, use idle in blast)
qed

text \<open>The contracts of a sequence of steps on different objects compose.\<close>

lemma until_error_outcome:
  assumes "list_all (contract view good cfg loud) sps" and "distinct (map stp_key sps)"
    and "good (rs_world s)" and "rs_Config s = cfg"
    and "run_state (until_error (map stp_prog sps)) s = (r, s')"
  shows "steps_outcome view good loud sps s r s'"
  using assms
proof (induction sps arbitrary: s)
  case Nil
  then show ?case by (auto simp: run_simps steps_outcome_def)
next
  case (Cons stp sps)
  obtain r1 s1 where m: "run_state (stp_prog stp) s = (r1, s1)" by fastforce
  then have first: "outcome view good loud (stp_key stp) (stp_desired stp) (stp_rel stp) s r1 s1"
    using Cons.prems(1,3,4) by (simp add: contract_def)
  show ?case
  proof (cases r1)
    case (Some err)
    then have "r = Some err" "s' = s1" using Cons.prems(5) m by (simp_all add: run_simps)
    then show ?thesis using first Some by (simp add: steps_outcome_stop)
  next
    case None
    then have "run_state (until_error (map stp_prog sps)) s1 = (r, s')"
      using Cons.prems(5) m by (simp add: run_simps)
    moreover have "good (rs_world s1)" "rs_Config s1 = cfg" using first Cons.prems(4) by (auto simp: outcome_def)
    ultimately have "steps_outcome view good loud sps s1 r s'" using Cons.prems(1,2) by (intro Cons.IH) simp_all
    then show ?thesis using first None Cons.prems(2) by (intro steps_outcome_Cons) auto
  qed
qed

lemmas until_error_contract = until_error_outcome [unfolded steps_outcome_def]

section \<open>Get, then create or update\<close>

text \<open>
  The programs that the deployments, the service and the config map have in common. The
  reconciler's methods are instances of them (lemmas \<open>*_eq\<close> below).
\<close>

definition create_prog ::
  "'w env \<Rightarrow> VerticalPodAutoscalerController \<Rightarrow> ObjectMeta \<Rightarrow> (ObjectMeta \<Rightarrow> KObject) \<Rightarrow>
     ('w rstate, go_error option) state" where
  "create_prog e vpa meta mk =
     (case set_owner e vpa meta of
        Inl err \<Rightarrow> State_Monad.return (Some err)
      | Inr m \<Rightarrow> kcreate e (mk m))"

definition update_prog ::
  "'w env \<Rightarrow> objkey \<Rightarrow> (KObject \<Rightarrow> go_error + 'o) \<Rightarrow> ('o \<Rightarrow> KObject) \<Rightarrow> ('o \<Rightarrow> bool) \<Rightarrow>
     ('o \<Rightarrow> 'o) \<Rightarrow> ('w rstate, go_error + bool) state" where
  "update_prog e key dec con current upd =
     do { got \<leftarrow> kget e (fst key) (snd key);
          case decoded dec got of
            Inl err \<Rightarrow> State_Monad.return (Inl err)
          | Inr x \<Rightarrow>
              if current x then State_Monad.return (Inr False)
              else do { r \<leftarrow> kupdate e (con (upd x)); State_Monad.return (update_result r) } }"

record messages =
  msg_getReason :: string
  msg_getAction :: string
  msg_get :: "go_error \<Rightarrow> string"
  msg_create :: "go_error \<Rightarrow> string"
  msg_created :: string
  msg_update :: "go_error \<Rightarrow> string"
  msg_updated :: string

definition ensure_prog ::
  "'w env \<Rightarrow> ObjectReference option \<Rightarrow> messages \<Rightarrow> objkey \<Rightarrow> (KObject \<Rightarrow> go_error + 'o) \<Rightarrow>
     ('w rstate, go_error option) state \<Rightarrow> ('w rstate, go_error + bool) state \<Rightarrow>
     ('w rstate, go_error option) state" where
  "ensure_prog e ref msg key dec create update =
     do { got \<leftarrow> kget e (fst key) (snd key);
          case decoded dec got of
            Inl err \<Rightarrow>
              if \<not> IsNotFound err
              then fail_with ref (msg_getReason msg) (msg_getAction msg) (msg_get msg err) err
              else do { r \<leftarrow> create;
                        case r of
                          Some err' \<Rightarrow> fail_with ref ''FailedCreate'' ''Create'' (msg_create msg err') err'
                        | None \<Rightarrow> succeed_with ref ''SuccessfulCreate'' ''Create'' (msg_created msg) }
          | Inr x \<Rightarrow>
              do { r \<leftarrow> update;
                   case r of
                     Inl err' \<Rightarrow> fail_with ref ''FailedUpdate'' ''Update'' (msg_update msg err') err'
                   | Inr updated \<Rightarrow>
                       if updated then succeed_with ref ''SuccessfulUpdate'' ''Update'' (msg_updated msg)
                       else State_Monad.return None } }"

text \<open>
  How a managed object comes out of a successful step: created as built, with the custom
  resource as its controller; left alone when it is current; else sent with the update.
\<close>

definition ensured ::
  "'w env \<Rightarrow> VerticalPodAutoscalerController \<Rightarrow> ObjectMeta \<Rightarrow> (ObjectMeta \<Rightarrow> KObject) \<Rightarrow> ('o \<Rightarrow> KObject) \<Rightarrow>
     ('o \<Rightarrow> bool) \<Rightarrow> ('o \<Rightarrow> 'o) \<Rightarrow> KObject option \<Rightarrow> KObject \<Rightarrow> bool" where
  "ensured e vpa meta mk con current upd old new =
     (case old of
        None \<Rightarrow> \<exists>m. set_owner e vpa meta = Inr m \<and> stored_as (mk m) new
      | Some obj \<Rightarrow> \<exists>x. obj = con x \<and> (if current x then new = obj else stored_as (con (upd x)) new))"

text \<open>Objects of a kind are the values of one constructor, and decoding inverts it.\<close>

definition decodes :: "Kind \<Rightarrow> (KObject \<Rightarrow> go_error + 'o) \<Rightarrow> ('o \<Rightarrow> KObject) \<Rightarrow> bool" where
  "decodes k dec con \<longleftrightarrow> (\<forall>obj. obj_kind obj = k \<longrightarrow> (\<exists>x. obj = con x)) \<and>
     (\<forall>x. dec (con x) = Inr x \<and> obj_kind (con x) = k)"

lemma decodes_simps:
  "decodes KDeployment as_deployment ODeployment" "decodes KService as_service OService"
  "decodes KConfigMap as_configmap OConfigMap" "decodes KNetworkPolicy as_policy ONetworkPolicy"
  "decodes KVPA as_vpa OVPA" "decodes KAPIServer as_apiserver OAPIServer"
  "decodes KNamespace as_namespace ONamespace"
  by (auto simp: decodes_def elim: obj_kind.elims)

context kube_api
begin

lemma typed_get:
  assumes dec: "decodes k dec con" and w: "wf w" and g: "cl_Get c k n w = (g, w')"
  shows "decoded dec g = Inr x \<Longrightarrow> view w (k, n) = Some (con x)"
    and "decoded dec g = Inl err \<Longrightarrow> IsNotFound err \<Longrightarrow> view w (k, n) = None"
proof -
  have found: "\<exists>y. obj = con y \<and> dec obj = Inr y \<and> view w (k, n) = Some obj" if i: "g = Inr obj" for obj
  proof -
    have v: "view w (k, n) = Some obj" using get_found [OF w] g i by simp
    then have "obj_kind obj = k" using view_key [OF w v] by (simp add: obj_key_def)
    then obtain y where "obj = con y" using dec by (auto simp: decodes_def)
    then show ?thesis using v dec by (simp add: decodes_def)
  qed
  show "view w (k, n) = Some (con x)" if d: "decoded dec g = Inr x"
    using d found by (cases g) (auto simp: decoded_def)
  show "view w (k, n) = None" if d: "decoded dec g = Inl err" and nf: "IsNotFound err"
    using d nf found get_missing [OF w] g by (cases g) (auto simp: decoded_def)
qed

text \<open>The second half of \<open>ensure_prog\<close>, for an object that exists.\<close>

lemma update_prog_run:
  assumes e: "en_Client e = c" and dec: "decodes (fst key) dec con"
    and w: "wf (rs_world s)" and v: "view (rs_world s) key = Some (con x)"
  obtains (err) err w' where "run_state (update_prog e key dec con current upd) s = (Inl err, s\<lparr>rs_world := w'\<rparr>)"
      "wf w'" "view w' = view (rs_world s)"
    | (same) w' where "run_state (update_prog e key dec con current upd) s = (Inr False, s\<lparr>rs_world := w'\<rparr>)"
      "current x" "wf w'" "view w' = view (rs_world s)"
    | (wrote) w1 r w' where "run_state (update_prog e key dec con current upd) s =
          (update_result r, s\<lparr>rs_world := w'\<rparr>)" "\<not> current x"
      "cl_Update c (con (upd x)) w1 = (r, w')" "wf w1" "view w1 = view (rs_world s)"
proof -
  obtain g w1 where g: "cl_Get c (fst key) (snd key) (rs_world s) = (g, w1)" by fastforce
  note f = get_frame [OF w g] and t = typed_get [OF dec w g, unfolded prod.collapse]
  have inj: "con y = con x \<Longrightarrow> y = x" for y using dec by (metis decodes_def Inr_inject)
  show thesis
  proof (cases "decoded dec g")
    case (Inl e')
    then have "run_state (update_prog e key dec con current upd) s = (Inl e', s\<lparr>rs_world := w1\<rparr>)"
      by (simp add: update_prog_def run_simps e g)
    then show ?thesis by (rule err) (use f in simp_all)
  next
    case (Inr y)
    with t(1) v inj have y: "y = x" by simp
    show ?thesis
    proof (cases "current x")
      case True
      have "run_state (update_prog e key dec con current upd) s = (Inr False, s\<lparr>rs_world := w1\<rparr>)"
        using True Inr y by (simp add: update_prog_def run_simps e g)
      then show ?thesis by (rule same) (use True f in simp_all)
    next
      case False
      obtain r w2 where u: "cl_Update c (con (upd x)) w1 = (r, w2)" by fastforce
      have "run_state (update_prog e key dec con current upd) s = (update_result r, s\<lparr>rs_world := w2\<rparr>)"
        using False Inr y u by (simp add: update_prog_def run_simps e g)
      then show ?thesis by (rule wrote) (rule False, rule u, use f in simp_all)
    qed
  qed
qed

text \<open>
  What a write does to the step's object, where the write's error is the step's result and the event tells which it was.
\<close>

lemma create_outcome:
  assumes w: "wf w1" "view w1 = view (rs_world s)" and none: "view (rs_world s) key = None"
    and new: "obj_key new = key" "\<And>obj. stored_as new obj \<Longrightarrow> Q obj \<and> R None obj"
    and c: "cl_Create c new w1 = (r, w2)"
    and s': "s' = s\<lparr>rs_world := w2, rs_events := rs_events s @ [write_event ref ''Create'' ok fail r]\<rparr>"
  shows "outcome view wf loud key Q R s r s'"
proof (cases r)
  case None
  then obtain obj where "view w2 key = Some obj" "stored_as new obj" using create_stored [OF w(1)] c new(1) by metis
  then show ?thesis
    unfolding None s' write_event_simps
    by (intro outcome_written [where obj = obj]) (use w none new create_frame [OF w(1) c] in auto)
next
  case (Some err)
  show ?thesis
    unfolding Some s' write_event_simps by (rule outcome_failed_write) (use w none new create_frame [OF w(1) c] in auto)
qed

lemma update_outcome:
  assumes w: "wf w1" "view w1 = view (rs_world s)" and old: "view (rs_world s) key = Some old" "\<not> Q old"
    and new: "obj_key new = key" "\<And>obj. stored_as new obj \<Longrightarrow> Q obj \<and> R (Some old) obj"
    and c: "cl_Update c new w1 = (r, w2)"
    and s': "s' = s\<lparr>rs_world := w2, rs_events := rs_events s @ [write_event ref ''Update'' ok fail r]\<rparr>"
  shows "outcome view wf loud key Q R s r s'"
proof (cases r)
  case None
  then obtain obj where "view w2 key = Some obj" "stored_as new obj" using update_stored [OF w(1)] c new(1) by metis
  then show ?thesis
    unfolding None s' write_event_simps
    by (intro outcome_written [where obj = obj]) (use w old new update_frame [OF w(1) c] in auto)
next
  case (Some err)
  show ?thesis
    unfolding Some s' write_event_simps by (rule outcome_failed_write) (use w old new update_frame [OF w(1) c] in auto)
qed

text \<open>The two halves of \<open>ensure_prog\<close>: the object is missing, or it exists.\<close>

lemma create_prog_outcome:
  assumes e: "en_Client e = c" and w: "wf w1" "view w1 = view (rs_world s)" and none: "view (rs_world s) key = None"
    and created: "\<And>m obj. set_owner e vpa meta = Inr m \<Longrightarrow> obj_key (mk m) = key \<and> (stored_as (mk m) obj \<longrightarrow> Q obj \<and> R None obj)"
    and run: "run_state (create_prog e vpa meta mk) (s\<lparr>rs_world := w1\<rparr>) = (r, s1)"
    and s': "s' = s1\<lparr>rs_events := rs_events s1 @ [write_event ref ''Create'' ok fail r]\<rparr>"
  shows "outcome view wf loud key Q R s r s'"
proof (cases "set_owner e vpa meta")
  case (Inl err)
  then have rs: "r = Some err" "s1 = s\<lparr>rs_world := w1\<rparr>" using run by (simp_all add: create_prog_def run_simps)
  have "outcome view wf loud key Q R s (Some err)
      (s\<lparr>rs_world := w1, rs_events := rs_events s @ [write_event ref ''Create'' ok fail (Some err)]\<rparr>)"
    unfolding write_event_simps by (rule outcome_failed_read) (use w in simp_all)
  then show ?thesis using rs s' by simp
next
  case (Inr m)
  obtain rc w2 where c2: "cl_Create c (mk m) w1 = (rc, w2)" by fastforce
  have "r = rc" "s' = s\<lparr>rs_world := w2, rs_events := rs_events s @ [write_event ref ''Create'' ok fail rc]\<rparr>"
    using run Inr c2 s' by (auto simp: create_prog_def run_simps e)
  then show ?thesis using create_outcome [OF w none _ _ c2] created [OF Inr] by blast
qed

lemma update_prog_outcome:
  assumes e: "en_Client e = c" and dec: "decodes (fst key) dec con" and w: "wf w1" "view w1 = view (rs_world s)"
    and v: "view (rs_world s) key = Some (con x)" and key: "obj_key (con (upd x)) = key"
    and updated: "\<And>obj. stored_as (con (upd x)) obj \<Longrightarrow> Q obj \<and> (\<not> Q (con x) \<longrightarrow> R (Some (con x)) obj)"
    and current: "current x \<longleftrightarrow> Q (con x)" "Q (con x) \<Longrightarrow> R (Some (con x)) (con x)"
    and run: "run_state (update_prog e key dec con current upd) (s\<lparr>rs_world := w1\<rparr>) = (u, s1)"
    and s': "(r, s') = (case u of
        Inl err \<Rightarrow> (Some err, s1\<lparr>rs_events := rs_events s1 @ [write_event ref ''Update'' ok fail (Some err)]\<rparr>)
      | Inr True \<Rightarrow> (None, s1\<lparr>rs_events := rs_events s1 @ [write_event ref ''Update'' ok fail None]\<rparr>)
      | Inr False \<Rightarrow> (None, s1))"
  shows "outcome view wf loud key Q R s r s'"
proof -
  have w1: "wf (rs_world (s\<lparr>rs_world := w1\<rparr>))" "view (rs_world (s\<lparr>rs_world := w1\<rparr>)) key = Some (con x)"
    using w v by simp_all
  show ?thesis
  proof (cases rule: update_prog_run [OF e dec w1, of current upd, case_names err same wrote])
    case (err err w')
    have rs: "r = Some err" "s' = s\<lparr>rs_world := w', rs_events := rs_events s @ [write_event ref ''Update'' ok fail (Some err)]\<rparr>"
      using run s' err(1) by auto
    show ?thesis unfolding rs write_event_simps by (rule outcome_failed_read) (use err w in simp_all)
  next
    case (same w')
    have rs: "r = None" "s' = s\<lparr>rs_world := w'\<rparr>" using run s' same(1) by auto
    show ?thesis unfolding rs by (rule outcome_current [where obj = "con x"]) (use same w v current in auto)
  next
    case (wrote w2 ru w3)
    have w2: "wf w2" "view w2 = view (rs_world s)" and q: "\<not> Q (con x)" using wrote w current(1) by simp_all
    have rs: "s' = s\<lparr>rs_world := w3, rs_events := rs_events s @ [write_event ref ''Update'' ok fail ru]\<rparr>" "r = ru"
      using run s' wrote(1) by (auto simp: update_result_def split: option.splits)
    show ?thesis unfolding rs(2)
      by (rule update_outcome [where old = "con x" and Q = Q and R = R and new = "con (upd x)", OF w2 v q key _ wrote(3) rs(1)])
        (use updated q in blast)
  qed
qed

lemma ensure_contract:
  assumes e: "en_Client e = c" and dec: "decodes (fst key) dec con"
    and created: "\<And>m obj. set_owner e vpa meta = Inr m \<Longrightarrow> obj_key (mk m) = key \<and>
      (stored_as (mk m) obj \<longrightarrow> Q obj)"
    and updated: "\<And>x obj. obj_key (con x) = key \<Longrightarrow> obj_key (con (upd x)) = key \<and>
      (stored_as (con (upd x)) obj \<longrightarrow> Q obj)"
    and current: "\<And>x. current x \<longleftrightarrow> Q (con x)"
    and R: "R = ensured e vpa meta mk con current upd"
    and prog: "\<And>s. rs_Config s = cfg \<Longrightarrow> run_state p s = run_state
      (ensure_prog e ref msg key dec (create_prog e vpa meta mk) (update_prog e key dec con current upd)) s"
  shows "contract view wf cfg True \<lparr>stp_prog = p, stp_key = key, stp_desired = Q, stp_rel = R\<rparr>"
  unfolding contract_def
proof (intro allI impI, simp only: step.simps)
  fix s r s'
  assume w: "wf (rs_world s)" and cfg: "rs_Config s = cfg" and "run_state p s = (r, s')"
  then have run: "run_state (ensure_prog e ref msg key dec (create_prog e vpa meta mk)
      (update_prog e key dec con current upd)) s = (r, s')" using prog by simp
  obtain g w1 where g: "cl_Get c (fst key) (snd key) (rs_world s) = (g, w1)" by fastforce
  have f1: "wf w1" "view w1 = view (rs_world s)" using get_frame [OF w g] by simp_all
  note t1 = typed_get [OF dec w g, unfolded prod.collapse]
  show "outcome view wf True key Q R s r s'"
  proof (cases "decoded dec g")
    case (Inl err)
    show ?thesis
    proof (cases "IsNotFound err")
      case False
      have rs: "r = Some err" "s' = s\<lparr>rs_world := w1, rs_events := rs_events s @
          [Event_of ref EventTypeWarning (msg_getReason msg) (msg_getAction msg) (msg_get msg err)]\<rparr>"
        using run Inl False by (simp_all add: ensure_prog_def run_simps e g)
      show ?thesis unfolding rs by (rule outcome_failed_read) (use f1 in simp_all)
    next
      case True
      obtain rc s1 where c1: "run_state (create_prog e vpa meta mk) (s\<lparr>rs_world := w1\<rparr>) = (rc, s1)" by fastforce
      have rs: "r = rc" "s' = s1\<lparr>rs_events := rs_events s1 @ [write_event ref ''Create'' (msg_created msg) (msg_create msg) rc]\<rparr>"
        using run Inl True c1 by (auto simp: ensure_prog_def run_simps e g split: option.splits)
      show ?thesis unfolding rs(1)
        by (rule create_prog_outcome [OF e f1 t1(2) [OF Inl True] _ c1 rs(2)]) (use created in \<open>auto simp: R ensured_def\<close>)
    qed
  next
    case (Inr x)
    note v = t1(1) [OF Inr]
    obtain u s1 where u: "run_state (update_prog e key dec con current upd) (s\<lparr>rs_world := w1\<rparr>) = (u, s1)" by fastforce
    have rs: "(r, s') = (case u of
        Inl err \<Rightarrow> (Some err, s1\<lparr>rs_events := rs_events s1 @ [write_event ref ''Update'' (msg_updated msg) (msg_update msg) (Some err)]\<rparr>)
      | Inr True \<Rightarrow> (None, s1\<lparr>rs_events := rs_events s1 @ [write_event ref ''Update'' (msg_updated msg) (msg_update msg) None]\<rparr>)
      | Inr False \<Rightarrow> (None, s1))"
      using run Inr u by (auto simp: ensure_prog_def run_simps e g split: sum.splits if_splits)
    show ?thesis
      by (rule update_prog_outcome [OF e dec f1 v _ _ _ _ u rs])
        (use updated [of x] view_key [OF w v] current in \<open>auto simp: R ensured_def\<close>)
  qed
qed

end

section \<open>The objects a custom resource asks for\<close>

definition service_current :: "Config \<Rightarrow> VerticalPodAutoscalerController \<Rightarrow> Service \<Rightarrow> bool" where
  "service_current cfg vpa x \<longleftrightarrow> semeq_service x (merged_service cfg vpa x)"

definition merged_configmap :: "Config \<Rightarrow> ConfigMap \<Rightarrow> ConfigMap" where
  "merged_configmap cfg x = x\<lparr>cm_Meta := UpdateConfigMapAnnotations cfg (cm_Meta x)\<rparr>"

definition configmap_current :: "Config \<Rightarrow> ConfigMap \<Rightarrow> bool" where
  "configmap_current cfg x \<longleftrightarrow> semeq_configmap x (merged_configmap cfg x)"

lemma service_current_iff:
  "service_current cfg vpa x \<longleftrightarrow>
     svc_Ports x = svc_Ports (WebhookService cfg vpa) \<and>
     svc_Selector x = svc_Selector (WebhookService cfg vpa) \<and>
     fmlookup (nilmap (om_Annotations (svc_Meta x))) ReleaseVersionAnnotation = Some (cfg_ReleaseVersion cfg) \<and>
     fmlookup (nilmap (om_Annotations (svc_Meta x))) webhookCertAnnotationName = Some WebhookCertSecretName"
  (is "?l = ?r")
proof
  let ?m = "merged_service cfg vpa x"
  let ?ann = "\<lambda>y. nilmap (om_Annotations (svc_Meta y))"
  assume ?l
  then have eq: "x\<lparr>svc_Meta := norm_meta (svc_Meta x)\<rparr> = ?m\<lparr>svc_Meta := norm_meta (svc_Meta ?m)\<rparr>"
    by (simp add: service_current_def semeq_service_def)
  have m: "svc_Ports ?m = svc_Ports (WebhookService cfg vpa)"
    "svc_Selector ?m = svc_Selector (WebhookService cfg vpa)"
    "?ann ?m = fmupd webhookCertAnnotationName WebhookCertSecretName
       (fmupd ReleaseVersionAnnotation (cfg_ReleaseVersion cfg) (?ann x))"
    by (simp_all add: merged_service_def Let_def UpdateServiceAnnotations_def nilmap_def)
  have "?ann x = ?ann ?m"
    using arg_cong [OF eq, of "\<lambda>y. nilmap (om_Annotations (svc_Meta y))"] by (simp add: norm_meta_def)
  then have "?ann x = fmupd webhookCertAnnotationName WebhookCertSecretName
      (fmupd ReleaseVersionAnnotation (cfg_ReleaseVersion cfg) (?ann x))"
    by (simp only: m(3))
  from fmupd2_fixed [OF this] show ?r
    using arg_cong [OF eq, of svc_Ports] arg_cong [OF eq, of svc_Selector] m(1,2)
    by (simp add: go_defs)
next
  assume r: ?r
  have "UpdateServiceAnnotations cfg (svc_Meta x) = (svc_Meta x)\<lparr>om_Annotations :=
      Some (nilmap (om_Annotations (svc_Meta x)))\<rparr>"
    using r by (simp add: UpdateServiceAnnotations_def Let_def fmupd_absorb flip: nilmap_def)
  then show ?l
    using r by (simp add: service_current_def semeq_service_def merged_service_def Let_def norm_meta_def)
qed

lemma configmap_current_iff:
  "configmap_current cfg x \<longleftrightarrow>
     fmlookup (nilmap (om_Annotations (cm_Meta x))) ReleaseVersionAnnotation = Some (cfg_ReleaseVersion cfg) \<and>
     fmlookup (nilmap (om_Annotations (cm_Meta x))) cACertAnnotationName = Some ''true''"
  (is "?l = ?r")
proof
  let ?m = "merged_configmap cfg x"
  let ?ann = "\<lambda>y. nilmap (om_Annotations (cm_Meta y))"
  assume ?l
  then have eq: "x\<lparr>cm_Meta := norm_meta (cm_Meta x)\<rparr> = ?m\<lparr>cm_Meta := norm_meta (cm_Meta ?m)\<rparr>"
    by (simp add: configmap_current_def semeq_configmap_def)
  have "?ann ?m = fmupd cACertAnnotationName ''true''
      (fmupd ReleaseVersionAnnotation (cfg_ReleaseVersion cfg) (?ann x))"
    by (simp add: merged_configmap_def Let_def UpdateConfigMapAnnotations_def nilmap_def)
  moreover have "?ann x = ?ann ?m"
    using arg_cong [OF eq, of "\<lambda>y. nilmap (om_Annotations (cm_Meta y))"] by (simp add: norm_meta_def)
  ultimately have "?ann x = fmupd cACertAnnotationName ''true''
      (fmupd ReleaseVersionAnnotation (cfg_ReleaseVersion cfg) (?ann x))"
    by simp
  from fmupd2_fixed [OF this] show ?r by (simp add: go_defs)
next
  assume r: ?r
  have "UpdateConfigMapAnnotations cfg (cm_Meta x) = (cm_Meta x)\<lparr>om_Annotations :=
      Some (nilmap (om_Annotations (cm_Meta x)))\<rparr>"
    using r by (simp add: UpdateConfigMapAnnotations_def Let_def fmupd_absorb flip: nilmap_def)
  then show ?l
    by (simp add: configmap_current_def semeq_configmap_def merged_configmap_def norm_meta_def)
qed

end
