(* ===== verification/Controller_Props.thy ===== *)
theory Controller_Props
  imports Step_Contracts
begin

text \<open>
  What \<open>Reconcile\<close> guarantees over any client that satisfies the laws of \<open>kube_api\<close>: the
  contracts of its ten steps, and the theorems about the whole method.
\<close>

section \<open>The steps and what they are for\<close>

definition deployment_step ::
  "'w env \<Rightarrow> VerticalPodAutoscalerController \<Rightarrow> ObjectReference option \<Rightarrow> Config \<Rightarrow> ControllerParams \<Rightarrow>
     'w step" where
  "deployment_step e vpa ref cfg params =
     (let d = AutoscalerDeployment cfg vpa params
      in \<lparr>stp_prog = reconcile_deployment e vpa ref params,
          stp_key = (KDeployment, par_NameMethod params cfg vpa),
          stp_desired = (\<lambda>obj. \<exists>x. obj = ODeployment x \<and> deployment_current cfg vpa params x),
          stp_rel = ensured e vpa (dep_Meta d) (\<lambda>m. ODeployment (d\<lparr>dep_Meta := m\<rparr>)) ODeployment
            (deployment_current cfg vpa params) (updated_deployment cfg vpa params)\<rparr>)"

definition service_step ::
  "'w env \<Rightarrow> VerticalPodAutoscalerController \<Rightarrow> ObjectReference option \<Rightarrow> Config \<Rightarrow> 'w step" where
  "service_step e vpa ref cfg =
     (let d = WebhookService cfg vpa
      in \<lparr>stp_prog = reconcile_service e vpa ref,
          stp_key = (KService, service_name cfg),
          stp_desired = (\<lambda>obj. \<exists>x. obj = OService x \<and> service_current cfg vpa x),
          stp_rel = ensured e vpa (svc_Meta d) (\<lambda>m. OService (d\<lparr>svc_Meta := m\<rparr>)) OService
            (service_current cfg vpa) (merged_service cfg vpa)\<rparr>)"

definition configmap_step ::
  "'w env \<Rightarrow> VerticalPodAutoscalerController \<Rightarrow> ObjectReference option \<Rightarrow> Config \<Rightarrow> 'w step" where
  "configmap_step e vpa ref cfg =
     (let d = CAConfigMap cfg vpa
      in \<lparr>stp_prog = reconcile_configmap e vpa ref,
          stp_key = (KConfigMap, configmap_name cfg),
          stp_desired = (\<lambda>obj. \<exists>x. obj = OConfigMap x \<and> configmap_current cfg x),
          stp_rel = ensured e vpa (cm_Meta d) (\<lambda>m. OConfigMap (d\<lparr>cm_Meta := m\<rparr>)) OConfigMap
            (configmap_current cfg) (merged_configmap cfg)\<rparr>)"

definition policy_step ::
  "'w env \<Rightarrow> VerticalPodAutoscalerController \<Rightarrow> ObjectReference option \<Rightarrow> NetworkPolicy \<Rightarrow> 'w step" where
  "policy_step e vpa ref policy =
     \<lparr>stp_prog = reconcile_policy e vpa ref policy,
      stp_key = (KNetworkPolicy, meta_key (np_Meta policy)),
      stp_desired = (\<lambda>obj. \<exists>x. obj = ONetworkPolicy x \<and> np_Spec x = np_Spec policy),
      stp_rel = ensured e vpa (np_Meta policy) (\<lambda>m. ONetworkPolicy (policy\<lparr>np_Meta := m\<rparr>)) ONetworkPolicy
        (\<lambda>x. np_Spec x = np_Spec policy) (\<lambda>x. policy)\<rparr>"

definition steps ::
  "'w env \<Rightarrow> VerticalPodAutoscalerController \<Rightarrow> ObjectReference option \<Rightarrow> Config \<Rightarrow> 'w step list" where
  "steps e vpa ref cfg =
     map (deployment_step e vpa ref cfg) controllerParams
     @ [service_step e vpa ref cfg] @ [configmap_step e vpa ref cfg]
     @ map (policy_step e vpa ref) (NetworkPolicies cfg vpa)"

definition managed_keys :: "Config \<Rightarrow> VerticalPodAutoscalerController \<Rightarrow> objkey list" where
  "managed_keys cfg vpa =
     map (\<lambda>params. (KDeployment, par_NameMethod params cfg vpa)) controllerParams
     @ [(KService, service_name cfg), (KConfigMap, configmap_name cfg)]
     @ map (\<lambda>p. (KNetworkPolicy, meta_key (np_Meta p))) (NetworkPolicies cfg vpa)"

lemma stp_prog_steps: "map stp_prog (steps e vpa ref cfg) = reconcile_steps e cfg vpa ref"
  by (simp add: steps_def reconcile_steps_def deployment_step_def service_step_def configmap_step_def
      policy_step_def Let_def)

lemma stp_key_steps: "map stp_key (steps e vpa ref cfg) = managed_keys cfg vpa"
  by (simp add: steps_def managed_keys_def deployment_step_def service_step_def configmap_step_def
      policy_step_def Let_def)

lemma distinct_managed_keys: "distinct (managed_keys cfg vpa)"
  by (simp add: managed_keys_def controllerParams_def recommender_params_def updater_params_def
      admission_params_def RecommenderName_def UpdaterName_def AdmissionPluginName_def
      NetworkPolicies_def meta_key_def Let_def)

section \<open>The methods are instances of the common program\<close>

definition deployment_messages :: "NamespacedName \<Rightarrow> messages" where
  "deployment_messages nn =
     \<lparr>msg_getReason = ''FailedGetDeployment'', msg_getAction = ''GetDeployment'',
      msg_get = (\<lambda>err. ''Error getting vertical-pod-autoscaler deployment: '' @ Error err),
      msg_create = (\<lambda>err. ''Error creating VerticalPodAutoscalerController deployment: '' @ Error err),
      msg_created = ''Created VerticalPodAutoscalerController deployment: '' @ NamespacedName_String nn,
      msg_update = (\<lambda>err. ''Error updating vertical-pod-autoscaler deployment: '' @ Error err),
      msg_updated = ''Updated VerticalPodAutoscalerController deployment: '' @ NamespacedName_String nn\<rparr>"

definition service_messages :: messages where
  "service_messages =
     \<lparr>msg_getReason = ''FailedGetService'', msg_getAction = ''GetService'',
      msg_get = (\<lambda>err. ''Error getting vertical-pod-autoscaler webhook service '' @ WebhookServiceName
        @ '': '' @ Error err),
      msg_create = (\<lambda>err. ''Error creating VerticalPodAutoscalerController service: '' @ Error err),
      msg_created = ''Created VerticalPodAutoscalerController service: '' @ WebhookServiceName,
      msg_update = (\<lambda>err. ''Error updating vertical-pod-autoscaler webhook service: '' @ Error err),
      msg_updated = ''Updated VerticalPodAutoscalerController service: '' @ WebhookServiceName\<rparr>"

definition configmap_messages :: messages where
  "configmap_messages =
     \<lparr>msg_getReason = ''FailedGetConfigMap'', msg_getAction = ''GetConfigMap'',
      msg_get = (\<lambda>err. ''Error getting vertical-pod-autoscaler CA ConfigMap '' @ CACertConfigMapName
        @ '': '' @ Error err),
      msg_create = (\<lambda>err. ''Error creating VerticalPodAutoscalerController ConfigMap: '' @ Error err),
      msg_created = ''Created VerticalPodAutoscalerController ConfigMap: '' @ CACertConfigMapName,
      msg_update = (\<lambda>err. ''Error updating vertical-pod-autoscaler CA ConfigMap: '' @ Error err),
      msg_updated = ''Updated VerticalPodAutoscalerController ConfigMap: '' @ CACertConfigMapName\<rparr>"

lemma CreateAutoscaler_eq:
  "rs_Config s = cfg \<Longrightarrow> d = AutoscalerDeployment cfg vpa params \<Longrightarrow>
     run_state (CreateAutoscaler e vpa params) s =
     run_state (create_prog e vpa (dep_Meta d) (\<lambda>m. ODeployment (d\<lparr>dep_Meta := m\<rparr>))) s"
  by (simp add: CreateAutoscaler_def create_prog_def run_simps)

lemma UpdateAutoscaler_eq:
  "rs_Config s = cfg \<Longrightarrow> run_state (UpdateAutoscaler e vpa params) s =
     run_state (update_prog e (KDeployment, par_NameMethod params cfg vpa) as_deployment ODeployment
       (deployment_current cfg vpa params) (updated_deployment cfg vpa params)) s"
  by (simp add: UpdateAutoscaler_def update_prog_def run_simps)

lemma reconcile_deployment_eq:
  assumes "rs_Config s = cfg" and "d = AutoscalerDeployment cfg vpa params"
    and "nn = par_NameMethod params cfg vpa"
  shows "run_state (reconcile_deployment e vpa ref params) s =
    run_state (ensure_prog e ref (deployment_messages nn) (KDeployment, nn) as_deployment
      (create_prog e vpa (dep_Meta d) (\<lambda>m. ODeployment (d\<lparr>dep_Meta := m\<rparr>)))
      (update_prog e (KDeployment, nn) as_deployment ODeployment
        (deployment_current cfg vpa params) (updated_deployment cfg vpa params))) s"
  using assms
  by (simp add: reconcile_deployment_def ensure_prog_def deployment_messages_def run_simps
      CreateAutoscaler_eq [OF _ refl] UpdateAutoscaler_eq split: prod.split sum.split)

lemma CreateWebhookService_eq:
  "rs_Config s = cfg \<Longrightarrow> run_state (CreateWebhookService e vpa) s =
     run_state (create_prog e vpa (svc_Meta (WebhookService cfg vpa))
       (\<lambda>m. OService ((WebhookService cfg vpa)\<lparr>svc_Meta := m\<rparr>))) s"
  by (simp add: CreateWebhookService_def create_prog_def run_simps)

lemma UpdateWebhookService_eq:
  "rs_Config s = cfg \<Longrightarrow> run_state (UpdateWebhookService e vpa) s =
     run_state (update_prog e (KService, service_name cfg) as_service OService
       (service_current cfg vpa) (merged_service cfg vpa)) s"
  by (simp add: UpdateWebhookService_def update_prog_def service_current_def run_simps
      split: prod.split sum.split)

lemma reconcile_service_eq:
  "rs_Config s = cfg \<Longrightarrow> run_state (reconcile_service e vpa ref) s =
    run_state (ensure_prog e ref service_messages (KService, service_name cfg) as_service
      (create_prog e vpa (svc_Meta (WebhookService cfg vpa))
        (\<lambda>m. OService ((WebhookService cfg vpa)\<lparr>svc_Meta := m\<rparr>)))
      (update_prog e (KService, service_name cfg) as_service OService
        (service_current cfg vpa) (merged_service cfg vpa))) s"
  by (simp add: reconcile_service_def ensure_prog_def service_messages_def run_simps
      CreateWebhookService_eq UpdateWebhookService_eq split: prod.split sum.split)

lemma CreateCAConfigMap_eq:
  "rs_Config s = cfg \<Longrightarrow> run_state (CreateCAConfigMap e vpa) s =
     run_state (create_prog e vpa (cm_Meta (CAConfigMap cfg vpa))
       (\<lambda>m. OConfigMap ((CAConfigMap cfg vpa)\<lparr>cm_Meta := m\<rparr>))) s"
  by (simp add: CreateCAConfigMap_def create_prog_def run_simps)

lemma UpdateCAConfigMap_eq:
  "rs_Config s = cfg \<Longrightarrow> run_state (UpdateCAConfigMap e vpa) s =
     run_state (update_prog e (KConfigMap, configmap_name cfg) as_configmap OConfigMap
       (configmap_current cfg) (merged_configmap cfg)) s"
  by (simp add: UpdateCAConfigMap_def update_prog_def configmap_current_def merged_configmap_def run_simps
      split: prod.split sum.split)

lemma reconcile_configmap_eq:
  "rs_Config s = cfg \<Longrightarrow> run_state (reconcile_configmap e vpa ref) s =
    run_state (ensure_prog e ref configmap_messages (KConfigMap, configmap_name cfg) as_configmap
      (create_prog e vpa (cm_Meta (CAConfigMap cfg vpa))
        (\<lambda>m. OConfigMap ((CAConfigMap cfg vpa)\<lparr>cm_Meta := m\<rparr>)))
      (update_prog e (KConfigMap, configmap_name cfg) as_configmap OConfigMap
        (configmap_current cfg) (merged_configmap cfg))) s"
  by (simp add: reconcile_configmap_def ensure_prog_def configmap_messages_def run_simps
      CreateCAConfigMap_eq UpdateCAConfigMap_eq split: prod.split sum.split)

section \<open>What is stored is as desired\<close>

lemma set_owner_meta:
  assumes "set_owner e vpa meta = Inr m"
  shows "om_Name m = om_Name meta" "om_Namespace m = om_Namespace meta"
    "om_Annotations m = om_Annotations meta"
  using SetControllerReference_Inr [OF assms [unfolded set_owner_def]] by auto

lemma UpdateAnnotations_lookup:
  "fmlookup (nilmap (om_Annotations (UpdateAnnotations cfg m))) ReleaseVersionAnnotation =
     Some (cfg_ReleaseVersion cfg)"
  by (simp add: UpdateAnnotations_def Let_def)

lemma created_deployment_current:
  assumes "set_owner e vpa (dep_Meta (AutoscalerDeployment cfg vpa params)) = Inr m"
    and "stored_as (ODeployment ((AutoscalerDeployment cfg vpa params)\<lparr>dep_Meta := m\<rparr>)) obj"
  shows "\<exists>x. obj = ODeployment x \<and> deployment_current cfg vpa params x"
  using stored_as_deployment [OF assms(2)] set_owner_meta [OF assms(1)]
  by (auto simp: deployment_current_def ReleaseVersionMatches_iff expected_replicas_def
      AutoscalerDeployment_def Let_def)

lemma updated_deployment_current:
  assumes "stored_as (ODeployment (updated_deployment cfg vpa params x)) obj"
  shows "\<exists>y. obj = ODeployment y \<and> deployment_current cfg vpa params y"
  using stored_as_deployment [OF assms]
  by (auto simp: deployment_current_def ReleaseVersionMatches_iff updated_deployment_def
      UpdateAnnotations_lookup)

lemma service_annotations:
  "fmlookup (nilmap (om_Annotations (UpdateServiceAnnotations cfg m))) ReleaseVersionAnnotation =
     Some (cfg_ReleaseVersion cfg)"
  "fmlookup (nilmap (om_Annotations (UpdateServiceAnnotations cfg m))) webhookCertAnnotationName =
     Some WebhookCertSecretName"
  by (simp_all add: UpdateServiceAnnotations_def Let_def go_defs)

lemma created_service_current:
  assumes "set_owner e vpa (svc_Meta (WebhookService cfg vpa)) = Inr m"
    and "stored_as (OService ((WebhookService cfg vpa)\<lparr>svc_Meta := m\<rparr>)) obj"
  shows "\<exists>x. obj = OService x \<and> service_current cfg vpa x"
proof -
  have "svc_Meta (WebhookService cfg vpa) = UpdateServiceAnnotations cfg
      (zero_ObjectMeta\<lparr>om_Name := WebhookServiceName, om_Namespace := cfg_Namespace cfg\<rparr>)"
    by (simp add: WebhookService_def Let_def)
  then show ?thesis
    using stored_as_service [OF assms(2)] set_owner_meta [OF assms(1)]
    by (auto simp: service_current_iff service_annotations)
qed

lemma updated_service_current:
  assumes "stored_as (OService (merged_service cfg vpa x)) obj"
  shows "\<exists>y. obj = OService y \<and> service_current cfg vpa y"
  using stored_as_service [OF assms]
  by (auto simp: service_current_iff merged_service_def Let_def service_annotations)

lemma configmap_annotations:
  "fmlookup (nilmap (om_Annotations (UpdateConfigMapAnnotations cfg m))) ReleaseVersionAnnotation =
     Some (cfg_ReleaseVersion cfg)"
  "fmlookup (nilmap (om_Annotations (UpdateConfigMapAnnotations cfg m))) cACertAnnotationName = Some ''true''"
  by (simp_all add: UpdateConfigMapAnnotations_def Let_def go_defs)

lemma created_configmap_current:
  assumes "set_owner e vpa (cm_Meta (CAConfigMap cfg vpa)) = Inr m"
    and "stored_as (OConfigMap ((CAConfigMap cfg vpa)\<lparr>cm_Meta := m\<rparr>)) obj"
  shows "\<exists>x. obj = OConfigMap x \<and> configmap_current cfg x"
proof -
  have "cm_Meta (CAConfigMap cfg vpa) = UpdateConfigMapAnnotations cfg
      (zero_ObjectMeta\<lparr>om_Name := CACertConfigMapName, om_Namespace := cfg_Namespace cfg\<rparr>)"
    by (simp add: CAConfigMap_def Let_def)
  then show ?thesis
    using stored_as_configmap [OF assms(2)] set_owner_meta [OF assms(1)]
    by (auto simp: configmap_current_iff configmap_annotations)
qed

lemma updated_configmap_current:
  assumes "stored_as (OConfigMap (merged_configmap cfg x)) obj"
  shows "\<exists>y. obj = OConfigMap y \<and> configmap_current cfg y"
  using stored_as_configmap [OF assms]
  by (auto simp: configmap_current_iff merged_configmap_def configmap_annotations)

section \<open>Keys\<close>

lemma key_of_deployment:
  "obj_key (ODeployment (AutoscalerDeployment cfg vpa params)) = (KDeployment, par_NameMethod params cfg vpa)"
  by (simp add: obj_key_def meta_key_def AutoscalerDeployment_def Let_def)

lemma key_of_service: "obj_key (OService (WebhookService cfg vpa)) = (KService, service_name cfg)"
  by (simp add: obj_key_def meta_key_def WebhookService_def Let_def UpdateServiceAnnotations_def service_name_def)

lemma key_of_configmap: "obj_key (OConfigMap (CAConfigMap cfg vpa)) = (KConfigMap, configmap_name cfg)"
  by (simp add: obj_key_def meta_key_def CAConfigMap_def Let_def UpdateConfigMapAnnotations_def configmap_name_def)

lemma key_of_updates:
  "obj_key (ODeployment (updated_deployment cfg vpa params d)) = obj_key (ODeployment d)"
  "obj_key (OService (merged_service cfg vpa x)) = obj_key (OService x)"
  "obj_key (OConfigMap (merged_configmap cfg m)) = obj_key (OConfigMap m)"
  by (simp_all add: obj_key_def meta_key_def updated_deployment_def UpdateAnnotations_def
      merged_service_def UpdateServiceAnnotations_def merged_configmap_def UpdateConfigMapAnnotations_def Let_def)

lemma key_with_meta:
  assumes "om_Name m = om_Name (obj_meta obj)" "om_Namespace m = om_Namespace (obj_meta obj)"
  shows "obj_key (map_meta (\<lambda>_. m) obj) = obj_key obj"
  using assms by (cases obj) (simp_all add: obj_key_def meta_key_def)

section \<open>The contracts of the steps\<close>

text \<open>The configuration after \<open>syncTLSProfile\<close>: unchanged, or with the cluster's TLS profile.\<close>

definition apiserver_key :: objkey where
  "apiserver_key = (KAPIServer, \<lparr>nn_Namespace = '''', nn_Name = APIServerName\<rparr>)"

definition tls_synced :: "(objkey \<Rightarrow> KObject option) \<Rightarrow> Config \<Rightarrow> Config \<Rightarrow> bool" where
  "tls_synced objs old new \<longleftrightarrow> (\<exists>t. new = old\<lparr>cfg_TLSProfileSpec := t\<rparr> \<and>
     (t = cfg_TLSProfileSpec old \<or> (\<exists>a. objs apiserver_key = Some (OAPIServer a) \<and>
        t = synced_profile (api_Spec a) (cfg_TLSProfileSpec old))))"

lemma tls_syncedD: "tls_synced objs old new \<Longrightarrow> \<exists>t. new = old\<lparr>cfg_TLSProfileSpec := t\<rparr>"
  by (auto simp: tls_synced_def)

context kube_api
begin

lemma deployment_contract:
  assumes e: "en_Client e = c"
  shows "contract view wf cfg loud (deployment_step e vpa ref cfg params)"
  unfolding deployment_step_def Let_def
proof (rule contract_quiet, rule ensure_contract [OF e _ _ _ _ refl reconcile_deployment_eq [OF _ refl refl]])
  let ?d = "AutoscalerDeployment cfg vpa params" and ?key = "(KDeployment, par_NameMethod params cfg vpa)"
  show "decodes (fst ?key) as_deployment ODeployment" by (simp add: decodes_simps)
  show "obj_key (ODeployment (?d\<lparr>dep_Meta := m\<rparr>)) = ?key \<and>
      (stored_as (ODeployment (?d\<lparr>dep_Meta := m\<rparr>)) obj \<longrightarrow>
        (\<exists>x. obj = ODeployment x \<and> deployment_current cfg vpa params x))"
    if "set_owner e vpa (dep_Meta ?d) = Inr m" for m obj
    using created_deployment_current [OF that] key_with_meta [of m "ODeployment ?d"]
      set_owner_meta [OF that] key_of_deployment [of cfg vpa params] by auto
  show "obj_key (ODeployment (updated_deployment cfg vpa params x)) = ?key \<and>
      (stored_as (ODeployment (updated_deployment cfg vpa params x)) obj \<longrightarrow>
        (\<exists>y. obj = ODeployment y \<and> deployment_current cfg vpa params y))"
    if "obj_key (ODeployment x) = ?key" for x obj
    using that key_of_updates updated_deployment_current by simp
qed simp

lemma service_contract:
  assumes e: "en_Client e = c"
  shows "contract view wf cfg loud (service_step e vpa ref cfg)"
  unfolding service_step_def Let_def
proof (rule contract_quiet, rule ensure_contract [OF e _ _ _ _ refl reconcile_service_eq])
  let ?d = "WebhookService cfg vpa" and ?key = "(KService, service_name cfg)"
  show "decodes (fst ?key) as_service OService" by (simp add: decodes_simps)
  show "obj_key (OService (?d\<lparr>svc_Meta := m\<rparr>)) = ?key \<and>
      (stored_as (OService (?d\<lparr>svc_Meta := m\<rparr>)) obj \<longrightarrow> (\<exists>x. obj = OService x \<and> service_current cfg vpa x))"
    if "set_owner e vpa (svc_Meta ?d) = Inr m" for m obj
    using created_service_current [OF that] key_with_meta [of m "OService ?d"]
      set_owner_meta [OF that] key_of_service [of cfg vpa] by auto
  show "obj_key (OService (merged_service cfg vpa x)) = ?key \<and>
      (stored_as (OService (merged_service cfg vpa x)) obj \<longrightarrow>
        (\<exists>y. obj = OService y \<and> service_current cfg vpa y))"
    if "obj_key (OService x) = ?key" for x obj
    using that key_of_updates updated_service_current by simp
qed simp_all

lemma configmap_contract:
  assumes e: "en_Client e = c"
  shows "contract view wf cfg loud (configmap_step e vpa ref cfg)"
  unfolding configmap_step_def Let_def
proof (rule contract_quiet, rule ensure_contract [OF e _ _ _ _ refl reconcile_configmap_eq])
  let ?d = "CAConfigMap cfg vpa" and ?key = "(KConfigMap, configmap_name cfg)"
  show "decodes (fst ?key) as_configmap OConfigMap" by (simp add: decodes_simps)
  show "obj_key (OConfigMap (?d\<lparr>cm_Meta := m\<rparr>)) = ?key \<and>
      (stored_as (OConfigMap (?d\<lparr>cm_Meta := m\<rparr>)) obj \<longrightarrow> (\<exists>x. obj = OConfigMap x \<and> configmap_current cfg x))"
    if "set_owner e vpa (cm_Meta ?d) = Inr m" for m obj
    using created_configmap_current [OF that] key_with_meta [of m "OConfigMap ?d"]
      set_owner_meta [OF that] key_of_configmap [of cfg vpa] by auto
  show "obj_key (OConfigMap (merged_configmap cfg x)) = ?key \<and>
      (stored_as (OConfigMap (merged_configmap cfg x)) obj \<longrightarrow>
        (\<exists>y. obj = OConfigMap y \<and> configmap_current cfg y))"
    if "obj_key (OConfigMap x) = ?key" for x obj
    using that key_of_updates updated_configmap_current by simp
qed simp_all

lemma policy_missing:
  assumes e: "en_Client e = c" and cfg: "rs_Config s = cfg" and w: "wf (rs_world s)"
    and nn: "\<lparr>nn_Namespace = cfg_Namespace cfg, nn_Name = om_Name (np_Meta policy)\<rparr> = meta_key (np_Meta policy)"
    and loud: "loud \<Longrightarrow> \<exists>m. set_owner e vpa (np_Meta policy) = Inr m"
    and run: "run_state (reconcile_policy e vpa ref policy) s = (r, s')"
    and g: "cl_Get c KNetworkPolicy (meta_key (np_Meta policy)) (rs_world s) = (g, w1)"
    and get: "decoded as_policy g = Inl err"
  shows "outcome view wf loud (stp_key (policy_step e vpa ref policy)) (stp_desired (policy_step e vpa ref policy))
    (stp_rel (policy_step e vpa ref policy)) s r s'"
  unfolding policy_step_def step.simps
proof -
  note f1 = conjunct1 [OF get_frame [OF w g]] conjunct2 [OF get_frame [OF w g]]
  note ev = reconcile_policy_def run_simps e g cfg nn
  let ?out = "outcome view wf loud (KNetworkPolicy, meta_key (np_Meta policy))
    (\<lambda>obj. \<exists>x. obj = ONetworkPolicy x \<and> np_Spec x = np_Spec policy)
    (ensured e vpa (np_Meta policy) (\<lambda>m. ONetworkPolicy (policy\<lparr>np_Meta := m\<rparr>)) ONetworkPolicy
      (\<lambda>x. np_Spec x = np_Spec policy) (\<lambda>x. policy)) s r s'"
  let ?msg = "\<lambda>text err. text @ om_Name (np_Meta policy) @ '': '' @ Error err"
  consider "\<not> IsNotFound err" | err' where "IsNotFound err" "set_owner e vpa (np_Meta policy) = Inl err'"
    | m where "IsNotFound err" "set_owner e vpa (np_Meta policy) = Inr m"
    by (metis sum.exhaust)
  then show ?out
  proof cases
    case 1
    have rs: "r = Some err" "s' = s\<lparr>rs_world := w1, rs_events := rs_events s @
        [Event_of ref EventTypeWarning ''FailedGetNetworkPolicy'' ''GetNetworkPolicy''
          (?msg ''Error getting VerticalPodAutoscalerController networkpolicy '' err)]\<rparr>"
      using run get 1 by (simp_all add: ev)
    show ?thesis unfolding rs by (rule outcome_failed_read) (use f1 in simp_all)
  next
    case (2 err')
    have rs: "r = Some err'" "s' = s\<lparr>rs_world := w1\<rparr>" "\<not> loud"
      using run get 2 loud by (auto simp: ev)
    show ?thesis unfolding rs using rs(3) outcome_silent [of wf w1 view s] f1 by simp
  next
    case (3 m)
    obtain rc w2 where c2: "cl_Create c (ONetworkPolicy (policy\<lparr>np_Meta := m\<rparr>)) w1 = (rc, w2)" by fastforce
    have rs: "r = rc" "s' = s\<lparr>rs_world := w2, rs_events := rs_events s @ [write_event ref ''Create''
          (''Created VerticalPodAutoscalerController networkpolicy: '' @ om_Name (np_Meta policy))
          (?msg ''Error creating VerticalPodAutoscalerController networkpolicy '') rc]\<rparr>"
      using run get 3 c2 by (auto simp: ev split: option.splits)
    show ?thesis unfolding rs(1)
      by (rule create_outcome [OF f1 typed_get(2) [OF decodes_simps(4) w g get 3(1)] _ _ c2 rs(2)])
        (use set_owner_meta [OF 3(2)] 3 in \<open>auto simp: obj_key_def meta_key_def ensured_def dest: stored_as_policy\<close>)
  qed
qed

lemma policy_found:
  assumes e: "en_Client e = c" and cfg: "rs_Config s = cfg" and w: "wf (rs_world s)"
    and nn: "\<lparr>nn_Namespace = cfg_Namespace cfg, nn_Name = om_Name (np_Meta policy)\<rparr> = meta_key (np_Meta policy)"
    and run: "run_state (reconcile_policy e vpa ref policy) s = (r, s')"
    and g: "cl_Get c KNetworkPolicy (meta_key (np_Meta policy)) (rs_world s) = (g, w1)"
    and get: "decoded as_policy g = Inr x"
  shows "outcome view wf loud (stp_key (policy_step e vpa ref policy)) (stp_desired (policy_step e vpa ref policy))
    (stp_rel (policy_step e vpa ref policy)) s r s'"
  unfolding policy_step_def step.simps
proof (cases "np_Spec x = np_Spec policy")
  note f1 = conjunct1 [OF get_frame [OF w g]] conjunct2 [OF get_frame [OF w g]]
  note v = typed_get(1) [OF decodes_simps(4) w g get]
  note ev = reconcile_policy_def run_simps e g cfg nn semeq_policyspec_def
  let ?out = "outcome view wf loud (KNetworkPolicy, meta_key (np_Meta policy))
    (\<lambda>obj. \<exists>x. obj = ONetworkPolicy x \<and> np_Spec x = np_Spec policy)
    (ensured e vpa (np_Meta policy) (\<lambda>m. ONetworkPolicy (policy\<lparr>np_Meta := m\<rparr>)) ONetworkPolicy
      (\<lambda>x. np_Spec x = np_Spec policy) (\<lambda>x. policy)) s r s'"
  {
    case True
    have rs: "r = None" "s' = s\<lparr>rs_world := w1\<rparr>"
      using run get True by (simp_all add: ev)
    show ?out unfolding rs
      by (rule outcome_current [where obj = "ONetworkPolicy x"]) (use f1 v True in \<open>auto simp: ensured_def\<close>)
  next
    case False
    obtain ru w2 where u2: "cl_Update c (ONetworkPolicy policy) w1 = (ru, w2)" by fastforce
    have rs: "r = ru" "s' = s\<lparr>rs_world := w2, rs_events := rs_events s @ [write_event ref ''Update''
          (''Updated VerticalPodAutoscalerController networkpolicy: '' @ om_Name (np_Meta policy))
          (\<lambda>err. ''Error updating VerticalPodAutoscalerController networkpolicy '' @ om_Name (np_Meta policy) @ '': '' @ Error err) ru]\<rparr>"
      using run get False u2 by (auto simp: ev split: option.splits)
    show ?out unfolding rs(1)
      by (rule update_outcome [where old = "ONetworkPolicy x" and new = "ONetworkPolicy policy", OF f1 v _ _ _ u2 rs(2)])
        (use False in \<open>auto simp: obj_key_def ensured_def dest: stored_as_policy\<close>)
  }
qed

lemma policy_contract:
  assumes e: "en_Client e = c" and p: "policy \<in> set (NetworkPolicies cfg vpa)"
    and loud: "loud \<Longrightarrow> \<exists>m. set_owner e vpa (np_Meta policy) = Inr m"
  shows "contract view wf cfg loud (policy_step e vpa ref policy)"
  unfolding contract_def
proof (intro allI impI)
  fix s r s'
  assume w: "wf (rs_world s)" and cfg: "rs_Config s = cfg"
    and "run_state (stp_prog (policy_step e vpa ref policy)) s = (r, s')"
  then have run: "run_state (reconcile_policy e vpa ref policy) s = (r, s')" by (simp add: policy_step_def)
  have nn: "\<lparr>nn_Namespace = cfg_Namespace cfg, nn_Name = om_Name (np_Meta policy)\<rparr> = meta_key (np_Meta policy)"
    using NetworkPolicies_meta(2) [OF p] by (auto simp: meta_key_def)
  obtain g w1 where g: "cl_Get c KNetworkPolicy (meta_key (np_Meta policy)) (rs_world s) = (g, w1)" by fastforce
  show "outcome view wf loud (stp_key (policy_step e vpa ref policy)) (stp_desired (policy_step e vpa ref policy))
      (stp_rel (policy_step e vpa ref policy)) s r s'"
    using policy_missing [OF e cfg w nn loud run g] policy_found [OF e cfg w nn run g]
    by (cases "decoded as_policy g") blast+
qed

lemma steps_contract:
  assumes e: "en_Client e = c"
    and loud: "loud \<Longrightarrow> \<forall>p \<in> set (NetworkPolicies cfg vpa). \<exists>m. set_owner e vpa (np_Meta p) = Inr m"
  shows "list_all (contract view wf cfg loud) (steps e vpa ref cfg)"
proof -
  have "contract view wf cfg loud (policy_step e vpa ref p)" if "p \<in> set (NetworkPolicies cfg vpa)" for p
    using policy_contract [OF e that] loud that by blast
  then show ?thesis
    by (auto simp: steps_def list_all_iff deployment_contract [OF e] service_contract [OF e]
        configmap_contract [OF e])
qed

lemma syncTLSProfile_run:
  assumes e: "en_Client e = c" and w: "wf (rs_world s)" and run: "run_state (syncTLSProfile e) s = (u, s')"
  shows "wf (rs_world s') \<and> view (rs_world s') = view (rs_world s) \<and> rs_events s' = rs_events s \<and>
    tls_synced (view (rs_world s)) (rs_Config s) (rs_Config s')"
proof -
  obtain g w1 where g: "cl_Get c KAPIServer \<lparr>nn_Namespace = '''', nn_Name = APIServerName\<rparr> (rs_world s) = (g, w1)"
    by fastforce
  note f = get_frame [OF w g] and t = typed_get [OF decodes_simps(6) w g]
  show ?thesis
  proof (cases "decoded as_apiserver g")
    case (Inl err)
    then have "s' = s\<lparr>rs_world := w1\<rparr>" using run by (simp add: syncTLSProfile_def run_simps e g)
    then show ?thesis using f
      by (auto simp: tls_synced_def intro!: exI [of _ "cfg_TLSProfileSpec (rs_Config s)"])
  next
    case (Inr a)
    let ?t = "synced_profile (api_Spec a) (cfg_TLSProfileSpec (rs_Config s))"
    have "s' = s\<lparr>rs_world := w1, rs_Config := (rs_Config s)\<lparr>cfg_TLSProfileSpec := ?t\<rparr>\<rparr>"
      using run Inr by (simp add: syncTLSProfile_def run_simps e g State_Monad.update_def State_Monad.get_def
          State_Monad.set_def)
    then show ?thesis using f t(1) [OF Inr]
      by (auto simp: tls_synced_def apiserver_key_def intro!: exI [of _ ?t])
  qed
qed

lemma Reconcile_run:
  assumes e: "en_Client e = c" and w: "wf (rs_world s)" and run: "run_state (Reconcile e req) s = (res, s')"
  obtains (absent) "snd res = None" "view (rs_world s) (KVPA, req) = None"
      "view (rs_world s') = view (rs_world s)" "rs_events s' = rs_events s" "wf (rs_world s')"
      "tls_synced (view (rs_world s)) (rs_Config s) (rs_Config s')"
    | (unread) err where "snd res = Some err"
      "view (rs_world s') = view (rs_world s)" "rs_events s' = rs_events s" "wf (rs_world s')"
      "tls_synced (view (rs_world s)) (rs_Config s) (rs_Config s')"
    | (ran) vpa cfg s1 ref where "view (rs_world s) (KVPA, req) = Some (OVPA vpa)"
      "wf (rs_world s1)" "view (rs_world s1) = view (rs_world s)" "rs_events s1 = rs_events s"
      "rs_Config s1 = cfg" "tls_synced (view (rs_world s)) (rs_Config s) cfg"
      "ref = objectReference cfg (en_Scheme e) vpa"
      "run_state (until_error (map stp_prog (steps e vpa ref cfg))) s1 = (snd res, s')"
proof -
  obtain u s1 where sync: "run_state (syncTLSProfile e) s = (u, s1)" by (rule prod.exhaust)
  note S = syncTLSProfile_run [OF e w sync]
  obtain g w2 where g: "cl_Get c KVPA req (rs_world s1) = (g, w2)" by fastforce
  have w1: "wf (rs_world s1)" using S by simp
  note f = get_frame [OF w1 g] and t = typed_get [OF decodes_simps(5) w1 g]
  note ev = Reconcile_def run_simps sync e g
  show thesis
  proof (cases "decoded as_vpa g")
    case (Inl err)
    show thesis
    proof (cases "IsNotFound err")
      case True
      have "res = (zero_Result, None)" "s' = s1\<lparr>rs_world := w2\<rparr>" using run Inl True by (simp_all add: ev)
      then show thesis by (intro absent) (use S f t(2) [OF Inl True] in auto)
    next
      case False
      have "res = (zero_Result, Some err)" "s' = s1\<lparr>rs_world := w2\<rparr>" using run Inl False by (simp_all add: ev)
      then show thesis by (intro unread) (use S f in auto)
    qed
  next
    case (Inr vpa)
    let ?s2 = "s1\<lparr>rs_world := w2\<rparr>" and ?ref = "objectReference (rs_Config s1) (en_Scheme e) vpa"
    obtain r s3 where loop: "run_state (until_error (map stp_prog (steps e vpa ?ref (rs_Config s1)))) ?s2 = (r, s3)"
      by fastforce
    have "res = (zero_Result, r)" "s' = s3"
      using run Inr loop by (simp_all add: ev stp_prog_steps)
    then show thesis
      using loop by (intro ran [of vpa ?s2 "rs_Config s1" ?ref]) (use S f t(1) [OF Inr] in auto)
  qed
qed

end

end
