(* ===== verification/Reconcile_Props.thy ===== *)
theory Reconcile_Props
  imports Controller_Props
begin

text \<open>
  The theorems about a whole run of \<open>Reconcile\<close> over any client that satisfies \<open>kube_api\<close>:
  convergence, what is and is not written, idempotence, ownership, and the events of errors.
\<close>

text \<open>The state of the cluster that a custom resource asks for.\<close>

definition cluster_matches ::
  "(objkey \<Rightarrow> KObject option) \<Rightarrow> Config \<Rightarrow> VerticalPodAutoscalerController \<Rightarrow> bool" where
  "cluster_matches objs cfg vpa \<longleftrightarrow>
     (\<forall>params \<in> set controllerParams. \<exists>d.
        objs (KDeployment, par_NameMethod params cfg vpa) = Some (ODeployment d) \<and>
        deployment_current cfg vpa params d) \<and>
     (\<exists>x. objs (KService, service_name cfg) = Some (OService x) \<and> service_current cfg vpa x) \<and>
     (\<exists>m. objs (KConfigMap, configmap_name cfg) = Some (OConfigMap m) \<and> configmap_current cfg m) \<and>
     (\<forall>p \<in> set (NetworkPolicies cfg vpa). \<exists>q.
        objs (KNetworkPolicy, meta_key (np_Meta p)) = Some (ONetworkPolicy q) \<and> np_Spec q = np_Spec p)"

lemma cluster_matches_steps:
  "cluster_matches objs cfg vpa \<longleftrightarrow>
     (\<forall>stp \<in> set (steps e vpa ref cfg). \<exists>obj. objs (stp_key stp) = Some obj \<and> stp_desired stp obj)"
  by (simp add: cluster_matches_def steps_def ball_Un deployment_step_def service_step_def
      configmap_step_def policy_step_def Let_def) blast

text \<open>The managed keys do not depend on the TLS profile.\<close>

lemma managed_keys_tls [simp]: "managed_keys (cfg\<lparr>cfg_TLSProfileSpec := t\<rparr>) vpa = managed_keys cfg vpa"
  by (simp add: managed_keys_def controllerParams_def recommender_params_def updater_params_def
      admission_params_def RecommenderName_def UpdaterName_def AdmissionPluginName_def
      service_name_def configmap_name_def NetworkPolicies_def Let_def)

lemma stp_key_set: "stp_key ` set (steps e vpa ref cfg) = set (managed_keys cfg vpa)"
  by (metis list.set_map stp_key_steps)

text \<open>What \<open>set_owner\<close> needs: the custom resource in the operand namespace, and its type registered.\<close>

definition can_own :: "'w env \<Rightarrow> Config \<Rightarrow> VerticalPodAutoscalerController \<Rightarrow> bool" where
  "can_own e cfg vpa \<longleftrightarrow>
     (om_Namespace (vpa_Meta vpa) = '''' \<or> om_Namespace (vpa_Meta vpa) = cfg_Namespace cfg) \<and>
     (\<exists>gvk. GVKForObject VPA_GoType (vpa_TypeMeta vpa) (en_Scheme e) = Inr gvk)"

definition controller_ref :: "GroupVersionKind \<Rightarrow> VerticalPodAutoscalerController \<Rightarrow> OwnerReference" where
  "controller_ref gvk vpa = \<lparr>or_APIVersion = GroupVersion_String gvk, or_Kind = gvk_Kind gvk,
     or_Name = om_Name (vpa_Meta vpa), or_UID = om_UID (vpa_Meta vpa),
     or_Controller = Some True, or_BlockOwnerDeletion = Some True\<rparr>"

lemma set_owner_fresh:
  assumes "can_own e cfg vpa" and "om_OwnerReferences m = []" and "om_Namespace m = cfg_Namespace cfg"
  shows "\<exists>gvk. GVKForObject VPA_GoType (vpa_TypeMeta vpa) (en_Scheme e) = Inr gvk \<and>
    set_owner e vpa m = Inr (m\<lparr>om_OwnerReferences := [controller_ref gvk vpa]\<rparr>)"
  using assms SetControllerReference_fresh [of m "vpa_Meta vpa"]
  by (auto simp: can_own_def set_owner_def controller_ref_def)

lemma set_owner_refs:
  assumes "set_owner e vpa m = Inr m'" and "om_OwnerReferences m = []"
  shows "\<exists>gvk. GVKForObject VPA_GoType (vpa_TypeMeta vpa) (en_Scheme e) = Inr gvk \<and>
    om_OwnerReferences m' = [controller_ref gvk vpa]"
  using assms
  by (auto simp: set_owner_def SetControllerReference_def controller_ref_def GetControllerOf_def Let_def
      split: option.splits sum.splits)

lemma policies_ownable:
  assumes "can_own e cfg vpa" and "p \<in> set (NetworkPolicies cfg vpa)"
  shows "\<exists>m. set_owner e vpa (np_Meta p) = Inr m"
proof -
  obtain n where "np_Meta p = zero_ObjectMeta\<lparr>om_Name := n, om_Namespace := cfg_Namespace cfg\<rparr>"
    using NetworkPolicies_meta(2) [OF assms(2)] by blast
  then show ?thesis
    using set_owner_fresh [OF assms(1), of "np_Meta p"] by (auto simp: zero_ObjectMeta_def)
qed

text \<open>Objects that a step creates are controlled by the custom resource.\<close>

lemma step_created:
  assumes "stp \<in> set (steps e vpa ref cfg)" and "stp_rel stp None obj"
  shows "\<exists>gvk. GVKForObject VPA_GoType (vpa_TypeMeta vpa) (en_Scheme e) = Inr gvk \<and>
    om_OwnerReferences (obj_meta obj) = [controller_ref gvk vpa]"
proof -
  have refs: "\<exists>gvk. GVKForObject VPA_GoType (vpa_TypeMeta vpa) (en_Scheme e) = Inr gvk \<and>
      om_OwnerReferences (obj_meta obj) = [controller_ref gvk vpa]"
    if "ensured e vpa meta mk con cur upd None obj" "om_OwnerReferences meta = []"
      "\<And>m. obj_meta (mk m) = m" for meta mk con cur upd
    using that stored_as_meta(4) [of _ obj] set_owner_refs [of e vpa meta] by (fastforce simp: ensured_def)
  have pol: "om_OwnerReferences (np_Meta p) = []" if "p \<in> set (NetworkPolicies cfg vpa)" for p
    using NetworkPolicies_meta(2) [OF that] by (auto simp: zero_ObjectMeta_def)
  show ?thesis
    using assms
    by (auto simp: steps_def deployment_step_def service_step_def configmap_step_def policy_step_def Let_def
        pol AutoscalerDeployment_def WebhookService_def UpdateServiceAnnotations_def CAConfigMap_def
        UpdateConfigMapAnnotations_def zero_ObjectMeta_def elim!: refs)
qed

text \<open>The annotations the operator owns, and that updates keep everything else of the metadata.\<close>

definition operator_annotations :: "string set" where
  "operator_annotations = {ReleaseVersionAnnotation, webhookCertAnnotationName, cACertAnnotationName}"

definition metadata_kept :: "ObjectMeta \<Rightarrow> ObjectMeta \<Rightarrow> bool" where
  "metadata_kept old new \<longleftrightarrow> om_OwnerReferences new = om_OwnerReferences old \<and>
     nilmap (om_Labels new) = nilmap (om_Labels old) \<and>
     (\<forall>a. a \<notin> operator_annotations \<longrightarrow>
        fmlookup (nilmap (om_Annotations new)) a = fmlookup (nilmap (om_Annotations old)) a)"

lemma metadata_kept_refl: "metadata_kept m m"
  by (simp add: metadata_kept_def)

lemma metadata_kept_updates:
  "metadata_kept m (UpdateAnnotations cfg m)" "metadata_kept m (UpdateServiceAnnotations cfg m)"
  "metadata_kept m (UpdateConfigMapAnnotations cfg m)"
  by (auto simp: metadata_kept_def UpdateAnnotations_def UpdateServiceAnnotations_def
      UpdateConfigMapAnnotations_def Let_def operator_annotations_def nilmap_def)

lemma metadata_kept_stored:
  assumes "stored_as a b" and "metadata_kept m (obj_meta a)"
  shows "metadata_kept m (obj_meta b)"
  using assms stored_as_meta [OF assms(1)] by (simp add: metadata_kept_def)

lemma step_kept:
  assumes "stp \<in> set (steps e vpa ref cfg)" and "stp_rel stp (Some old) new"
    and "fst (stp_key stp) \<noteq> KNetworkPolicy"
  shows "metadata_kept (obj_meta old) (obj_meta new)"
proof -
  have kept: "metadata_kept (obj_meta old) (obj_meta new)"
    if "ensured e vpa meta mk con cur upd (Some old) new"
      "\<And>x. metadata_kept (obj_meta (con x)) (obj_meta (con (upd x)))" for meta mk con cur upd
    using that metadata_kept_stored metadata_kept_refl by (auto simp: ensured_def split: if_splits)
  show ?thesis
    using assms
    by (auto simp: steps_def deployment_step_def service_step_def configmap_step_def policy_step_def Let_def
        updated_deployment_def merged_service_def merged_configmap_def metadata_kept_updates elim!: kept)
qed

context kube_api
begin

text \<open>The composed contract of the ten steps.\<close>

lemma steps_run:
  assumes e: "en_Client e = c" and s: "wf (rs_world s)" "rs_Config s = cfg"
    and run: "run_state (until_error (map stp_prog (steps e vpa ref cfg))) s = (r, s')"
  shows "wf (rs_world s')" "rs_Config s' = cfg"
    and "k \<notin> set (managed_keys cfg vpa) \<Longrightarrow> view (rs_world s') k = view (rs_world s) k"
    and "r = None \<Longrightarrow> stp \<in> set (steps e vpa ref cfg) \<Longrightarrow>
      \<exists>obj. view (rs_world s') (stp_key stp) = Some obj \<and> stp_desired stp obj \<and>
        stp_rel stp (view (rs_world s) (stp_key stp)) obj"
    and "\<exists>evs. rs_events s' = rs_events s @ evs \<and>
       (r = None \<longrightarrow> (\<forall>ev \<in> set evs. ev_Type ev = EventTypeNormal)) \<and>
       (can_own e cfg vpa \<longrightarrow> r \<noteq> None \<longrightarrow> evs \<noteq> [] \<and> ev_Type (last evs) = EventTypeWarning)"
    and "cluster_matches (view (rs_world s)) cfg vpa \<Longrightarrow>
      view (rs_world s') = view (rs_world s) \<and> (r = None \<longrightarrow> rs_events s' = rs_events s)"
proof -
  have "list_all (contract view wf cfg (can_own e cfg vpa)) (steps e vpa ref cfg)"
    by (rule steps_contract [OF e]) (simp add: policies_ownable)
  note U = until_error_contract [OF this _ s run, unfolded stp_key_steps, OF distinct_managed_keys]
  show "wf (rs_world s')" "rs_Config s' = cfg" using U s(2) by simp_all
  show "view (rs_world s') k = view (rs_world s) k" if "k \<notin> set (managed_keys cfg vpa)"
    using U [unfolded stp_key_set] that by blast
  show "\<exists>obj. view (rs_world s') (stp_key stp) = Some obj \<and> stp_desired stp obj \<and>
        stp_rel stp (view (rs_world s) (stp_key stp)) obj"
    if "r = None" "stp \<in> set (steps e vpa ref cfg)"
    using U that by simp
  show "\<exists>evs. rs_events s' = rs_events s @ evs \<and>
       (r = None \<longrightarrow> (\<forall>ev \<in> set evs. ev_Type ev = EventTypeNormal)) \<and>
       (can_own e cfg vpa \<longrightarrow> r \<noteq> None \<longrightarrow> evs \<noteq> [] \<and> ev_Type (last evs) = EventTypeWarning)"
    using U by simp
  show "view (rs_world s') = view (rs_world s) \<and> (r = None \<longrightarrow> rs_events s' = rs_events s)"
    if "cluster_matches (view (rs_world s)) cfg vpa"
    using U that by (simp add: cluster_matches_steps [of _ _ _ e ref])
qed

lemma converges:
  assumes e: "en_Client e = c" and w: "wf (rs_world s)"
    and run: "run_state (Reconcile e req) s = (res, s')" and nil: "snd res = None"
    and vpa: "view (rs_world s) (KVPA, req) = Some (OVPA vpa)"
  shows "cluster_matches (view (rs_world s')) (rs_Config s') vpa"
  using e w run
proof (cases rule: Reconcile_run [case_names absent unread ran])
  case (ran vpa' cfg s1 ref)
  then have "vpa' = vpa" using vpa by simp
  then show ?thesis
    using steps_run(2) [OF e ran(2,5,8)] steps_run(4) [OF e ran(2,5,8) nil]
    unfolding cluster_matches_steps [of _ _ _ e ref] by blast
qed (use vpa nil in auto)

lemma frame:
  assumes e: "en_Client e = c" and w: "wf (rs_world s)"
    and run: "run_state (Reconcile e req) s = (res, s')"
  shows "wf (rs_world s') \<and> tls_synced (view (rs_world s)) (rs_Config s) (rs_Config s') \<and>
    (\<forall>k. view (rs_world s') k \<noteq> view (rs_world s) k \<longrightarrow>
      (\<exists>vpa. view (rs_world s) (KVPA, req) = Some (OVPA vpa) \<and> k \<in> set (managed_keys (rs_Config s) vpa)))"
  using e w run
proof (cases rule: Reconcile_run [case_names absent unread ran])
  case (ran vpa cfg s1 ref)
  note S = steps_run [OF e ran(2,5,8)]
  have "managed_keys cfg vpa = managed_keys (rs_Config s) vpa" using tls_syncedD [OF ran(6)] by auto
  with S(1,2) S(3) ran(1,3,6) show ?thesis by metis
qed auto

lemma idle:
  assumes e: "en_Client e = c" and w: "wf (rs_world s)"
    and run: "run_state (Reconcile e req) s = (res, s')"
    and vpa: "view (rs_world s) (KVPA, req) = Some (OVPA vpa)"
    and match: "cluster_matches (view (rs_world s)) (rs_Config s') vpa"
  shows "view (rs_world s') = view (rs_world s) \<and> (snd res = None \<longrightarrow> rs_events s' = rs_events s)"
  using e w run
proof (cases rule: Reconcile_run [case_names absent unread ran])
  case (ran vpa' cfg s1 ref)
  then have "vpa' = vpa" using vpa by simp
  with steps_run(2,6) [OF e ran(2,5,8)] ran match show ?thesis by simp
qed auto

lemma changes:
  assumes e: "en_Client e = c" and w: "wf (rs_world s)"
    and run: "run_state (Reconcile e req) s = (res, s')" and nil: "snd res = None"
    and vpa: "view (rs_world s) (KVPA, req) = Some (OVPA vpa)"
    and k: "k \<in> set (managed_keys (rs_Config s) vpa)"
  obtains stp obj ref where "stp \<in> set (steps e vpa ref (rs_Config s'))" "stp_key stp = k"
    "view (rs_world s') k = Some obj" "stp_rel stp (view (rs_world s) k) obj"
  using e w run
proof (cases rule: Reconcile_run [case_names absent unread ran])
  case (ran vpa' cfg s1 ref)
  then have v: "vpa' = vpa" using vpa by simp
  have "k \<in> set (managed_keys cfg vpa)" using k tls_syncedD [OF ran(6)] by auto
  then obtain stp where "stp \<in> set (steps e vpa ref cfg)" "stp_key stp = k"
    unfolding stp_key_set [symmetric, of _ _ e ref] by blast
  then show thesis
    using steps_run(2) [OF e ran(2,5,8)] steps_run(4) [OF e ran(2,5,8) nil] v ran(3) that by metis
qed (use vpa nil in auto)

lemma created_owned:
  assumes e: "en_Client e = c" and w: "wf (rs_world s)"
    and run: "run_state (Reconcile e req) s = (res, s')" and nil: "snd res = None"
    and vpa: "view (rs_world s) (KVPA, req) = Some (OVPA vpa)"
    and k: "k \<in> set (managed_keys (rs_Config s) vpa)" and new: "view (rs_world s) k = None"
  shows "\<exists>obj gvk. view (rs_world s') k = Some obj \<and>
    GVKForObject VPA_GoType (vpa_TypeMeta vpa) (en_Scheme e) = Inr gvk \<and>
    om_OwnerReferences (obj_meta obj) = [controller_ref gvk vpa]"
  by (rule changes [OF e w run nil vpa k]) (use new step_created in metis)

lemma updated_kept:
  assumes e: "en_Client e = c" and w: "wf (rs_world s)"
    and run: "run_state (Reconcile e req) s = (res, s')" and nil: "snd res = None"
    and vpa: "view (rs_world s) (KVPA, req) = Some (OVPA vpa)"
    and k: "k \<in> set (managed_keys (rs_Config s) vpa)" and old: "view (rs_world s) k = Some old"
    and kind: "fst k \<noteq> KNetworkPolicy"
  shows "\<exists>obj. view (rs_world s') k = Some obj \<and> metadata_kept (obj_meta old) (obj_meta obj)"
  by (rule changes [OF e w run nil vpa k]) (use old kind step_kept in metis)

lemma policy_update_drops_owner:
  assumes e: "en_Client e = c" and w: "wf (rs_world s)"
    and run: "run_state (Reconcile e req) s = (res, s')" and nil: "snd res = None"
    and vpa: "view (rs_world s) (KVPA, req) = Some (OVPA vpa)"
    and p: "p \<in> set (NetworkPolicies (rs_Config s') vpa)"
    and old: "view (rs_world s) (KNetworkPolicy, meta_key (np_Meta p)) = Some (ONetworkPolicy q)"
    and diff: "np_Spec q \<noteq> np_Spec p"
  shows "\<exists>q'. view (rs_world s') (KNetworkPolicy, meta_key (np_Meta p)) = Some (ONetworkPolicy q') \<and>
    np_Spec q' = np_Spec p \<and> om_OwnerReferences (np_Meta q') = []"
  using e w run
proof (cases rule: Reconcile_run [case_names absent unread ran])
  case (ran vpa' cfg s1 ref)
  have v: "vpa' = vpa" "cfg = rs_Config s'" using vpa ran steps_run(2) [OF e ran(2,5,8)] by simp_all
  let ?k = "(KNetworkPolicy, meta_key (np_Meta p))"
  have "policy_step e vpa ref p \<in> set (steps e vpa ref cfg)" using p v by (simp add: steps_def)
  from steps_run(4) [OF e ran(2,5,8) nil, unfolded v, OF this [unfolded v]]
  obtain obj where obj: "view (rs_world s') ?k = Some obj" "stored_as (ONetworkPolicy p) obj"
    using old diff ran(3) by (auto simp: policy_step_def ensured_def)
  moreover have "om_OwnerReferences (np_Meta p) = []"
    using NetworkPolicies_meta(2) [OF p] by (auto simp: zero_ObjectMeta_def)
  ultimately show ?thesis using stored_as_policy [OF obj(2)] by auto
qed (use vpa nil in auto)

end

end
