(* ===== verification/Reconcile_Live.thy ===== *)
theory Reconcile_Live
  imports Reconcile_Props
begin

text \<open>
  Liveness: over a client that does not fail when the preconditions of its calls hold
  (\<open>reliable_api\<close>), \<open>Reconcile\<close> returns nil, so that by convergence the cluster is as the
  custom resource asks. An update of a network policy carries no resource version, so it
  relies on the server to accept unconditional updates of network policies.
\<close>

section \<open>Sequences of steps\<close>

lemma until_error_live:
  assumes "list_all (contract view good cfg False) sps" and "distinct (map stp_key sps)"
    and "\<And>stp s. stp \<in> set sps \<Longrightarrow> good (rs_world s) \<Longrightarrow> rs_Config s = cfg \<Longrightarrow>
      P stp (view (rs_world s) (stp_key stp)) \<Longrightarrow> fst (run_state (stp_prog stp) s) = None"
    and "good (rs_world s)" and "rs_Config s = cfg"
    and "\<forall>stp \<in> set sps. P stp (view (rs_world s) (stp_key stp))"
  shows "fst (run_state (until_error (map stp_prog sps)) s) = None"
  using assms
proof (induction sps arbitrary: s)
  case Nil
  then show ?case by (simp add: run_simps)
next
  case (Cons stp sps)
  obtain r s1 where m: "run_state (stp_prog stp) s = (r, s1)" by fastforce
  have r: "r = None" using Cons.prems(3) [of stp s] Cons.prems(4-6) m by simp
  have con: "contract view good cfg False stp" using Cons.prems(1) by simp
  note C = contractD [OF con Cons.prems(4,5) m]
  have "\<forall>x \<in> set sps. P x (view (rs_world s1) (stp_key x))"
    using Cons.prems(2,6) C(3) by (metis distinct.simps(2) image_eqI list.map(2) list.set_intros(2) list.set_map)
  then have "fst (run_state (until_error (map stp_prog sps)) s1) = None"
    using Cons.prems(1-3) C(1,2) by (intro Cons.IH) auto
  then show ?case using m r by (simp add: run_simps)
qed

section \<open>Steps\<close>

lemma step_cases:
  assumes "stp \<in> set (steps e vpa ref cfg)"
  obtains (dep) params where "params \<in> set controllerParams" "stp = deployment_step e vpa ref cfg params"
    | (svc) "stp = service_step e vpa ref cfg" | (cm) "stp = configmap_step e vpa ref cfg"
    | (pol) p where "p \<in> set (NetworkPolicies cfg vpa)" "stp = policy_step e vpa ref p"
  using assms by (auto simp: steps_def)

context reliable_api
begin

lemma typed_get_found:
  assumes "decodes k dec con" "wf w" "view w (k, n) = Some (con x)"
  obtains w' where "cl_Get c k n w = (Inr (con x), w')" "decoded dec (Inr (con x)) = Inr x"
    "wf w'" "view w' = view w"
proof -
  obtain w' where g: "cl_Get c k n w = (Inr (con x), w')" using get_total [OF assms(2,3)] by blast
  then show thesis
    by (rule that) (use assms(1) get_frame [OF assms(2) g] in \<open>simp_all add: decoded_def decodes_def\<close>)
qed

lemma typed_get_none:
  assumes "wf w" "view w (k, n) = None"
  obtains err w' where "cl_Get c k n w = (Inl err, w')" "IsNotFound err"
    "wf w'" "view w' = view w"
  using get_none [OF assms] get_frame [OF assms(1)] by metis

lemma update_prog_live:
  assumes e: "en_Client e = c" and dec: "decodes (fst key) dec con" and w: "wf (rs_world s)"
    and v: "view (rs_world s) key = Some (con x)" and name: "nn_Name (snd key) \<noteq> ''''"
    and upd: "obj_key (con (upd x)) = key"
      "om_ResourceVersion (obj_meta (con (upd x))) = om_ResourceVersion (obj_meta (con x))"
  shows "\<exists>b s'. run_state (update_prog e key dec con current upd) s = (Inr b, s')"
proof -
  obtain w1 where g: "cl_Get c (fst key) (snd key) (rs_world s) = (Inr (con x), w1)"
      "decoded dec (Inr (con x)) = Inr x" "wf w1" "view w1 = view (rs_world s)"
    using typed_get_found [OF dec w, of "snd key" x] v by auto
  have "om_Name (obj_meta (con (upd x))) \<noteq> ''''"
    using upd(1) name by (auto simp: obj_key_def meta_key_def)
  then obtain w2 where "cl_Update c (con (upd x)) w1 = (None, w2)"
    using update_total [OF g(3), of "con (upd x)" "con x"] upd v g(4) by auto
  then show ?thesis
    by (simp add: update_prog_def run_simps e g(1,2) update_result_def) blast
qed

lemma ensure_live:
  assumes e: "en_Client e = c" and dec: "decodes (fst key) dec con" and w: "wf (rs_world s)"
    and name: "nn_Name (snd key) \<noteq> ''''"
    and create: "\<exists>m. set_owner e vpa meta = Inr m \<and> obj_key (mk m) = key \<and>
      om_ResourceVersion (obj_meta (mk m)) = ''''"
    and upd: "\<And>x. obj_key (con x) = key \<Longrightarrow> obj_key (con (upd x)) = key \<and>
      om_ResourceVersion (obj_meta (con (upd x))) = om_ResourceVersion (obj_meta (con x))"
  shows "fst (run_state (ensure_prog e ref msg key dec (create_prog e vpa meta mk)
    (update_prog e key dec con current upd)) s) = None"
proof (cases "view (rs_world s) key")
  case None
  obtain err w1 where g: "cl_Get c (fst key) (snd key) (rs_world s) = (Inl err, w1)" "IsNotFound err"
      "wf w1" "view w1 = view (rs_world s)"
    using typed_get_none [OF w, of "fst key" "snd key"] None by auto
  obtain m where m: "set_owner e vpa meta = Inr m" "obj_key (mk m) = key"
      "om_ResourceVersion (obj_meta (mk m)) = ''''"
    using create by blast
  have "om_Name (obj_meta (mk m)) \<noteq> ''''"
    using m(2) name by (auto simp: obj_key_def meta_key_def)
  then obtain w2 where "cl_Create c (mk m) w1 = (None, w2)"
    using create_total [OF g(3), of "mk m"] m None g(4) by auto
  then show ?thesis
    by (simp add: ensure_prog_def create_prog_def run_simps e g(1,2) m(1) decoded_def)
next
  case (Some obj)
  have k: "obj_key obj = key" using view_key [OF w Some] .
  then have "obj_kind obj = fst key" by (auto simp: obj_key_def)
  then obtain x where x: "obj = con x" "obj_key (con x) = key"
    using dec k unfolding decodes_def by blast
  obtain w1 where g: "cl_Get c (fst key) (snd key) (rs_world s) = (Inr (con x), w1)"
      "decoded dec (Inr (con x)) = Inr x" "wf w1" "view w1 = view (rs_world s)"
    using typed_get_found [OF dec w, of "snd key" x] Some x by auto
  let ?s1 = "s\<lparr>rs_world := w1\<rparr>"
  have "wf (rs_world ?s1)" "view (rs_world ?s1) key = Some (con x)" using g(3,4) Some x by simp_all
  from update_prog_live [OF e dec this name] upd [OF x(2)]
  obtain b s' where "run_state (update_prog e key dec con current upd) ?s1 = (Inr b, s')" by blast
  then show ?thesis
    by (simp add: ensure_prog_def run_simps e g(1,2))
qed

lemma deployment_live:
  assumes e: "en_Client e = c" and w: "wf (rs_world s)" and cfg: "rs_Config s = cfg"
    and own: "can_own e cfg vpa" and p: "params \<in> set controllerParams"
  shows "fst (run_state (reconcile_deployment e vpa ref params) s) = None"
  unfolding reconcile_deployment_eq [OF cfg refl refl]
proof (rule ensure_live [OF e _ w])
  let ?d = "AutoscalerDeployment cfg vpa params" and ?nn = "par_NameMethod params cfg vpa"
  show "decodes (fst (KDeployment, ?nn)) as_deployment ODeployment" by (simp add: decodes_simps)
  show "nn_Name (snd (KDeployment, ?nn)) \<noteq> ''''"
    using p by (auto simp: controllerParams_def recommender_params_def updater_params_def admission_params_def
        RecommenderName_def UpdaterName_def AdmissionPluginName_def)
  have ns: "nn_Namespace ?nn = cfg_Namespace cfg"
    using p by (auto simp: controllerParams_def recommender_params_def updater_params_def admission_params_def
        RecommenderName_def UpdaterName_def AdmissionPluginName_def)
  have d: "om_OwnerReferences (dep_Meta ?d) = []" "om_Namespace (dep_Meta ?d) = cfg_Namespace cfg"
    "om_ResourceVersion (dep_Meta ?d) = ''''"
    using ns by (simp_all add: AutoscalerDeployment_def Let_def zero_ObjectMeta_def)
  show "\<exists>m. set_owner e vpa (dep_Meta ?d) = Inr m \<and> obj_key (ODeployment (?d\<lparr>dep_Meta := m\<rparr>)) = (KDeployment, ?nn) \<and>
      om_ResourceVersion (obj_meta (ODeployment (?d\<lparr>dep_Meta := m\<rparr>))) = ''''"
    using set_owner_fresh [OF own d(1,2)] d(3) key_of_deployment [of cfg vpa params]
    by (auto simp: obj_key_def meta_key_def)
qed (simp_all add: key_of_updates, simp add: updated_deployment_def UpdateAnnotations_def Let_def)

lemma service_live:
  assumes e: "en_Client e = c" and w: "wf (rs_world s)" and cfg: "rs_Config s = cfg"
    and own: "can_own e cfg vpa"
  shows "fst (run_state (reconcile_service e vpa ref) s) = None"
  unfolding reconcile_service_eq [OF cfg]
proof (rule ensure_live [OF e _ w])
  let ?d = "WebhookService cfg vpa" and ?key = "(KService, service_name cfg)"
  show "decodes (fst ?key) as_service OService" by (simp add: decodes_simps)
  show "nn_Name (snd ?key) \<noteq> ''''" by (simp add: service_name_def go_defs)
  have d: "om_OwnerReferences (svc_Meta ?d) = []" "om_Namespace (svc_Meta ?d) = cfg_Namespace cfg"
    "om_ResourceVersion (svc_Meta ?d) = ''''"
    by (simp_all add: WebhookService_def UpdateServiceAnnotations_def Let_def zero_ObjectMeta_def)
  show "\<exists>m. set_owner e vpa (svc_Meta ?d) = Inr m \<and> obj_key (OService (?d\<lparr>svc_Meta := m\<rparr>)) = ?key \<and>
      om_ResourceVersion (obj_meta (OService (?d\<lparr>svc_Meta := m\<rparr>))) = ''''"
    using set_owner_fresh [OF own d(1,2)] d(3) key_of_service [of cfg vpa]
    by (auto simp: obj_key_def meta_key_def)
qed (simp_all add: key_of_updates, simp add: merged_service_def UpdateServiceAnnotations_def Let_def)

lemma configmap_live:
  assumes e: "en_Client e = c" and w: "wf (rs_world s)" and cfg: "rs_Config s = cfg"
    and own: "can_own e cfg vpa"
  shows "fst (run_state (reconcile_configmap e vpa ref) s) = None"
  unfolding reconcile_configmap_eq [OF cfg]
proof (rule ensure_live [OF e _ w])
  let ?d = "CAConfigMap cfg vpa" and ?key = "(KConfigMap, configmap_name cfg)"
  show "decodes (fst ?key) as_configmap OConfigMap" by (simp add: decodes_simps)
  show "nn_Name (snd ?key) \<noteq> ''''" by (simp add: configmap_name_def go_defs)
  have d: "om_OwnerReferences (cm_Meta ?d) = []" "om_Namespace (cm_Meta ?d) = cfg_Namespace cfg"
    "om_ResourceVersion (cm_Meta ?d) = ''''"
    by (simp_all add: CAConfigMap_def UpdateConfigMapAnnotations_def Let_def zero_ObjectMeta_def)
  show "\<exists>m. set_owner e vpa (cm_Meta ?d) = Inr m \<and> obj_key (OConfigMap (?d\<lparr>cm_Meta := m\<rparr>)) = ?key \<and>
      om_ResourceVersion (obj_meta (OConfigMap (?d\<lparr>cm_Meta := m\<rparr>))) = ''''"
    using set_owner_fresh [OF own d(1,2)] d(3) key_of_configmap [of cfg vpa]
    by (auto simp: obj_key_def meta_key_def)
qed (simp_all add: key_of_updates, simp add: merged_configmap_def UpdateConfigMapAnnotations_def Let_def)

lemma policy_live:
  assumes e: "en_Client e = c" and w: "wf (rs_world s)" and cfg: "rs_Config s = cfg"
    and own: "can_own e cfg vpa" and p: "policy \<in> set (NetworkPolicies cfg vpa)"
    and old: "\<And>q. view (rs_world s) (KNetworkPolicy, meta_key (np_Meta policy)) = Some (ONetworkPolicy q) \<Longrightarrow>
      unconditional KNetworkPolicy \<or> om_ResourceVersion (np_Meta q) = '''' \<or> np_Spec q = np_Spec policy"
  shows "fst (run_state (reconcile_policy e vpa ref policy) s) = None"
proof -
  let ?nn = "meta_key (np_Meta policy)"
  obtain n where n: "np_Meta policy = zero_ObjectMeta\<lparr>om_Name := n, om_Namespace := cfg_Namespace cfg\<rparr>"
    using NetworkPolicies_meta(2) [OF p] by blast
  have "n \<in> om_Name ` np_Meta ` set (NetworkPolicies cfg vpa)" using p n by force
  then have ne: "om_Name (np_Meta policy) \<noteq> ''''" using n by (auto simp: NetworkPolicies_def Let_def)
  have nn: "\<lparr>nn_Namespace = cfg_Namespace cfg, nn_Name = om_Name (np_Meta policy)\<rparr> = ?nn"
    using n by (simp add: meta_key_def)
  note ev = reconcile_policy_def run_simps e cfg nn semeq_policyspec_def
  show ?thesis
  proof (cases "view (rs_world s) (KNetworkPolicy, ?nn)")
    case None
    obtain err w1 where g: "cl_Get c KNetworkPolicy ?nn (rs_world s) = (Inl err, w1)" "IsNotFound err"
        "wf w1" "view w1 = view (rs_world s)"
      using typed_get_none [OF w None] .
    obtain m where m: "set_owner e vpa (np_Meta policy) = Inr m" "om_Name m = om_Name (np_Meta policy)"
        "om_Namespace m = om_Namespace (np_Meta policy)" "om_ResourceVersion m = ''''"
      using set_owner_fresh [OF own, of "np_Meta policy"] n by (auto simp: zero_ObjectMeta_def)
    obtain w2 where "cl_Create c (ONetworkPolicy (policy\<lparr>np_Meta := m\<rparr>)) w1 = (None, w2)"
      using create_total [OF g(3), of "ONetworkPolicy (policy\<lparr>np_Meta := m\<rparr>)"] m None g(4) ne
      by (auto simp: obj_key_def meta_key_def)
    then show ?thesis by (simp add: ev g(1,2) m(1) decoded_def)
  next
    case (Some obj)
    then obtain q where q: "obj = ONetworkPolicy q"
      using view_key [OF w Some] decodes_simps(4) by (auto simp: decodes_def obj_key_def)
    note v = Some [unfolded q]
    obtain w1 where g: "cl_Get c KNetworkPolicy ?nn (rs_world s) = (Inr (ONetworkPolicy q), w1)"
        "wf w1" "view w1 = view (rs_world s)"
      using typed_get_found [OF decodes_simps(4) w v] by metis
    show ?thesis
    proof (cases "np_Spec q = np_Spec policy")
      case True
      then show ?thesis by (simp add: ev g(1) decoded_def)
    next
      case False
      then have u: "unconditional KNetworkPolicy \<or> om_ResourceVersion (np_Meta q) = ''''"
        using old [OF v] by simp
      obtain w2 where "cl_Update c (ONetworkPolicy policy) w1 = (None, w2)"
        using update_total [OF g(2), of "ONetworkPolicy policy" "ONetworkPolicy q"] u ne v g(3) n
        by (auto simp: obj_key_def zero_ObjectMeta_def)
      then show ?thesis using False by (simp add: ev g(1) decoded_def)
    qed
  qed
qed

lemma step_live:
  assumes e: "en_Client e = c" and own: "can_own e cfg vpa" and stp: "stp \<in> set (steps e vpa ref cfg)"
    and s: "wf (rs_world s)" "rs_Config s = cfg"
    and old: "\<forall>q. view (rs_world s) (stp_key stp) = Some (ONetworkPolicy q) \<longrightarrow>
      unconditional KNetworkPolicy \<or> om_ResourceVersion (np_Meta q) = '''' \<or> stp_desired stp (ONetworkPolicy q)"
  shows "fst (run_state (stp_prog stp) s) = None"
  using stp
proof (cases rule: step_cases)
  case (dep params)
  then show ?thesis using deployment_live [OF e s own] by (simp add: deployment_step_def Let_def)
next
  case svc
  then show ?thesis using service_live [OF e s own] by (simp add: service_step_def Let_def)
next
  case cm
  then show ?thesis using configmap_live [OF e s own] by (simp add: configmap_step_def Let_def)
next
  case (pol p)
  then show ?thesis using policy_live [OF e s own pol(1)] old by (simp add: policy_step_def)
qed

lemma live:
  assumes e: "en_Client e = c" and w: "wf (rs_world s)"
    and vpa: "view (rs_world s) (KVPA, req) = Some (OVPA vpa)" and own: "can_own e (rs_Config s) vpa"
    and pol: "\<And>p q. p \<in> set (NetworkPolicies (rs_Config s) vpa) \<Longrightarrow>
      view (rs_world s) (KNetworkPolicy, meta_key (np_Meta p)) = Some (ONetworkPolicy q) \<Longrightarrow>
      unconditional KNetworkPolicy \<or> om_ResourceVersion (np_Meta q) = '''' \<or> np_Spec q = np_Spec p"
  shows "fst (run_state (Reconcile e req) s) = (zero_Result, None)"
proof -
  obtain u s1 where sync: "run_state (syncTLSProfile e) s = (u, s1)" by (rule prod.exhaust)
  note S = syncTLSProfile_run [OF e w sync]
  define cfg where "cfg = rs_Config s1"
  have own1: "can_own e cfg vpa" and pols: "NetworkPolicies cfg vpa = NetworkPolicies (rs_Config s) vpa"
    using tls_syncedD [of "view (rs_world s)" "rs_Config s" cfg] S own
    by (auto simp: cfg_def can_own_def NetworkPolicies_def)
  have "view (rs_world s1) (KVPA, req) = Some (OVPA vpa)" "wf (rs_world s1)" using S vpa by simp_all
  then obtain w2 where g: "cl_Get c KVPA req (rs_world s1) = (Inr (OVPA vpa), w2)" "wf w2"
      "view w2 = view (rs_world s1)"
    using typed_get_found [OF decodes_simps(5)] by metis
  let ?ref = "objectReference cfg (en_Scheme e) vpa" and ?s2 = "s1\<lparr>rs_world := w2\<rparr>"
  have "fst (run_state (until_error (map stp_prog (steps e vpa ?ref cfg))) ?s2) = None"
  proof (rule until_error_live [where P = "\<lambda>stp old. \<forall>q. old = Some (ONetworkPolicy q) \<longrightarrow>
        unconditional KNetworkPolicy \<or> om_ResourceVersion (np_Meta q) = '''' \<or> stp_desired stp (ONetworkPolicy q)"])
    show "list_all (contract view wf cfg False) (steps e vpa ?ref cfg)"
      by (rule steps_contract [OF e]) simp
    show "distinct (map stp_key (steps e vpa ?ref cfg))"
      by (simp add: stp_key_steps distinct_managed_keys)
    show "\<forall>stp \<in> set (steps e vpa ?ref cfg). \<forall>q. view (rs_world ?s2) (stp_key stp) = Some (ONetworkPolicy q) \<longrightarrow>
        unconditional KNetworkPolicy \<or> om_ResourceVersion (np_Meta q) = '''' \<or> stp_desired stp (ONetworkPolicy q)"
    proof (intro ballI allI impI)
      fix stp q
      assume stp: "stp \<in> set (steps e vpa ?ref cfg)"
        and v: "view (rs_world ?s2) (stp_key stp) = Some (ONetworkPolicy q)"
      have "fst (stp_key stp) = KNetworkPolicy"
        using arg_cong [OF view_key [OF _ v], of fst] g(2) by (simp add: obj_key_def)
      with stp obtain p where "p \<in> set (NetworkPolicies cfg vpa)" "stp = policy_step e vpa ?ref p"
        by (auto simp: steps_def deployment_step_def service_step_def configmap_step_def Let_def)
      then show "unconditional KNetworkPolicy \<or> om_ResourceVersion (np_Meta q) = '''' \<or> stp_desired stp (ONetworkPolicy q)"
        using v pol pols g(3) S by (auto simp: policy_step_def)
    qed
    show "fst (run_state (stp_prog stp) s') = None"
      if "stp \<in> set (steps e vpa ?ref cfg)" "wf (rs_world s')" "rs_Config s' = cfg"
        "\<forall>q. view (rs_world s') (stp_key stp) = Some (ONetworkPolicy q) \<longrightarrow>
          unconditional KNetworkPolicy \<or> om_ResourceVersion (np_Meta q) = '''' \<or> stp_desired stp (ONetworkPolicy q)" for stp s'
      by (rule step_live [OF e own1 that])
  qed (use g cfg_def in simp_all)
  then show ?thesis
    using g by (auto simp: Reconcile_def run_simps sync e decoded_def stp_prog_steps cfg_def split: prod.splits)
qed

lemma Reconcile_config:
  assumes e: "en_Client e = c" and w: "wf (rs_world s)"
    and vpa: "view (rs_world s) (KVPA, req) = Some (OVPA vpa)"
    and a: "view (rs_world s) apiserver_key = Some (OAPIServer a)"
    and run: "run_state (Reconcile e req) s = (res, s')"
  shows "rs_Config s' = (rs_Config s)\<lparr>cfg_TLSProfileSpec :=
    synced_profile (api_Spec a) (cfg_TLSProfileSpec (rs_Config s))\<rparr>"
proof -
  obtain w1 where g1: "cl_Get c KAPIServer \<lparr>nn_Namespace = '''', nn_Name = APIServerName\<rparr> (rs_world s) = (Inr (OAPIServer a), w1)"
      "wf w1" "view w1 = view (rs_world s)"
    using typed_get_found [OF decodes_simps(6) w a [unfolded apiserver_key_def]] by metis
  let ?cfg = "(rs_Config s)\<lparr>cfg_TLSProfileSpec := synced_profile (api_Spec a) (cfg_TLSProfileSpec (rs_Config s))\<rparr>"
  let ?s1 = "s\<lparr>rs_world := w1, rs_Config := ?cfg\<rparr>"
  have sync: "run_state (syncTLSProfile e) s = ((), ?s1)"
    by (simp add: syncTLSProfile_def run_simps e g1 decoded_def State_Monad.update_def State_Monad.get_def
        State_Monad.set_def)
  obtain w2 where g2: "cl_Get c KVPA req w1 = (Inr (OVPA vpa), w2)" "wf w2"
    using typed_get_found [OF decodes_simps(5) g1(2), of req vpa] vpa g1(3) by (metis (no_types, lifting))
  let ?ref = "objectReference ?cfg (en_Scheme e) vpa" and ?s2 = "?s1\<lparr>rs_world := w2\<rparr>"
  obtain r s3 where loop: "run_state (until_error (map stp_prog (steps e vpa ?ref ?cfg))) ?s2 = (r, s3)"
    by fastforce
  have "s' = s3"
    using run loop by (simp add: Reconcile_def run_simps sync e g2 decoded_def stp_prog_steps)
  then show ?thesis using steps_run(2) [OF e _ _ loop] g2(2) by simp
qed

lemma foreign_namespace:
  assumes e: "en_Client e = c" and w: "wf (rs_world s)"
    and vpa: "view (rs_world s) (KVPA, req) = Some (OVPA vpa)"
    and ns: "om_Namespace (vpa_Meta vpa) \<noteq> ''''" "om_Namespace (vpa_Meta vpa) \<noteq> cfg_Namespace (rs_Config s)"
    and new: "view (rs_world s) (KDeployment, RecommenderName (rs_Config s) vpa) = None"
  shows "\<exists>err ev s'. run_state (Reconcile e req) s = ((zero_Result, Some err), s') \<and>
    view (rs_world s') = view (rs_world s) \<and> rs_events s' = rs_events s @ [ev] \<and>
    ev_Type ev = EventTypeWarning \<and> ev_Reason ev = ''FailedCreate''"
proof -
  obtain u s1 where sync: "run_state (syncTLSProfile e) s = (u, s1)" by (rule prod.exhaust)
  note S = syncTLSProfile_run [OF e w sync]
  define cfg where "cfg = rs_Config s1"
  obtain t where t: "cfg = (rs_Config s)\<lparr>cfg_TLSProfileSpec := t\<rparr>"
    using S tls_syncedD unfolding cfg_def by blast
  have "view (rs_world s1) (KVPA, req) = Some (OVPA vpa)" "wf (rs_world s1)" using S vpa by simp_all
  then obtain w2 where g: "cl_Get c KVPA req (rs_world s1) = (Inr (OVPA vpa), w2)" "wf w2"
      "view w2 = view (rs_world s1)"
    using typed_get_found [OF decodes_simps(5)] by metis
  have "view w2 (KDeployment, RecommenderName cfg vpa) = None"
    using new g(3) S t by (simp add: RecommenderName_def)
  then obtain err w3 where g2: "cl_Get c KDeployment (RecommenderName cfg vpa) w2 = (Inl err, w3)"
      "IsNotFound err" "view w3 = view w2"
    using typed_get_none [OF g(2)] by metis
  have "om_Namespace (dep_Meta (AutoscalerDeployment cfg vpa recommender_params)) = cfg_Namespace (rs_Config s)"
    by (simp add: AutoscalerDeployment_def Let_def recommender_params_def RecommenderName_def t)
  then obtain err' where o: "set_owner e vpa (dep_Meta (AutoscalerDeployment cfg vpa recommender_params)) = Inl err'"
    using SetControllerReference_cross_namespace [OF ns(1)] ns(2) unfolding set_owner_def by metis
  have name: "par_NameMethod recommender_params = RecommenderName" by (simp add: recommender_params_def)
  show ?thesis
    using S g(3) g2(3)
    by (simp add: Reconcile_def run_simps sync e g(1) decoded_def reconcile_steps_def controllerParams_def
        reconcile_deployment_def CreateAutoscaler_def name g2 o cfg_def [symmetric])
      (simp add: Event_of_def)
qed

end

end
