(* ===== verification/Fake_Client.thy ===== *)
theory Fake_Client
  imports Reconcile_Live
begin

text \<open>
  The in-memory client of controller-runtime that the operator's own tests run against
  (\<open>pkg/client/fake\<close>: \<open>Get\<close>, \<open>Create\<close>, \<open>Update\<close> and \<open>Patch\<close> over the versioned object tracker),
  and the proof that it satisfies the laws of \<open>kube_api\<close> and \<open>reliable_api\<close>.

  The tracker is a finite map from keys to objects. A read passes the object through JSON,
  which turns empty maps and lists into nil, and clears its type metadata. Writes check and
  bump the resource version. The model leaves out deletion (the operator deletes nothing; no
  object carries a deletion timestamp), dry runs, generated names, server-side apply, watches
  and unstructured objects, which the operator does not use; all kinds are registered.
\<close>

type_synonym tracker = "(objkey, KObject) fmap"

section \<open>JSON and errors\<close>

definition omit_map :: "('k, 'v) fmap option \<Rightarrow> ('k, 'v) fmap option" where
  "omit_map m = (if m = Some fmempty then None else m)"

definition omit_list :: "'a list option \<Rightarrow> 'a list option" where
  "omit_list xs = (if xs = Some [] then None else xs)"

definition json_meta :: "ObjectMeta \<Rightarrow> ObjectMeta" where
  "json_meta m = m\<lparr>om_Labels := omit_map (om_Labels m), om_Annotations := omit_map (om_Annotations m)\<rparr>"

definition json_resources :: "ResourceRequirements \<Rightarrow> ResourceRequirements" where
  "json_resources r = \<lparr>rr_Limits = omit_map (rr_Limits r), rr_Requests = omit_map (rr_Requests r),
     rr_Claims = omit_list (rr_Claims r)\<rparr>"

definition json_podspec :: "PodSpec \<Rightarrow> PodSpec" where
  "json_podspec p = p\<lparr>ps_Containers :=
     map (\<lambda>c. c\<lparr>c_Resources := json_resources (c_Resources c)\<rparr>) (ps_Containers p)\<rparr>"

definition read_meta :: "ObjectMeta \<Rightarrow> ObjectMeta" where
  "read_meta m = (json_meta m)\<lparr>om_rest := fmdrop ''managedFields'' (om_rest m)\<rparr>"

fun read_object :: "KObject \<Rightarrow> KObject" where
  "read_object (ODeployment d) = ODeployment (d\<lparr>dep_TypeMeta := zero_TypeMeta,
     dep_Meta := read_meta (dep_Meta d),
     dep_Template := \<lparr>pt_Meta = json_meta (pt_Meta (dep_Template d)),
                      pt_Spec = json_podspec (pt_Spec (dep_Template d))\<rparr>\<rparr>)"
| "read_object (OService s) = OService (s\<lparr>svc_TypeMeta := zero_TypeMeta, svc_Meta := read_meta (svc_Meta s)\<rparr>)"
| "read_object (OConfigMap m) = OConfigMap (m\<lparr>cm_TypeMeta := zero_TypeMeta, cm_Meta := read_meta (cm_Meta m)\<rparr>)"
| "read_object (ONetworkPolicy p) =
     ONetworkPolicy (p\<lparr>np_TypeMeta := zero_TypeMeta, np_Meta := read_meta (np_Meta p)\<rparr>)"
| "read_object (ONamespace n) = ONamespace (n\<lparr>ns_TypeMeta := zero_TypeMeta, ns_Meta := read_meta (ns_Meta n)\<rparr>)"
| "read_object (OVPA v) = OVPA (v\<lparr>vpa_TypeMeta := zero_TypeMeta, vpa_Meta := read_meta (vpa_Meta v),
     vpa_Spec := map_vpaspec_resources json_resources (vpa_Spec v)\<rparr>)"
| "read_object (OAPIServer a) =
     OAPIServer (a\<lparr>api_TypeMeta := zero_TypeMeta, api_Meta := read_meta (api_Meta a)\<rparr>)"

fun group_resource :: "Kind \<Rightarrow> string" where
  "group_resource KDeployment = ''deployments.apps''"
| "group_resource KService = ''services''"
| "group_resource KConfigMap = ''configmaps''"
| "group_resource KNetworkPolicy = ''networkpolicies.networking.k8s.io''"
| "group_resource KNamespace = ''namespaces''"
| "group_resource KVPA = ''verticalpodautoscalercontrollers.autoscaling.openshift.io''"
| "group_resource KAPIServer = ''apiservers.config.openshift.io''"

definition NewNotFound :: "Kind \<Rightarrow> string \<Rightarrow> go_error" where
  "NewNotFound k name = StatusError StatusReasonNotFound 404
     (group_resource k @ '' \"'' @ name @ ''\" not found'')"

definition NewAlreadyExists :: "Kind \<Rightarrow> string \<Rightarrow> go_error" where
  "NewAlreadyExists k name = StatusError StatusReasonAlreadyExists 409
     (group_resource k @ '' \"'' @ name @ ''\" already exists'')"

definition NewConflict :: "Kind \<Rightarrow> string \<Rightarrow> go_error" where
  "NewConflict k name = StatusError StatusReasonConflict 409
     (''Operation cannot be fulfilled on '' @ group_resource k @ '' \"'' @ name @ ''\": object was modified'')"

fun group_kind :: "Kind \<Rightarrow> string" where
  "group_kind KDeployment = ''Deployment.apps''"
| "group_kind KService = ''Service''"
| "group_kind KConfigMap = ''ConfigMap''"
| "group_kind KNetworkPolicy = ''NetworkPolicy.networking.k8s.io''"
| "group_kind KNamespace = ''Namespace''"
| "group_kind KVPA = ''VerticalPodAutoscalerController.autoscaling.openshift.io''"
| "group_kind KAPIServer = ''APIServer.config.openshift.io''"

definition NewInvalid :: "Kind \<Rightarrow> go_error" where
  "NewInvalid k = StatusError StatusReasonInvalid 422
     (group_kind k @ '' \"\" is invalid: metadata.name: Required value: name is required'')"

definition NewBadRequest :: go_error where
  "NewBadRequest = StatusError StatusReasonBadRequest 400
     ''resourceVersion can not be set for Create requests''"

lemmas create_error_defs = NewInvalid_def NewBadRequest_def NewAlreadyExists_def IsAlreadyExists_def
  StatusReasonInvalid_def StatusReasonBadRequest_def StatusReasonAlreadyExists_def

section \<open>Resource versions\<close>

text \<open>The group names of these tables are without the \<open>.k8s.io\<close> suffix, so a network policy, whose
  group is \<open>networking.k8s.io\<close>, is not found in the first.\<close>

fun allowsUnconditionalUpdate :: "Kind \<Rightarrow> bool" where
  "allowsUnconditionalUpdate KDeployment = True"
| "allowsUnconditionalUpdate KService = True"
| "allowsUnconditionalUpdate KConfigMap = True"
| "allowsUnconditionalUpdate KNamespace = True"
| "allowsUnconditionalUpdate _ = False"

fun allowsCreateOnUpdate :: "Kind \<Rightarrow> bool" where
  "allowsCreateOnUpdate KService = True"
| "allowsCreateOnUpdate _ = False"

definition copy_key :: "string \<Rightarrow> strmap \<Rightarrow> strmap \<Rightarrow> strmap" where
  "copy_key k old new = (case fmlookup old k of None \<Rightarrow> fmdrop k new | Some v \<Rightarrow> fmupd k v new)"

fun copyStatusFrom :: "KObject \<Rightarrow> KObject \<Rightarrow> KObject" where
  "copyStatusFrom (ODeployment d) (ODeployment n) = ODeployment (n\<lparr>dep_Status := dep_Status d\<rparr>)"
| "copyStatusFrom (OService s) (OService n) = OService (n\<lparr>svc_StatusRest := svc_StatusRest s\<rparr>)"
| "copyStatusFrom (ONamespace s) (ONamespace n) =
     ONamespace (n\<lparr>ns_rest := copy_key ''status'' (ns_rest s) (ns_rest n)\<rparr>)"
| "copyStatusFrom old new = new"

definition set_rv :: "string \<Rightarrow> KObject \<Rightarrow> KObject" where
  "set_rv rv = map_meta (\<lambda>m. m\<lparr>om_ResourceVersion := rv\<rparr>)"

section \<open>The operations\<close>

definition fake_Get :: "Kind \<Rightarrow> NamespacedName \<Rightarrow> tracker \<Rightarrow> (go_error + KObject) \<times> tracker" where
  "fake_Get k n w =
     (case fmlookup w (k, n) of
        None \<Rightarrow> (Inl (NewNotFound k (nn_Name n)), w)
      | Some obj \<Rightarrow> (Inr (read_object obj), w))"

definition tracker_Create :: "KObject \<Rightarrow> tracker \<Rightarrow> go_error option \<times> tracker" where
  "tracker_Create obj w =
     (let m = obj_meta obj; k = obj_kind obj
      in if om_Name m = '''' then (Some (NewInvalid k), w)
         else if om_ResourceVersion m \<noteq> '''' then (Some NewBadRequest, w)
         else if fmlookup w (obj_key obj) \<noteq> None then (Some (NewAlreadyExists k (om_Name m)), w)
         else (None, fmupd (obj_key obj) (set_rv ''1'' obj) w))"

definition fake_Create :: "KObject \<Rightarrow> tracker \<Rightarrow> go_error option \<times> tracker" where
  "fake_Create obj w = tracker_Create obj w"

text \<open>\<open>versionedTracker.update\<close> with \<open>updateObject\<close>; \<open>patching\<close> when the call comes from \<open>Patch\<close>.\<close>

definition tracker_update :: "bool \<Rightarrow> KObject \<Rightarrow> tracker \<Rightarrow> go_error option \<times> tracker" where
  "tracker_update patching obj w =
     (let k = obj_kind obj; name = om_Name (obj_meta obj)
      in if name = '''' then (Some (NewInvalid k), w)
         else case fmlookup w (obj_key obj) of
             None \<Rightarrow> if allowsCreateOnUpdate k then tracker_Create obj w
                     else (Some (NewNotFound k name), w)
           | Some old \<Rightarrow>
               (let obj = copyStatusFrom old obj;
                    oldRV = om_ResourceVersion (obj_meta old);
                    rv = (if om_ResourceVersion (obj_meta obj) = '''' \<and> (allowsUnconditionalUpdate k \<or> patching)
                          then oldRV else om_ResourceVersion (obj_meta obj))
                in if rv \<noteq> oldRV then (Some (NewConflict k name), w)
                   else case ParseUint (if oldRV = '''' then ''0'' else oldRV) of
                       None \<Rightarrow> (Some (PlainError (''can not convert resourceVersion '' @ oldRV @ '' to int'')), w)
                     | Some n \<Rightarrow>
                         (None, fmupd (obj_key obj) (set_rv (nat_text ((n + 1) mod 2 ^ 64)) obj) w)))"

definition fake_Update :: "KObject \<Rightarrow> tracker \<Rightarrow> go_error option \<times> tracker" where
  "fake_Update obj w =
     (let managed = (case fmlookup w (obj_key obj) of
            None \<Rightarrow> fmempty | Some old \<Rightarrow> om_rest (obj_meta old))
      in tracker_update False
           (map_meta (\<lambda>m. m\<lparr>om_rest := copy_key ''managedFields'' managed (om_rest m)\<rparr>) obj) w)"

definition fake_Patch ::
  "Kind \<Rightarrow> NamespacedName \<Rightarrow> annotation_patch \<Rightarrow> tracker \<Rightarrow> go_error option \<times> tracker" where
  "fake_Patch k n p w =
     (case fmlookup w (k, n) of
        None \<Rightarrow> (Some (NewNotFound k (nn_Name n)), w)
      | Some old \<Rightarrow> tracker_update True (map_meta (\<lambda>m. m\<lparr>om_Annotations :=
          omit_map (Some (apply_annotation_patch p (nilmap (om_Annotations m))))\<rparr>) old) w)"

definition fake_client :: "tracker client" where
  "fake_client = \<lparr>cl_Get = fake_Get, cl_Create = fake_Create, cl_Update = fake_Update, cl_Patch = fake_Patch\<rparr>"

section \<open>Well-formed trackers and what readers see\<close>

definition fake_wf :: "tracker \<Rightarrow> bool" where
  "fake_wf w = fmpred (\<lambda>k obj. obj_key obj = k \<and> om_Name (obj_meta obj) \<noteq> '''' \<and>
     (om_ResourceVersion (obj_meta obj) = '''' \<or> ParseUint (om_ResourceVersion (obj_meta obj)) \<noteq> None)) w"

definition fake_view :: "tracker \<Rightarrow> objkey \<Rightarrow> KObject option" where
  "fake_view w k = map_option read_object (fmlookup w k)"

section \<open>Stored objects and the objects sent\<close>

lemma nilmap_omit_map [simp]: "nilmap (omit_map m) = nilmap m"
  by (simp add: omit_map_def)

lemma norm_json_resources [simp]: "norm_resources (json_resources r) = norm_resources r"
  by (simp add: norm_resources_def json_resources_def omit_list_def)

lemma norm_json_podspec [simp]: "norm_podspec (json_podspec p) = norm_podspec p"
  by (simp add: norm_podspec_def json_podspec_def norm_container_def comp_def)

lemma norm_json_meta [simp]: "norm_meta (json_meta m) = norm_meta m"
  by (simp add: norm_meta_def json_meta_def)

lemma server_meta_read [simp]: "server_meta (read_meta m) = server_meta m"
  by (simp add: server_meta_def norm_meta_def read_meta_def json_meta_def)

lemma server_view_read [simp]: "server_view (read_object obj) = server_view obj"
  by (cases obj) (simp_all add: map_vpaspec_resources_comp comp_def)

lemma read_object_simps [simp]:
  "obj_kind (read_object obj) = obj_kind obj" "obj_meta (read_object obj) = read_meta (obj_meta obj)"
  by (cases obj; simp)+

lemma obj_key_read [simp]: "obj_key (read_object obj) = obj_key obj"
  by (simp add: obj_key_def meta_key_def read_meta_def json_meta_def)

lemma map_meta_simps [simp]:
  "obj_kind (map_meta f obj) = obj_kind obj" "obj_meta (map_meta f obj) = f (obj_meta obj)"
  by (cases obj; simp)+

lemma server_view_map_meta:
  "(\<And>m. server_meta (f m) = server_meta m) \<Longrightarrow> server_view (map_meta f obj) = server_view obj"
  by (cases obj) simp_all

lemma set_rv_simps [simp]:
  "obj_kind (set_rv rv obj) = obj_kind obj" "obj_key (set_rv rv obj) = obj_key obj"
  "om_ResourceVersion (obj_meta (set_rv rv obj)) = rv" "om_Name (obj_meta (set_rv rv obj)) = om_Name (obj_meta obj)"
  "om_Annotations (obj_meta (set_rv rv obj)) = om_Annotations (obj_meta obj)"
  "server_view (set_rv rv obj) = server_view obj"
  by (simp_all add: set_rv_def obj_key_def meta_key_def server_view_map_meta
      server_meta_def norm_meta_def)

lemma copyStatusFrom_simps [simp]:
  "obj_kind (copyStatusFrom old new) = obj_kind new" "obj_meta (copyStatusFrom old new) = obj_meta new"
  "server_view (copyStatusFrom old new) = server_view new"
  by (cases old; cases new; simp)+

lemma copyStatusFrom_key [simp]: "obj_key (copyStatusFrom old new) = obj_key new"
  by (simp add: obj_key_def)

text \<open>Changes of the metadata that the operator does not look at.\<close>

lemma map_rest [simp]:
  "obj_key (map_meta (\<lambda>m. m\<lparr>om_rest := f (om_rest m)\<rparr>) obj) = obj_key obj"
  "server_view (map_meta (\<lambda>m. m\<lparr>om_rest := f (om_rest m)\<rparr>) obj) = server_view obj"
  by (simp_all add: obj_key_def meta_key_def server_view_map_meta server_meta_def norm_meta_def)

lemma fake_wfD:
  assumes "fake_wf w" "fmlookup w k = Some obj"
  shows "obj_key obj = k" "om_Name (obj_meta obj) \<noteq> ''''"
    "om_ResourceVersion (obj_meta obj) = '''' \<or> ParseUint (om_ResourceVersion (obj_meta obj)) \<noteq> None"
  using assms unfolding fake_wf_def fmpred_iff by blast+

lemma fake_wf_upd:
  assumes "fake_wf w" and "om_Name (obj_meta obj) \<noteq> ''''"
    and "om_ResourceVersion (obj_meta obj) = '''' \<or> ParseUint (om_ResourceVersion (obj_meta obj)) \<noteq> None"
  shows "fake_wf (fmupd (obj_key obj) obj w)"
  using assms unfolding fake_wf_def fmpred_iff by auto

section \<open>The effects of the operations\<close>

text \<open>One write: at most the object's own key changes, and success stores what was sent.\<close>

definition wrote_only :: "KObject \<Rightarrow> tracker \<Rightarrow> go_error option \<Rightarrow> tracker \<Rightarrow> bool" where
  "wrote_only obj w r w' \<longleftrightarrow> fake_wf w' \<and>
     (\<forall>k. k \<noteq> obj_key obj \<longrightarrow> fmlookup w' k = fmlookup w k) \<and>
     (r = None \<longrightarrow> (\<exists>obj'. fmlookup w' (obj_key obj) = Some obj' \<and> server_view obj' = server_view obj \<and>
        om_Annotations (obj_meta obj') = om_Annotations (obj_meta obj)))"

lemma wrote_only_failed: "fake_wf w \<Longrightarrow> wrote_only obj w (Some err) w"
  by (simp add: wrote_only_def)

lemma wrote_only_stored:
  assumes "fake_wf w" and "obj_key obj' = obj_key obj" "server_view obj' = server_view obj"
    and "om_Annotations (obj_meta obj') = om_Annotations (obj_meta obj)"
    and "om_Name (obj_meta obj') \<noteq> ''''" "ParseUint (om_ResourceVersion (obj_meta obj')) \<noteq> None"
  shows "wrote_only obj w None (fmupd (obj_key obj) obj' w)"
  using assms fake_wf_upd [of w obj'] by (auto simp: wrote_only_def)

lemma tracker_Create_wrote:
  assumes w: "fake_wf w"
  shows "wrote_only obj w (fst (tracker_Create obj w)) (snd (tracker_Create obj w))"
proof (cases "om_Name (obj_meta obj) = '''' \<or> om_ResourceVersion (obj_meta obj) \<noteq> '''' \<or>
    fmlookup w (obj_key obj) \<noteq> None")
  case True
  then show ?thesis
    unfolding tracker_Create_def Let_def using wrote_only_failed [OF w] by auto
next
  case False
  have "ParseUint ''1'' = Some 1" by (simp add: ParseUint_def char_digit_def)
  with False have "wrote_only obj w None (fmupd (obj_key obj) (set_rv ''1'' obj) w)"
    by (intro wrote_only_stored [OF w]) simp_all
  with False show ?thesis unfolding tracker_Create_def Let_def by simp
qed

lemma tracker_update_wrote:
  assumes w: "fake_wf w"
  shows "wrote_only obj w (fst (tracker_update patching obj w)) (snd (tracker_update patching obj w))"
proof (cases "om_Name (obj_meta obj) = ''''")
  case True
  then show ?thesis by (simp add: tracker_update_def Let_def wrote_only_failed [OF w])
next
  case name: False
  show ?thesis
  proof (cases "fmlookup w (obj_key obj)")
    case None
    then show ?thesis
      using tracker_Create_wrote [OF w, of obj] name
      by (simp add: tracker_update_def Let_def wrote_only_failed [OF w])
  next
    case (Some old)
    have "wrote_only obj w None (fmupd (obj_key obj)
        (set_rv (nat_text ((n + 1) mod 2 ^ 64)) (copyStatusFrom old obj)) w)" for n
    proof (rule wrote_only_stored [OF w])
      have "ParseUint (nat_text ((n + 1) mod 2 ^ 64)) = Some ((n + 1) mod 2 ^ 64)"
        by (rule ParseUint_nat_text) simp
      then show "ParseUint (om_ResourceVersion (obj_meta
          (set_rv (nat_text ((n + 1) mod 2 ^ 64)) (copyStatusFrom old obj)))) \<noteq> None"
        by (simp only: set_rv_simps) simp
    qed (use name in simp_all)
    then show ?thesis
      using Some name wrote_only_failed [OF w]
      unfolding tracker_update_def Let_def copyStatusFrom_key
      by (simp only: option.case if_False split: if_split option.split) simp
  qed
qed

lemma fake_Update_wrote:
  assumes "fake_wf w"
  shows "wrote_only obj w (fst (fake_Update obj w)) (snd (fake_Update obj w))"
  using tracker_update_wrote [OF assms]
  by (fastforce simp: fake_Update_def Let_def wrote_only_def)

lemma fake_Patch_wrote:
  assumes w: "fake_wf w" and old: "fmlookup w (k, n) = Some old"
    and obj: "obj = map_meta (\<lambda>m. m\<lparr>om_Annotations :=
      omit_map (Some (apply_annotation_patch p (nilmap (om_Annotations m))))\<rparr>) old"
  shows "wrote_only obj w (fst (fake_Patch k n p w)) (snd (fake_Patch k n p w))" "obj_key obj = (k, n)"
  using tracker_update_wrote [OF w, of obj True] fake_wfD(1) [OF w old] old
  by (simp_all add: fake_Patch_def obj obj_key_def meta_key_def)

lemma fake_view_wrote:
  assumes "wrote_only obj w r w'"
  shows "fake_wf w' \<and> (\<forall>k. k \<noteq> obj_key obj \<longrightarrow> fake_view w' k = fake_view w k)"
    and "r = None \<Longrightarrow> \<exists>obj'. fake_view w' (obj_key obj) = Some obj' \<and> stored_as obj obj' \<and>
      nilmap (om_Annotations (obj_meta obj')) = nilmap (om_Annotations (obj_meta obj))"
  using assms by (auto simp: wrote_only_def fake_view_def stored_as_def read_meta_def json_meta_def)

lemma fake_Patch_laws:
  assumes w: "fake_wf w" and run: "fake_Patch k n p w = (r, w')"
  shows "fake_wf w' \<and> (\<forall>key. key \<noteq> (k, n) \<longrightarrow> fake_view w' key = fake_view w key)"
    and "r = None \<Longrightarrow> \<exists>obj obj'. fake_view w (k, n) = Some obj \<and> fake_view w' (k, n) = Some obj' \<and>
      nilmap (om_Annotations (obj_meta obj')) = apply_annotation_patch p (nilmap (om_Annotations (obj_meta obj)))"
proof -
  have *: "(fake_wf w' \<and> (\<forall>key. key \<noteq> (k, n) \<longrightarrow> fake_view w' key = fake_view w key)) \<and>
    (r = None \<longrightarrow> (\<exists>obj obj'. fake_view w (k, n) = Some obj \<and> fake_view w' (k, n) = Some obj' \<and>
      nilmap (om_Annotations (obj_meta obj')) = apply_annotation_patch p (nilmap (om_Annotations (obj_meta obj)))))"
  proof (cases "fmlookup w (k, n)")
    case None
    then show ?thesis using run w by (auto simp: fake_Patch_def)
  next
    case (Some old)
    let ?obj = "map_meta (\<lambda>m. m\<lparr>om_Annotations :=
      omit_map (Some (apply_annotation_patch p (nilmap (om_Annotations m))))\<rparr>) old"
    have wr: "wrote_only ?obj w r w'" and key: "obj_key ?obj = (k, n)"
      using fake_Patch_wrote [OF w Some refl, of p] run by simp_all
    have "fake_view w (k, n) = Some (read_object old)" using Some by (simp add: fake_view_def)
    moreover have "nilmap (om_Annotations (obj_meta (read_object old))) = nilmap (om_Annotations (obj_meta old))"
      by (simp add: read_meta_def json_meta_def)
    ultimately show ?thesis using fake_view_wrote [OF wr] key by auto
  qed
  then show "fake_wf w' \<and> (\<forall>key. key \<noteq> (k, n) \<longrightarrow> fake_view w' key = fake_view w key)" ..
  show "\<exists>obj obj'. fake_view w (k, n) = Some obj \<and> fake_view w' (k, n) = Some obj' \<and>
      nilmap (om_Annotations (obj_meta obj')) = apply_annotation_patch p (nilmap (om_Annotations (obj_meta obj)))"
    if "r = None" using * that by simp
qed

text \<open>The in-memory client satisfies the laws that the controller's theorems rely on.\<close>

interpretation fake: kube_api fake_client fake_view fake_wf
proof unfold_locales
  fix w w' :: tracker and key k n obj r g e p
  assume w: "fake_wf w"
  show "fake_view w key = Some obj \<Longrightarrow> obj_key obj = key"
    using fake_wfD(1) [OF w, of key] by (auto simp: fake_view_def)
  show "cl_Get fake_client k n w = (Inr obj, w') \<Longrightarrow> fake_view w (k, n) = Some obj"
    by (auto simp: fake_client_def fake_Get_def fake_view_def split: option.splits)
  show "cl_Get fake_client k n w = (Inl e, w') \<Longrightarrow> IsNotFound e \<Longrightarrow> fake_view w (k, n) = None"
    by (auto simp: fake_client_def fake_Get_def fake_view_def split: option.splits)
  show "cl_Get fake_client k n w = (g, w') \<Longrightarrow> fake_wf w' \<and> fake_view w' = fake_view w"
    using w by (auto simp: fake_client_def fake_Get_def split: option.splits)
  show "cl_Create fake_client obj w = (None, w') \<Longrightarrow>
      \<exists>obj'. fake_view w' (obj_key obj) = Some obj' \<and> stored_as obj obj'"
    using fake_view_wrote(2) [OF tracker_Create_wrote [OF w, of obj]] by (auto simp: fake_client_def fake_Create_def)
  show "cl_Create fake_client obj w = (r, w') \<Longrightarrow>
      fake_wf w' \<and> (\<forall>key. key \<noteq> obj_key obj \<longrightarrow> fake_view w' key = fake_view w key)"
    using fake_view_wrote(1) [OF tracker_Create_wrote [OF w, of obj]] by (simp add: fake_client_def fake_Create_def)
  show "cl_Create fake_client obj w = (Some e, w') \<Longrightarrow> IsAlreadyExists e \<Longrightarrow> fake_view w' (obj_key obj) \<noteq> None"
    by (auto simp: fake_client_def fake_Create_def tracker_Create_def Let_def fake_view_def create_error_defs
        split: if_splits)
  show "cl_Update fake_client obj w = (None, w') \<Longrightarrow>
      \<exists>obj'. fake_view w' (obj_key obj) = Some obj' \<and> stored_as obj obj'"
    using fake_view_wrote(2) [OF fake_Update_wrote [OF w, of obj]] by (auto simp: fake_client_def)
  show "cl_Update fake_client obj w = (r, w') \<Longrightarrow>
      fake_wf w' \<and> (\<forall>key. key \<noteq> obj_key obj \<longrightarrow> fake_view w' key = fake_view w key)"
    using fake_view_wrote(1) [OF fake_Update_wrote [OF w, of obj]] by (simp add: fake_client_def)
  show "\<exists>obj obj'. fake_view w (k, n) = Some obj \<and> fake_view w' (k, n) = Some obj' \<and>
      nilmap (om_Annotations (obj_meta obj')) = apply_annotation_patch p (nilmap (om_Annotations (obj_meta obj)))"
    if "cl_Patch fake_client k n p w = (None, w')"
    using fake_Patch_laws(2) [OF w] that by (simp add: fake_client_def)
  show "fake_wf w' \<and> (\<forall>key. key \<noteq> (k, n) \<longrightarrow> fake_view w' key = fake_view w key)"
    if "cl_Patch fake_client k n p w = (r, w')"
    using fake_Patch_laws(1) [OF w] that by (simp add: fake_client_def)
qed

lemma tracker_update_total:
  assumes w: "fake_wf w" and old: "fmlookup w (obj_key obj) = Some old" and name: "om_Name (obj_meta obj) \<noteq> ''''"
    and rv: "om_ResourceVersion (obj_meta obj) = om_ResourceVersion (obj_meta old) \<or>
      om_ResourceVersion (obj_meta obj) = '''' \<and> (allowsUnconditionalUpdate (obj_kind obj) \<or> patching)"
  shows "fst (tracker_update patching obj w) = None"
proof -
  have zero: "ParseUint ''0'' \<noteq> None" by (simp add: ParseUint_def char_digit_def)
  have "ParseUint (if om_ResourceVersion (obj_meta old) = '''' then ''0''
      else om_ResourceVersion (obj_meta old)) \<noteq> None"
    using fake_wfD(3) [OF w old] zero by auto
  then show ?thesis
    using old name rv by (auto simp: tracker_update_def Let_def)
qed

lemma fake_Update_total:
  assumes w: "fake_wf w" and old: "fmlookup w (obj_key obj) = Some old" and name: "om_Name (obj_meta obj) \<noteq> ''''"
    and rv: "om_ResourceVersion (obj_meta obj) = om_ResourceVersion (obj_meta old) \<or>
      om_ResourceVersion (obj_meta obj) = '''' \<and> allowsUnconditionalUpdate (obj_kind obj)"
  shows "fst (fake_Update obj w) = None"
  unfolding fake_Update_def Let_def
  by (rule tracker_update_total [OF w, where old = old]) (use old name rv in auto)

interpretation fake: reliable_api fake_client fake_view fake_wf allowsUnconditionalUpdate
proof unfold_locales
  fix w :: tracker and k n obj old p
  assume w: "fake_wf w"
  show "fake_view w (k, n) = Some obj \<Longrightarrow> \<exists>w'. cl_Get fake_client k n w = (Inr obj, w')"
    by (auto simp: fake_client_def fake_Get_def fake_view_def split: option.splits)
  show "fake_view w (k, n) = None \<Longrightarrow> \<exists>e w'. cl_Get fake_client k n w = (Inl e, w') \<and> IsNotFound e"
    by (auto simp: fake_client_def fake_Get_def fake_view_def NewNotFound_def IsNotFound_def
        split: option.splits)
  show "fake_view w (obj_key obj) = None \<Longrightarrow> om_Name (obj_meta obj) \<noteq> '''' \<Longrightarrow>
      om_ResourceVersion (obj_meta obj) = '''' \<Longrightarrow> \<exists>w'. cl_Create fake_client obj w = (None, w')"
    by (simp add: fake_client_def fake_Create_def tracker_Create_def Let_def fake_view_def)
  show "\<exists>w'. cl_Update fake_client obj w = (None, w')"
    if v: "fake_view w (obj_key obj) = Some old" "om_Name (obj_meta obj) \<noteq> ''''"
      "om_ResourceVersion (obj_meta obj) = om_ResourceVersion (obj_meta old) \<or>
       om_ResourceVersion (obj_meta obj) = '''' \<and> allowsUnconditionalUpdate (obj_kind obj)"
  proof -
    obtain raw where raw: "fmlookup w (obj_key obj) = Some raw" "old = read_object raw"
      using v(1) by (auto simp: fake_view_def)
    then have "fst (fake_Update obj w) = None"
      using v(2,3) by (intro fake_Update_total [OF w raw(1)]) (simp_all add: read_meta_def json_meta_def)
    then show ?thesis by (cases "fake_Update obj w") (simp add: fake_client_def)
  qed
  show "\<exists>w'. cl_Patch fake_client k n p w = (None, w')" if v: "fake_view w (k, n) = Some obj"
  proof -
    obtain raw where raw: "fmlookup w (k, n) = Some raw" using v by (auto simp: fake_view_def)
    let ?obj = "map_meta (\<lambda>m. m\<lparr>om_Annotations :=
      omit_map (Some (apply_annotation_patch p (nilmap (om_Annotations m))))\<rparr>) raw"
    have "obj_key ?obj = (k, n)" by (rule fake_Patch_wrote(2) [OF w raw refl])
    then have "fst (tracker_update True ?obj w) = None"
      using fake_wfD(2) [OF w raw] by (intro tracker_update_total [OF w, where old = raw]) (simp_all add: raw)
    then show ?thesis
      using raw by (cases "tracker_update True ?obj w") (simp add: fake_client_def fake_Patch_def)
  qed
qed

end
