(* ===== verification/Reconcile_Theorems.thy ===== *)
theory Reconcile_Theorems
  imports Fake_Client
begin

text \<open>
  The guarantees of \<open>Reconcile\<close>, stated for every client that satisfies the laws of \<open>kube_api\<close>
  (or \<open>reliable_api\<close>), and their application to the in-memory client.
\<close>

section \<open>A cluster with one custom resource\<close>

definition example_env :: "tracker env" where
  "example_env = \<lparr>en_Client = fake_client, en_Scheme = AddToScheme []\<rparr>"

definition example_req :: NamespacedName where
  "example_req = \<lparr>nn_Namespace = ''vpa'', nn_Name = ''default''\<rparr>"

definition example_state :: "tracker \<Rightarrow> tracker rstate" where
  "example_state w = \<lparr>rs_world = fmupd (KVPA, example_req) (OVPA example_vpa) w,
     rs_Config = example_cfg, rs_events = []\<rparr>"

definition example_run :: "tracker \<Rightarrow> (Result \<times> go_error option) \<times> tracker rstate" where
  "example_run w = run_state (Reconcile example_env example_req) (example_state w)"

lemma example_key: "obj_key (OVPA example_vpa) = (KVPA, example_req)"
  by (simp add: obj_key_def meta_key_def example_vpa_def example_req_def)

lemma example_wf: "fake_wf w \<Longrightarrow> fake_wf (rs_world (example_state w))"
proof -
  assume w: "fake_wf w"
  have "ParseUint ''1'' = Some 1" by (simp add: ParseUint_def char_digit_def)
  then show ?thesis
    using fake_wf_upd [OF w, of "OVPA example_vpa"] example_key
    by (simp add: example_state_def) (simp add: example_vpa_def)
qed

lemma fake_wf_empty: "fake_wf fmempty"
  by (simp add: fake_wf_def)

lemma example_view: "fake_view (rs_world (example_state w)) (KVPA, example_req) = Some (OVPA example_vpa)"
  by (simp add: fake_view_def example_state_def example_vpa_def read_meta_def json_meta_def omit_map_def
      map_vpaspec_resources_def map_override_resources_def json_resources_def omit_list_def
      zero_VPASpec_def zero_DeploymentOverride_def zero_ResourceRequirements_def zero_ObjectMeta_def)

lemma example_view_other: "k \<noteq> (KVPA, example_req) \<Longrightarrow>
    fake_view (rs_world (example_state w)) k = fake_view w k"
  by (simp add: fake_view_def example_state_def)

lemma example_can_own: "can_own example_env (rs_Config (example_state w)) example_vpa"
  using GVKForObject_AddToScheme [of "[]"]
  by (auto simp: can_own_def example_env_def example_state_def example_vpa_def example_cfg_def VPA_GoType_def)

text \<open>A state in which the policies need no unconditional update.\<close>

lemma example_run_nil:
  assumes w: "fake_wf w"
    and pol: "\<And>n q. fake_view w (KNetworkPolicy, n) = Some (ONetworkPolicy q) \<Longrightarrow>
      om_ResourceVersion (np_Meta q) = ''''"
  shows "fst (example_run w) = (zero_Result, None)"
  unfolding example_run_def
proof (rule fake.live [OF _ example_wf [OF w] example_view example_can_own])
  show "en_Client example_env = fake_client" by (simp add: example_env_def)
qed (use pol example_view_other in fastforce)

lemma example_run_eq: "run_state (Reconcile example_env example_req) (example_state w) =
    (fst (example_run w), snd (example_run w))"
  by (simp add: example_run_def)

lemma example_nil: "snd (fst (example_run fmempty)) = None"
  using example_run_nil [OF fake_wf_empty] by (simp add: fake_view_def)

lemma example_en_Client: "en_Client example_env = fake_client"
  by (simp add: example_env_def)

section \<open>Convergence and liveness\<close>

text \<open>
  A run of \<open>Reconcile\<close> that returns nil has brought the cluster to what the custom resource
  asks for. All three deployments have the desired pod specification, replica count and
  release version; the webhook service its port, selector and annotations; the CA config map
  its annotations; the five network policies their specifications. Any call may have failed
  on the way as long as the run returned nil.
\<close>

theorem Reconcile_converges:
  assumes "kube_api c view good" and "en_Client e = c" and "good (rs_world s)"
    and "view (rs_world s) (KVPA, req) = Some (OVPA vpa)"
    and "run_state (Reconcile e req) s = (res, s')" and "snd res = None"
  shows "cluster_matches (view (rs_world s')) (rs_Config s') vpa"
  by (rule kube_api.converges [OF assms(1,2,3,5,6,4)])

theorem Reconcile_converges_witness:
  "cluster_matches (fake_view (rs_world (snd (example_run fmempty)))) (rs_Config (snd (example_run fmempty)))
     example_vpa"
  by (rule Reconcile_converges [OF fake.kube_api_axioms example_en_Client example_wf [OF fake_wf_empty]
      example_view example_run_eq example_nil])

text \<open>
  C3: Over a client that does not fail when the preconditions of its calls hold, \<open>Reconcile\<close>
  returns nil and has converged, from every state of the cluster, provided that the custom
  resource can own the objects (it is in the operand namespace or cluster scoped, and its type
  is registered) and that every existing network policy that differs from the desired one can
  be updated without a resource version.
\<close>

theorem Reconcile_live:
  assumes "reliable_api c view good unconditional" and "en_Client e = c" and "good (rs_world s)"
    and "view (rs_world s) (KVPA, req) = Some (OVPA vpa)" and "can_own e (rs_Config s) vpa"
    and "\<And>p q. p \<in> set (NetworkPolicies (rs_Config s) vpa) \<Longrightarrow>
      view (rs_world s) (KNetworkPolicy, meta_key (np_Meta p)) = Some (ONetworkPolicy q) \<Longrightarrow>
      unconditional KNetworkPolicy \<or> om_ResourceVersion (np_Meta q) = '''' \<or> np_Spec q = np_Spec p"
  shows "\<exists>s'. run_state (Reconcile e req) s = ((zero_Result, None), s') \<and>
    cluster_matches (view (rs_world s')) (rs_Config s') vpa"
proof -
  have "fst (run_state (Reconcile e req) s) = (zero_Result, None)"
    by (rule reliable_api.live [OF assms])
  then obtain s' where s': "run_state (Reconcile e req) s = ((zero_Result, None), s')"
    by (metis prod.collapse)
  have "kube_api c view good" using assms(1) by (simp add: reliable_api_def)
  from kube_api.converges [OF this assms(2,3) s' _ assms(4)] s' show ?thesis by auto
qed

theorem Reconcile_live_witness:
  "\<exists>s'. run_state (Reconcile example_env example_req) (example_state fmempty) = ((zero_Result, None), s') \<and>
     cluster_matches (fake_view (rs_world s')) (rs_Config s') example_vpa"
proof (rule Reconcile_live [OF fake.reliable_api_axioms example_en_Client example_wf [OF fake_wf_empty]
      example_view example_can_own])
  fix p q
  assume "fake_view (rs_world (example_state fmempty)) (KNetworkPolicy, meta_key (np_Meta p)) = Some (ONetworkPolicy q)"
  then have False by (simp add: fake_view_def example_state_def)
  then show "allowsUnconditionalUpdate KNetworkPolicy \<or> om_ResourceVersion (np_Meta q) = '''' \<or>
      np_Spec q = np_Spec p" ..
qed

section \<open>What a run does not touch\<close>

text \<open>
  C5: Whatever calls fail and whatever it returns, a run of \<open>Reconcile\<close> changes at most the ten
  objects it manages for the requested custom resource, and of its own configuration only the
  TLS profile. In particular it writes nothing when the custom resource does not exist.
\<close>

theorem Reconcile_writes_only_managed:
  assumes "kube_api c view good" and "en_Client e = c" and "good (rs_world s)"
    and "run_state (Reconcile e req) s = (res, s')"
  shows "(\<forall>k. view (rs_world s') k \<noteq> view (rs_world s) k \<longrightarrow>
      (\<exists>vpa. view (rs_world s) (KVPA, req) = Some (OVPA vpa) \<and> k \<in> set (managed_keys (rs_Config s) vpa))) \<and>
    (\<exists>t. rs_Config s' = (rs_Config s)\<lparr>cfg_TLSProfileSpec := t\<rparr>) \<and> good (rs_world s')"
  using kube_api.frame [OF assms] tls_syncedD by blast

theorem Reconcile_writes_only_managed_witness:
  "fake_view (rs_world (snd (example_run fmempty))) (KVPA, example_req) = Some (OVPA example_vpa)"
proof -
  have "(KVPA, example_req) \<notin> set (managed_keys (rs_Config (example_state fmempty)) vpa)" for vpa
    by (auto simp: managed_keys_def)
  then show ?thesis
    using Reconcile_writes_only_managed [OF fake.kube_api_axioms example_en_Client example_wf [OF fake_wf_empty]
        example_run_eq] example_view [of fmempty] by metis
qed

text \<open>
  C6: \<open>Reconcile\<close> is idempotent: after a run that returned nil, a second run writes nothing, and
  records no event if it returns nil too, unless the cluster's TLS settings made it change its
  TLS profile in between.
\<close>

theorem Reconcile_idempotent:
  assumes "kube_api c view good" and "en_Client e = c" and "good (rs_world s)"
    and "view (rs_world s) (KVPA, req) = Some (OVPA vpa)"
    and "run_state (Reconcile e req) s = (res1, s1)" and "snd res1 = None"
    and "run_state (Reconcile e req) s1 = (res2, s2)"
    and "cfg_TLSProfileSpec (rs_Config s2) = cfg_TLSProfileSpec (rs_Config s1)"
  shows "view (rs_world s2) = view (rs_world s1) \<and> (snd res2 = None \<longrightarrow> rs_events s2 = rs_events s1)"
proof -
  note f1 = kube_api.frame [OF assms(1,2,3,5)]
  then have g1: "good (rs_world s1)" by blast
  obtain t where "rs_Config s2 = (rs_Config s1)\<lparr>cfg_TLSProfileSpec := t\<rparr>"
    using kube_api.frame [OF assms(1,2) g1 assms(7)] tls_syncedD by blast
  then have cfg: "rs_Config s2 = rs_Config s1" using assms(8) by simp
  have "(KVPA, req) \<notin> set (managed_keys (rs_Config s) v)" for v by (auto simp: managed_keys_def)
  with f1 assms(4) have vpa: "view (rs_world s1) (KVPA, req) = Some (OVPA vpa)" by metis
  show ?thesis
    by (rule kube_api.idle [OF assms(1,2) g1 assms(7) vpa])
      (use kube_api.converges [OF assms(1,2,3,5,6,4)] cfg in simp)
qed

text \<open>The example has no API server configuration, so the TLS profile never changes.\<close>

lemma example_config: "rs_Config (snd (example_run fmempty)) = example_cfg"
proof -
  have "fake_view (rs_world (example_state fmempty)) apiserver_key = None"
    by (simp add: fake_view_def example_state_def apiserver_key_def)
  then show ?thesis
    using fake.frame [OF example_en_Client example_wf [OF fake_wf_empty] example_run_eq]
    by (auto simp: tls_synced_def example_state_def)
qed

theorem Reconcile_idempotent_witness:
  "fake_view (rs_world (snd (run_state (Reconcile example_env example_req) (snd (example_run fmempty))))) =
     fake_view (rs_world (snd (example_run fmempty)))"
proof -
  let ?s1 = "snd (example_run fmempty)"
  obtain res2 s2 where run2: "run_state (Reconcile example_env example_req) ?s1 = (res2, s2)" by fastforce
  note f1 = fake.frame [OF example_en_Client example_wf [OF fake_wf_empty] example_run_eq]
  have "apiserver_key \<notin> set (managed_keys (rs_Config (example_state fmempty)) v)" for v
    by (auto simp: managed_keys_def apiserver_key_def)
  then have "fake_view (rs_world ?s1) apiserver_key = fake_view (rs_world (example_state fmempty)) apiserver_key"
    using f1 by metis
  then have "fake_view (rs_world ?s1) apiserver_key = None"
    by (simp add: fake_view_def example_state_def apiserver_key_def)
  then have "rs_Config s2 = rs_Config ?s1"
    using fake.frame [OF example_en_Client _ run2] f1 by (auto simp: tls_synced_def)
  then show ?thesis
    using Reconcile_idempotent [OF fake.kube_api_axioms example_en_Client example_wf [OF fake_wf_empty]
        example_view example_run_eq example_nil run2] run2 by simp
qed

section \<open>Ownership and metadata\<close>

text \<open>
  C10: Every object that a successful run created has the custom resource as its only owner
  and as its controller, so that deleting the custom resource deletes the object.
\<close>

theorem Reconcile_created_owned:
  assumes "kube_api c view good" and "en_Client e = c" and "good (rs_world s)"
    and "view (rs_world s) (KVPA, req) = Some (OVPA vpa)"
    and "run_state (Reconcile e req) s = (res, s')" and "snd res = None"
    and "k \<in> set (managed_keys (rs_Config s) vpa)" and "view (rs_world s) k = None"
  shows "\<exists>obj gvk. view (rs_world s') k = Some obj \<and>
    GVKForObject VPA_GoType (vpa_TypeMeta vpa) (en_Scheme e) = Inr gvk \<and>
    om_OwnerReferences (obj_meta obj) = [controller_ref gvk vpa]"
  by (rule kube_api.created_owned [OF assms(1-3,5,6,4,7,8)])

theorem Reconcile_created_owned_witness:
  "\<exists>obj gvk. fake_view (rs_world (snd (example_run fmempty))) (KService, service_name example_cfg) = Some obj \<and>
     om_OwnerReferences (obj_meta obj) = [controller_ref gvk example_vpa]"
proof -
  have "(KService, service_name example_cfg) \<in> set (managed_keys (rs_Config (example_state fmempty)) example_vpa)"
    "fake_view (rs_world (example_state fmempty)) (KService, service_name example_cfg) = None"
    by (simp_all add: managed_keys_def example_state_def fake_view_def)
  from Reconcile_created_owned [OF fake.kube_api_axioms example_en_Client example_wf [OF fake_wf_empty]
      example_view example_run_eq example_nil this]
  show ?thesis by blast
qed

text \<open>
  C15: A successful run keeps the metadata of the deployments, the service and the config map
  that exist already: their owner references, their labels, and every annotation that is not
  one of the operator's own three.
\<close>

theorem Reconcile_keeps_metadata:
  assumes "kube_api c view good" and "en_Client e = c" and "good (rs_world s)"
    and "view (rs_world s) (KVPA, req) = Some (OVPA vpa)"
    and "run_state (Reconcile e req) s = (res, s')" and "snd res = None"
    and "k \<in> set (managed_keys (rs_Config s) vpa)" and "view (rs_world s) k = Some old"
    and "fst k \<noteq> KNetworkPolicy"
  shows "\<exists>obj. view (rs_world s') k = Some obj \<and> metadata_kept (obj_meta old) (obj_meta obj)"
  by (rule kube_api.updated_kept [OF assms(1-3,5,6,4,7-9)])

text \<open>An existing service with an annotation of its own.\<close>

definition example_service :: Service where
  "example_service = (WebhookService (example_cfg\<lparr>cfg_ReleaseVersion := ''old''\<rparr>) example_vpa)
     \<lparr>svc_Meta := zero_ObjectMeta\<lparr>om_Name := WebhookServiceName, om_Namespace := ''vpa'',
        om_Annotations := Some (fmupd ''team'' ''a'' fmempty)\<rparr>\<rparr>"

definition example_service_world :: tracker where
  "example_service_world = fmupd (KService, service_name example_cfg) (OService example_service) fmempty"

lemma example_service_world_facts:
  "fake_wf example_service_world"
  "fake_view (rs_world (example_state example_service_world)) (KService, service_name example_cfg) =
     Some (read_object (OService example_service))"
  "snd (fst (example_run example_service_world)) = None"
proof -
  have "obj_key (OService example_service) = (KService, service_name example_cfg)"
    by (simp add: obj_key_def meta_key_def example_service_def service_name_def example_cfg_def)
  moreover have "om_Name (svc_Meta example_service) \<noteq> ''''" "om_ResourceVersion (svc_Meta example_service) = ''''"
    by (simp_all add: example_service_def zero_ObjectMeta_def go_defs)
  ultimately show w: "fake_wf example_service_world"
    using fake_wf_upd [OF fake_wf_empty, of "OService example_service"] by (simp add: example_service_world_def)
  show "fake_view (rs_world (example_state example_service_world)) (KService, service_name example_cfg) =
      Some (read_object (OService example_service))"
    by (simp add: fake_view_def example_state_def example_service_world_def)
  show "snd (fst (example_run example_service_world)) = None"
    by (subst example_run_nil [OF w]) (auto simp: fake_view_def example_service_world_def)
qed

theorem Reconcile_keeps_metadata_witness:
  "\<exists>obj. fake_view (rs_world (snd (example_run example_service_world))) (KService, service_name example_cfg) = Some obj \<and>
     fmlookup (nilmap (om_Annotations (obj_meta obj))) ''team'' = Some ''a''"
proof -
  note E = example_service_world_facts
  have "(KService, service_name example_cfg) \<in> set (managed_keys (rs_Config (example_state example_service_world)) example_vpa)"
    "fst (KService, service_name example_cfg) \<noteq> KNetworkPolicy"
    by (simp_all add: managed_keys_def example_state_def)
  from Reconcile_keeps_metadata [OF fake.kube_api_axioms example_en_Client example_wf [OF E(1)]
      example_view example_run_eq E(3) this(1) E(2) this(2)]
  obtain obj where
    "fake_view (rs_world (snd (example_run example_service_world))) (KService, service_name example_cfg) = Some obj"
    "metadata_kept (obj_meta (read_object (OService example_service))) (obj_meta obj)" by blast
  moreover have "fmlookup (nilmap (om_Annotations (obj_meta (read_object (OService example_service))))) ''team'' = Some ''a''"
    by (simp add: read_meta_def json_meta_def) (simp add: example_service_def)
  moreover have "''team'' \<notin> operator_annotations" by (simp add: operator_annotations_def go_defs)
  ultimately show ?thesis unfolding metadata_kept_def by metis
qed

text \<open>
  C34: The network policies are different: an existing policy that has to be updated is
  replaced by the freshly built one, which has no owner. The update succeeds, and the policy's
  owner references, the controller reference set when it was created among them, are gone.
\<close>

theorem Reconcile_policy_update_drops_owner:
  assumes "kube_api c view good" and "en_Client e = c" and "good (rs_world s)"
    and "view (rs_world s) (KVPA, req) = Some (OVPA vpa)"
    and "run_state (Reconcile e req) s = (res, s')" and "snd res = None"
    and "p \<in> set (NetworkPolicies (rs_Config s') vpa)"
    and "view (rs_world s) (KNetworkPolicy, meta_key (np_Meta p)) = Some (ONetworkPolicy q)"
    and "np_Spec q \<noteq> np_Spec p"
  shows "\<exists>q'. view (rs_world s') (KNetworkPolicy, meta_key (np_Meta p)) = Some (ONetworkPolicy q') \<and>
    np_Spec q' = np_Spec p \<and> om_OwnerReferences (np_Meta q') = []"
  by (rule kube_api.policy_update_drops_owner [OF assms(1-3,5,6,4,7-9)])

text \<open>The default deny policy with an owner, and a specification that lost its policy types.\<close>

definition example_policy :: NetworkPolicy where
  "example_policy = (let p = NetworkPolicies example_cfg example_vpa ! 0
     in p\<lparr>np_TypeMeta := zero_TypeMeta,
          np_Meta := (np_Meta p)\<lparr>om_OwnerReferences := [controller_ref VPA_GVK example_vpa]\<rparr>,
          np_Spec := (np_Spec p)\<lparr>nps_PolicyTypes := []\<rparr>\<rparr>)"

definition example_policy_world :: tracker where
  "example_policy_world = fmupd (KNetworkPolicy, meta_key (np_Meta example_policy)) (ONetworkPolicy example_policy) fmempty"

lemma example_policy_simps:
  "np_Meta example_policy = zero_ObjectMeta\<lparr>om_Name := ''vpa-default-deny'', om_Namespace := ''vpa'',
     om_OwnerReferences := [controller_ref VPA_GVK example_vpa]\<rparr>"
  "nps_PolicyTypes (np_Spec example_policy) = []" "np_TypeMeta example_policy = zero_TypeMeta"
  by (simp_all add: example_policy_def NetworkPolicies_def Let_def example_cfg_def)

lemma example_policy_world_facts:
  "fake_wf example_policy_world"
  "fake_view (rs_world (example_state example_policy_world)) (KNetworkPolicy, meta_key (np_Meta example_policy)) =
     Some (ONetworkPolicy example_policy)"
  "snd (fst (example_run example_policy_world)) = None"
  "rs_Config (snd (example_run example_policy_world)) = example_cfg"
proof -
  have [simp]: "read_object (ONetworkPolicy example_policy) = ONetworkPolicy example_policy"
  proof -
    have "read_meta (np_Meta example_policy) = np_Meta example_policy"
      by (simp add: read_meta_def json_meta_def omit_map_def example_policy_simps zero_ObjectMeta_def)
    then have "example_policy\<lparr>np_TypeMeta := zero_TypeMeta, np_Meta := read_meta (np_Meta example_policy)\<rparr> = example_policy"
      by (intro NetworkPolicy.equality) (simp_all add: example_policy_simps(3))
    then show ?thesis by (simp only: read_object.simps)
  qed
  show w: "fake_wf example_policy_world"
    using fake_wf_upd [OF fake_wf_empty, of "ONetworkPolicy example_policy"]
    by (simp add: example_policy_world_def obj_key_def) (simp add: example_policy_simps zero_ObjectMeta_def)
  show "fake_view (rs_world (example_state example_policy_world)) (KNetworkPolicy, meta_key (np_Meta example_policy)) =
      Some (ONetworkPolicy example_policy)"
    by (simp add: fake_view_def example_state_def example_policy_world_def del: read_object.simps)
  show "snd (fst (example_run example_policy_world)) = None"
    by (subst example_run_nil [OF w])
      (auto simp: fake_view_def example_policy_world_def example_policy_simps zero_ObjectMeta_def
        simp del: read_object.simps split: if_splits)
  have "fake_view (rs_world (example_state example_policy_world)) apiserver_key = None"
    by (simp add: fake_view_def example_state_def example_policy_world_def apiserver_key_def)
  then show "rs_Config (snd (example_run example_policy_world)) = example_cfg"
    using fake.frame [OF example_en_Client example_wf [OF w] example_run_eq]
    by (auto simp: tls_synced_def example_state_def)
qed

theorem Reconcile_policy_update_drops_owner_witness:
  "om_OwnerReferences (np_Meta example_policy) \<noteq> [] \<and>
   (\<exists>q'. fake_view (rs_world (snd (example_run example_policy_world)))
       (KNetworkPolicy, meta_key (np_Meta example_policy)) = Some (ONetworkPolicy q') \<and>
     om_OwnerReferences (np_Meta q') = [])"
proof -
  note E = example_policy_world_facts
  let ?p = "NetworkPolicies example_cfg example_vpa ! 0"
  have p: "?p \<in> set (NetworkPolicies (rs_Config (snd (example_run example_policy_world))) example_vpa)"
    unfolding E(4) by (rule nth_mem) (simp add: NetworkPolicies_def Let_def)
  have key: "meta_key (np_Meta ?p) = meta_key (np_Meta example_policy)"
    by (simp add: example_policy_def Let_def meta_key_def)
  have spec: "np_Spec example_policy \<noteq> np_Spec ?p"
    by (rule notI, drule arg_cong [of _ _ nps_PolicyTypes])
      (simp add: example_policy_simps NetworkPolicies_def Let_def)
  from Reconcile_policy_update_drops_owner [OF fake.kube_api_axioms example_en_Client example_wf [OF E(1)]
      example_view example_run_eq E(3) p _ spec, unfolded key, OF E(2)]
  show ?thesis by (auto simp: example_policy_simps)
qed

section \<open>Errors and events\<close>

text \<open>
  C33: A custom resource outside of the operand namespace cannot own the operands. If the
  recommender's deployment does not exist yet, the run stops there: it returns the error,
  writes nothing, and records one warning.
\<close>

theorem Reconcile_foreign_namespace:
  assumes "reliable_api c view good unconditional" and "en_Client e = c" and "good (rs_world s)"
    and "view (rs_world s) (KVPA, req) = Some (OVPA vpa)"
    and "om_Namespace (vpa_Meta vpa) \<noteq> ''''" and "om_Namespace (vpa_Meta vpa) \<noteq> cfg_Namespace (rs_Config s)"
    and "view (rs_world s) (KDeployment, RecommenderName (rs_Config s) vpa) = None"
  shows "\<exists>err ev s'. run_state (Reconcile e req) s = ((zero_Result, Some err), s') \<and>
    view (rs_world s') = view (rs_world s) \<and> rs_events s' = rs_events s @ [ev] \<and>
    ev_Type ev = EventTypeWarning \<and> ev_Reason ev = ''FailedCreate''"
  by (rule reliable_api.foreign_namespace [OF assms])

theorem Reconcile_foreign_namespace_witness:
  "\<exists>err s'. run_state (Reconcile example_env example_req)
     ((example_state fmempty)\<lparr>rs_Config := example_cfg\<lparr>cfg_Namespace := ''other''\<rparr>\<rparr>) = ((zero_Result, Some err), s')"
proof -
  let ?s = "(example_state fmempty)\<lparr>rs_Config := example_cfg\<lparr>cfg_Namespace := ''other''\<rparr>\<rparr>"
  have "fake_wf (rs_world ?s)" "fake_view (rs_world ?s) (KVPA, example_req) = Some (OVPA example_vpa)"
    using example_wf [OF fake_wf_empty] example_view [of fmempty] by simp_all
  moreover have "om_Namespace (vpa_Meta example_vpa) \<noteq> ''''"
    "om_Namespace (vpa_Meta example_vpa) \<noteq> cfg_Namespace (rs_Config ?s)"
    by (simp_all add: example_vpa_def)
  moreover have "fake_view (rs_world ?s) (KDeployment, RecommenderName (rs_Config ?s) example_vpa) = None"
    by (simp add: fake_view_def example_state_def)
  ultimately show ?thesis
    using Reconcile_foreign_namespace [OF fake.reliable_api_axioms example_en_Client] by blast
qed

section \<open>What the operands end up with\<close>

lemma semeq_podspec_args:
  assumes "semeq_podspec p q" and "ps_Containers q = [c]"
  shows "\<exists>c'. ps_Containers p = [c'] \<and> c_Args c' = c_Args c"
proof -
  have eq: "map norm_container (ps_Containers p) = map norm_container (ps_Containers q)"
    using arg_cong [OF assms(1) [unfolded semeq_podspec_def], of ps_Containers] by (simp add: norm_podspec_def)
  then obtain c' where c': "ps_Containers p = [c']" "norm_container c' = norm_container c"
    using assms(2) by (auto simp: map_eq_Cons_conv)
  have "c_Args (norm_container x) = c_Args x" for x by (simp add: norm_container_def)
  with c' show ?thesis by metis
qed

text \<open>The command line of an operand in a cluster that matches.\<close>

lemma matches_args:
  assumes "cluster_matches objs cfg vpa" and op: "(params, sel) \<in> set operands"
  obtains d cont where "objs (KDeployment, par_NameMethod params cfg vpa) = Some (ODeployment d)"
    "deployment_current cfg vpa params d" "ps_Containers (pt_Spec (dep_Template d)) = [cont]"
    "c_Args cont = operator_args cfg vpa (ControllerParamsBase.truncate params) @
       cov_Args (do_Container (sel (vs_DeploymentOverrides (vpa_Spec vpa))))"
proof -
  have "params \<in> set controllerParams" using op unfolding map_fst_operands [symmetric] by force
  then obtain d where d: "objs (KDeployment, par_NameMethod params cfg vpa) = Some (ODeployment d)"
      "deployment_current cfg vpa params d"
    using assms(1) by (auto simp: cluster_matches_def)
  obtain c where c: "ps_Containers (PodSpecMethod cfg vpa params) = [c]"
      "c_Args c = operator_args cfg vpa (ControllerParamsBase.truncate params) @
         cov_Args (do_Container (sel (vs_DeploymentOverrides (vpa_Spec vpa))))"
    by (rule operand_podspec [OF op refl])
  obtain cont where "ps_Containers (pt_Spec (dep_Template d)) = [cont]" "c_Args cont = c_Args c"
    using semeq_podspec_args [OF _ c(1)] d(2) by (auto simp: deployment_current_def)
  with that d c(2) show thesis by metis
qed

text \<open>
  C17: The cluster's TLS settings reach the admission webhook. After a successful run that could
  read the API server configuration, the deployed admission controller runs with the minimum TLS
  version and the cipher suites of the cluster's profile, in the names that the webhook
  understands, when the adherence policy asks for them; with both flags unset when it does not;
  and with the previous profile when the cluster's custom profile is missing. An empty version or
  an empty list of suites leaves its flag unset; suites that have no IANA name are left out,
  unless none has one. A flag that the user sets keeps the user's value. (The operator's
  environment must not replace the operands' command line.)
\<close>

theorem Reconcile_applies_tls:
  assumes "reliable_api c view good unconditional" and "en_Client e = c" and "good (rs_world s)"
    and "view (rs_world s) (KVPA, req) = Some (OVPA vpa)"
    and "view (rs_world s) apiserver_key = Some (OAPIServer a)"
    and "run_state (Reconcile e req) s = (res, s')" and "snd res = None"
    and "cfg_ExtraArgs (rs_Config s) = ''''"
    and "user = cov_Args (do_Container (dos_Admission (vs_DeploymentOverrides (vpa_Spec vpa))))"
    and "profile = (if as_TLSAdherence (api_Spec a) \<in> {'''', ''LegacyAdheringComponentsOnly''} then None
      else case GetTLSProfileSpec (as_TLSSecurityProfile (api_Spec a)) of
             Inl err \<Rightarrow> cfg_TLSProfileSpec (rs_Config s) | Inr p \<Rightarrow> Some p)"
  shows "\<exists>d cont. view (rs_world s') (KDeployment, AdmissionPluginName (rs_Config s) vpa) = Some (ODeployment d) \<and>
    ps_Containers (pt_Spec (dep_Template d)) = [cont] \<and>
    effective (c_Args cont) ''--min-tls-version'' =
      (if ArgExists user ''--min-tls-version'' then effective user ''--min-tls-version''
       else case profile of
         None \<Rightarrow> None
       | Some p \<Rightarrow> if tps_MinTLSVersion p = '''' then None
           else Some (case map_of [(''VersionTLS10'', ''tls1_0''), (''VersionTLS11'', ''tls1_1''),
                          (''VersionTLS12'', ''tls1_2''), (''VersionTLS13'', ''tls1_3'')] (tps_MinTLSVersion p) of
                        Some v \<Rightarrow> v | None \<Rightarrow> tps_MinTLSVersion p)) \<and>
    effective (c_Args cont) ''--tls-ciphers'' =
      (if ArgExists user ''--tls-ciphers'' then effective user ''--tls-ciphers''
       else case profile of
         None \<Rightarrow> None
       | Some p \<Rightarrow> if tps_Ciphers p = [] then None
           else Some (Join (if \<exists>c \<in> set (tps_Ciphers p). map_of openSSLToIANACiphersMap c \<noteq> None
                            then List.map_filter (map_of openSSLToIANACiphersMap) (tps_Ciphers p)
                            else tps_Ciphers p) '',''))"
proof -
  let ?cfg = "rs_Config s'" and ?b = "ControllerParamsBase.truncate admission_params"
  have api: "kube_api c view good" using assms(1) by (simp add: reliable_api_def)
  have "profile = synced_profile (api_Spec a) (cfg_TLSProfileSpec (rs_Config s))"
    using assms(10) by (simp add: synced_profile_def ShouldHonorClusterTLSProfile_def)
  then have cfg: "?cfg = (rs_Config s)\<lparr>cfg_TLSProfileSpec := profile\<rparr>"
    using reliable_api.Reconcile_config [OF assms(1-6)] by simp
  have "cluster_matches (view (rs_world s')) ?cfg vpa"
    by (rule kube_api.converges [OF api assms(2,3,6,7,4)])
  then obtain d cont where d: "view (rs_world s') (KDeployment, AdmissionPluginName ?cfg vpa) = Some (ODeployment d)"
      "ps_Containers (pt_Spec (dep_Template d)) = [cont]" "c_Args cont = operator_args ?cfg vpa ?b @ user"
    by (rule matches_args [where params = admission_params and sel = dos_Admission])
      (simp_all add: operands_def admission_params_def assms(9))
  have "operator_args ?cfg vpa ?b = AdmissionPluginArgs vpa ?cfg"
    using assms(8) cfg by (simp add: operator_args_def admission_params_def ControllerParamsBase.truncate_def)
  then have "effective (c_Args cont) f = (if ArgExists user f then effective user f
      else effective (AdmissionPluginArgs vpa ?cfg) f)" for f
    using d(3) by (simp add: effective_append_if)
  then show ?thesis
    using d(1,2) cfg AdmissionPluginArgs_tls [of vpa ?cfg]
    by (intro exI [of _ d] exI [of _ cont])
      (simp add: AdmissionPluginName_def TLSVersionToArg_def go_defs split: option.split)
qed

definition example_apiserver :: APIServer where
  "example_apiserver = \<lparr>api_TypeMeta = zero_TypeMeta, api_Meta = zero_ObjectMeta\<lparr>om_Name := ''cluster''\<rparr>,
     api_Spec = \<lparr>as_TLSSecurityProfile = Some \<lparr>tsp_Type = ''Modern'', tsp_Custom = None\<rparr>,
       as_TLSAdherence = ''StrictAllComponents'', as_rest = fmempty\<rparr>\<rparr>"

definition example_tls_world :: tracker where
  "example_tls_world = fmupd apiserver_key (OAPIServer example_apiserver) fmempty"

lemma example_tls_wf: "fake_wf example_tls_world"
proof -
  have "obj_key (OAPIServer example_apiserver) = apiserver_key" "om_Name (api_Meta example_apiserver) \<noteq> ''''"
    "om_ResourceVersion (api_Meta example_apiserver) = ''''"
    by (simp_all add: obj_key_def meta_key_def example_apiserver_def apiserver_key_def zero_ObjectMeta_def go_defs)
  then show ?thesis
    using fake_wf_upd [OF fake_wf_empty, of "OAPIServer example_apiserver"] by (simp add: example_tls_world_def)
qed

lemma example_tls_view: "fake_view example_tls_world apiserver_key = Some (OAPIServer example_apiserver)"
  by (simp add: fake_view_def example_tls_world_def)
    (simp add: example_apiserver_def read_meta_def json_meta_def omit_map_def zero_ObjectMeta_def)

theorem Reconcile_applies_tls_witness:
  "\<exists>d cont. fake_view (rs_world (snd (example_run example_tls_world)))
       (KDeployment, AdmissionPluginName example_cfg example_vpa) = Some (ODeployment d) \<and>
     ps_Containers (pt_Spec (dep_Template d)) = [cont] \<and>
     effective (c_Args cont) ''--min-tls-version'' = Some ''tls1_3'' \<and>
     effective (c_Args cont) ''--tls-ciphers'' =
       Some ''TLS_AES_128_GCM_SHA256,TLS_AES_256_GCM_SHA384,TLS_CHACHA20_POLY1305_SHA256''"
proof -
  note w = example_tls_wf
  have a: "fake_view (rs_world (example_state example_tls_world)) apiserver_key = Some (OAPIServer example_apiserver)"
    using example_tls_view by (simp add: fake_view_def example_state_def apiserver_key_def)
  have nil: "snd (fst (example_run example_tls_world)) = None"
    by (subst example_run_nil [OF w]) (auto simp: fake_view_def example_tls_world_def apiserver_key_def split: if_splits)
  have cfg: "rs_Config (example_state example_tls_world) = example_cfg" "cfg_ExtraArgs example_cfg = ''''"
    by (simp_all add: example_state_def example_cfg_def)
  have user: "[] = cov_Args (do_Container (dos_Admission (vs_DeploymentOverrides (vpa_Spec example_vpa))))"
    by (simp add: example_vpa_def zero_VPASpec_def zero_DeploymentOverride_def)
  let ?p = "\<lparr>tps_Ciphers = tls13_ciphers, tps_Groups = tls_groups, tps_MinTLSVersion = ''VersionTLS13''\<rparr>"
  have profile: "Some ?p = (if as_TLSAdherence (api_Spec example_apiserver) \<in> {'''', ''LegacyAdheringComponentsOnly''}
      then None else case GetTLSProfileSpec (as_TLSSecurityProfile (api_Spec example_apiserver)) of
        Inl err \<Rightarrow> cfg_TLSProfileSpec (rs_Config (example_state example_tls_world)) | Inr p \<Rightarrow> Some p)"
    by (simp add: example_apiserver_def GetTLSProfileSpec_def TLSProfiles_def go_defs)
  have none: "\<not> ArgExists [] f" for f by (simp add: ArgExists_def)
  have iana: "List.map_filter (map_of openSSLToIANACiphersMap) tls13_ciphers = tls13_ciphers"
    "map_of openSSLToIANACiphersMap ''TLS_AES_128_GCM_SHA256'' = Some ''TLS_AES_128_GCM_SHA256''"
    by (simp_all add: tls13_ciphers_def openSSLToIANACiphersMap_def List.map_filter_simps)
  have known: "\<exists>c \<in> set tls13_ciphers. map_of openSSLToIANACiphersMap c \<noteq> None"
    by (intro bexI [of _ "''TLS_AES_128_GCM_SHA256''"]) (simp add: iana(2), simp add: tls13_ciphers_def)
  have suites: "Join (if \<exists>c \<in> set tls13_ciphers. map_of openSSLToIANACiphersMap c \<noteq> None
      then List.map_filter (map_of openSSLToIANACiphersMap) tls13_ciphers else tls13_ciphers) '','' =
    ''TLS_AES_128_GCM_SHA256,TLS_AES_256_GCM_SHA384,TLS_CHACHA20_POLY1305_SHA256''"
    unfolding if_P [OF known] iana(1) by (simp add: tls13_ciphers_def)
  have some: "tls13_ciphers \<noteq> []" by (simp add: tls13_ciphers_def)
  show ?thesis
    using Reconcile_applies_tls [OF fake.reliable_api_axioms example_en_Client example_wf [OF w] example_view a
        example_run_eq nil _ user profile] suites cfg none some
    by (simp cong: if_cong)
qed

text \<open>
  Recommendation-only mode: after a successful run the recommender has one replica, and the
  updater and the admission controller have none in recommendation-only mode and one otherwise.
\<close>

theorem Reconcile_replicas:
  assumes "kube_api c view good" and "en_Client e = c" and "good (rs_world s)"
    and "view (rs_world s) (KVPA, req) = Some (OVPA vpa)"
    and "run_state (Reconcile e req) s = (res, s')" and "snd res = None"
  shows "\<exists>dr du da. let cfg = rs_Config s';
      active = (if vs_RecommendationOnly (vpa_Spec vpa) = Some True then 0 else 1)
    in view (rs_world s') (KDeployment, RecommenderName cfg vpa) = Some (ODeployment dr) \<and>
       dep_Replicas dr = Some 1 \<and>
       view (rs_world s') (KDeployment, UpdaterName cfg vpa) = Some (ODeployment du) \<and>
       dep_Replicas du = Some active \<and>
       view (rs_world s') (KDeployment, AdmissionPluginName cfg vpa) = Some (ODeployment da) \<and>
       dep_Replicas da = Some active"
proof -
  have "UpdaterEnabled vpa \<longleftrightarrow> vs_RecommendationOnly (vpa_Spec vpa) \<noteq> Some True"
    "AdmissionPluginEnabled vpa \<longleftrightarrow> vs_RecommendationOnly (vpa_Spec vpa) \<noteq> Some True"
    by (auto simp: UpdaterEnabled_def AdmissionPluginEnabled_def split: option.split)
  then show ?thesis
    using kube_api.converges [OF assms(1,2,3,5,6,4)]
    by (auto simp: cluster_matches_def controllerParams_def recommender_params_def updater_params_def
        admission_params_def deployment_current_def expected_replicas_def RecommenderEnabled_def Let_def)
qed

theorem Reconcile_replicas_witness:
  "\<exists>du. fake_view (rs_world (snd (example_run fmempty))) (KDeployment, UpdaterName example_cfg example_vpa) =
     Some (ODeployment du) \<and> dep_Replicas du = Some 1"
  using Reconcile_replicas [OF fake.kube_api_axioms example_en_Client example_wf [OF fake_wf_empty]
      example_view example_run_eq example_nil]
  by (auto simp: Let_def example_config example_vpa_def zero_VPASpec_def)

end
