(* ===== verification/Default_Controller.thy ===== *)
theory Default_Controller
  imports Reconcile_Theorems
begin

text \<open>
  The creation of the default custom resource when the operator starts: \<open>ensureVPAController\<close> of
  \<open>verticalpodautoscaler_controller.go\<close>. The operator's namespace carries an annotation that
  says that the default was handed out once; without the annotation the default is created
  unless a custom resource exists, and the namespace is annotated. Shown here: what a run
  guarantees, that it succeeds over a reliable client, and, for every interleaving of operator
  restarts, reconcile runs and other clients, that a default that was deleted stays deleted.
\<close>

section \<open>ensureVPAController\<close>

text \<open>
  \<open>client.StrategicMergeFrom\<close>: the annotations that differ, in the order of the keys, with
  \<open>None\<close> for those that are gone.
\<close>

definition annotation_diff :: "strmap \<Rightarrow> strmap \<Rightarrow> annotation_patch" where
  "annotation_diff original modified =
     map (\<lambda>k. (k, fmlookup modified k))
       (filter (\<lambda>k. fmlookup original k \<noteq> fmlookup modified k)
         (sorted_list_of_fset (fmdom original |\<union>| fmdom modified)))"

definition create_default :: "'w env \<Rightarrow> Config \<Rightarrow> ('w rstate, go_error option) state" where
  "create_default e cfg =
     do { got \<leftarrow> kget e KVPA \<lparr>nn_Namespace = cfg_Namespace cfg, nn_Name = cfg_Name cfg\<rparr>;
          case decoded as_vpa got of
            Inr vpa \<Rightarrow> State_Monad.return None
          | Inl err \<Rightarrow>
              if IsNotFound err
              then do { r \<leftarrow> kcreate e (OVPA (DefaultVPAController cfg));
                        case r of
                          None \<Rightarrow> State_Monad.return None
                        | Some err' \<Rightarrow>
                            if \<not> IsAlreadyExists err' then State_Monad.return (Some err')
                            else State_Monad.return None }
              else State_Monad.return (Some err) }"

definition ensureVPAController :: "'w env \<Rightarrow> ('w rstate, go_error option) state" where
  "ensureVPAController e =
     do { cfg \<leftarrow> getConfig;
          got \<leftarrow> kget e KNamespace \<lparr>nn_Namespace = '''', nn_Name = cfg_Namespace cfg\<rparr>;
          case decoded as_namespace got of
            Inl err \<Rightarrow> State_Monad.return (Some err)
          | Inr vpaNamespace \<Rightarrow>
              (let annotations = nilmap (om_Annotations (ns_Meta vpaNamespace))
               in if fmlookup annotations DefaultVPAControllerAnnotation = None
                  then do { r \<leftarrow> create_default e cfg;
                            case r of
                              Some err \<Rightarrow> State_Monad.return (Some err)
                            | None \<Rightarrow>
                                kpatch e KNamespace (meta_key (ns_Meta vpaNamespace))
                                  (annotation_diff annotations
                                    (fmupd DefaultVPAControllerAnnotation ''true'' annotations)) }
                  else State_Monad.return None) }"

text \<open>The patch sets the one annotation and says nothing of the others.\<close>

lemma sorted_list_of_fset_filter:
  "filter P (sorted_list_of_fset A) = sorted_list_of_fset (ffilter P A)"
  by (intro sorted_distinct_set_unique) (auto simp: sorted_list_of_fset.rep_eq sorted_wrt_filter)

lemma annotation_diff_new:
  assumes "fmlookup m k = None"
  shows "annotation_diff m (fmupd k v m) = [(k, Some v)]"
proof -
  have "ffilter (\<lambda>x. fmlookup m x \<noteq> fmlookup (fmupd k v m) x) (fmdom m |\<union>| fmdom (fmupd k v m)) = {|k|}"
    using assms by (auto simp: fmlookup_dom_iff)
  then have "filter (\<lambda>x. fmlookup m x \<noteq> fmlookup (fmupd k v m) x)
      (sorted_list_of_fset (fmdom m |\<union>| fmdom (fmupd k v m))) = [k]"
    unfolding sorted_list_of_fset_filter by (simp add: sorted_list_of_fset.rep_eq)
  then show ?thesis unfolding annotation_diff_def by simp
qed

text \<open>In general the patch turns the original's annotations into the modified ones.\<close>

lemma apply_annotation_diff: "apply_annotation_patch (annotation_diff m m') m = m'"
proof (rule fmap_ext)
  fix x
  define ks where "ks = filter (\<lambda>k. fmlookup m k \<noteq> fmlookup m' k)
    (sorted_list_of_fset (fmdom m |\<union>| fmdom m'))"
  have "fmlookup (apply_annotation_patch (map (\<lambda>k. (k, fmlookup m' k)) ks) a) x =
      (if x \<in> set ks then fmlookup m' x else fmlookup a x)" for ks a
    by (induction ks arbitrary: a) (auto simp: apply_annotation_patch_def split: option.split)
  moreover have "x \<notin> set ks \<Longrightarrow> fmlookup m x = fmlookup m' x"
    by (auto simp: ks_def fmlookup_dom_iff)
  ultimately show "fmlookup (apply_annotation_patch (annotation_diff m m') m) x = fmlookup m' x"
    by (simp add: annotation_diff_def ks_def [symmetric])
qed

section \<open>What a run guarantees\<close>

definition namespace_key :: "Config \<Rightarrow> objkey" where
  "namespace_key cfg = (KNamespace, \<lparr>nn_Namespace = '''', nn_Name = cfg_Namespace cfg\<rparr>)"

definition singleton_key :: "Config \<Rightarrow> objkey" where
  "singleton_key cfg = (KVPA, \<lparr>nn_Namespace = cfg_Namespace cfg, nn_Name = cfg_Name cfg\<rparr>)"

text \<open>The operator's namespace says that the default was handed out.\<close>

definition handed_out :: "(objkey \<Rightarrow> KObject option) \<Rightarrow> Config \<Rightarrow> bool" where
  "handed_out objs cfg \<longleftrightarrow> (\<exists>ns. objs (namespace_key cfg) = Some (ONamespace ns) \<and>
     fmlookup (nilmap (om_Annotations (ns_Meta ns))) DefaultVPAControllerAnnotation \<noteq> None)"

lemma key_of_default: "obj_key (OVPA (DefaultVPAController cfg)) = singleton_key cfg"
  by (simp add: obj_key_def meta_key_def DefaultVPAController_def singleton_key_def zero_ObjectMeta_def)

lemma keys_differ [simp]: "namespace_key cfg \<noteq> singleton_key cfg" "singleton_key cfg \<noteq> namespace_key cfg"
  by (simp_all add: namespace_key_def singleton_key_def)

lemma as_vpa_Inr: "as_vpa obj = Inr v \<longleftrightarrow> obj = OVPA v"
  by (cases obj) simp_all

lemma as_namespace_Inr: "as_namespace obj = Inr ns \<longleftrightarrow> obj = ONamespace ns"
  by (cases obj) simp_all

lemma not_found_decode: "\<not> IsNotFound decode_error"
  by (simp add: decode_error_def IsNotFound_def StatusReasonNotFound_def knownReasons_def)

context kube_api
begin

text \<open>\<open>create_default\<close> leaves every object but a missing singleton alone, and after nil one exists.\<close>

lemma create_default_run:
  assumes e: "en_Client e = c" and w: "wf (rs_world s)"
    and run: "run_state (create_default e cfg) s = (r, s')"
  shows "wf (rs_world s')" and "rs_Config s' = rs_Config s" and "rs_events s' = rs_events s"
    and "k \<noteq> singleton_key cfg \<or> view (rs_world s) k \<noteq> None \<Longrightarrow> view (rs_world s') k = view (rs_world s) k"
    and "r = None \<Longrightarrow> view (rs_world s') (singleton_key cfg) \<noteq> None"
proof -
  obtain g w1 where g: "cl_Get c KVPA \<lparr>nn_Namespace = cfg_Namespace cfg, nn_Name = cfg_Name cfg\<rparr> (rs_world s) = (g, w1)"
    by fastforce
  have w1: "wf w1" "view w1 = view (rs_world s)" using get_frame [OF w g] by simp_all
  obtain r2 w2 where cr: "cl_Create c (OVPA (DefaultVPAController cfg)) w1 = (r2, w2)" by fastforce
  note C = create_frame [OF w1(1) cr, unfolded key_of_default w1(2)]
  consider (found) vpa where "g = Inr (OVPA vpa)" | (missing) err where "g = Inl err" "IsNotFound err"
    | (failed) err where "decoded as_vpa g = Inl err" "\<not> IsNotFound err"
    using not_found_decode by (cases g; cases "projr g") (auto simp: decoded_def)
  then have "wf (rs_world s') \<and> rs_Config s' = rs_Config s \<and> rs_events s' = rs_events s \<and>
    (k \<noteq> singleton_key cfg \<or> view (rs_world s) k \<noteq> None \<longrightarrow> view (rs_world s') k = view (rs_world s) k) \<and>
    (r = None \<longrightarrow> view (rs_world s') (singleton_key cfg) \<noteq> None)"
  proof cases
    case found
    then have "view (rs_world s) (singleton_key cfg) = Some (OVPA vpa)"
      using get_found [OF w] g by (simp add: singleton_key_def)
    then show ?thesis
      using run found g e w1 by (auto simp: create_default_def run_simps decoded_def)
  next
    case missing
    then have none: "view (rs_world s) (singleton_key cfg) = None"
      using get_missing [OF w] g by (simp add: singleton_key_def)
    have res: "r = (case r2 of None \<Rightarrow> None | Some err' \<Rightarrow> if \<not> IsAlreadyExists err' then Some err' else None)"
        "s' = s\<lparr>rs_world := w2\<rparr>"
      using run missing g e cr by (auto simp: create_default_def run_simps decoded_def split: option.splits if_splits)
    have "view w2 (singleton_key cfg) \<noteq> None" if "r = None"
      using create_stored [OF w1(1), of "OVPA (DefaultVPAController cfg)" w2]
        create_exists [OF w1(1), of "OVPA (DefaultVPAController cfg)" _ w2] cr that
      by (auto simp: res(1) key_of_default split: option.splits if_splits)
    moreover have "k \<noteq> singleton_key cfg \<Longrightarrow> view w2 k = view (rs_world s) k" using C by blast
    moreover have "wf w2" using C by blast
    ultimately show ?thesis using none res(2) by auto
  next
    case failed
    then show ?thesis using run g e w1 by (auto simp: create_default_def run_simps)
  qed
  then show "wf (rs_world s')" "rs_Config s' = rs_Config s" "rs_events s' = rs_events s"
    "k \<noteq> singleton_key cfg \<or> view (rs_world s) k \<noteq> None \<Longrightarrow> view (rs_world s') k = view (rs_world s) k"
    "r = None \<Longrightarrow> view (rs_world s') (singleton_key cfg) \<noteq> None"
    by blast+
qed

lemma mark_namespace_run:
  assumes w: "wf w" and ns: "view w (namespace_key cfg) = Some (ONamespace ns)"
    and p: "cl_Patch c KNamespace (meta_key (ns_Meta ns))
      [(DefaultVPAControllerAnnotation, Some ''true'')] w = (r, w')"
  shows "wf w'" and "k \<noteq> namespace_key cfg \<Longrightarrow> view w' k = view w k" and "r = None \<Longrightarrow> handed_out (view w') cfg"
proof -
  have key: "(KNamespace, meta_key (ns_Meta ns)) = namespace_key cfg"
    using view_key [OF w ns] by (simp add: obj_key_def)
  note F = patch_frame [OF w p, unfolded key]
  show w': "wf w'" and "k \<noteq> namespace_key cfg \<Longrightarrow> view w' k = view w k" using F by blast+
  show "handed_out (view w') cfg" if nil: "r = None"
  proof -
    obtain obj' where o: "view w' (namespace_key cfg) = Some obj'"
        "nilmap (om_Annotations (obj_meta obj')) =
          fmupd DefaultVPAControllerAnnotation ''true'' (nilmap (om_Annotations (ns_Meta ns)))"
      using patch_stored [OF w p [unfolded nil], unfolded key] ns by (auto simp: apply_annotation_patch_def)
    have "obj_kind obj' = KNamespace"
      using view_key [OF w' o(1)] by (simp add: obj_key_def namespace_key_def)
    with o show ?thesis by (cases obj') (auto simp: handed_out_def)
  qed
qed

end

text \<open>What a run of \<open>ensureVPAController\<close> may change, and what it has achieved when it returns nil.\<close>

definition ensure_outcome ::
  "('w \<Rightarrow> objkey \<Rightarrow> KObject option) \<Rightarrow> ('w \<Rightarrow> bool) \<Rightarrow> Config \<Rightarrow> 'w rstate \<Rightarrow> go_error option \<Rightarrow> 'w rstate \<Rightarrow> bool" where
  "ensure_outcome view good cfg s r s' \<longleftrightarrow>
     good (rs_world s') \<and> rs_Config s' = cfg \<and> rs_events s' = rs_events s \<and>
     (handed_out (view (rs_world s)) cfg \<longrightarrow> view (rs_world s') = view (rs_world s)) \<and>
     (\<forall>k. k \<noteq> namespace_key cfg \<longrightarrow> k \<noteq> singleton_key cfg \<or> view (rs_world s) k \<noteq> None \<longrightarrow>
        view (rs_world s') k = view (rs_world s) k) \<and>
     (r = None \<longrightarrow> handed_out (view (rs_world s')) cfg \<and>
        (\<not> handed_out (view (rs_world s)) cfg \<longrightarrow> view (rs_world s') (singleton_key cfg) \<noteq> None))"

context kube_api
begin

lemma ensure_marks:
  assumes e: "en_Client e = c" and w: "wf (rs_world s)" and cfg: "rs_Config s = cfg"
    and run: "run_state (ensureVPAController e) s = (r, s')"
    and g: "cl_Get c KNamespace \<lparr>nn_Namespace = '''', nn_Name = cfg_Namespace cfg\<rparr> (rs_world s) = (g, w1)"
      "decoded as_namespace g = Inr ns"
    and ns: "view (rs_world s) (namespace_key cfg) = Some (ONamespace ns)"
    and new: "fmlookup (nilmap (om_Annotations (ns_Meta ns))) DefaultVPAControllerAnnotation = None"
  shows "ensure_outcome view wf cfg s r s'"
proof -
  have w1: "wf w1" "view w1 = view (rs_world s)" using get_frame [OF w g(1)] by simp_all
  have out: "\<not> handed_out (view (rs_world s)) cfg" by (simp add: handed_out_def ns new)
  obtain r2 s2 where r2: "run_state (create_default e cfg) (s\<lparr>rs_world := w1\<rparr>) = (r2, s2)" by fastforce
  note D = create_default_run [OF e _ r2, simplified, OF w1(1)]
  show ?thesis
  proof (cases r2)
    case (Some err)
    then have "r = Some err" "s' = s2"
      using run e cfg g new r2 by (auto simp: ensureVPAController_def run_simps Let_def)
    then show ?thesis using D(1-4) w1(2) cfg out by (auto simp: ensure_outcome_def)
  next
    case None
    obtain r3 w3 where p: "cl_Patch c KNamespace (meta_key (ns_Meta ns))
        [(DefaultVPAControllerAnnotation, Some ''true'')] (rs_world s2) = (r3, w3)" by fastforce
    have s': "r = r3" "s' = s2\<lparr>rs_world := w3\<rparr>"
      using run e cfg g new r2 None p annotation_diff_new [OF new]
      by (auto simp: ensureVPAController_def run_simps Let_def)
    have "view (rs_world s2) (namespace_key cfg) = Some (ONamespace ns)"
      using D(4) [of "namespace_key cfg"] w1(2) ns by simp
    note P = mark_namespace_run [OF D(1) this p]
    show ?thesis
      unfolding ensure_outcome_def
      using s' P(1) P(2) P(2) [of "singleton_key cfg"] P(3) D(2-5) None w1(2) cfg out by auto
  qed
qed

lemma ensure_run_outcome:
  assumes e: "en_Client e = c" and w: "wf (rs_world s)" and cfg: "rs_Config s = cfg"
    and run: "run_state (ensureVPAController e) s = (r, s')"
  shows "ensure_outcome view wf cfg s r s'"
proof -
  obtain g w1 where g: "cl_Get c KNamespace \<lparr>nn_Namespace = '''', nn_Name = cfg_Namespace cfg\<rparr> (rs_world s) = (g, w1)"
    by fastforce
  have w1: "wf w1" "view w1 = view (rs_world s)" using get_frame [OF w g] by simp_all
  show ?thesis
  proof (cases "decoded as_namespace g")
    case (Inl err)
    then show ?thesis using run e cfg g w1 by (auto simp: ensureVPAController_def ensure_outcome_def run_simps)
  next
    case (Inr ns)
    then have "g = Inr (ONamespace ns)" by (cases g) (auto simp: decoded_def as_namespace_Inr)
    then have ns: "view (rs_world s) (namespace_key cfg) = Some (ONamespace ns)"
      using get_found [OF w] g by (simp add: namespace_key_def)
    show ?thesis
    proof (cases "fmlookup (nilmap (om_Annotations (ns_Meta ns))) DefaultVPAControllerAnnotation = None")
      case False
      then have "handed_out (view (rs_world s)) cfg" by (simp add: handed_out_def ns)
      then show ?thesis
        using run e cfg g Inr w1 False by (auto simp: ensureVPAController_def ensure_outcome_def run_simps Let_def)
    qed (rule ensure_marks [OF assms g Inr ns])
  qed
qed

lemma ensure_run:
  assumes "en_Client e = c" and "wf (rs_world s)" and "rs_Config s = cfg"
    and "run_state (ensureVPAController e) s = (r, s')"
  shows "wf (rs_world s')" and "rs_Config s' = cfg" and "rs_events s' = rs_events s"
    and "handed_out (view (rs_world s)) cfg \<Longrightarrow> view (rs_world s') = view (rs_world s)"
    and "k \<noteq> namespace_key cfg \<Longrightarrow> k \<noteq> singleton_key cfg \<or> view (rs_world s) k \<noteq> None \<Longrightarrow>
      view (rs_world s') k = view (rs_world s) k"
    and "r = None \<Longrightarrow> handed_out (view (rs_world s')) cfg"
    and "r = None \<Longrightarrow> \<not> handed_out (view (rs_world s)) cfg \<Longrightarrow> view (rs_world s') (singleton_key cfg) \<noteq> None"
  using ensure_run_outcome [OF assms] unfolding ensure_outcome_def by blast+

end

section \<open>Success over a reliable client\<close>

context reliable_api
begin

text \<open>
  If the operator's namespace exists, the first run hands out the default: it is stored as
  built, if there was no custom resource before.
\<close>

lemma ensure_live:
  assumes e: "en_Client e = c" and w: "wf (rs_world s)" and cfg: "rs_Config s = cfg"
    and ns: "view (rs_world s) (namespace_key cfg) = Some (ONamespace ns)"
    and new: "\<not> handed_out (view (rs_world s)) cfg"
    and none: "view (rs_world s) (singleton_key cfg) = None" and name: "cfg_Name cfg \<noteq> ''''"
  shows "\<exists>s' vpa. run_state (ensureVPAController e) s = (None, s') \<and>
    view (rs_world s') (singleton_key cfg) = Some (OVPA vpa) \<and>
    stored_as (OVPA (DefaultVPAController cfg)) (OVPA vpa)"
proof -
  let ?d = "OVPA (DefaultVPAController cfg)"
  have key: "(KNamespace, meta_key (ns_Meta ns)) = namespace_key cfg"
    using view_key [OF w ns] by (simp add: obj_key_def)
  have True: "fmlookup (nilmap (om_Annotations (ns_Meta ns))) DefaultVPAControllerAnnotation = None"
    using new ns by (simp add: handed_out_def)
  obtain w1 where g: "cl_Get c KNamespace \<lparr>nn_Namespace = '''', nn_Name = cfg_Namespace cfg\<rparr> (rs_world s) =
      (Inr (ONamespace ns), w1)"
    using get_total [OF w ns [unfolded namespace_key_def]] by blast
  have w1: "wf w1" "view w1 = view (rs_world s)" using get_frame [OF w g] by simp_all
  obtain err w2 where g2: "cl_Get c KVPA \<lparr>nn_Namespace = cfg_Namespace cfg, nn_Name = cfg_Name cfg\<rparr> w1 =
      (Inl err, w2)" "IsNotFound err"
    using get_none [OF w1(1)] none w1(2) unfolding singleton_key_def by metis
  have w2: "wf w2" "view w2 = view (rs_world s)" using get_frame [OF w1(1) g2(1)] w1(2) by simp_all
  obtain w3 where cr: "cl_Create c ?d w2 = (None, w3)"
    using create_total [OF w2(1), of ?d] none w2(2) name unfolding key_of_default
    by (auto simp: DefaultVPAController_def zero_ObjectMeta_def)
  have w3: "wf w3" "view w3 (namespace_key cfg) = Some (ONamespace ns)"
    using create_frame [OF w2(1) cr] ns w2(2) unfolding key_of_default by (metis keys_differ(1))+
  obtain obj where obj: "view w3 (singleton_key cfg) = Some obj" "stored_as ?d obj"
    using create_stored [OF w2(1) cr] unfolding key_of_default by blast
  obtain vpa where vpa: "obj = OVPA vpa" using stored_as_kind [OF obj(2)] by (cases obj) simp_all
  obtain w4 where p: "cl_Patch c KNamespace (meta_key (ns_Meta ns))
      [(DefaultVPAControllerAnnotation, Some ''true'')] w3 = (None, w4)"
    using patch_total [OF w3(1)] w3(2) key by metis
  have "view w4 (singleton_key cfg) = Some (OVPA vpa)"
    using mark_namespace_run(2) [OF w3 p, of "singleton_key cfg"] obj(1) vpa by simp
  moreover have "run_state (ensureVPAController e) s = (None, s\<lparr>rs_world := w4\<rparr>)"
    using e cfg g g2 cr p True annotation_diff_new [OF True]
    by (simp add: ensureVPAController_def create_default_def run_simps decoded_def Let_def)
  ultimately show ?thesis using obj(2) vpa by auto
qed

end

section \<open>The guarantees\<close>

text \<open>
  C9: What a run of \<open>ensureVPAController\<close> does. It never changes or replaces a custom resource that
  exists, and changes nothing but the operator's namespace and the singleton. Once the
  namespace says that the default was handed out, it changes nothing at all. When it returns
  nil, the namespace says so, and, if it did not before, a custom resource exists.
\<close>

theorem ensureVPAController_correct:
  assumes "kube_api c view good" and "en_Client e = c" and "good (rs_world s)" and "rs_Config s = cfg"
    and "run_state (ensureVPAController e) s = (r, s')"
  shows "(\<forall>k. view (rs_world s') k \<noteq> view (rs_world s) k \<longrightarrow>
      \<not> handed_out (view (rs_world s)) cfg \<and>
      (k = namespace_key cfg \<or> k = singleton_key cfg \<and> view (rs_world s) k = None)) \<and>
    (r = None \<longrightarrow> handed_out (view (rs_world s')) cfg \<and>
      (handed_out (view (rs_world s)) cfg \<or> view (rs_world s') (singleton_key cfg) \<noteq> None)) \<and>
    rs_Config s' = cfg \<and> rs_events s' = rs_events s"
  using kube_api.ensure_run [OF assms] by metis

text \<open>
  Over a reliable client, if the operator's namespace exists without the mark and there is no
  custom resource, \<open>ensureVPAController\<close> returns nil and the stored custom resource is the
  default one.
\<close>

theorem ensureVPAController_live:
  assumes "reliable_api c view good unconditional" and "en_Client e = c" and "good (rs_world s)"
    and "rs_Config s = cfg" and "view (rs_world s) (namespace_key cfg) = Some (ONamespace ns)"
    and "\<not> handed_out (view (rs_world s)) cfg" and "view (rs_world s) (singleton_key cfg) = None"
    and "cfg_Name cfg \<noteq> ''''"
  shows "\<exists>s' vpa. run_state (ensureVPAController e) s = (None, s') \<and>
    handed_out (view (rs_world s')) cfg \<and>
    view (rs_world s') (singleton_key cfg) = Some (OVPA vpa) \<and>
    stored_as (OVPA (DefaultVPAController cfg)) (OVPA vpa)"
proof -
  have k: "kube_api c view good" using assms(1) by (simp add: reliable_api_def)
  show ?thesis
    using reliable_api.ensure_live [OF assms] kube_api.ensure_run(6) [OF k assms(2-4)] by metis
qed

section \<open>A cluster with only the operator's namespace\<close>

definition example_namespace :: Namespace where
  "example_namespace = \<lparr>ns_TypeMeta = zero_TypeMeta,
     ns_Meta = zero_ObjectMeta\<lparr>om_Name := ''vpa'', om_ResourceVersion := ''7''\<rparr>, ns_rest = fmempty\<rparr>"

definition fresh_state :: "tracker rstate" where
  "fresh_state = \<lparr>rs_world = fmupd (namespace_key example_cfg) (ONamespace example_namespace) fmempty,
     rs_Config = example_cfg, rs_events = []\<rparr>"

lemma fresh_wf: "fake_wf (rs_world fresh_state)"
proof -
  have "obj_key (ONamespace example_namespace) = namespace_key example_cfg" "ParseUint ''7'' = Some 7"
    by (simp_all add: obj_key_def meta_key_def example_namespace_def namespace_key_def example_cfg_def
        zero_ObjectMeta_def ParseUint_def char_digit_def)
  then show ?thesis
    using fake_wf_upd [OF fake_wf_empty, of "ONamespace example_namespace"]
    by (simp add: fresh_state_def example_namespace_def)
qed

lemma fresh_view:
  "fake_view (rs_world fresh_state) (namespace_key example_cfg) = Some (ONamespace example_namespace)"
  "k \<noteq> namespace_key example_cfg \<Longrightarrow> fake_view (rs_world fresh_state) k = None"
  "rs_Config fresh_state = example_cfg"
  by (simp_all add: fake_view_def fresh_state_def example_namespace_def read_meta_def json_meta_def
      omit_map_def zero_ObjectMeta_def)

lemma fresh_new: "\<not> handed_out (fake_view (rs_world fresh_state)) example_cfg" "cfg_Name example_cfg \<noteq> ''''"
  by (simp add: handed_out_def fresh_view(1) example_namespace_def zero_ObjectMeta_def)
    (simp add: example_cfg_def)

lemma fresh_run: "run_state (ensureVPAController example_env) fresh_state =
    (fst (run_state (ensureVPAController example_env) fresh_state),
     snd (run_state (ensureVPAController example_env) fresh_state))"
  by simp

theorem ensureVPAController_live_witness:
  "\<exists>s' vpa. run_state (ensureVPAController example_env) fresh_state = (None, s') \<and>
     handed_out (fake_view (rs_world s')) example_cfg \<and>
     fake_view (rs_world s') (singleton_key example_cfg) = Some (OVPA vpa) \<and>
     stored_as (OVPA (DefaultVPAController example_cfg)) (OVPA vpa)"
  by (rule ensureVPAController_live [OF fake.reliable_api_axioms example_en_Client fresh_wf fresh_view(3,1)
      fresh_new(1) fresh_view(2) fresh_new(2)]) simp

theorem ensureVPAController_correct_witness:
  "fake_view (rs_world (snd (run_state (ensureVPAController example_env) fresh_state)))
     (KService, service_name example_cfg) = None \<and>
   rs_events (snd (run_state (ensureVPAController example_env) fresh_state)) = []"
proof -
  have "(KService, service_name example_cfg) \<noteq> namespace_key example_cfg"
    "(KService, service_name example_cfg) \<noteq> singleton_key example_cfg"
    by (simp_all add: namespace_key_def singleton_key_def)
  moreover have "rs_events fresh_state = []" by (simp add: fresh_state_def)
  ultimately show ?thesis
    using ensureVPAController_correct [OF fake.kube_api_axioms example_en_Client fresh_wf fresh_view(3) fresh_run]
      fresh_view(2) by metis
qed

end
