(* ===== verification/Watches.thy ===== *)
theory Watches
  imports Default_Controller
begin

text \<open>
  The watches that \<open>SetupWithManager\<close> configures: which reconcile requests an event on an object
  leads to. A custom resource event passes the name predicate and requests the object itself
  (\<open>For\<close>); an event on the API server configuration requests the singleton (\<open>Watches\<close>); an event on
  a deployment, service or config map requests the custom resource that controls it
  (\<open>Owns\<close>, \<open>handler/enqueue_owner.go\<close>). The REST mapping comes from the API server's discovery, so
  the definitions take it as an argument: for a group, kind and version it says whether
  objects are namespaced, or gives no answer. Generic events come from channel sources, of which
  this controller has none.
\<close>

section \<open>Events and requests\<close>

datatype ObjectEvent =
    CreateEvent KObject
  | UpdateEvent KObject KObject
  | DeleteEvent KObject

type_synonym rest_mapper = "string \<Rightarrow> string \<Rightarrow> string \<Rightarrow> bool option"

fun event_objects :: "ObjectEvent \<Rightarrow> KObject list" where
  "event_objects (CreateEvent obj) = [obj]"
| "event_objects (UpdateEvent old new) = [old, new]"
| "event_objects (DeleteEvent obj) = [obj]"

text \<open>The predicates of \<open>For\<close>, then \<open>EnqueueRequestForObject\<close>.\<close>

fun for_predicate :: "Config \<Rightarrow> ObjectEvent \<Rightarrow> bool" where
  "for_predicate cfg (CreateEvent obj) = NamePredicate cfg (obj_meta obj)"
| "for_predicate cfg (UpdateEvent old new) = NamePredicate cfg (obj_meta new)"
| "for_predicate cfg (DeleteEvent obj) = NamePredicate cfg (obj_meta obj)"

fun EnqueueRequestForObject :: "ObjectEvent \<Rightarrow> NamespacedName list" where
  "EnqueueRequestForObject (CreateEvent obj) = [meta_key (obj_meta obj)]"
| "EnqueueRequestForObject (UpdateEvent old new) = [meta_key (obj_meta new)]"
| "EnqueueRequestForObject (DeleteEvent obj) = [meta_key (obj_meta obj)]"

text \<open>\<open>parseOwnerTypeGroupKind\<close>: the group and kind of the custom resource, if it is registered once.\<close>

definition parseOwnerTypeGroupKind :: "Scheme \<Rightarrow> (string \<times> string) option" where
  "parseOwnerTypeGroupKind sch =
     (case map snd (filter (\<lambda>(t, g). t = VPA_GoType) sch) of
        [g] \<Rightarrow> Some (gvk_Group g, gvk_Kind g)
      | _ \<Rightarrow> None)"

definition getOwnerReconcileRequest ::
  "rest_mapper \<Rightarrow> string \<times> string \<Rightarrow> ObjectMeta \<Rightarrow> NamespacedName list" where
  "getOwnerReconcileRequest mapper gk obj =
     (case GetControllerOf obj of
        None \<Rightarrow> []
      | Some ref \<Rightarrow>
          (case ParseGroupVersion (or_APIVersion ref) of
             None \<Rightarrow> []
           | Some (refGroup, refVersion) \<Rightarrow>
               if or_Kind ref = snd gk \<and> refGroup = fst gk
               then (case mapper (fst gk) (snd gk) refVersion of
                       None \<Rightarrow> []
                     | Some namespaced \<Rightarrow>
                         [\<lparr>nn_Namespace = (if namespaced then om_Namespace obj else ''''),
                           nn_Name = or_Name ref\<rparr>])
               else []))"

fun watched_by_owner :: "Kind \<Rightarrow> bool" where
  "watched_by_owner KDeployment = True"
| "watched_by_owner KService = True"
| "watched_by_owner KConfigMap = True"
| "watched_by_owner _ = False"

fun event_kind :: "ObjectEvent \<Rightarrow> Kind" where
  "event_kind (CreateEvent obj) = obj_kind obj"
| "event_kind (UpdateEvent old new) = obj_kind new"
| "event_kind (DeleteEvent obj) = obj_kind obj"

fun as_api_requests :: "Config \<Rightarrow> KObject \<Rightarrow> NamespacedName list" where
  "as_api_requests cfg (OAPIServer a) = apiServerToVPA cfg a"
| "as_api_requests cfg _ = []"

text \<open>The requests of one event, over all watches of the controller.\<close>

definition event_requests ::
  "rest_mapper \<Rightarrow> string \<times> string \<Rightarrow> Config \<Rightarrow> ObjectEvent \<Rightarrow> NamespacedName list" where
  "event_requests mapper gk cfg ev =
     (if event_kind ev = KVPA
      then (if for_predicate cfg ev then EnqueueRequestForObject ev else [])
      else if event_kind ev = KAPIServer
      then concat (map (as_api_requests cfg) (event_objects ev))
      else if watched_by_owner (event_kind ev)
      then concat (map (getOwnerReconcileRequest mapper gk \<circ> obj_meta) (event_objects ev))
      else [])"

text \<open>The event that a change of one object causes, if it is a change.\<close>

definition change_requests ::
  "rest_mapper \<Rightarrow> string \<times> string \<Rightarrow> Config \<Rightarrow> KObject option \<Rightarrow> KObject option \<Rightarrow> NamespacedName list" where
  "change_requests mapper gk cfg before after =
     (case (before, after) of
        (None, None) \<Rightarrow> []
      | (None, Some obj) \<Rightarrow> event_requests mapper gk cfg (CreateEvent obj)
      | (Some obj, None) \<Rightarrow> event_requests mapper gk cfg (DeleteEvent obj)
      | (Some old, Some new) \<Rightarrow>
          if old = new then [] else event_requests mapper gk cfg (UpdateEvent old new))"

section \<open>Which changes are seen\<close>

text \<open>The custom resource's REST mapping, as its definition (CRD) declares it: namespaced.\<close>

definition vpa_mapped :: "rest_mapper \<Rightarrow> bool" where
  "vpa_mapped mapper \<longleftrightarrow> mapper VPA_Group VPA_GoType VPA_Version = Some True"

lemma parseOwnerTypeGroupKind_AddToScheme:
  assumes "VPA_GoType \<notin> fst ` set sch"
  shows "parseOwnerTypeGroupKind (AddToScheme sch) = Some (VPA_Group, VPA_GoType)"
proof -
  have "filter (\<lambda>(t, g). t = VPA_GoType) sch = []" using assms by (force simp: filter_empty_conv)
  then show ?thesis
    by (simp add: parseOwnerTypeGroupKind_def AddToScheme_def register_def VPA_GoType_def)
qed

text \<open>Any change of the singleton is seen, and no change of a custom resource of another name.\<close>

lemma vpa_change_requests:
  assumes "before \<noteq> after" and "\<And>obj. before = Some obj \<Longrightarrow> obj_key obj = (KVPA, nn)"
    and "\<And>obj. after = Some obj \<Longrightarrow> obj_key obj = (KVPA, nn)"
  shows "change_requests mapper gk cfg before after = (if nn_Name nn = cfg_Name cfg then [nn] else [])"
  using assms by (cases before; cases after)
    (auto simp: change_requests_def event_requests_def NamePredicate_def obj_key_def meta_key_def)

text \<open>A reference that \<open>SetControllerReference\<close> wrote leads back to the custom resource.\<close>

lemma controller_ref_requests:
  assumes "vpa_mapped mapper" and "om_OwnerReferences m = [controller_ref VPA_GVK vpa]"
  shows "getOwnerReconcileRequest mapper (VPA_Group, VPA_GoType) m =
    [\<lparr>nn_Namespace = om_Namespace m, nn_Name = om_Name (vpa_Meta vpa)\<rparr>]"
proof -
  have "ParseGroupVersion (GroupVersion_String VPA_GVK) = Some (VPA_Group, VPA_Version)"
    by (simp add: ParseGroupVersion_def GroupVersion_String_def VPA_GVK_def VPA_Group_def VPA_Version_def)
  then show ?thesis
    using assms by (simp add: getOwnerReconcileRequest_def GetControllerOf_def controller_ref_def vpa_mapped_def
        VPA_GVK_def VPA_GoType_def)
qed

lemma owned_change_requests:
  assumes "vpa_mapped mapper" and "watched_by_owner (obj_kind obj)"
    and "om_OwnerReferences (obj_meta obj) = [controller_ref VPA_GVK vpa]"
    and "after \<noteq> Some obj" and "\<And>obj'. after = Some obj' \<Longrightarrow> obj_key obj' = obj_key obj"
  shows "\<lparr>nn_Namespace = om_Namespace (obj_meta obj), nn_Name = om_Name (vpa_Meta vpa)\<rparr>
    \<in> set (change_requests mapper (VPA_Group, VPA_GoType) cfg (Some obj) after)"
proof -
  have "obj_kind obj \<noteq> KVPA" "obj_kind obj \<noteq> KAPIServer" using assms(2) by auto
  then show ?thesis
    using assms controller_ref_requests [OF assms(1,3)]
    by (cases after) (auto simp: change_requests_def event_requests_def obj_key_def)
qed

text \<open>
  The watches do not cover the network policies: whatever happens to one, no reconcile run is
  requested, even if it is controlled by the custom resource. The same holds for namespaces.
\<close>

theorem policy_changes_unseen:
  assumes "\<And>obj. before = Some obj \<Longrightarrow> obj_kind obj \<in> {KNetworkPolicy, KNamespace}"
    and "\<And>obj. after = Some obj \<Longrightarrow> obj_kind obj \<in> {KNetworkPolicy, KNamespace}"
  shows "change_requests mapper gk cfg before after = []"
  using assms by (cases before; cases after) (auto simp: change_requests_def event_requests_def)

theorem policy_changes_unseen_witness:
  "change_requests (\<lambda>_ _ _. Some True) (VPA_Group, VPA_GoType) example_cfg
     (Some (ONetworkPolicy (hd (NetworkPolicies example_cfg example_vpa)))) None = []"
  by (rule policy_changes_unseen) auto

end
