(* ===== verification/Operator_System.thy ===== *)
theory Operator_System
  imports Watches
begin

text \<open>
  The operator as a system: the reconciler, its queue of requests, the watches that fill the
  queue, the start of the operator, and other clients of the cluster. A labelled step relation
  describes one action of each; runs are sequences of actions in any order.

  A reconcile run is one step. A crash in the middle of a run needs no step of its own: the calls
  that were not made are calls that failed, so the world is that of a run that returned an error,
  and \<open>Start\<close> follows. The queue is the set of pending requests, as the work queue drops
  duplicates, and errors are retried (\<open>reconcileHandler\<close>).
\<close>

section \<open>The steps of the system\<close>

record 'w sys =
  sy_state :: "'w rstate"
  sy_queue :: "NamespacedName set"

datatype label =
    Start
  | Process NamespacedName
  | Change objkey "KObject option" "KObject option"

text \<open>The goroutine that \<open>SetupWithManager\<close> starts; its error is only logged.\<close>

definition startup :: "'w env \<Rightarrow> bool \<Rightarrow> ('w rstate, unit) state" where
  "startup e synced =
     (if \<not> synced then State_Monad.return ()
      else do { err \<leftarrow> ensureVPAController e; State_Monad.return () })"

text \<open>\<open>reconcileHandler\<close>: is the request added again?\<close>

definition requeued :: "Result \<times> go_error option \<Rightarrow> bool" where
  "requeued res \<longleftrightarrow> snd res \<noteq> None \<or> res_RequeueAfter (fst res) > 0 \<or> res_Requeue (fst res)"

definition seen ::
  "'w env \<Rightarrow> rest_mapper \<Rightarrow> Config \<Rightarrow> KObject option \<Rightarrow> KObject option \<Rightarrow> NamespacedName list" where
  "seen e mapper cfg before after =
     (case parseOwnerTypeGroupKind (en_Scheme e) of
        None \<Rightarrow> []
      | Some gk \<Rightarrow> change_requests mapper gk cfg before after)"

definition observed ::
  "'w env \<Rightarrow> rest_mapper \<Rightarrow> Config \<Rightarrow> (objkey \<Rightarrow> KObject option) \<Rightarrow> (objkey \<Rightarrow> KObject option) \<Rightarrow>
     NamespacedName set" where
  "observed e mapper cfg before after = (\<Union>k. set (seen e mapper cfg (before k) (after k)))"

text \<open>
  At the start the informers report every object that exists, so the queue begins with their
  requests. The configuration may be new, but not the name and namespace of the singleton.
\<close>

inductive system_step ::
  "'w env \<Rightarrow> rest_mapper \<Rightarrow> ('w \<Rightarrow> objkey \<Rightarrow> KObject option) \<Rightarrow> ('w \<Rightarrow> bool) \<Rightarrow>
     'w sys \<Rightarrow> label \<Rightarrow> 'w sys \<Rightarrow> bool"
  for e mapper view good where
  start: "singleton_key cfg = singleton_key (rs_Config s) \<Longrightarrow>
    run_state (startup e synced) (SetConfig cfg s) = (u, s') \<Longrightarrow>
    q' = observed e mapper cfg (\<lambda>k. None) (view (rs_world s')) \<Longrightarrow>
    system_step e mapper view good \<lparr>sy_state = s, sy_queue = q\<rparr> Start \<lparr>sy_state = s', sy_queue = q'\<rparr>"
| process: "req \<in> q \<Longrightarrow> run_state (Reconcile e req) s = (res, s') \<Longrightarrow>
    q' = (q - {req}) \<union> (if requeued res then {req} else {}) \<union>
      observed e mapper (rs_Config s') (view (rs_world s)) (view (rs_world s')) \<Longrightarrow>
    system_step e mapper view good \<lparr>sy_state = s, sy_queue = q\<rparr> (Process req) \<lparr>sy_state = s', sy_queue = q'\<rparr>"
| change: "good w' \<Longrightarrow> (\<And>k'. k' \<noteq> k \<Longrightarrow> view w' k' = view (rs_world s) k') \<Longrightarrow>
    before = view (rs_world s) k \<Longrightarrow> after = view w' k \<Longrightarrow>
    q' = q \<union> set (seen e mapper (rs_Config s) before after) \<Longrightarrow>
    system_step e mapper view good \<lparr>sy_state = s, sy_queue = q\<rparr> (Change k before after)
      \<lparr>sy_state = s\<lparr>rs_world := w'\<rparr>, sy_queue = q'\<rparr>"

inductive_cases system_step_cases:
  "system_step e mapper view good x Start y"
  "system_step e mapper view good x (Process req) y"
  "system_step e mapper view good x (Change k before after) y"

inductive system_run ::
  "'w env \<Rightarrow> rest_mapper \<Rightarrow> ('w \<Rightarrow> objkey \<Rightarrow> KObject option) \<Rightarrow> ('w \<Rightarrow> bool) \<Rightarrow>
     'w sys \<Rightarrow> label list \<Rightarrow> 'w sys \<Rightarrow> bool"
  for e mapper view good where
  none: "system_run e mapper view good x [] x"
| more: "system_step e mapper view good x l y \<Longrightarrow> system_run e mapper view good y ls z \<Longrightarrow>
    system_run e mapper view good x (l # ls) z"

inductive_simps system_run_Nil [simp]: "system_run e mapper view good x [] y"
inductive_simps system_run_Cons: "system_run e mapper view good x (l # ls) z"

text \<open>An invariant of the single steps is an invariant of the runs.\<close>

lemma system_run_invariant:
  assumes "system_run e mapper view good x ls y" and "I x" and "\<And>l. l \<in> set ls \<Longrightarrow> P l"
    and "\<And>x l y. system_step e mapper view good x l y \<Longrightarrow> I x \<Longrightarrow> P l \<Longrightarrow> I y"
  shows "I y"
  using assms by induction auto

section \<open>The singleton and its operands\<close>

text \<open>The keys of the managed objects follow from the singleton's key alone.\<close>

definition operand_keys :: "Config \<Rightarrow> objkey set" where
  "operand_keys cfg = set (managed_keys cfg (DefaultVPAController cfg))"

lemma managed_keys_name:
  assumes "cfg_Namespace cfg = cfg_Namespace cfg'" and "om_Name (vpa_Meta vpa) = om_Name (vpa_Meta vpa')"
  shows "managed_keys cfg vpa = managed_keys cfg' vpa'"
  using assms
  by (simp add: managed_keys_def controllerParams_def recommender_params_def updater_params_def
      admission_params_def RecommenderName_def UpdaterName_def AdmissionPluginName_def
      service_name_def configmap_name_def NetworkPolicies_def Let_def)

lemma operand_keys_singleton:
  assumes "obj_key (OVPA vpa) = singleton_key cfg"
  shows "set (managed_keys cfg vpa) = operand_keys cfg"
  unfolding operand_keys_def
  by (rule arg_cong [of _ _ set], rule managed_keys_name)
    (use assms in \<open>simp_all add: obj_key_def meta_key_def singleton_key_def DefaultVPAController_def zero_ObjectMeta_def\<close>)

lemma operand_keys_cong: "singleton_key cfg = singleton_key cfg' \<Longrightarrow> operand_keys cfg = operand_keys cfg'"
  unfolding operand_keys_def
  by (rule arg_cong [of _ _ set], rule managed_keys_name)
    (simp_all add: singleton_key_def DefaultVPAController_def zero_ObjectMeta_def)

lemma keys_no_operands: "singleton_key cfg \<notin> operand_keys cfg'" "namespace_key cfg \<notin> operand_keys cfg'"
  by (auto simp: operand_keys_def managed_keys_def singleton_key_def namespace_key_def)

lemma keys_tls [simp]:
  "singleton_key (cfg\<lparr>cfg_TLSProfileSpec := t\<rparr>) = singleton_key cfg"
  "namespace_key (cfg\<lparr>cfg_TLSProfileSpec := t\<rparr>) = namespace_key cfg"
  by (simp_all add: singleton_key_def namespace_key_def)

lemma cluster_matches_cong:
  assumes "\<And>k. k \<in> set (managed_keys cfg vpa) \<Longrightarrow> v' k = v k"
  shows "cluster_matches v' cfg vpa \<longleftrightarrow> cluster_matches v cfg vpa"
proof -
  fix e :: "unit env" and ref
  have "v' (stp_key stp) = v (stp_key stp)" if "stp \<in> set (steps e vpa ref cfg)" for stp
    using assms stp_key_set [of e vpa ref cfg] that by blast
  then show ?thesis unfolding cluster_matches_steps [of _ _ _ e ref] by simp
qed

text \<open>The cluster is as the singleton asks for, if there is one.\<close>

definition settled :: "(objkey \<Rightarrow> KObject option) \<Rightarrow> Config \<Rightarrow> bool" where
  "settled v cfg \<longleftrightarrow> (\<forall>vpa. v (singleton_key cfg) = Some (OVPA vpa) \<longrightarrow> cluster_matches v cfg vpa)"

text \<open>
  Not every change of an operand reaches the singleton. The watches map a deployment, the service
  or the config map to the singleton only if the singleton was its controller before the change,
  network policies are not watched, and a run for another custom resource may write the operands
  that the two share or bring a new TLS profile into the configuration. \<open>drift\<close> follows a run and
  collects the operands that may have changed so; a start of the operator and a run for the
  singleton clear it.
\<close>

definition controlled :: "Config \<Rightarrow> KObject \<Rightarrow> bool" where
  "controlled cfg obj \<longleftrightarrow>
     (\<exists>vpa. om_OwnerReferences (obj_meta obj) = [controller_ref VPA_GVK vpa] \<and>
        om_Name (vpa_Meta vpa) = cfg_Name cfg)"

definition unseen :: "Config \<Rightarrow> objkey \<Rightarrow> KObject option \<Rightarrow> bool" where
  "unseen cfg k before \<longleftrightarrow> k \<in> operand_keys cfg \<and>
     (\<not> watched_by_owner (fst k) \<or> (\<exists>obj. before = Some obj \<and> \<not> controlled cfg obj))"

fun drift_step :: "Config \<Rightarrow> label \<Rightarrow> objkey set \<Rightarrow> objkey set" where
  "drift_step cfg Start D = {}"
| "drift_step cfg (Process req) D = (if (KVPA, req) = singleton_key cfg then {} else operand_keys cfg)"
| "drift_step cfg (Change k before after) D = (if unseen cfg k before then insert k D else D)"

definition drift :: "Config \<Rightarrow> label list \<Rightarrow> objkey set" where
  "drift cfg ls = fold (drift_step cfg) ls {}"

text \<open>The operands outside of a set are as the singleton asks for, if there is one.\<close>

definition matches_except ::
  "objkey set \<Rightarrow> (objkey \<Rightarrow> KObject option) \<Rightarrow> Config \<Rightarrow> VerticalPodAutoscalerController \<Rightarrow> bool" where
  "matches_except D objs cfg vpa \<longleftrightarrow>
     (\<forall>params \<in> set controllerParams. (KDeployment, par_NameMethod params cfg vpa) \<notin> D \<longrightarrow>
        (\<exists>d. objs (KDeployment, par_NameMethod params cfg vpa) = Some (ODeployment d) \<and>
           deployment_current cfg vpa params d)) \<and>
     ((KService, service_name cfg) \<notin> D \<longrightarrow>
        (\<exists>x. objs (KService, service_name cfg) = Some (OService x) \<and> service_current cfg vpa x)) \<and>
     ((KConfigMap, configmap_name cfg) \<notin> D \<longrightarrow>
        (\<exists>m. objs (KConfigMap, configmap_name cfg) = Some (OConfigMap m) \<and> configmap_current cfg m)) \<and>
     (\<forall>p \<in> set (NetworkPolicies cfg vpa). (KNetworkPolicy, meta_key (np_Meta p)) \<notin> D \<longrightarrow>
        (\<exists>q. objs (KNetworkPolicy, meta_key (np_Meta p)) = Some (ONetworkPolicy q) \<and> np_Spec q = np_Spec p))"

definition settled_except :: "objkey set \<Rightarrow> (objkey \<Rightarrow> KObject option) \<Rightarrow> Config \<Rightarrow> bool" where
  "settled_except D v cfg \<longleftrightarrow>
     (\<forall>vpa. v (singleton_key cfg) = Some (OVPA vpa) \<longrightarrow> matches_except D v cfg vpa)"

lemma settled_except_none [simp]: "settled_except {} v cfg \<longleftrightarrow> settled v cfg"
  by (simp add: settled_except_def settled_def matches_except_def cluster_matches_def)

lemma matches_except_steps:
  "matches_except D objs cfg vpa \<longleftrightarrow>
     (\<forall>stp \<in> set (steps e vpa ref cfg). stp_key stp \<notin> D \<longrightarrow> (\<exists>obj. objs (stp_key stp) = Some obj \<and> stp_desired stp obj))"
  by (simp add: matches_except_def steps_def ball_Un deployment_step_def service_step_def
      configmap_step_def policy_step_def Let_def) blast

lemma matches_except_frame:
  assumes st: "matches_except D v cfg vpa" and sub: "D \<subseteq> D'"
    and same: "\<And>k. k \<in> set (managed_keys cfg vpa) \<Longrightarrow> k \<notin> D' \<Longrightarrow> v' k = v k"
  shows "matches_except D' v' cfg vpa"
proof -
  fix e :: "unit env" and ref
  have "v' (stp_key stp) = v (stp_key stp)" if "stp \<in> set (steps e vpa ref cfg)" "stp_key stp \<notin> D'" for stp
    using same stp_key_set [of e vpa ref cfg] that by blast
  then show ?thesis
    using matches_except_steps [THEN iffD1, OF st, of e ref] sub
    by (subst matches_except_steps [of _ _ _ _ e ref]) (metis subsetD)
qed

lemma matches_except_exists:
  assumes "matches_except D v cfg vpa" and "k \<in> set (managed_keys cfg vpa)" and "k \<notin> D"
  shows "v k \<noteq> None"
proof -
  fix e :: "unit env" and ref
  obtain stp where "stp \<in> set (steps e vpa ref cfg)" "stp_key stp = k"
    using assms(2) stp_key_set [of e vpa ref cfg] by (metis imageE)
  then show ?thesis
    using matches_except_steps [THEN iffD1, OF assms(1), of e ref] assms(3) by (metis option.distinct(1))
qed

lemma matches_except_all: "set (managed_keys cfg vpa) \<subseteq> D \<Longrightarrow> matches_except D v cfg vpa"
proof -
  fix e :: "unit env" and ref
  show "set (managed_keys cfg vpa) \<subseteq> D \<Longrightarrow> matches_except D v cfg vpa"
    using stp_key_set [of e vpa ref cfg] unfolding matches_except_steps [of _ _ _ _ e ref] by blast
qed

lemma operand_keys_namespace: "k \<in> operand_keys cfg \<Longrightarrow> nn_Namespace (snd k) = cfg_Namespace cfg"
  by (auto simp: operand_keys_def managed_keys_def controllerParams_def recommender_params_def updater_params_def
      admission_params_def RecommenderName_def UpdaterName_def AdmissionPluginName_def
      service_name_def configmap_name_def NetworkPolicies_def Let_def meta_key_def zero_ObjectMeta_def)

lemma requeued_Reconcile:
  assumes "run_state (Reconcile e req) s = (res, s')"
  shows "fst res = zero_Result" and "requeued res \<longleftrightarrow> snd res \<noteq> None"
proof -
  show "fst res = zero_Result"
    using assms unfolding Reconcile_def by (auto simp: run_simps split: prod.splits sum.splits if_splits)
  then show "requeued res \<longleftrightarrow> snd res \<noteq> None" by (simp add: requeued_def zero_Result_def)
qed

section \<open>A request is pending or the cluster is settled\<close>

text \<open>The invariant.\<close>

definition tracked ::
  "('w \<Rightarrow> objkey \<Rightarrow> KObject option) \<Rightarrow> ('w \<Rightarrow> bool) \<Rightarrow> Config \<Rightarrow> objkey set \<Rightarrow> 'w sys \<Rightarrow> bool" where
  "tracked view good cfg D x \<longleftrightarrow> good (rs_world (sy_state x)) \<and>
     singleton_key (rs_Config (sy_state x)) = singleton_key cfg \<and>
     (snd (singleton_key cfg) \<in> sy_queue x \<or>
      settled_except D (view (rs_world (sy_state x))) (rs_Config (sy_state x)))"

context kube_api
begin

lemma startup_run:
  assumes e: "en_Client e = c" and w: "wf (rs_world s)"
    and run: "run_state (startup e synced) (SetConfig cfg s) = (u, s')"
  shows "wf (rs_world s')" and "rs_Config s' = cfg"
    and "handed_out (view (rs_world s)) cfg \<Longrightarrow> view (rs_world s') = view (rs_world s)"
proof -
  have w': "wf (rs_world (SetConfig cfg s))" "rs_Config (SetConfig cfg s) = cfg" "rs_world (SetConfig cfg s) = rs_world s"
    using w by (simp_all add: SetConfig_def)
  obtain r s1 where r: "run_state (ensureVPAController e) (SetConfig cfg s) = (r, s1)" by fastforce
  note E = ensure_run [OF e w'(1,2) r]
  have "s' = (if synced then s1 else SetConfig cfg s)"
    using run r by (auto simp: startup_def run_simps split: if_splits)
  then show "wf (rs_world s')" and "rs_Config s' = cfg"
    and "handed_out (view (rs_world s)) cfg \<Longrightarrow> view (rs_world s') = view (rs_world s)"
    using E(1,2,4) w' by (auto split: if_splits)
qed

lemma singleton_change_seen:
  assumes reg: "parseOwnerTypeGroupKind (en_Scheme e) = Some gk" and "wf w" "wf w'"
    and k: "k = singleton_key cfg" and "view w k \<noteq> view w' k"
  shows "set (seen e mapper cfg (view w k) (view w' k)) = {snd (singleton_key cfg)}"
  using assms view_key [of w k] view_key [of w' k]
    vpa_change_requests [of "view w k" "view w' k" "snd (singleton_key cfg)" mapper gk cfg]
  by (simp add: seen_def singleton_key_def)

text \<open>A start requests the singleton, if there is one.\<close>

lemma start_requests:
  assumes reg: "parseOwnerTypeGroupKind (en_Scheme e) = Some gk" and w: "wf w"
    and some: "view w (singleton_key cfg) = Some obj"
  shows "snd (singleton_key cfg) \<in> observed e mapper cfg (\<lambda>k. None) (view w)"
proof -
  have "snd (singleton_key cfg) \<in> set (seen e mapper cfg None (view w (singleton_key cfg)))"
    using view_key [OF w some] some reg vpa_change_requests [of None "Some obj" "snd (singleton_key cfg)" mapper gk cfg]
    by (simp add: seen_def singleton_key_def)
  then show ?thesis unfolding observed_def by blast
qed

lemma operand_change_seen:
  assumes reg: "parseOwnerTypeGroupKind (en_Scheme e) = Some (VPA_Group, VPA_GoType)"
    and map: "vpa_mapped mapper" and w: "wf w" "wf w'" and k: "k \<in> operand_keys cfg"
    and vis: "\<not> unseen cfg k (view w k)" and obj: "view w k = Some obj" and diff: "view w k \<noteq> view w' k"
  shows "snd (singleton_key cfg) \<in> set (seen e mapper cfg (view w k) (view w' k))"
proof -
  obtain vpa where vpa: "watched_by_owner (fst k)"
      "om_OwnerReferences (obj_meta obj) = [controller_ref VPA_GVK vpa]" "om_Name (vpa_Meta vpa) = cfg_Name cfg"
    using vis k obj by (auto simp: unseen_def controlled_def)
  have key: "obj_key obj = k" using view_key [OF w(1) obj] .
  then have "obj_kind obj = fst k" "om_Namespace (obj_meta obj) = cfg_Namespace cfg"
    using operand_keys_namespace [OF k] by (auto simp: obj_key_def meta_key_def)
  then show ?thesis
    using owned_change_requests [OF map _ vpa(2), of "view w' k" cfg] vpa obj diff view_key [OF w(2), of k] key reg
    by (auto simp: seen_def singleton_key_def)
qed

lemma settled_frame:
  assumes w: "wf w" and sub: "D \<subseteq> D'" and singleton: "view w' (singleton_key cfg) = view w (singleton_key cfg)"
    and same: "\<And>k. k \<in> operand_keys cfg \<Longrightarrow> k \<notin> D' \<Longrightarrow> view w' k = view w k"
    and st: "settled_except D (view w) cfg"
  shows "settled_except D' (view w') cfg"
proof -
  have "matches_except D' (view w') cfg vpa" if vpa: "view w' (singleton_key cfg) = Some (OVPA vpa)" for vpa
  proof -
    have v: "view w (singleton_key cfg) = Some (OVPA vpa)" using vpa singleton by simp
    then have "set (managed_keys cfg vpa) = operand_keys cfg"
      using operand_keys_singleton view_key [OF w] by blast
    then show ?thesis using matches_except_frame [OF _ sub, of "view w" cfg vpa "view w'"] same st v
      by (auto simp: settled_except_def)
  qed
  then show ?thesis by (simp add: settled_except_def)
qed

lemma settled_drifted:
  assumes w: "wf w" and all: "operand_keys cfg \<subseteq> D"
  shows "settled_except D (view w) cfg"
proof -
  have "matches_except D (view w) cfg vpa" if vpa: "view w (singleton_key cfg) = Some (OVPA vpa)" for vpa
    using operand_keys_singleton [OF view_key [OF w vpa]] all by (intro matches_except_all) simp
  then show ?thesis by (simp add: settled_except_def)
qed

text \<open>A change by another client is seen, or leaves what \<open>drift\<close> does not exclude settled.\<close>

lemma change_tracked:
  assumes reg: "parseOwnerTypeGroupKind (en_Scheme e) = Some (VPA_Group, VPA_GoType)"
    and map: "vpa_mapped mapper" and w: "wf w" "wf w'" and frame: "\<And>k'. k' \<noteq> k \<Longrightarrow> view w' k' = view w k'"
    and st: "settled_except D (view w) cfg"
    and quiet: "snd (singleton_key cfg) \<notin> set (seen e mapper cfg (view w k) (view w' k))"
  shows "settled_except (drift_step cfg (Change k (view w k) (view w' k)) D) (view w') cfg"
proof (cases "view w k = view w' k")
  case True
  then have "view w' = view w" using frame by (metis ext)
  then show ?thesis using settled_frame [OF w(1) _ _ _ st, of "insert k D" w'] st by (simp add: subset_insertI)
next
  case False
  have k: "k \<noteq> singleton_key cfg"
    using singleton_change_seen [OF reg w, of k cfg mapper] False quiet by auto
  then have single: "view w' (singleton_key cfg) = view w (singleton_key cfg)" using frame by metis
  consider (other) "k \<notin> operand_keys cfg" | (unseen) "unseen cfg k (view w k)"
    | (absent) "k \<in> operand_keys cfg" "\<not> unseen cfg k (view w k)" "view w k = None"
    using operand_change_seen [OF reg map w _ _ _ False, of cfg] quiet by fastforce
  then show ?thesis
  proof cases
    case other
    then have "\<not> unseen cfg k (view w k)" by (simp add: unseen_def)
    moreover have "settled_except D (view w') cfg"
      by (rule settled_frame [OF w(1) subset_refl single _ st]) (use other frame in metis)
    ultimately show ?thesis by simp
  next
    case unseen
    have "settled_except (insert k D) (view w') cfg"
      by (rule settled_frame [OF w(1) _ single _ st]) (use frame in auto)
    then show ?thesis using unseen by simp
  next
    case absent
    show ?thesis
    proof (cases "k \<in> D \<or> (\<forall>vpa. view w (singleton_key cfg) \<noteq> Some (OVPA vpa))")
      case True
      then have "settled_except D (view w') cfg"
        using settled_frame [OF w(1) subset_refl single _ st] frame single by (fastforce simp: settled_except_def)
      then show ?thesis using absent by simp
    next
      case False
      then obtain vpa where vpa: "view w (singleton_key cfg) = Some (OVPA vpa)" by blast
      then have "matches_except D (view w) cfg vpa" using st by (simp add: settled_except_def)
      moreover have "k \<in> set (managed_keys cfg vpa)"
        using operand_keys_singleton [OF view_key [OF w(1) vpa]] absent by simp
      ultimately show ?thesis using matches_except_exists absent False by blast
    qed
  qed
qed

text \<open>A run for the singleton that returns nil leaves the cluster settled.\<close>

lemma Reconcile_settles:
  assumes e: "en_Client e = c" and w: "wf (rs_world s)" and req: "(KVPA, req) = singleton_key (rs_Config s)"
    and run: "run_state (Reconcile e req) s = (res, s')" and nil: "snd res = None"
  shows "settled (view (rs_world s')) (rs_Config s')"
proof -
  note F = frame [OF e w run]
  obtain t where cfg: "rs_Config s' = (rs_Config s)\<lparr>cfg_TLSProfileSpec := t\<rparr>" using F tls_syncedD by blast
  have "(KVPA, req) \<notin> set (managed_keys (rs_Config s) vpa)" for vpa by (auto simp: managed_keys_def)
  then have "view (rs_world s') (KVPA, req) = view (rs_world s) (KVPA, req)" using F by metis
  then show ?thesis using converges [OF e w run nil] cfg req by (simp add: settled_def)
qed

lemma start_pending:
  assumes e: "en_Client e = c" and reg: "parseOwnerTypeGroupKind (en_Scheme e) = Some gk"
    and x: "wf (rs_world (sy_state x))" "singleton_key (rs_Config (sy_state x)) = singleton_key cfg"
    and step: "system_step e mapper view wf x Start y"
  shows "tracked view wf cfg D y"
  using step
proof cases
  case (start cfg' s synced u s' q' q)
  note S = startup_run [OF e _ start(4)]
  have s: "wf (rs_world s')" "rs_Config s' = cfg'" "singleton_key cfg' = singleton_key cfg"
    using S x start by simp_all
  show ?thesis
  proof (cases "view (rs_world s') (singleton_key cfg')")
    case None
    then show ?thesis using start s by (simp add: tracked_def settled_except_def)
  next
    case (Some obj)
    then show ?thesis
      using start_requests [OF reg s(1) Some, of mapper] start s by (simp add: tracked_def)
  qed
qed

lemma step_pending:
  assumes e: "en_Client e = c" and reg: "parseOwnerTypeGroupKind (en_Scheme e) = Some (VPA_Group, VPA_GoType)"
    and map: "vpa_mapped mapper" and step: "system_step e mapper view wf x l y"
    and inv: "tracked view wf cfg D x"
  shows "tracked view wf cfg (drift_step cfg l D) y"
  using step
proof cases
  case (start cfg' s synced u s' q' q)
  then show ?thesis
    using start_pending [OF e reg, of x cfg mapper y "{}"] inv step by (simp add: tracked_def)
next
  case (process req q s res s' q')
  then have w: "wf (rs_world s)" and cfg: "singleton_key (rs_Config s) = singleton_key cfg"
    using inv by (simp_all add: tracked_def)
  note F = frame [OF e w process(5)]
  obtain t where "rs_Config s' = (rs_Config s)\<lparr>cfg_TLSProfileSpec := t\<rparr>" using F tls_syncedD by blast
  then have s': "wf (rs_world s')" "singleton_key (rs_Config s') = singleton_key cfg" using F cfg by simp_all
  show ?thesis
  proof (cases "(KVPA, req) = singleton_key cfg")
    case True
    then have "req = snd (singleton_key cfg)" by (metis snd_conv)
    then have "snd res \<noteq> None \<Longrightarrow> snd (singleton_key cfg) \<in> q'"
      using process(6) requeued_Reconcile(2) [OF process(5)] by simp
    moreover have "snd res = None \<Longrightarrow> settled (view (rs_world s')) (rs_Config s')"
      using Reconcile_settles [OF e w _ process(5)] True cfg by simp
    ultimately show ?thesis using True s' process(2,3) by (cases "snd res") (simp_all add: tracked_def)
  next
    case False
    have "operand_keys (rs_Config s') = operand_keys cfg" by (rule operand_keys_cong [OF s'(2)])
    then show ?thesis
      using False s' process settled_drifted [OF s'(1), of "rs_Config s'" "operand_keys cfg"]
      by (simp add: tracked_def)
  qed
next
  case (change w' k s before after q' q)
  then have w: "wf (rs_world s)" and cfg: "singleton_key (rs_Config s) = singleton_key cfg"
    using inv by (simp_all add: tracked_def)
  let ?cfg = "rs_Config s"
  have "unseen ?cfg = unseen cfg"
    using operand_keys_cong [OF cfg] cfg by (auto simp: fun_eq_iff unseen_def controlled_def singleton_key_def)
  then have same: "drift_step ?cfg l D = drift_step cfg l D" using change by simp
  show ?thesis
    using change_tracked [OF reg map w change(4,5), of k D ?cfg] same inv change cfg
    by (auto simp: tracked_def)
qed

lemma run_tracked:
  assumes e: "en_Client e = c" and reg: "parseOwnerTypeGroupKind (en_Scheme e) = Some (VPA_Group, VPA_GoType)"
    and map: "vpa_mapped mapper" and run: "system_run e mapper view wf x ls y"
    and inv: "tracked view wf cfg D x"
  shows "tracked view wf cfg (fold (drift_step cfg) ls D) y"
  using run inv
proof (induction arbitrary: D)
  case (more x l y ls z)
  show ?case using more.IH [OF step_pending [OF e reg map more.hyps(1) more.prems]] by simp
qed simp

end

text \<open>
  C4: The operator never loses track of the singleton. In every run of the system that begins
  with a start of the operator, over any client that satisfies the laws, with any failures of
  client calls, restarts with new settings, runs for any request and changes of any object by
  other clients, at every time a request for the singleton is pending or every operand is as the
  singleton asks for, but for the operands in \<open>drift\<close>: since the last start of the operator and
  the last run for the singleton, another client changed them where no watch shows it (a network
  policy, or an object that the singleton did not control), or a run for another custom resource
  took place.
\<close>

theorem pending_or_settled:
  assumes "kube_api c view good" and "en_Client e = c"
    and "parseOwnerTypeGroupKind (en_Scheme e) = Some (VPA_Group, VPA_GoType)" and "vpa_mapped mapper"
    and "good (rs_world (sy_state x))" and "singleton_key (rs_Config (sy_state x)) = singleton_key cfg"
    and "system_run e mapper view good x (Start # ls) y"
  shows "snd (singleton_key cfg) \<in> sy_queue y \<or>
    settled_except (drift cfg ls) (view (rs_world (sy_state y))) (rs_Config (sy_state y))"
proof -
  obtain x1 where x1: "system_step e mapper view good x Start x1" "system_run e mapper view good x1 ls y"
    using assms(7) by (auto simp: system_run_Cons)
  have "tracked view good cfg {} x1"
    by (rule kube_api.start_pending [OF assms(1,2,3,5,6) x1(1)])
  from kube_api.run_tracked [OF assms(1-4) x1(2) this] show ?thesis by (simp add: tracked_def drift_def)
qed

section \<open>The queue drains\<close>

text \<open>What \<open>Reconcile\<close> needs in order to succeed over a reliable client.\<close>

definition reconcilable ::
  "'w env \<Rightarrow> (Kind \<Rightarrow> bool) \<Rightarrow> (objkey \<Rightarrow> KObject option) \<Rightarrow> Config \<Rightarrow> VerticalPodAutoscalerController \<Rightarrow> bool" where
  "reconcilable e unconditional v cfg vpa \<longleftrightarrow> can_own e cfg vpa \<and>
     (\<forall>p \<in> set (NetworkPolicies cfg vpa). \<forall>q.
        v (KNetworkPolicy, meta_key (np_Meta p)) = Some (ONetworkPolicy q) \<longrightarrow>
        unconditional KNetworkPolicy \<or> om_ResourceVersion (np_Meta q) = '''' \<or> np_Spec q = np_Spec p)"

lemma reconcilable_settled:
  assumes "can_own e cfg vpa" and "cluster_matches v cfg vpa"
  shows "reconcilable e unconditional v cfg vpa"
  using assms by (fastforce simp: reconcilable_def cluster_matches_def)

lemma synced_profile_idem: "synced_profile spec (synced_profile spec t) = synced_profile spec t"
  by (simp add: synced_profile_def split: sum.split)

lemma can_own_tls [simp]: "can_own e (cfg\<lparr>cfg_TLSProfileSpec := t\<rparr>) vpa = can_own e cfg vpa"
  by (simp add: can_own_def)

lemma observed_same [simp]: "observed e mapper cfg v v = {}"
proof -
  have "seen e mapper cfg b b = []" for b
    by (cases b) (simp_all add: seen_def change_requests_def split: option.split)
  then show ?thesis by (simp add: observed_def)
qed

context reliable_api
begin

lemma Reconcile_reconcilable:
  assumes "en_Client e = c" and "wf (rs_world s)" and "view (rs_world s) (KVPA, req) = Some (OVPA vpa)"
    and "reconcilable e unconditional (view (rs_world s)) (rs_Config s) vpa"
  obtains s' where "run_state (Reconcile e req) s = ((zero_Result, None), s')"
proof -
  have "fst (run_state (Reconcile e req) s) = (zero_Result, None)"
    by (rule live [OF assms(1-3)]) (use assms(4) in \<open>auto simp: reconcilable_def\<close>)
  then show thesis using that by (metis prod.collapse)
qed

text \<open>With no change in between, a second run keeps the configuration of the first and writes nothing.\<close>

lemma second_run:
  assumes e: "en_Client e = c" and w: "wf (rs_world s)" and vpa: "view (rs_world s) (KVPA, req) = Some (OVPA vpa)"
    and own: "can_own e (rs_Config s) vpa"
    and run: "run_state (Reconcile e req) s = ((zero_Result, None), s1)"
  obtains s2 where "run_state (Reconcile e req) s1 = ((zero_Result, None), s2)"
    "view (rs_world s2) = view (rs_world s1)" "rs_Config s2 = rs_Config s1" "wf (rs_world s2)"
proof -
  note F = frame [OF e w run]
  obtain t where cfg: "rs_Config s1 = (rs_Config s)\<lparr>cfg_TLSProfileSpec := t\<rparr>" using F tls_syncedD by blast
  have w1: "wf (rs_world s1)" using F by blast
  have "(KVPA, req) \<notin> set (managed_keys (rs_Config s) v)" "apiserver_key \<notin> set (managed_keys (rs_Config s) v)" for v
    by (auto simp: managed_keys_def apiserver_key_def)
  then have same: "view (rs_world s1) (KVPA, req) = Some (OVPA vpa)"
      "view (rs_world s1) apiserver_key = view (rs_world s) apiserver_key"
    using F vpa by metis+
  have match: "cluster_matches (view (rs_world s1)) (rs_Config s1) vpa" using converges [OF e w run _ vpa] by simp
  obtain s2 where s2: "run_state (Reconcile e req) s1 = ((zero_Result, None), s2)"
    using Reconcile_reconcilable [OF e w1 same(1) reconcilable_settled [OF _ match]] own cfg by auto
  note F2 = frame [OF e w1 s2]
  have cfg2: "rs_Config s2 = rs_Config s1"
  proof (cases "view (rs_world s) apiserver_key")
    case None
    then show ?thesis using F2 same(2) by (auto simp: tls_synced_def)
  next
    case (Some obj)
    then obtain a where a: "view (rs_world s) apiserver_key = Some (OAPIServer a)"
      using view_key [OF w Some] by (cases obj) (simp_all add: obj_key_def apiserver_key_def)
    show ?thesis
      using Reconcile_config [OF e w vpa a run] Reconcile_config [OF e w1 same(1) _ s2, of a] a same(2)
      by (simp add: synced_profile_idem)
  qed
  have "view (rs_world s2) = view (rs_world s1)"
    using idle [OF e w1 s2 same(1)] match cfg2 by simp
  with s2 cfg2 F2 show thesis using that by blast
qed

lemma queue_drains_request:
  assumes e: "en_Client e = c" and w: "wf (rs_world s)" and vpa: "view (rs_world s) (KVPA, req) = Some (OVPA vpa)"
    and ok: "reconcilable e unconditional (view (rs_world s)) (rs_Config s) vpa" and q: "req \<in> q"
  shows "\<exists>ls y. ls \<in> {[Process req], [Process req, Process req]} \<and>
    system_run e mapper view wf \<lparr>sy_state = s, sy_queue = q\<rparr> ls y \<and> req \<notin> sy_queue y \<and>
    cluster_matches (view (rs_world (sy_state y))) (rs_Config (sy_state y)) vpa \<and>
    (\<exists>t. rs_Config (sy_state y) = (rs_Config s)\<lparr>cfg_TLSProfileSpec := t\<rparr>)"
proof -
  obtain s1 where s1: "run_state (Reconcile e req) s = ((zero_Result, None), s1)"
    by (rule Reconcile_reconcilable [OF e w vpa ok])
  have match: "cluster_matches (view (rs_world s1)) (rs_Config s1) vpa" using converges [OF e w s1 _ vpa] by simp
  let ?q1 = "(q - {req}) \<union> observed e mapper (rs_Config s1) (view (rs_world s)) (view (rs_world s1))"
  let ?x1 = "\<lparr>sy_state = s1, sy_queue = ?q1\<rparr>"
  have cfg: "\<exists>t. rs_Config s1 = (rs_Config s)\<lparr>cfg_TLSProfileSpec := t\<rparr>"
    using frame [OF e w s1] tls_syncedD by blast
  have quiet: "\<not> requeued (zero_Result, None)" by (simp add: requeued_def zero_Result_def)
  have step1: "system_step e mapper view wf \<lparr>sy_state = s, sy_queue = q\<rparr> (Process req) ?x1"
    by (rule system_step.process [OF q s1]) (simp add: quiet)
  show ?thesis
  proof (cases "req \<in> ?q1")
    case False
    then show ?thesis
      using step1 match cfg by (intro exI [of _ "[Process req]"] exI [of _ ?x1]) (simp add: system_run_Cons)
  next
    case True
    obtain s2 where s2: "run_state (Reconcile e req) s1 = ((zero_Result, None), s2)"
      "view (rs_world s2) = view (rs_world s1)" "rs_Config s2 = rs_Config s1"
      using second_run [OF e w vpa _ s1] ok by (metis reconcilable_def)
    have "system_step e mapper view wf ?x1 (Process req) \<lparr>sy_state = s2, sy_queue = ?q1 - {req}\<rparr>"
      by (rule system_step.process [OF True s2(1)]) (simp add: quiet s2(2))
    then show ?thesis
      using step1 match s2 cfg
      by (intro exI [of _ "[Process req, Process req]"] exI [of _ "\<lparr>sy_state = s2, sy_queue = ?q1 - {req}\<rparr>"])
        (auto simp: system_run_Cons)
  qed
qed

end

text \<open>
  C7: The queue drains. Over a reliable client, if a request for an existing custom resource that
  can own its operands is pending, then at most two reconcile runs for it empty the queue of
  the request and leave the cluster as the custom resource asks for. (The second run is there
  because the first one's own writes are seen by the watches.)
\<close>

theorem queue_drains:
  assumes "reliable_api c view good unconditional" and "en_Client e = c" and "good (rs_world s)"
    and "view (rs_world s) (KVPA, req) = Some (OVPA vpa)"
    and "reconcilable e unconditional (view (rs_world s)) (rs_Config s) vpa" and "req \<in> q"
  shows "\<exists>ls y. ls \<in> {[Process req], [Process req, Process req]} \<and>
    system_run e mapper view good \<lparr>sy_state = s, sy_queue = q\<rparr> ls y \<and> req \<notin> sy_queue y \<and>
    cluster_matches (view (rs_world (sy_state y))) (rs_Config (sy_state y)) vpa"
  using reliable_api.queue_drains_request [OF assms] by blast

section \<open>A deleted default stays deleted\<close>

fun leaves_deleted :: "Config \<Rightarrow> label \<Rightarrow> bool" where
  "leaves_deleted cfg (Change k before after) \<longleftrightarrow>
     (k = singleton_key cfg \<longrightarrow> after = None) \<and>
     (k = namespace_key cfg \<longrightarrow> handed_out (\<lambda>_. after) cfg)"
| "leaves_deleted cfg _ = True"

definition deleted ::
  "('w \<Rightarrow> objkey \<Rightarrow> KObject option) \<Rightarrow> ('w \<Rightarrow> bool) \<Rightarrow> Config \<Rightarrow> 'w sys \<Rightarrow> bool" where
  "deleted view good cfg x \<longleftrightarrow> good (rs_world (sy_state x)) \<and>
     singleton_key (rs_Config (sy_state x)) = singleton_key cfg \<and>
     handed_out (view (rs_world (sy_state x))) cfg \<and> view (rs_world (sy_state x)) (singleton_key cfg) = None"

lemma handed_out_cong:
  assumes "singleton_key cfg' = singleton_key cfg"
  shows "namespace_key cfg' = namespace_key cfg" and "handed_out v cfg' = handed_out v cfg"
  using assms by (simp_all add: handed_out_def namespace_key_def singleton_key_def)

lemma handed_out_key: "v (namespace_key cfg) = v' (namespace_key cfg) \<Longrightarrow> handed_out v cfg = handed_out v' cfg"
  by (simp add: handed_out_def)

context kube_api
begin

lemma step_deleted:
  assumes e: "en_Client e = c" and step: "system_step e mapper view wf x l y"
    and inv: "deleted view wf cfg x" and ok: "leaves_deleted cfg l"
  shows "deleted view wf cfg y"
  using step
proof cases
  case (start cfg' s synced u s' q' q)
  then have cfg': "singleton_key cfg' = singleton_key cfg" and w: "wf (rs_world s)"
    using inv by (simp_all add: deleted_def)
  note S = startup_run [OF e w start(5)]
  show ?thesis
    using S inv start cfg' handed_out_cong [OF cfg'] by (simp add: deleted_def)
next
  case (process req q s res s' q')
  then have w: "wf (rs_world s)" using inv by (simp add: deleted_def)
  note F = frame [OF e w process(5)]
  have "singleton_key cfg \<notin> set (managed_keys (rs_Config s) vpa)"
    "namespace_key cfg \<notin> set (managed_keys (rs_Config s) vpa)" for vpa
    by (auto simp: managed_keys_def singleton_key_def namespace_key_def)
  then have "view (rs_world s') (singleton_key cfg) = view (rs_world s) (singleton_key cfg)"
    "view (rs_world s') (namespace_key cfg) = view (rs_world s) (namespace_key cfg)"
    using F by metis+
  moreover obtain t where "rs_Config s' = (rs_Config s)\<lparr>cfg_TLSProfileSpec := t\<rparr>" using F tls_syncedD by blast
  ultimately show ?thesis
    using F inv process handed_out_key [of "view (rs_world s')" cfg "view (rs_world s)"]
    by (simp add: deleted_def)
next
  case (change w' k s before after q' q)
  have same: "view w' k' = view (rs_world s) k'" if "k' \<noteq> k" for k' using change(5) that by blast
  have "view w' (singleton_key cfg) = None"
    using same [of "singleton_key cfg"] inv ok change by (cases "k = singleton_key cfg") (auto simp: deleted_def)
  moreover have "handed_out (view w') cfg"
    using same [of "namespace_key cfg"] inv ok change handed_out_key [of "view w'" cfg "view (rs_world s)"]
    by (cases "k = namespace_key cfg") (auto simp: deleted_def handed_out_def)
  ultimately show ?thesis using inv change by (simp add: deleted_def)
qed

end

text \<open>
  C8: A custom resource that the user deleted is not brought back. Once the operator's namespace
  carries the mark and the singleton does not exist, it does not exist after any run of the
  system either (restarts of the operator, reconcile runs for any request, changes by other
  clients), unless another client creates it or removes the mark.
\<close>

theorem default_stays_deleted:
  assumes "kube_api c view good" and "en_Client e = c" and "good (rs_world (sy_state x))"
    and "singleton_key (rs_Config (sy_state x)) = singleton_key cfg"
    and "handed_out (view (rs_world (sy_state x))) cfg"
    and "view (rs_world (sy_state x)) (singleton_key cfg) = None"
    and "system_run e mapper view good x ls y" and "\<forall>l \<in> set ls. leaves_deleted cfg l"
  shows "view (rs_world (sy_state y)) (singleton_key cfg) = None \<and>
    handed_out (view (rs_world (sy_state y))) cfg"
proof -
  have "deleted view good cfg x" using assms(3-6) by (simp add: deleted_def)
  with assms(7) have "deleted view good cfg y"
    by (rule system_run_invariant [where P = "leaves_deleted cfg"])
      (use assms(8) kube_api.step_deleted [OF assms(1,2)] in blast)+
  then show ?thesis by (simp add: deleted_def)
qed

section \<open>The theorems on the in-memory client\<close>

text \<open>The operator started on the cluster of \<open>fresh_state\<close>, once and twice.\<close>

definition namespaced :: rest_mapper where
  "namespaced g k v = Some True"

definition started :: "'w env \<Rightarrow> ('w \<Rightarrow> objkey \<Rightarrow> KObject option) \<Rightarrow> 'w sys \<Rightarrow> 'w sys" where
  "started e view x =
     (let s' = snd (run_state (startup e True) (sy_state x))
      in \<lparr>sy_state = s', sy_queue = observed e namespaced (rs_Config (sy_state x)) (\<lambda>k. None) (view (rs_world s'))\<rparr>)"

lemma started_step: "system_step e namespaced view good x Start (started e view x)"
proof (cases x)
  case (fields s q)
  have "SetConfig (rs_Config s) s = s" by (simp add: SetConfig_def)
  then have "run_state (startup e True) (SetConfig (rs_Config s) s) =
      (fst (run_state (startup e True) s), snd (run_state (startup e True) s))" by (simp only: prod.collapse)
  from system_step.start [OF refl this refl, of namespaced view good q] show ?thesis
    by (simp add: started_def fields Let_def)
qed

definition fresh_system :: "tracker sys" where
  "fresh_system = \<lparr>sy_state = fresh_state, sy_queue = {}\<rparr>"

lemma fresh_system_simps: "sy_state fresh_system = fresh_state" "sy_queue fresh_system = {}"
  by (simp_all add: fresh_system_def)

lemma fresh_singleton: "singleton_key (rs_Config (sy_state fresh_system)) = singleton_key example_cfg"
  by (simp add: fresh_system_simps fresh_view(3))

lemma example_registered: "parseOwnerTypeGroupKind (en_Scheme example_env) = Some (VPA_Group, VPA_GoType)"
  by (simp add: example_env_def parseOwnerTypeGroupKind_AddToScheme)

lemma namespaced_mapped: "vpa_mapped namespaced"
  by (simp add: vpa_mapped_def namespaced_def)

text \<open>A policy that another client creates under a name of the operator's.\<close>

definition foreign_policy :: NetworkPolicy where
  "foreign_policy = \<lparr>np_TypeMeta = zero_TypeMeta,
     np_Meta = zero_ObjectMeta\<lparr>om_Name := ''vpa-default-deny'', om_Namespace := cfg_Namespace example_cfg,
       om_ResourceVersion := ''1''\<rparr>,
     np_Spec = \<lparr>nps_PodSelector = \<lparr>ls_MatchLabels = fmempty, ls_MatchExpressions = []\<rparr>, nps_Ingress = [],
       nps_Egress = [], nps_PolicyTypes = []\<rparr>\<rparr>"

lemma foreign_policy_key:
  "obj_key (ONetworkPolicy foreign_policy) = (KNetworkPolicy, np_name)"
  if "np_name = \<lparr>nn_Namespace = cfg_Namespace example_cfg, nn_Name = ''vpa-default-deny''\<rparr>"
  using that by (simp add: obj_key_def meta_key_def foreign_policy_def zero_ObjectMeta_def)

definition with_policy :: "tracker sys \<Rightarrow> tracker sys" where
  "with_policy x =
     (let k = obj_key (ONetworkPolicy foreign_policy); w = rs_world (sy_state x);
          w' = fmupd k (ONetworkPolicy foreign_policy) w
      in \<lparr>sy_state = (sy_state x)\<lparr>rs_world := w'\<rparr>,
          sy_queue = sy_queue x \<union> set (seen example_env namespaced (rs_Config (sy_state x)) (fake_view w k) (fake_view w' k))\<rparr>)"

lemma with_policy_step:
  assumes "fake_wf (rs_world (sy_state x))"
  shows "\<exists>before after. system_step example_env namespaced fake_view fake_wf x
    (Change (obj_key (ONetworkPolicy foreign_policy)) before after) (with_policy x)"
proof -
  let ?k = "obj_key (ONetworkPolicy foreign_policy)"
  let ?w' = "fmupd ?k (ONetworkPolicy foreign_policy) (rs_world (sy_state x))"
  obtain s q where x: "x = \<lparr>sy_state = s, sy_queue = q\<rparr>" by (cases x)
  have "fake_wf ?w'"
    by (rule fake_wf_upd [OF assms])
      (simp_all add: foreign_policy_def zero_ObjectMeta_def ParseUint_def char_digit_def)
  then have "system_step example_env namespaced fake_view fake_wf x (Change ?k (fake_view (rs_world s) ?k) (fake_view ?w' ?k))
      (with_policy x)"
    unfolding x with_policy_def Let_def
    by (simp add: x) (rule system_step.change, simp_all add: fake_view_def)
  then show ?thesis by blast
qed

theorem pending_or_settled_witness:
  "\<exists>before after y.
     system_run example_env namespaced fake_view fake_wf fresh_system
       [Start, Change (KNetworkPolicy, \<lparr>nn_Namespace = ''vpa'', nn_Name = ''vpa-default-deny''\<rparr>) before after] y \<and>
     (snd (singleton_key example_cfg) \<in> sy_queue y \<or>
      settled_except {(KNetworkPolicy, \<lparr>nn_Namespace = ''vpa'', nn_Name = ''vpa-default-deny''\<rparr>)}
        (fake_view (rs_world (sy_state y))) (rs_Config (sy_state y)))"
proof -
  let ?x1 = "started example_env fake_view fresh_system"
  let ?k = "(KNetworkPolicy, \<lparr>nn_Namespace = ''vpa'', nn_Name = ''vpa-default-deny''\<rparr>)"
  have k: "obj_key (ONetworkPolicy foreign_policy) = ?k"
    by (simp add: foreign_policy_key example_cfg_def)
  have start: "system_step example_env namespaced fake_view fake_wf fresh_system Start ?x1" by (rule started_step)
  have w: "fake_wf (rs_world (sy_state fresh_system))" by (simp add: fresh_system_simps fresh_wf)
  have "fake_wf (rs_world (sy_state ?x1))"
    using kube_api.start_pending [OF fake.kube_api_axioms example_en_Client example_registered w fresh_singleton start]
    by (simp add: tracked_def)
  then obtain before after where step: "system_step example_env namespaced fake_view fake_wf ?x1
      (Change ?k before after) (with_policy ?x1)"
    using with_policy_step [of ?x1] k by auto
  have run: "system_run example_env namespaced fake_view fake_wf fresh_system [Start, Change ?k before after] (with_policy ?x1)"
    by (intro system_run.more [OF start] system_run.more [OF step] system_run.none)
  have "unseen example_cfg ?k before"
    by (simp add: unseen_def operand_keys_def managed_keys_def NetworkPolicies_def Let_def meta_key_def
        example_cfg_def zero_ObjectMeta_def)
  then have "drift example_cfg [Change ?k before after] = {?k}" by (simp add: drift_def)
  with run pending_or_settled [OF fake.kube_api_axioms example_en_Client example_registered namespaced_mapped
      w fresh_singleton run]
  show ?thesis by metis
qed

theorem queue_drains_witness:
  "\<exists>ls y. ls \<in> {[Process example_req], [Process example_req, Process example_req]} \<and>
     system_run example_env namespaced fake_view fake_wf
       \<lparr>sy_state = example_state fmempty, sy_queue = {example_req}\<rparr> ls y \<and>
     example_req \<notin> sy_queue y \<and>
     cluster_matches (fake_view (rs_world (sy_state y))) (rs_Config (sy_state y)) example_vpa"
proof (rule queue_drains [OF fake.reliable_api_axioms example_en_Client example_wf [OF fake_wf_empty] example_view])
  have "fake_view (rs_world (example_state fmempty)) (KNetworkPolicy, n) = None" for n
    using example_view_other [of "(KNetworkPolicy, n)" fmempty] by (simp add: fake_view_def)
  then show "reconcilable example_env allowsUnconditionalUpdate (fake_view (rs_world (example_state fmempty)))
      (rs_Config (example_state fmempty)) example_vpa"
    using example_can_own [of fmempty] by (simp add: reconcilable_def)
qed simp

text \<open>The cluster after the default was handed out and deleted.\<close>

definition marked_namespace :: Namespace where
  "marked_namespace = \<lparr>ns_TypeMeta = zero_TypeMeta,
     ns_Meta = zero_ObjectMeta\<lparr>om_Name := ''vpa'', om_ResourceVersion := ''8'',
       om_Annotations := Some (fmupd DefaultVPAControllerAnnotation ''true'' fmempty)\<rparr>, ns_rest = fmempty\<rparr>"

definition deleted_system :: "tracker sys" where
  "deleted_system = \<lparr>sy_state = \<lparr>rs_world = fmupd (namespace_key example_cfg) (ONamespace marked_namespace) fmempty,
     rs_Config = example_cfg, rs_events = []\<rparr>, sy_queue = {}\<rparr>"

lemma deleted_system_view:
  "fake_wf (rs_world (sy_state deleted_system))"
  "handed_out (fake_view (rs_world (sy_state deleted_system))) example_cfg"
  "fake_view (rs_world (sy_state deleted_system)) (singleton_key example_cfg) = None"
  "singleton_key (rs_Config (sy_state deleted_system)) = singleton_key example_cfg"
proof -
  have "obj_key (ONamespace marked_namespace) = namespace_key example_cfg" "ParseUint ''8'' = Some 8"
    by (simp_all add: obj_key_def meta_key_def marked_namespace_def namespace_key_def example_cfg_def
        zero_ObjectMeta_def ParseUint_def char_digit_def)
  then show "fake_wf (rs_world (sy_state deleted_system))"
    using fake_wf_upd [OF fake_wf_empty, of "ONamespace marked_namespace"]
    by (simp add: deleted_system_def marked_namespace_def)
qed (simp_all add: deleted_system_def handed_out_def fake_view_def marked_namespace_def read_meta_def json_meta_def
      omit_map_def)

theorem default_stays_deleted_witness:
  "\<exists>y. system_run example_env namespaced fake_view fake_wf deleted_system [Start] y \<and>
     fake_view (rs_world (sy_state y)) (singleton_key example_cfg) = None"
proof -
  have run: "system_run example_env namespaced fake_view fake_wf deleted_system [Start]
      (started example_env fake_view deleted_system)"
    by (intro system_run.more [OF started_step] system_run.none)
  then show ?thesis
    using default_stays_deleted [OF fake.kube_api_axioms example_en_Client deleted_system_view(1,4,2,3) run] by auto
qed

end
