(* ===== verification/Bootstrap.thy ===== *)
theory Bootstrap
  imports Operator_System
begin

text \<open>
  From an empty cluster to running operands: the operator starts in its namespace, hands out the
  default custom resource, and reconciles it. The theorem composes \<open>ensureVPAController\<close>, the
  watches, the queue, \<open>Reconcile\<close> and the command lines.
\<close>

section \<open>The default custom resource as stored\<close>

lemma stored_default:
  assumes "stored_as (OVPA (DefaultVPAController cfg)) (OVPA vpa)"
  shows "om_Name (vpa_Meta vpa) = cfg_Name cfg" "om_Namespace (vpa_Meta vpa) = cfg_Namespace cfg"
    and "vs_SafetyMarginFraction (vpa_Spec vpa) = Some DefaultSafetyMarginFraction"
    and "vs_PodMinCPUMillicores (vpa_Spec vpa) = Some DefaultPodMinCPUMillicores"
    and "vs_PodMinMemoryMb (vpa_Spec vpa) = Some DefaultPodMinMemoryMb"
    and "vs_RecommendationOnly (vpa_Spec vpa) = Some False"
    and "vs_MinReplicas (vpa_Spec vpa) = Some 2"
    and "cov_Args (do_Container (dos_Recommender (vs_DeploymentOverrides (vpa_Spec vpa)))) = []"
    and "cov_Args (do_Container (dos_Updater (vs_DeploymentOverrides (vpa_Spec vpa)))) = []"
proof -
  let ?n = "map_vpaspec_resources norm_resources"
  have eq0: "(DefaultVPAController cfg)\<lparr>vpa_TypeMeta := zero_TypeMeta,
      vpa_Meta := server_meta (vpa_Meta (DefaultVPAController cfg)), vpa_Spec := ?n (vpa_Spec (DefaultVPAController cfg))\<rparr>
    = vpa\<lparr>vpa_TypeMeta := zero_TypeMeta, vpa_Meta := server_meta (vpa_Meta vpa), vpa_Spec := ?n (vpa_Spec vpa)\<rparr>"
    using assms by (simp only: stored_as_def server_view.simps KObject.inject)
  have "?n (vpa_Spec (DefaultVPAController cfg)) = ?n (vpa_Spec vpa)"
    using arg_cong [OF eq0, of vpa_Spec] by simp
  note eq = this [unfolded DefaultVPAController_def zero_VPASpec_def, simplified]
  have m: "om_Name (vpa_Meta vpa) = om_Name (vpa_Meta (DefaultVPAController cfg))"
    "om_Namespace (vpa_Meta vpa) = om_Namespace (vpa_Meta (DefaultVPAController cfg))"
    using stored_as_meta(2,3) [OF assms] by simp_all
  show "om_Name (vpa_Meta vpa) = cfg_Name cfg" "om_Namespace (vpa_Meta vpa) = cfg_Namespace cfg"
    using m by (simp_all add: DefaultVPAController_def)
  note get = map_vpaspec_resources_def map_override_resources_def Let_def zero_DeploymentOverride_def
    DefaultRecommendationOnly_def DefaultMinReplicas_def
  show "vs_SafetyMarginFraction (vpa_Spec vpa) = Some DefaultSafetyMarginFraction"
    using arg_cong [OF eq, of vs_SafetyMarginFraction] by (simp add: get)
  show "vs_PodMinCPUMillicores (vpa_Spec vpa) = Some DefaultPodMinCPUMillicores"
    using arg_cong [OF eq, of vs_PodMinCPUMillicores] by (simp add: get)
  show "vs_PodMinMemoryMb (vpa_Spec vpa) = Some DefaultPodMinMemoryMb"
    using arg_cong [OF eq, of vs_PodMinMemoryMb] by (simp add: get)
  show "vs_RecommendationOnly (vpa_Spec vpa) = Some False"
    using arg_cong [OF eq, of vs_RecommendationOnly] by (simp add: get)
  show "vs_MinReplicas (vpa_Spec vpa) = Some 2"
    using arg_cong [OF eq, of vs_MinReplicas] by (simp add: get)
  show "cov_Args (do_Container (dos_Recommender (vs_DeploymentOverrides (vpa_Spec vpa)))) = []"
    using arg_cong [OF eq, of "\<lambda>s. cov_Args (do_Container (dos_Recommender (vs_DeploymentOverrides s)))"]
    by (simp add: get)
  show "cov_Args (do_Container (dos_Updater (vs_DeploymentOverrides (vpa_Spec vpa)))) = []"
    using arg_cong [OF eq, of "\<lambda>s. cov_Args (do_Container (dos_Updater (vs_DeploymentOverrides s)))"]
    by (simp add: get)
qed

text \<open>The default settings as they are printed.\<close>

lemmas f64_eval = f64_expbits_def f64_frac_def f64_neg_def f64_mant_def f64_scale_def
  DefaultSafetyMarginFraction_def DefaultPodMinCPUMillicores_def DefaultPodMinMemoryMb_def
lemmas digits_eval = digits_at_def scaled_num_def scaled_den_def Let_def f64_lower_def f64_upper_def

lemma default_margin_text: "float_text DefaultSafetyMarginFraction = ''0.15''"
proof -
  let ?w = DefaultSafetyMarginFraction
  have w: "f64_expbits ?w = 1020" "\<not> f64_neg ?w" "f64_mant ?w = 0x13333333333333" "f64_scale ?w = -57"
    by (simp_all add: f64_eval)
  have dp: "decimal_point ?w = 0"
    by (simp add: decimal_point_def digits_eval w lead_zeros_0)
  have d: "digits_at ?w 0 1 = None" "digits_at ?w 0 2 = Some 15" by (simp_all add: digits_eval w)
  have "shortest_digits ?w = Some (2, 15)"
    by (rule shortest_digits_first [OF dp d(2)]) (use d(1) in \<open>auto simp: less_2_cases_iff\<close>)
  then show ?thesis
    using float_text_positive [of ?w 0 2 15 "''15''"] dp w
    by (simp add: nat_text.simps [of 15] nat_text.simps [of "Suc 0"] digit_char_def trim_zeros_def fmtF_def Let_def char_of_def bit_Suc_0_iff)
qed

lemma default_cpu_text: "float_text DefaultPodMinCPUMillicores = ''25''"
proof -
  let ?w = DefaultPodMinCPUMillicores
  have w: "f64_expbits ?w = 1027" "\<not> f64_neg ?w" "f64_mant ?w = 0x19000000000000" "f64_scale ?w = -50"
    by (simp_all add: f64_eval)
  have t: "nat_text 25 = ''25''"
    by (simp add: nat_text.simps [of 25] nat_text.simps [of 2] digit_char_def char_of_def bit_Suc_0_iff)
  have dp: "decimal_point ?w = 2" by (simp add: decimal_point_def digits_eval w t)
  have d: "digits_at ?w 2 1 = None" "digits_at ?w 2 2 = Some 25" by (simp_all add: digits_eval w)
  have "shortest_digits ?w = Some (2, 25)"
    by (rule shortest_digits_first [OF dp d(2)]) (use d(1) in \<open>auto simp: less_2_cases_iff\<close>)
  then show ?thesis
    using float_text_positive [of ?w 2 2 25 "''25''"] dp w t by (simp add: trim_zeros_def fmtF_def Let_def)
qed

lemma default_memory_text: "float_text DefaultPodMinMemoryMb = ''250''"
proof -
  let ?w = DefaultPodMinMemoryMb
  have w: "f64_expbits ?w = 1030" "\<not> f64_neg ?w" "f64_mant ?w = 0x1F400000000000" "f64_scale ?w = -47"
    by (simp_all add: f64_eval)
  have t: "nat_text 250 = ''250''" "nat_text 25 = ''25''"
    by (simp_all add: nat_text.simps [of 250] nat_text.simps [of 25] nat_text.simps [of 2] digit_char_def char_of_def bit_Suc_0_iff)
  have dp: "decimal_point ?w = 3" by (simp add: decimal_point_def digits_eval w t)
  have d: "digits_at ?w 3 1 = None" "digits_at ?w 3 2 = Some 25" by (simp_all add: digits_eval w)
  have "shortest_digits ?w = Some (2, 25)"
    by (rule shortest_digits_first [OF dp d(2)]) (use d(1) in \<open>auto simp: less_2_cases_iff\<close>)
  then show ?thesis
    using float_text_positive [of ?w 3 2 25 "''25''"] dp w t by (simp add: trim_zeros_def fmtF_def Let_def)
qed

lemmas default_float_texts = default_margin_text default_cpu_text default_memory_text

section \<open>From the start to running operands\<close>

lemma default_args:
  assumes "stored_as (OVPA (DefaultVPAController cfg0)) (OVPA vpa)"
  shows "RecommenderArgs vpa cfg = [''--logtostderr'', ''--v='' @ int_text (cfg_Verbosity cfg),
      ''--recommendation-margin-fraction=0.15'', ''--pod-recommendation-min-cpu-millicores=25'',
      ''--pod-recommendation-min-memory-mb=250'']"
    and "UpdaterArgs vpa cfg = [''--logtostderr'', ''--v='' @ int_text (cfg_Verbosity cfg), ''--min-replicas=2'']"
proof -
  have "int_text 2 = ''2''"
    by (simp add: int_text_def nat_text.simps [of 2] digit_char_def char_of_def bit_Suc_0_iff)
  then show "UpdaterArgs vpa cfg = [''--logtostderr'', ''--v='' @ int_text (cfg_Verbosity cfg), ''--min-replicas=2'']"
    by (simp add: UpdaterArgs_def Let_def stored_default [OF assms] Value_def LogToStderrArg_def VerbosityArg_def
        MinReplicasArg_def)
qed (simp add: RecommenderArgs_def Let_def stored_default [OF assms] default_float_texts Value_def LogToStderrArg_def
    VerbosityArg_def SafetyMarginFractionArg_def PodMinCPUMillicoresArg_def PodMinMemoryMbArg_def)

text \<open>The command line of an operand's container in the cluster.\<close>

definition runs_with :: "(objkey \<Rightarrow> KObject option) \<Rightarrow> NamespacedName \<Rightarrow> string list \<Rightarrow> bool" where
  "runs_with objs nn args \<longleftrightarrow> (\<exists>d. objs (KDeployment, nn) = Some (ODeployment d) \<and> dep_Replicas d = Some 1 \<and>
     map c_Args (ps_Containers (pt_Spec (dep_Template d))) = [args])"

lemma matches_runs_with:
  assumes "cluster_matches objs cfg vpa" and op: "(params, sel) \<in> set operands"
    and "par_EnabledMethod params vpa"
    and "cov_Args (do_Container (sel (vs_DeploymentOverrides (vpa_Spec vpa)))) = []" and "cfg_ExtraArgs cfg = ''''"
  shows "runs_with objs (par_NameMethod params cfg vpa) (par_GetArgs params vpa cfg)"
  using assms(1,2)
proof (rule matches_args)
  fix d cont
  assume "objs (KDeployment, par_NameMethod params cfg vpa) = Some (ODeployment d)" "deployment_current cfg vpa params d"
    "ps_Containers (pt_Spec (dep_Template d)) = [cont]"
    "c_Args cont = operator_args cfg vpa (ControllerParamsBase.truncate params) @
       cov_Args (do_Container (sel (vs_DeploymentOverrides (vpa_Spec vpa))))"
  then show ?thesis
    using assms(3-5) by (simp add: runs_with_def deployment_current_def expected_replicas_def operator_args_def
        ControllerParamsBase.truncate_def)
qed

lemma registered_GVK:
  "parseOwnerTypeGroupKind sch = Some gk \<Longrightarrow> \<exists>gvk. GVKForObject VPA_GoType tm sch = Inr gvk"
  by (auto simp: parseOwnerTypeGroupKind_def GVKForObject_def split: list.splits)

lemma policy_keys_of: "p \<in> set (NetworkPolicies cfg vpa) \<Longrightarrow>
    \<exists>p' \<in> set (NetworkPolicies cfg vpa'). np_Meta p' = np_Meta p"
  by (auto simp: NetworkPolicies_def Let_def)

context reliable_api
begin

lemma bootstrap_run:
  assumes e: "en_Client e = c" and w: "wf (rs_world s)" and cfg: "rs_Config s = cfg"
    and ns: "view (rs_world s) (namespace_key cfg) = Some (ONamespace ns)"
    and new: "\<not> handed_out (view (rs_world s)) cfg"
    and none: "view (rs_world s) (singleton_key cfg) = None" and name: "cfg_Name cfg \<noteq> ''''"
    and reg: "parseOwnerTypeGroupKind (en_Scheme e) = Some gk"
    and pol: "\<And>p. p \<in> set (NetworkPolicies cfg (DefaultVPAController cfg)) \<Longrightarrow>
      view (rs_world s) (KNetworkPolicy, meta_key (np_Meta p)) = None"
  shows "\<exists>ls y vpa t. system_run e mapper view wf \<lparr>sy_state = s, sy_queue = q\<rparr> (Start # ls) y \<and>
    ls \<in> {[Process (snd (singleton_key cfg))], [Process (snd (singleton_key cfg)), Process (snd (singleton_key cfg))]} \<and>
    snd (singleton_key cfg) \<notin> sy_queue y \<and> stored_as (OVPA (DefaultVPAController cfg)) (OVPA vpa) \<and>
    cluster_matches (view (rs_world (sy_state y))) (rs_Config (sy_state y)) vpa \<and>
    rs_Config (sy_state y) = cfg\<lparr>cfg_TLSProfileSpec := t\<rparr>"
proof -
  let ?req = "snd (singleton_key cfg)"
  obtain s1 vpa where s1: "run_state (ensureVPAController e) s = (None, s1)"
      "view (rs_world s1) (singleton_key cfg) = Some (OVPA vpa)" "stored_as (OVPA (DefaultVPAController cfg)) (OVPA vpa)"
    using ensure_live [OF e w cfg ns new none name] by blast
  note E = ensure_run [OF e w cfg s1(1)]
  have "SetConfig cfg s = s" using cfg by (simp add: SetConfig_def)
  then have up: "run_state (startup e True) (SetConfig cfg s) = ((), s1)" by (simp add: startup_def run_simps s1(1))
  let ?q = "observed e mapper cfg (\<lambda>k. None) (view (rs_world s1))"
  have start: "system_step e mapper view wf \<lparr>sy_state = s, sy_queue = q\<rparr> Start \<lparr>sy_state = s1, sy_queue = ?q\<rparr>"
    by (rule system_step.start [OF _ up refl]) (simp add: cfg)
  have pols: "view (rs_world s1) (KNetworkPolicy, meta_key (np_Meta p)) = None"
    if "p \<in> set (NetworkPolicies cfg vpa)" for p
  proof -
    have "(KNetworkPolicy, meta_key (np_Meta p)) \<noteq> namespace_key cfg"
      "(KNetworkPolicy, meta_key (np_Meta p)) \<noteq> singleton_key cfg"
      by (simp_all add: namespace_key_def singleton_key_def)
    then show ?thesis
      using E(5) [of "(KNetworkPolicy, meta_key (np_Meta p))"] policy_keys_of [OF that] pol by metis
  qed
  have "can_own e cfg vpa"
    using stored_default(2) [OF s1(3)] registered_GVK [OF reg] by (simp add: can_own_def)
  then have ok: "reconcilable e unconditional (view (rs_world s1)) (rs_Config s1) vpa"
    using pols E(2) by (simp add: reconcilable_def)
  have q: "?req \<in> ?q" by (rule start_requests [OF reg E(1) s1(2)])
  have v: "view (rs_world s1) (KVPA, ?req) = Some (OVPA vpa)" using s1(2) by (simp add: singleton_key_def)
  obtain ls y t where "ls \<in> {[Process ?req], [Process ?req, Process ?req]}"
      "system_run e mapper view wf \<lparr>sy_state = s1, sy_queue = ?q\<rparr> ls y" "?req \<notin> sy_queue y"
      "cluster_matches (view (rs_world (sy_state y))) (rs_Config (sy_state y)) vpa"
      "rs_Config (sy_state y) = cfg\<lparr>cfg_TLSProfileSpec := t\<rparr>"
    using queue_drains_request [OF e E(1) v ok q, of mapper, unfolded E(2)] by blast
  with system_run.more [OF start] s1(3) show ?thesis by blast
qed

end

text \<open>
  C1: A fresh installation comes up. If the operator's namespace exists and has neither the mark, a
  custom resource nor network policies of the operator's names, then over a reliable client the
  start of the operator followed by at most two reconcile runs leaves the queue without a
  request for the singleton, the whole cluster as the default custom resource asks for, and one
  replica each of the recommender and the updater with the documented defaults on their command
  lines (a margin of 0.15, 25 millicores, 250 MB, two replicas).
\<close>

theorem bootstrap:
  assumes "reliable_api c view good unconditional" and "en_Client e = c" and "good (rs_world s)"
    and "rs_Config s = cfg" and "view (rs_world s) (namespace_key cfg) = Some (ONamespace ns)"
    and "\<not> handed_out (view (rs_world s)) cfg" and "view (rs_world s) (singleton_key cfg) = None"
    and "cfg_Name cfg \<noteq> ''''" and "parseOwnerTypeGroupKind (en_Scheme e) = Some gk"
    and "\<And>p. p \<in> set (NetworkPolicies cfg (DefaultVPAController cfg)) \<Longrightarrow>
      view (rs_world s) (KNetworkPolicy, meta_key (np_Meta p)) = None"
    and "cfg_ExtraArgs cfg = ''''"
  shows "\<exists>ls y vpa. system_run e mapper view good \<lparr>sy_state = s, sy_queue = q\<rparr> (Start # ls) y \<and>
    ls \<in> {[Process (snd (singleton_key cfg))], [Process (snd (singleton_key cfg)), Process (snd (singleton_key cfg))]} \<and>
    snd (singleton_key cfg) \<notin> sy_queue y \<and> stored_as (OVPA (DefaultVPAController cfg)) (OVPA vpa) \<and>
    cluster_matches (view (rs_world (sy_state y))) (rs_Config (sy_state y)) vpa \<and>
    runs_with (view (rs_world (sy_state y)))
      \<lparr>nn_Namespace = cfg_Namespace cfg, nn_Name = ''vpa-recommender-'' @ cfg_Name cfg\<rparr>
      [''--logtostderr'', ''--v='' @ int_text (cfg_Verbosity cfg),
       ''--recommendation-margin-fraction=0.15'', ''--pod-recommendation-min-cpu-millicores=25'',
       ''--pod-recommendation-min-memory-mb=250''] \<and>
    runs_with (view (rs_world (sy_state y)))
      \<lparr>nn_Namespace = cfg_Namespace cfg, nn_Name = ''vpa-updater-'' @ cfg_Name cfg\<rparr>
      [''--logtostderr'', ''--v='' @ int_text (cfg_Verbosity cfg), ''--min-replicas=2'']"
proof -
  obtain ls y vpa t where y: "system_run e mapper view good \<lparr>sy_state = s, sy_queue = q\<rparr> (Start # ls) y"
      "ls \<in> {[Process (snd (singleton_key cfg))], [Process (snd (singleton_key cfg)), Process (snd (singleton_key cfg))]}"
      "snd (singleton_key cfg) \<notin> sy_queue y" "stored_as (OVPA (DefaultVPAController cfg)) (OVPA vpa)"
      "cluster_matches (view (rs_world (sy_state y))) (rs_Config (sy_state y)) vpa"
      "rs_Config (sy_state y) = cfg\<lparr>cfg_TLSProfileSpec := t\<rparr>"
    using reliable_api.bootstrap_run [OF assms(1-10), of mapper q] by blast
  have on: "UpdaterEnabled vpa" by (simp add: UpdaterEnabled_def stored_default(6) [OF y(4)])
  note run = matches_runs_with [OF y(5), where sel = dos_Recommender and params = recommender_params]
    matches_runs_with [OF y(5), where sel = dos_Updater and params = updater_params]
  show ?thesis
    using y run on assms(11) stored_default [OF y(4)]
    by (intro exI [of _ ls] exI [of _ y] exI [of _ vpa])
      (simp add: operands_def recommender_params_def updater_params_def RecommenderName_def UpdaterName_def
        RecommenderEnabled_def default_args [OF y(4)])
qed

theorem bootstrap_witness:
  "\<exists>ls y. system_run example_env namespaced fake_view fake_wf fresh_system (Start # ls) y \<and>
     runs_with (fake_view (rs_world (sy_state y))) \<lparr>nn_Namespace = ''vpa'', nn_Name = ''vpa-updater-default''\<rparr>
       [''--logtostderr'', ''--v=1'', ''--min-replicas=2'']"
proof -
  have cfg: "cfg_ExtraArgs example_cfg = ''''" "cfg_Namespace example_cfg = ''vpa''" "cfg_Name example_cfg = ''default''"
      "cfg_Verbosity example_cfg = 1" "int_text 1 = ''1''"
    by (simp_all add: example_cfg_def int_text_def nat_text.simps [of "Suc 0"] digit_char_def char_of_def bit_Suc_0_iff)
  have pol: "fake_view (rs_world fresh_state) (KNetworkPolicy, n) = None" for n
    by (rule fresh_view(2)) (simp add: namespace_key_def)
  show ?thesis
    using bootstrap [OF fake.reliable_api_axioms example_en_Client fresh_wf fresh_view(3,1) fresh_new(1) fresh_view(2)
        fresh_new(2) example_registered pol cfg(1), of namespaced "{}"]
    by (auto simp: cfg fresh_system_def)
qed

end
