(* ===== verification/Reconcile_Events.thy ===== *)
theory Reconcile_Events
  imports Operator_System
begin

text \<open>
  What \<open>Reconcile\<close> records. Every step is shown to record its outcome on the custom resource,
  and the steps are composed as the run composes them; no law of the client is needed.
\<close>

text \<open>
  What a step records, over any client: at most one event, on the custom resource, a warning that
  ends with the error if the step fails; only a failure that \<open>silent\<close> allows has no event.
\<close>

definition reports ::
  "ObjectReference option \<Rightarrow> (go_error \<Rightarrow> bool) \<Rightarrow> ('w rstate, go_error option) state \<Rightarrow> bool" where
  "reports ref silent prog \<longleftrightarrow> (\<forall>s r s'. run_state prog s = (r, s') \<longrightarrow> rs_Config s' = rs_Config s \<and>
     (\<exists>evs. rs_events s' = rs_events s @ evs \<and> (\<forall>ev \<in> set evs. ev_Regarding ev = ref) \<and>
        (case r of
           None \<Rightarrow> \<forall>ev \<in> set evs. ev_Type ev = EventTypeNormal
         | Some err \<Rightarrow> (\<exists>ev msg. evs = [ev] \<and> ev_Type ev = EventTypeWarning \<and> ev_Note ev = msg @ Error err) \<or>
             evs = [] \<and> silent err)))"

lemma reports_event [simp]:
  "ev_Regarding (Event_of g ty r a n) = g" "ev_Note (Event_of g ty r a n) = n"
  by (simp_all add: Event_of_def)

lemma reports_deployment: "reports ref (\<lambda>_. False) (reconcile_deployment e vpa ref params)"
  unfolding reports_def
  by (auto simp: reconcile_deployment_def CreateAutoscaler_def UpdateAutoscaler_def update_result_def run_simps Let_def
      split: prod.splits sum.splits option.splits if_splits; simp flip: append_assoc)

lemma reports_service: "reports ref (\<lambda>_. False) (reconcile_service e vpa ref)"
  unfolding reports_def
  by (auto simp: reconcile_service_def CreateWebhookService_def UpdateWebhookService_def update_result_def run_simps Let_def
      split: prod.splits sum.splits option.splits if_splits; simp flip: append_assoc)

lemma reports_configmap: "reports ref (\<lambda>_. False) (reconcile_configmap e vpa ref)"
  unfolding reports_def
  by (auto simp: reconcile_configmap_def CreateCAConfigMap_def UpdateCAConfigMap_def update_result_def run_simps Let_def
      split: prod.splits sum.splits option.splits if_splits; simp flip: append_assoc)

lemma reports_policy:
  "reports ref (\<lambda>err. set_owner e vpa (np_Meta policy) = Inl err) (reconcile_policy e vpa ref policy)"
  unfolding reports_def
  by (auto simp: reconcile_policy_def run_simps Let_def
      split: prod.splits sum.splits option.splits if_splits; simp flip: append_assoc)

lemma reports_mono: "reports ref P prog \<Longrightarrow> (\<And>err. P err \<Longrightarrow> Q err) \<Longrightarrow> reports ref Q prog"
proof -
  assume rep: "reports ref P prog" and imp: "\<And>err. P err \<Longrightarrow> Q err"
  have "(case r of None \<Rightarrow> A | Some err \<Rightarrow> B err \<or> C \<and> Q err)"
    if "(case r of None \<Rightarrow> A | Some err \<Rightarrow> B err \<or> C \<and> P err)" for r A B C
    using that imp by (cases r) auto
  then show "reports ref Q prog" using rep unfolding reports_def by meson
qed

text \<open>What a sequence of steps records: normal events, and at its end what the failing step records.\<close>

definition reports_all ::
  "ObjectReference option \<Rightarrow> (go_error \<Rightarrow> bool) \<Rightarrow> 'w rstate \<Rightarrow> go_error option \<Rightarrow> 'w rstate \<Rightarrow> bool" where
  "reports_all ref silent s r s' \<longleftrightarrow> rs_Config s' = rs_Config s \<and>
     (\<exists>evs. rs_events s' = rs_events s @ evs \<and> (\<forall>ev \<in> set evs. ev_Regarding ev = ref) \<and>
        (case r of
           None \<Rightarrow> \<forall>ev \<in> set evs. ev_Type ev = EventTypeNormal
         | Some err \<Rightarrow>
             (\<exists>init ev msg. evs = init @ [ev] \<and> (\<forall>ev \<in> set init. ev_Type ev = EventTypeNormal) \<and>
                ev_Type ev = EventTypeWarning \<and> ev_Note ev = msg @ Error err) \<or>
             (\<forall>ev \<in> set evs. ev_Type ev = EventTypeNormal) \<and> silent err))"

lemma reports_until_error:
  assumes "list_all (reports ref silent) progs" and "run_state (until_error progs) s = (r, s')"
  shows "reports_all ref silent s r s'"
  using assms
proof (induction progs arbitrary: s)
  case Nil
  then show ?case by (auto simp: reports_all_def run_simps)
next
  case (Cons prog progs)
  obtain r1 s1 where m: "run_state prog s = (r1, s1)" by (rule prod.exhaust)
  have step: "reports ref silent prog" using Cons.prems(1) by simp
  obtain evs where evs: "rs_Config s1 = rs_Config s" "rs_events s1 = rs_events s @ evs"
    "\<forall>ev \<in> set evs. ev_Regarding ev = ref"
    "case r1 of None \<Rightarrow> \<forall>ev \<in> set evs. ev_Type ev = EventTypeNormal
     | Some err \<Rightarrow> (\<exists>ev msg. evs = [ev] \<and> ev_Type ev = EventTypeWarning \<and> ev_Note ev = msg @ Error err) \<or>
         evs = [] \<and> silent err"
    using step [unfolded reports_def, rule_format, OF m] by blast
  show ?case
  proof (cases r1)
    case (Some err)
    then have "r = Some err" "s' = s1" using Cons.prems(2) m by (simp_all add: run_simps)
    then show ?thesis using evs Some by (fastforce simp: reports_all_def)
  next
    case None
    then have rest: "run_state (until_error progs) s1 = (r, s')" using Cons.prems(2) m by (simp add: run_simps)
    have "reports_all ref silent s1 r s'" using Cons.IH [OF _ rest] Cons.prems(1) by simp
    then obtain evs' where evs': "rs_Config s' = rs_Config s1" "rs_events s' = rs_events s1 @ evs'"
      "\<forall>ev \<in> set evs'. ev_Regarding ev = ref"
      "case r of None \<Rightarrow> \<forall>ev \<in> set evs'. ev_Type ev = EventTypeNormal
       | Some err \<Rightarrow>
           (\<exists>init ev msg. evs' = init @ [ev] \<and> (\<forall>ev \<in> set init. ev_Type ev = EventTypeNormal) \<and>
              ev_Type ev = EventTypeWarning \<and> ev_Note ev = msg @ Error err) \<or>
           (\<forall>ev \<in> set evs'. ev_Type ev = EventTypeNormal) \<and> silent err"
      unfolding reports_all_def by blast
    have normal: "\<forall>ev \<in> set evs. ev_Type ev = EventTypeNormal" using evs(4) None by simp
    have "case r of None \<Rightarrow> \<forall>ev \<in> set (evs @ evs'). ev_Type ev = EventTypeNormal
       | Some err \<Rightarrow>
           (\<exists>init ev msg. evs @ evs' = init @ [ev] \<and> (\<forall>ev \<in> set init. ev_Type ev = EventTypeNormal) \<and>
              ev_Type ev = EventTypeWarning \<and> ev_Note ev = msg @ Error err) \<or>
           (\<forall>ev \<in> set (evs @ evs'). ev_Type ev = EventTypeNormal) \<and> silent err"
    proof (cases r)
      case None
      then show ?thesis using evs'(4) normal by auto
    next
      case (Some err)
      consider init ev msg where "evs' = init @ [ev]" "\<forall>ev \<in> set init. ev_Type ev = EventTypeNormal"
          "ev_Type ev = EventTypeWarning" "ev_Note ev = msg @ Error err"
        | "\<forall>ev \<in> set evs'. ev_Type ev = EventTypeNormal" "silent err"
        using evs'(4) Some by auto
      then show ?thesis
      proof cases
        case (1 init ev msg)
        then have "evs @ evs' = (evs @ init) @ [ev]" "\<forall>ev \<in> set (evs @ init). ev_Type ev = EventTypeNormal"
          using normal by auto
        then show ?thesis using 1 Some by auto
      next
        case 2
        then show ?thesis using normal Some by auto
      qed
    qed
    then show ?thesis
      unfolding reports_all_def using evs(1-3) evs'(1-3) by (intro conjI exI [of _ "evs @ evs'"]) auto
  qed
qed

lemma reports_steps:
  "list_all (reports ref (\<lambda>err. \<exists>p \<in> set (NetworkPolicies cfg vpa). set_owner e vpa (np_Meta p) = Inl err))
    (reconcile_steps e cfg vpa ref)"
proof -
  have "reports ref (\<lambda>err. \<exists>p \<in> set (NetworkPolicies cfg vpa). set_owner e vpa (np_Meta p) = Inl err)
      (reconcile_policy e vpa ref policy)" if "policy \<in> set (NetworkPolicies cfg vpa)" for policy
    by (rule reports_mono [OF reports_policy]) (use that in blast)
  then show ?thesis
    by (auto simp: reconcile_steps_def list_all_iff intro: reports_mono [OF reports_deployment]
        reports_mono [OF reports_service] reports_mono [OF reports_configmap])
qed

text \<open>The custom resource as a run reads it: after the API server configuration.\<close>

definition read_vpa :: "'w env \<Rightarrow> NamespacedName \<Rightarrow> 'w rstate \<Rightarrow> go_error + VerticalPodAutoscalerController" where
  "read_vpa e req s = decoded as_vpa (fst (run_state (do { syncTLSProfile e; kget e KVPA req }) s))"

lemma syncTLSProfile_events:
  assumes "run_state (syncTLSProfile e) s = (u, s')"
  shows "rs_events s' = rs_events s" and "cfg_Namespace (rs_Config s') = cfg_Namespace (rs_Config s)"
  using assms by (auto simp: syncTLSProfile_def run_simps State_Monad.update_def State_Monad.get_def
      State_Monad.set_def split: prod.splits sum.splits)

lemma Reconcile_reports:
  assumes run: "run_state (Reconcile e req) s = (res, s')"
  shows "case read_vpa e req s of
      Inl err \<Rightarrow> rs_events s' = rs_events s \<and> snd res = (if IsNotFound err then None else Some err)
    | Inr vpa \<Rightarrow> \<exists>s1. rs_events s1 = rs_events s \<and> cfg_Namespace (rs_Config s1) = cfg_Namespace (rs_Config s) \<and>
        reports_all (objectReference (rs_Config s1) (en_Scheme e) vpa)
          (\<lambda>err. \<exists>p \<in> set (NetworkPolicies (rs_Config s1) vpa). set_owner e vpa (np_Meta p) = Inl err) s1 (snd res) s'"
proof -
  obtain u s1 where sync: "run_state (syncTLSProfile e) s = (u, s1)" by (rule prod.exhaust)
  obtain g w2 where g: "cl_Get (en_Client e) KVPA req (rs_world s1) = (g, w2)" by (rule prod.exhaust)
  let ?s2 = "s1\<lparr>rs_world := w2\<rparr>"
  have read: "read_vpa e req s = decoded as_vpa g" by (simp add: read_vpa_def run_simps sync g)
  note ev = Reconcile_def run_simps sync g
  show ?thesis
  proof (cases "decoded as_vpa g")
    case (Inl err)
    then show ?thesis using run read syncTLSProfile_events [OF sync] by (auto simp: ev split: if_splits)
  next
    case (Inr vpa)
    let ?ref = "objectReference (rs_Config s1) (en_Scheme e) vpa"
    obtain r s3 where loop: "run_state (until_error (reconcile_steps e (rs_Config s1) vpa ?ref)) ?s2 = (r, s3)"
      by (rule prod.exhaust)
    have "snd res = r" "s' = s3" using run Inr loop by (auto simp: ev)
    then show ?thesis
      using reports_until_error [OF reports_steps loop] syncTLSProfile_events [OF sync] read Inr
      by (auto intro!: exI [of _ ?s2])
  qed
qed

text \<open>The reference names the custom resource, if the scheme knows its type.\<close>

lemma objectReference_registered:
  assumes "parseOwnerTypeGroupKind (en_Scheme e) = Some (VPA_Group, VPA_GoType)"
  shows "\<exists>ref. objectReference cfg (en_Scheme e) vpa = Some ref \<and> ref_Name ref = om_Name (vpa_Meta vpa) \<and>
    ref_UID ref = om_UID (vpa_Meta vpa) \<and>
    ref_Namespace ref = (if om_Namespace (vpa_Meta vpa) = '''' then cfg_Namespace cfg else om_Namespace (vpa_Meta vpa))"
  using assms
  by (auto simp: objectReference_def GetReference_def parseOwnerTypeGroupKind_def GVK_Empty_def Let_def VPA_Group_def
      split: list.splits)

definition regards :: "Config \<Rightarrow> VerticalPodAutoscalerController \<Rightarrow> Event \<Rightarrow> bool" where
  "regards cfg vpa ev \<longleftrightarrow>
     (\<exists>ref. ev_Regarding ev = Some ref \<and> ref_Name ref = om_Name (vpa_Meta vpa) \<and>
        ref_UID ref = om_UID (vpa_Meta vpa) \<and>
        ref_Namespace ref =
          (if om_Namespace (vpa_Meta vpa) = '''' then cfg_Namespace cfg else om_Namespace (vpa_Meta vpa)))"

text \<open>
  C16: Errors are reported, over any client. If the custom resource cannot be read, the run
  records nothing and returns the error, or nil if the resource is not there. Otherwise every
  event is recorded on the custom resource; a run that returns nil records normal events only; a
  run that returns an error records, last and after normal events only, a warning that ends with
  the text of that error. There is one exception: an error of setting the owner of a network
  policy is returned without an event.
\<close>

theorem Reconcile_errors_reported:
  assumes "run_state (Reconcile e req) s = (res, s')"
    and "parseOwnerTypeGroupKind (en_Scheme e) = Some (VPA_Group, VPA_GoType)"
  shows "\<exists>evs. rs_events s' = rs_events s @ evs \<and>
    (case read_vpa e req s of
       Inl err \<Rightarrow> evs = [] \<and> snd res = (if IsNotFound err then None else Some err)
     | Inr vpa \<Rightarrow>
         (\<forall>ev \<in> set evs. regards (rs_Config s) vpa ev) \<and>
         (case snd res of
            None \<Rightarrow> \<forall>ev \<in> set evs. ev_Type ev = EventTypeNormal
          | Some err \<Rightarrow>
              (\<exists>init ev msg. evs = init @ [ev] \<and> (\<forall>ev \<in> set init. ev_Type ev = EventTypeNormal) \<and>
                 ev_Type ev = EventTypeWarning \<and> ev_Note ev = msg @ Error err) \<or>
              (\<forall>ev \<in> set evs. ev_Type ev = EventTypeNormal) \<and>
              (\<exists>p \<in> set (NetworkPolicies (rs_Config s') vpa). set_owner e vpa (np_Meta p) = Inl err)))"
proof (cases "read_vpa e req s")
  case (Inl err)
  then show ?thesis using Reconcile_reports [OF assms(1)] by simp
next
  case (Inr vpa)
  then obtain s1 where s1: "rs_events s1 = rs_events s" "cfg_Namespace (rs_Config s1) = cfg_Namespace (rs_Config s)"
    "reports_all (objectReference (rs_Config s1) (en_Scheme e) vpa)
      (\<lambda>err. \<exists>p \<in> set (NetworkPolicies (rs_Config s1) vpa). set_owner e vpa (np_Meta p) = Inl err) s1 (snd res) s'"
    using Reconcile_reports [OF assms(1)] by auto
  have who: "regards (rs_Config s) vpa ev" if "ev_Regarding ev = objectReference (rs_Config s1) (en_Scheme e) vpa" for ev
    using objectReference_registered [OF assms(2), of "rs_Config s1" vpa] that s1(2) by (auto simp: regards_def)
  obtain evs where evs: "rs_Config s' = rs_Config s1" "rs_events s' = rs_events s @ evs"
    "\<forall>ev \<in> set evs. ev_Regarding ev = objectReference (rs_Config s1) (en_Scheme e) vpa"
    "case snd res of None \<Rightarrow> \<forall>ev \<in> set evs. ev_Type ev = EventTypeNormal
     | Some err \<Rightarrow>
         (\<exists>init ev msg. evs = init @ [ev] \<and> (\<forall>ev \<in> set init. ev_Type ev = EventTypeNormal) \<and>
            ev_Type ev = EventTypeWarning \<and> ev_Note ev = msg @ Error err) \<or>
         (\<forall>ev \<in> set evs. ev_Type ev = EventTypeNormal) \<and>
         (\<exists>p \<in> set (NetworkPolicies (rs_Config s1) vpa). set_owner e vpa (np_Meta p) = Inl err)"
    using s1(3) unfolding reports_all_def s1(1) by blast
  have "\<forall>ev \<in> set evs. regards (rs_Config s) vpa ev" using who evs(3) by blast
  with evs(2,4) show ?thesis unfolding Inr sum.case evs(1) by blast
qed

text \<open>A failing run: the operator is configured for another namespace.\<close>

theorem Reconcile_errors_reported_witness:
  "\<exists>err ev msg s'. run_state (Reconcile example_env example_req)
       ((example_state fmempty)\<lparr>rs_Config := example_cfg\<lparr>cfg_Namespace := ''other''\<rparr>\<rparr>) = ((zero_Result, Some err), s') \<and>
     rs_events s' = [ev] \<and> ev_Type ev = EventTypeWarning \<and> ev_Note ev = msg @ Error err \<and>
     regards example_cfg example_vpa ev"
proof -
  let ?s = "(example_state fmempty)\<lparr>rs_Config := example_cfg\<lparr>cfg_Namespace := ''other''\<rparr>\<rparr>"
  have w: "fake_wf (rs_world ?s)" and v: "fake_view (rs_world ?s) (KVPA, example_req) = Some (OVPA example_vpa)"
    using example_wf [OF fake_wf_empty] example_view [of fmempty] by simp_all
  have ns: "om_Namespace (vpa_Meta example_vpa) \<noteq> ''''"
    "om_Namespace (vpa_Meta example_vpa) \<noteq> cfg_Namespace (rs_Config ?s)"
    by (simp_all add: example_vpa_def)
  have none: "fake_view (rs_world ?s) (KDeployment, RecommenderName (rs_Config ?s) example_vpa) = None"
    by (simp add: fake_view_def example_state_def)
  obtain err ev s' where run: "run_state (Reconcile example_env example_req) ?s = ((zero_Result, Some err), s')"
    and ev: "rs_events s' = rs_events ?s @ [ev]" "ev_Type ev = EventTypeWarning"
    using fake.foreign_namespace [OF example_en_Client w v ns none] by blast
  have start: "rs_events ?s = []" by (simp add: example_state_def)
  obtain u s1 where sync: "run_state (syncTLSProfile example_env) ?s = (u, s1)" by (rule prod.exhaust)
  note S = fake.syncTLSProfile_run [OF example_en_Client w sync]
  obtain w' where "cl_Get fake_client KVPA example_req (rs_world s1) = (Inr (OVPA example_vpa), w')"
    using fake.get_total [of "rs_world s1" KVPA example_req "OVPA example_vpa"] S v by auto
  then have read: "read_vpa example_env example_req ?s = Inr example_vpa"
    by (simp add: read_vpa_def run_simps sync example_en_Client decoded_def)
  have "ev_Type ev \<noteq> EventTypeNormal" using ev(2) by (simp add: EventTypeNormal_def EventTypeWarning_def)
  moreover have "regards (rs_Config ?s) example_vpa ev \<longleftrightarrow> regards example_cfg example_vpa ev"
    using ns(1) by (simp add: regards_def)
  ultimately show ?thesis
    using Reconcile_errors_reported [OF run example_registered] run ev start read by auto
qed

end
