(* ===== verification/Resource_Merge.thy ===== *)
theory Resource_Merge
  imports VPA_Util
begin

text \<open>
  \<open>internal/lib/resourcemerge/resourcemerge.go\<close>: merging a required cluster operator into the
  existing one while recording whether anything changed; the cluster operator type of
  \<open>openshift/api\<close>; the vendored \<open>SetOperatorStatusCondition\<close>; and \<open>ResetProgressingTime\<close> of
  \<open>internal/util/util.go\<close>, which relies on a pointer into the slice of conditions.

  The Go code passes \<open>modified *bool\<close>; here the flag is an argument and a component of the
  result. An instant is a natural number whose zero is Go's zero time.
\<close>

type_synonym Time = nat

record ClusterOperatorStatusCondition =
  cc_Type :: string
  cc_Status :: string
  cc_LastTransitionTime :: Time
  cc_Reason :: string
  cc_Message :: string

record OperandVersion =
  ov_Name :: string
  ov_Version :: string

record ConfigObjectReference =
  cor_Group :: string
  cor_Resource :: string
  cor_Namespace :: string
  cor_Name :: string

record ClusterOperatorStatus =
  cos_Conditions :: "ClusterOperatorStatusCondition list"
  cos_Versions :: "OperandVersion list option"
  cos_RelatedObjects :: "ConfigObjectReference list"
  cos_ExtensionRaw :: string
  cos_ExtensionObject :: "string option"

record ClusterOperator =
  co_TypeMeta :: TypeMeta
  co_Meta :: ObjectMeta
  co_Status :: ClusterOperatorStatus

definition zero_ClusterOperatorStatus :: ClusterOperatorStatus where
  "zero_ClusterOperatorStatus = \<lparr>cos_Conditions = [], cos_Versions = None, cos_RelatedObjects = [],
     cos_ExtensionRaw = '''', cos_ExtensionObject = None\<rparr>"

definition OperatorAvailable :: string where [go_defs]: "OperatorAvailable = ''Available''"
definition OperatorProgressing :: string where [go_defs]: "OperatorProgressing = ''Progressing''"
definition OperatorDegraded :: string where [go_defs]: "OperatorDegraded = ''Degraded''"
definition ConditionTrue :: string where [go_defs]: "ConditionTrue = ''True''"
definition ConditionFalse :: string where [go_defs]: "ConditionFalse = ''False''"

section \<open>Conditions\<close>

text \<open>
  \<open>FindOperatorStatusCondition\<close> returns a pointer to the first condition of the type; the
  model returns its index, so that an update through the pointer is an update at the index.
\<close>

fun FindOperatorStatusCondition ::
  "ClusterOperatorStatusCondition list \<Rightarrow> string \<Rightarrow> nat option" where
  "FindOperatorStatusCondition [] t = None"
| "FindOperatorStatusCondition (c # cs) t =
     (if cc_Type c = t then Some 0 else map_option Suc (FindOperatorStatusCondition cs t))"

definition SetOperatorStatusCondition ::
  "Time \<Rightarrow> ClusterOperatorStatusCondition \<Rightarrow> ClusterOperatorStatusCondition list \<Rightarrow>
   ClusterOperatorStatusCondition list" where
  "SetOperatorStatusCondition now newC conds =
     (case FindOperatorStatusCondition conds (cc_Type newC) of
        None \<Rightarrow> conds @ [newC\<lparr>cc_LastTransitionTime := now\<rparr>]
      | Some i \<Rightarrow>
          (let existing = conds ! i;
               e1 = (if cc_Status existing \<noteq> cc_Status newC
                     then existing\<lparr>cc_Status := cc_Status newC, cc_LastTransitionTime := now\<rparr>
                     else existing)
           in conds[i := e1\<lparr>cc_Reason := cc_Reason newC, cc_Message := cc_Message newC\<rparr>]))"

text \<open>
  \<open>ResetProgressingTime\<close>: \<open>now1\<close> is the instant of its own \<open>metav1.Now()\<close>, \<open>now2\<close> the one read by
  \<open>SetOperatorStatusCondition\<close>. When the condition is found, \<open>prog\<close> points into the slice, so
  the assignment to \<open>prog.LastTransitionTime\<close> changes the slice before the call.
\<close>

definition ResetProgressingTime ::
  "Time \<Rightarrow> Time \<Rightarrow> ClusterOperatorStatusCondition list \<Rightarrow> ClusterOperatorStatusCondition list" where
  "ResetProgressingTime now1 now2 conds =
     (case FindOperatorStatusCondition conds OperatorProgressing of
        None \<Rightarrow>
          (let prog = \<lparr>cc_Type = OperatorProgressing, cc_Status = ConditionFalse,
                       cc_LastTransitionTime = now1, cc_Reason = '''', cc_Message = ''''\<rparr>
           in SetOperatorStatusCondition now2 prog conds)
      | Some i \<Rightarrow>
          (let conds' = conds[i := (conds ! i)\<lparr>cc_LastTransitionTime := now1\<rparr>]
           in SetOperatorStatusCondition now2 (conds' ! i) conds'))"

section \<open>Merging metadata\<close>

definition setStringIfSet :: "bool \<Rightarrow> string \<Rightarrow> string \<Rightarrow> bool \<times> string" where
  "setStringIfSet modified existing required =
     (if length required = 0 then (modified, existing)
      else if required \<noteq> existing then (True, required)
      else (modified, existing))"

text \<open>
  The loop of \<open>mergeMap\<close>. Go iterates over a map in no fixed order, so the loop takes the
  entries in the order of one iteration; \<open>mergeMap_loop_spec\<close> gives its result in terms of
  the map only, so every order has the same result.
\<close>

fun mergeMap_loop :: "bool \<Rightarrow> strmap \<Rightarrow> (string \<times> string) list \<Rightarrow> bool \<times> strmap" where
  "mergeMap_loop modified existing [] = (modified, existing)"
| "mergeMap_loop modified existing ((k, v) # entries) =
     (if fmlookup existing k \<noteq> Some v
      then mergeMap_loop True (fmupd k v existing) entries
      else mergeMap_loop modified existing entries)"

definition mergeMap :: "bool \<Rightarrow> strmap option \<Rightarrow> strmap option \<Rightarrow> bool \<times> strmap option" where
  "mergeMap modified existing required =
     (if existing = None \<and> required = None then (modified, existing)
      else (case mergeMap_loop modified (nilmap existing)
                   (sorted_list_of_fmap (nilmap required)) of
              (m, e) \<Rightarrow> (m, Some e)))"

fun mergeOwnerRef :: "bool \<Rightarrow> OwnerReference list \<Rightarrow> OwnerReference \<Rightarrow> bool \<times> OwnerReference list" where
  "mergeOwnerRef modified [] r = (True, [r])"
| "mergeOwnerRef modified (e # es) r =
     (if or_UID r = or_UID e
      then if e \<noteq> r then (True, r # es) else (modified, e # es)
      else (case mergeOwnerRef modified es r of (m, es') \<Rightarrow> (m, e # es')))"

fun mergeOwnerRefs :: "bool \<Rightarrow> OwnerReference list \<Rightarrow> OwnerReference list \<Rightarrow> bool \<times> OwnerReference list" where
  "mergeOwnerRefs modified existing [] = (modified, existing)"
| "mergeOwnerRefs modified existing (r # required) =
     (case mergeOwnerRef modified existing r of (m, e) \<Rightarrow> mergeOwnerRefs m e required)"

definition EnsureObjectMeta :: "bool \<Rightarrow> ObjectMeta \<Rightarrow> ObjectMeta \<Rightarrow> bool \<times> ObjectMeta" where
  "EnsureObjectMeta modified existing required =
     (let (m1, ns) = setStringIfSet modified (om_Namespace existing) (om_Namespace required);
          (m2, n) = setStringIfSet m1 (om_Name existing) (om_Name required);
          (m3, ls) = mergeMap m2 (om_Labels existing) (om_Labels required);
          (m4, as) = mergeMap m3 (om_Annotations existing) (om_Annotations required);
          (m5, rs) = mergeOwnerRefs m4 (om_OwnerReferences existing) (om_OwnerReferences required)
      in (m5, existing\<lparr>om_Namespace := ns, om_Name := n, om_Labels := ls, om_Annotations := as,
                       om_OwnerReferences := rs\<rparr>))"

section \<open>Merging the status\<close>

text \<open>
  The private \<open>ensureClusterOperatorStatus\<close>; the versions are compared up to nil.
\<close>

definition ensureClusterOperatorStatus_fields ::
  "bool \<Rightarrow> ClusterOperatorStatus \<Rightarrow> ClusterOperatorStatus \<Rightarrow> bool \<times> ClusterOperatorStatus" where
  "ensureClusterOperatorStatus_fields modified existing required =
     (let (m1, e1) = (if cos_Conditions existing \<noteq> cos_Conditions required
                      then (True, existing\<lparr>cos_Conditions := cos_Conditions required\<rparr>)
                      else (modified, existing));
          (m2, e2) = (if nilslice (cos_Versions e1) \<noteq> nilslice (cos_Versions required)
                      then (True, e1\<lparr>cos_Versions := cos_Versions required\<rparr>) else (m1, e1));
          (m3, e3) = (if cos_ExtensionRaw e2 \<noteq> cos_ExtensionRaw required
                      then (True, e2\<lparr>cos_ExtensionRaw := cos_ExtensionRaw required\<rparr>) else (m2, e2));
          (m4, e4) = (if cos_ExtensionObject e3 \<noteq> cos_ExtensionObject required
                      then (True, e3\<lparr>cos_ExtensionObject := cos_ExtensionObject required\<rparr>)
                      else (m3, e3));
          (m5, e5) = (if cos_RelatedObjects e4 \<noteq> cos_RelatedObjects required
                      then (True, e4\<lparr>cos_RelatedObjects := cos_RelatedObjects required\<rparr>)
                      else (m4, e4))
      in (m5, e5))"

definition EnsureClusterOperatorStatus ::
  "bool \<Rightarrow> ClusterOperator \<Rightarrow> ClusterOperator \<Rightarrow> bool \<times> ClusterOperator" where
  "EnsureClusterOperatorStatus modified existing required =
     (let (m1, meta) = EnsureObjectMeta modified (co_Meta existing) (co_Meta required);
          (m2, status) = ensureClusterOperatorStatus_fields m1 (co_Status existing) (co_Status required)
      in (m2, existing\<lparr>co_Meta := meta, co_Status := status\<rparr>))"

section \<open>Facts about conditions\<close>

lemma Find_Some_iff:
  "FindOperatorStatusCondition cs t = Some i \<longleftrightarrow>
     i < length cs \<and> cc_Type (cs ! i) = t \<and> (\<forall>j < i. cc_Type (cs ! j) \<noteq> t)"
proof (induction cs t arbitrary: i rule: FindOperatorStatusCondition.induct)
  case (1 t)
  then show ?case by simp
next
  case (2 c cs t)
  then show ?case by (cases i) (auto simp: All_less_Suc2)
qed

lemma Find_None_iff:
  "FindOperatorStatusCondition cs t = None \<longleftrightarrow> (\<forall>c \<in> set cs. cc_Type c \<noteq> t)"
  by (induction cs t rule: FindOperatorStatusCondition.induct) auto

lemma Find_list_update_same:
  "FindOperatorStatusCondition cs t = Some i \<Longrightarrow> cc_Type c = t \<Longrightarrow>
     FindOperatorStatusCondition (cs[i := c]) t = Some i"
  by (auto simp: Find_Some_iff)

lemma SetOperatorStatusCondition_same:
  assumes "FindOperatorStatusCondition conds (cc_Type c) = Some i" and "conds ! i = c"
  shows "SetOperatorStatusCondition now c conds = conds"
proof -
  have "conds[i := c] = conds" using assms(2) by (metis list_update_id)
  with assms show ?thesis by (simp add: SetOperatorStatusCondition_def)
qed

lemma ResetProgressingTime_found:
  assumes "FindOperatorStatusCondition conds OperatorProgressing = Some i"
  shows "ResetProgressingTime now1 now2 conds = conds[i := (conds ! i)\<lparr>cc_LastTransitionTime := now1\<rparr>]"
proof -
  let ?c = "(conds ! i)\<lparr>cc_LastTransitionTime := now1\<rparr>"
  have i: "i < length conds" "cc_Type (conds ! i) = OperatorProgressing"
    using assms by (auto simp: Find_Some_iff)
  have "FindOperatorStatusCondition (conds[i := ?c]) OperatorProgressing = Some i"
    using assms i by (intro Find_list_update_same) simp_all
  then have "SetOperatorStatusCondition now2 ?c (conds[i := ?c]) = conds[i := ?c]"
    using i by (intro SetOperatorStatusCondition_same [where i = i]) simp_all
  then show ?thesis using assms i by (simp add: ResetProgressingTime_def)
qed

text \<open>
  \<open>ResetProgressingTime\<close> changes nothing but the transition time of the first Progressing
  condition, which becomes the current time; when there is none, a false Progressing
  condition with the current time is added at the end.
\<close>

theorem ResetProgressingTime_correct:
  "ResetProgressingTime now1 now2 conds =
     (case FindOperatorStatusCondition conds OperatorProgressing of
        Some i \<Rightarrow> conds[i := (conds ! i)\<lparr>cc_LastTransitionTime := now1\<rparr>]
      | None \<Rightarrow> conds @ [\<lparr>cc_Type = OperatorProgressing, cc_Status = ConditionFalse,
                  cc_LastTransitionTime = now2, cc_Reason = '''', cc_Message = ''''\<rparr>])"
  by (cases "FindOperatorStatusCondition conds OperatorProgressing")
    (simp_all add: ResetProgressingTime_found, simp add: ResetProgressingTime_def SetOperatorStatusCondition_def)

section \<open>Facts about merging\<close>

lemma mergeMap_loop_spec:
  "distinct (map fst xs) \<Longrightarrow> mergeMap_loop modified e xs =
     (modified \<or> (\<exists>(k, v) \<in> set xs. fmlookup e k \<noteq> Some v), e ++\<^sub>f fmap_of_list xs)"
proof (induction modified e xs rule: mergeMap_loop.induct)
  case (1 modified e)
  then show ?case by simp
next
  case (2 modified e k v xs)
  then have k: "k \<notin> fst ` set xs" and xs: "distinct (map fst xs)" by auto
  have eq: "e ++\<^sub>f fmap_of_list ((k, v) # xs) = fmupd k v (e ++\<^sub>f fmap_of_list xs)" by simp
  have upd: "fmupd k v e ++\<^sub>f fmap_of_list xs = fmupd k v (e ++\<^sub>f fmap_of_list xs)"
    by (rule fmap_ext) (use k in \<open>auto simp: fset_of_list.rep_eq\<close>)
  have same: "(\<exists>(k', v') \<in> set xs. fmlookup (fmupd k v e) k' \<noteq> Some v') \<longleftrightarrow>
      (\<exists>(k', v') \<in> set xs. fmlookup e k' \<noteq> Some v')"
    using k by (intro bex_cong) (auto simp: image_iff)
  show ?case
  proof (cases "fmlookup e k = Some v")
    case True
    then have "fmupd k v (e ++\<^sub>f fmap_of_list xs) = e ++\<^sub>f fmap_of_list xs"
      using k by (intro fmupd_absorb) (simp add: fset_of_list.rep_eq)
    with True "2.IH"(2) xs eq show ?thesis by auto
  next
    case False
    with "2.IH"(1) xs eq upd show ?thesis by auto
  qed
qed

lemma sorted_list_of_fmap_enum:
  fixes m :: "('a :: linorder, 'b) fmap"
  shows "distinct (map fst (sorted_list_of_fmap m))" "fmap_of_list (sorted_list_of_fmap m) = m"
proof -
  show "distinct (map fst (sorted_list_of_fmap m))"
    by (simp add: sorted_list_of_fmap_def comp_def sorted_list_of_fset.rep_eq)
  show "fmap_of_list (sorted_list_of_fmap m) = m"
    by (rule fmap_ext) (simp add: fmlookup_of_list)
qed

lemma mergeMap_spec:
  "mergeMap modified e r =
     (modified \<or> (\<exists>k v. fmlookup (nilmap r) k = Some v \<and> fmlookup (nilmap e) k \<noteq> Some v),
      if e = None \<and> r = None then None else Some (nilmap e ++\<^sub>f nilmap r))"
proof -
  let ?xs = "sorted_list_of_fmap (nilmap r)"
  have "(\<exists>(k, v) \<in> set ?xs. fmlookup (nilmap e) k \<noteq> Some v) \<longleftrightarrow>
      (\<exists>k v. fmlookup (nilmap r) k = Some v \<and> fmlookup (nilmap e) k \<noteq> Some v)"
    using map_of_sorted_list [of "nilmap r"] sorted_list_of_fmap_enum(1) [of "nilmap r"]
    by (metis (mono_tags, lifting) case_prodE case_prodI map_of_eq_Some_iff)
  then show ?thesis
    by (auto simp: mergeMap_def mergeMap_loop_spec sorted_list_of_fmap_enum)
qed

text \<open>
  The order in which Go iterates over the required map does not matter: for every
  enumeration of its entries, the merge loop gives the existing map overridden by the required one,
  and sets the flag exactly when some required entry was missing or different.
\<close>

theorem mergeMap_order_independent:
  assumes "distinct (map fst entries)" and "fmap_of_list entries = required"
  shows "mergeMap_loop modified existing entries =
     (modified \<or> (\<exists>k v. fmlookup required k = Some v \<and> fmlookup existing k \<noteq> Some v),
      existing ++\<^sub>f required)"
proof -
  have "(\<exists>(k, v) \<in> set entries. fmlookup existing k \<noteq> Some v) \<longleftrightarrow>
      (\<exists>k v. fmlookup required k = Some v \<and> fmlookup existing k \<noteq> Some v)"
    unfolding assms(2) [symmetric] fmlookup_of_list map_of_eq_Some_iff [OF assms(1)] by fast
  then show ?thesis using assms by (simp add: mergeMap_loop_spec)
qed

theorem mergeMap_order_independent_witness:
  "mergeMap_loop False (fmap_of_list [(''a'', ''1'')]) [(''b'', ''2''), (''a'', ''3'')] =
     (True, fmap_of_list [(''a'', ''3''), (''b'', ''2'')])"
proof -
  let ?e = "fmap_of_list [(''a'', ''1'')] :: strmap"
  let ?xs = "[(''b'', ''2''), (''a'', ''3'')]"
  have "distinct (map fst ?xs)" by simp
  from mergeMap_order_independent [OF this refl, of False ?e]
  have "snd (mergeMap_loop False ?e ?xs) = ?e ++\<^sub>f fmap_of_list ?xs" by simp
  moreover have "fst (mergeMap_loop False ?e ?xs)" by simp
  moreover have "?e ++\<^sub>f fmap_of_list ?xs = fmap_of_list [(''a'', ''3''), (''b'', ''2'')]" by code_simp
  ultimately show ?thesis by (metis (full_types) prod.collapse)
qed

subsection \<open>Owner references\<close>

abbreviation uids :: "OwnerReference list \<Rightarrow> string set" where
  "uids rs \<equiv> or_UID ` set rs"

lemma mergeOwnerRef_spec:
  "distinct (map or_UID es) \<Longrightarrow> mergeOwnerRef modified es r =
     (modified \<or> r \<notin> set es,
      if or_UID r \<in> uids es then map (\<lambda>e. if or_UID e = or_UID r then r else e) es else es @ [r])"
proof (induction modified es r rule: mergeOwnerRef.induct)
  case (1 modified r)
  then show ?case by simp
next
  case (2 modified e es r)
  have tail: "map (\<lambda>e. if or_UID e = or_UID r then r else e) es = es" if "or_UID r \<notin> uids es"
    using that by (intro map_idI) (metis image_eqI)
  show ?case
  proof (cases "or_UID r = or_UID e")
    case True
    then have "or_UID r \<notin> uids es" using "2.prems" by auto
    moreover from this have "r \<notin> set es" by blast
    ultimately show ?thesis using True tail by auto
  next
    case False
    with "2.IH" "2.prems" show ?thesis by auto
  qed
qed

lemma mergeOwnerRef_props:
  assumes d: "distinct (map or_UID es)" and eq: "mergeOwnerRef m es r = (m', es')"
  shows "distinct (map or_UID es')" and "m' \<longleftrightarrow> m \<or> r \<notin> set es" and "r \<in> set es'"
    and "\<And>x. or_UID x \<noteq> or_UID r \<Longrightarrow> x \<in> set es' \<longleftrightarrow> x \<in> set es"
    and "r \<in> set es \<Longrightarrow> es' = es"
proof -
  have es': "es' = (if or_UID r \<in> uids es
      then map (\<lambda>e. if or_UID e = or_UID r then r else e) es else es @ [r])"
    and m': "m' \<longleftrightarrow> m \<or> r \<notin> set es"
    using eq by (simp_all add: mergeOwnerRef_spec [OF d])
  have "map or_UID (map (\<lambda>e. if or_UID e = or_UID r then r else e) es) = map or_UID es" by simp
  then show "distinct (map or_UID es')" using d unfolding es' by (auto simp del: map_map)
  show "m' \<longleftrightarrow> m \<or> r \<notin> set es" by (rule m')
  show "r \<in> set es'" unfolding es' by (auto simp: image_iff)
  show "x \<in> set es' \<longleftrightarrow> x \<in> set es" if "or_UID x \<noteq> or_UID r" for x
    using that unfolding es' by (auto simp: image_iff)
  show "es' = es" if "r \<in> set es"
    using that d unfolding es' by (auto intro!: map_idI simp: distinct_map inj_on_def)
qed

lemma mergeOwnerRefs_props:
  assumes "distinct (map or_UID es)" and "distinct (map or_UID rs)"
    and "mergeOwnerRefs m es rs = (m', es')"
  shows "distinct (map or_UID es') \<and> (m' \<longleftrightarrow> m \<or> \<not> set rs \<subseteq> set es) \<and> set rs \<subseteq> set es' \<and>
     (\<forall>x. or_UID x \<notin> uids rs \<longrightarrow> (x \<in> set es' \<longleftrightarrow> x \<in> set es)) \<and>
     (set rs \<subseteq> set es \<longrightarrow> es' = es)"
  using assms
proof (induction rs arbitrary: m es)
  case Nil
  then show ?case by simp
next
  case (Cons r rs)
  obtain m1 es1 where step: "mergeOwnerRef m es r = (m1, es1)" by fastforce
  note one = mergeOwnerRef_props [OF Cons.prems(1) step]
  have rest: "mergeOwnerRefs m1 es1 rs = (m', es')" using Cons.prems(3) step by simp
  have uid: "or_UID r \<notin> uids rs" and d: "distinct (map or_UID rs)" using Cons.prems(2) by auto
  note IH = Cons.IH [OF one(1) d rest]
  have keep: "x \<in> set es1 \<longleftrightarrow> x \<in> set es" if "x \<in> set rs" for x
    using one(4) [of x] uid that by (metis image_eqI)
  have "r \<in> set es'" using IH one(3) uid by blast
  moreover have "m' \<longleftrightarrow> m \<or> \<not> set (r # rs) \<subseteq> set es"
    using IH one(2) keep by auto
  moreover have "set (r # rs) \<subseteq> set es \<longrightarrow> es' = es"
    using IH one(5) keep by (metis insert_subset list.simps(15))
  moreover have "x \<in> set es' \<longleftrightarrow> x \<in> set es" if "or_UID x \<notin> uids (r # rs)" for x
    using that IH one(4) [of x] by auto
  ultimately show ?case using IH by auto
qed

lemma EnsureObjectMeta_subsumed:
  assumes "om_Namespace r = '''' \<or> om_Namespace r = om_Namespace e"
    and "om_Name r = '''' \<or> om_Name r = om_Name e"
    and "\<And>k v. fmlookup (nilmap (om_Labels r)) k = Some v \<Longrightarrow> fmlookup (nilmap (om_Labels e)) k = Some v"
    and "\<And>k v. fmlookup (nilmap (om_Annotations r)) k = Some v \<Longrightarrow>
           fmlookup (nilmap (om_Annotations e)) k = Some v"
    and "om_Labels e = None \<longrightarrow> om_Labels r = None"
    and "om_Annotations e = None \<longrightarrow> om_Annotations r = None"
    and "distinct (map or_UID (om_OwnerReferences e))"
    and "distinct (map or_UID (om_OwnerReferences r))"
    and "set (om_OwnerReferences r) \<subseteq> set (om_OwnerReferences e)"
  shows "EnsureObjectMeta m e r = (m, e)"
proof -
  have add: "nilmap a ++\<^sub>f nilmap b = nilmap a"
    if "\<And>k v. fmlookup (nilmap b) k = Some v \<Longrightarrow> fmlookup (nilmap a) k = Some v"
    for a b :: "strmap option"
    by (rule fmap_ext) (use that in \<open>auto simp: fmlookup_dom_iff\<close>)
  have maps: "mergeMap m a b = (m, a)"
    if "\<And>k v. fmlookup (nilmap b) k = Some v \<Longrightarrow> fmlookup (nilmap a) k = Some v"
      and "a = None \<longrightarrow> b = None" for a b m
    using that add [OF that(1)] by (cases a) (auto simp: mergeMap_spec)
  obtain m' es where refs: "mergeOwnerRefs m (om_OwnerReferences e) (om_OwnerReferences r) = (m', es)"
    by fastforce
  from mergeOwnerRefs_props [OF assms(7,8) refs] assms(9)
  have "mergeOwnerRefs m (om_OwnerReferences e) (om_OwnerReferences r) = (m, om_OwnerReferences e)"
    using refs by auto
  with assms(1-6) show ?thesis
    by (auto simp: EnsureObjectMeta_def setStringIfSet_def maps Let_def)
qed

text \<open>
  \<open>EnsureObjectMeta\<close> is idempotent: when neither side names an owner twice, merging the
  required metadata a second time changes nothing and reports no modification; so the flag
  can be used to decide whether an update has to be sent.
\<close>

theorem EnsureObjectMeta_idempotent:
  assumes "distinct (map or_UID (om_OwnerReferences e))"
    and "distinct (map or_UID (om_OwnerReferences r))"
    and "EnsureObjectMeta m e r = (m', e')"
  shows "EnsureObjectMeta False e' r = (False, e')"
proof -
  define m5 where "m5 = (\<lambda>m4. fst (mergeOwnerRefs m4 (om_OwnerReferences e) (om_OwnerReferences r)))"
  define rs where "rs = (\<lambda>m4. snd (mergeOwnerRefs m4 (om_OwnerReferences e) (om_OwnerReferences r)))"
  have refs: "mergeOwnerRefs m4 (om_OwnerReferences e) (om_OwnerReferences r) = (m5 m4, rs m4)" for m4
    by (simp add: m5_def rs_def)
  obtain m4 where e': "e' = e
      \<lparr>om_Namespace := (if om_Namespace r = '''' then om_Namespace e else om_Namespace r),
       om_Name := (if om_Name r = '''' then om_Name e else om_Name r),
       om_Labels := (if om_Labels e = None \<and> om_Labels r = None then None
                     else Some (nilmap (om_Labels e) ++\<^sub>f nilmap (om_Labels r))),
       om_Annotations := (if om_Annotations e = None \<and> om_Annotations r = None then None
                     else Some (nilmap (om_Annotations e) ++\<^sub>f nilmap (om_Annotations r))),
       om_OwnerReferences := rs m4\<rparr>"
    using assms(3)
    by (auto simp: EnsureObjectMeta_def setStringIfSet_def mergeMap_spec refs Let_def
        split: if_splits)
  note props = mergeOwnerRefs_props [OF assms(1,2) refs [of m4]]
  show ?thesis
    by (rule EnsureObjectMeta_subsumed) (use props assms(2) in \<open>auto simp: e' fmlookup_dom_iff\<close>)
qed

theorem EnsureObjectMeta_idempotent_witness:
  "EnsureObjectMeta False
     (snd (EnsureObjectMeta False zero_ObjectMeta (zero_ObjectMeta\<lparr>om_Name := ''co'',
        om_Labels := Some (fmap_of_list [(''a'', ''1'')])\<rparr>)))
     (zero_ObjectMeta\<lparr>om_Name := ''co'', om_Labels := Some (fmap_of_list [(''a'', ''1'')])\<rparr>)
   = (False, zero_ObjectMeta\<lparr>om_Name := ''co'', om_Labels := Some (fmap_of_list [(''a'', ''1'')])\<rparr>)"
proof -
  let ?r = "zero_ObjectMeta\<lparr>om_Name := ''co'', om_Labels := Some (fmap_of_list [(''a'', ''1'')])\<rparr>"
  have step: "EnsureObjectMeta False zero_ObjectMeta ?r = (True, ?r)" by code_simp
  have "distinct (map or_UID (om_OwnerReferences zero_ObjectMeta))"
    and "distinct (map or_UID (om_OwnerReferences ?r))" by (simp_all add: zero_ObjectMeta_def)
  from EnsureObjectMeta_idempotent [OF this step] step show ?thesis by simp
qed

section \<open>Facts about the status\<close>

lemma EnsureClusterOperatorStatus_same:
  assumes "co_Meta required = co_Meta existing"
    and "distinct (map or_UID (om_OwnerReferences (co_Meta existing)))"
    and "cos_Conditions (co_Status required) = cos_Conditions (co_Status existing)"
    and "nilslice (cos_Versions (co_Status required)) = nilslice (cos_Versions (co_Status existing))"
    and "cos_RelatedObjects (co_Status required) = cos_RelatedObjects (co_Status existing)"
    and "cos_ExtensionRaw (co_Status required) = cos_ExtensionRaw (co_Status existing)"
    and "cos_ExtensionObject (co_Status required) = cos_ExtensionObject (co_Status existing)"
  shows "EnsureClusterOperatorStatus False existing required = (False, existing)"
proof -
  have "EnsureObjectMeta False (co_Meta existing) (co_Meta required) = (False, co_Meta existing)"
    by (rule EnsureObjectMeta_subsumed) (simp_all add: assms)
  then show ?thesis
    using assms(3-) by (simp add: EnsureClusterOperatorStatus_def ensureClusterOperatorStatus_fields_def)
qed

lemma EnsureClusterOperatorStatus_same_meta:
  assumes "co_Meta required = co_Meta existing"
    and "distinct (map or_UID (om_OwnerReferences (co_Meta existing)))"
  shows "case EnsureClusterOperatorStatus modified existing required of (modified', co) \<Rightarrow>
     co_Meta co = co_Meta existing \<and>
     (co_Status co)\<lparr>cos_Versions := Some (nilslice (cos_Versions (co_Status co)))\<rparr> =
       (co_Status required)\<lparr>cos_Versions := Some (nilslice (cos_Versions (co_Status required)))\<rparr> \<and>
     (modified' \<longleftrightarrow> modified \<or> co_Status co \<noteq> co_Status existing)"
proof -
  have "EnsureObjectMeta m (co_Meta existing) (co_Meta required) = (m, co_Meta existing)" for m
    by (rule EnsureObjectMeta_subsumed) (simp_all add: assms)
  then show ?thesis
    by (cases "co_Status existing"; cases "co_Status required")
      (auto simp: EnsureClusterOperatorStatus_def ensureClusterOperatorStatus_fields_def Let_def)
qed

text \<open>
  C40: \<open>EnsureClusterOperatorStatus\<close> on two cluster operators with the same metadata: the
  status becomes the required one (up to a nil list of versions), the metadata stays, and the
  flag is raised exactly when some part of the status differed.
\<close>

theorem EnsureClusterOperatorStatus_correct:
  assumes "co_Meta required = co_Meta existing"
    and "distinct (map or_UID (om_OwnerReferences (co_Meta existing)))"
  shows "case EnsureClusterOperatorStatus modified existing required of (modified', co) \<Rightarrow>
     co_Meta co = co_Meta existing \<and>
     (co_Status co)\<lparr>cos_Versions := Some (nilslice (cos_Versions (co_Status co)))\<rparr> =
       (co_Status required)\<lparr>cos_Versions := Some (nilslice (cos_Versions (co_Status required)))\<rparr> \<and>
     (modified' \<longleftrightarrow> modified \<or> co_Status co \<noteq> co_Status existing)"
  by (rule EnsureClusterOperatorStatus_same_meta [OF assms])

theorem EnsureClusterOperatorStatus_correct_witness:
  "case EnsureClusterOperatorStatus False
      \<lparr>co_TypeMeta = zero_TypeMeta, co_Meta = zero_ObjectMeta, co_Status = zero_ClusterOperatorStatus\<rparr>
      \<lparr>co_TypeMeta = zero_TypeMeta, co_Meta = zero_ObjectMeta,
       co_Status = zero_ClusterOperatorStatus\<lparr>cos_Versions := Some [\<lparr>ov_Name = ''operator'', ov_Version = ''1''\<rparr>]\<rparr>\<rparr> of
     (modified', co) \<Rightarrow> modified' \<and>
       nilslice (cos_Versions (co_Status co)) = [\<lparr>ov_Name = ''operator'', ov_Version = ''1''\<rparr>]"
proof -
  let ?e = "\<lparr>co_TypeMeta = zero_TypeMeta, co_Meta = zero_ObjectMeta,
       co_Status = zero_ClusterOperatorStatus\<rparr>"
  let ?r = "\<lparr>co_TypeMeta = zero_TypeMeta, co_Meta = zero_ObjectMeta,
       co_Status = zero_ClusterOperatorStatus\<lparr>cos_Versions := Some [\<lparr>ov_Name = ''operator'', ov_Version = ''1''\<rparr>]\<rparr>\<rparr>"
  have h: "co_Meta ?r = co_Meta ?e" "distinct (map or_UID (om_OwnerReferences (co_Meta ?e)))"
    by (simp_all add: zero_ObjectMeta_def)
  have "EnsureClusterOperatorStatus False ?e ?r = (True, ?r)" by code_simp
  with EnsureClusterOperatorStatus_correct [OF h, of False] show ?thesis by simp
qed

end
