(* ===== verification/Status_Reporter.thy ===== *)
theory Status_Reporter
  imports Resource_Merge Fake_Client
begin

text \<open>
  \<open>internal/operator/status.go\<close>: the reporter that tells the cluster version operator, through a
  ClusterOperator object, whether the operand is available, progressing or degraded.

  The reporter has two clients and reads the clock. All three act on one unspecified world: the
  client of theory \<open>Kube_Client\<close>, the client of the ClusterOperator objects (\<open>osconfig.Interface\<close>, a
  record of functions) and the clock (a function that reads it). \<open>Start\<close> polls, so it may run
  forever: it is a partial function into \<open>option\<close>. Log lines are left out.
\<close>

section \<open>The reporter\<close>

definition OperatorName :: string where "OperatorName = ''vertical-pod-autoscaler''"
definition ReasonEmpty :: string where "ReasonEmpty = ''''"
definition ReasonMissingDependency :: string where "ReasonMissingDependency = ''MissingDependency''"
definition ReasonSyncing :: string where "ReasonSyncing = ''SyncingResources''"
definition ReasonCheckAutoscaler :: string where "ReasonCheckAutoscaler = ''UnableToCheckAutoscalers''"

record 'w config_client =
  cc_Get :: "string \<Rightarrow> 'w \<Rightarrow> (go_error + ClusterOperator) \<times> 'w"
  cc_Create :: "ClusterOperator \<Rightarrow> 'w \<Rightarrow> (go_error + ClusterOperator) \<times> 'w"
  cc_UpdateStatus :: "ClusterOperator \<Rightarrow> 'w \<Rightarrow> (go_error + ClusterOperator) \<times> 'w"

record StatusReporterConfig =
  src_Name :: string
  src_Namespace :: string
  src_ReleaseVersion :: string
  src_RelatedObjects :: "ConfigObjectReference list"

record 'w StatusReporter =
  sr_client :: "'w client"
  sr_configClient :: "'w config_client"
  sr_config :: StatusReporterConfig
  sr_now :: "'w \<Rightarrow> Time \<times> 'w"

text \<open>\<open>NewStatusReporter\<close>: the manager gives the client, \<open>osconfig.NewForConfig\<close> the other client or an error.\<close>

definition NewStatusReporter ::
  "'w client \<Rightarrow> go_error + 'w config_client \<Rightarrow> ('w \<Rightarrow> Time \<times> 'w) \<Rightarrow> StatusReporterConfig \<Rightarrow> go_error + 'w StatusReporter" where
  "NewStatusReporter client newForConfig clock cfg =
     (case newForConfig of
        Inl err \<Rightarrow> Inl err
      | Inr configClient \<Rightarrow>
          Inr \<lparr>sr_client = client, sr_configClient = configClient, sr_config = cfg, sr_now = clock\<rparr>)"

definition SetReleaseVersion :: "string \<Rightarrow> 'w StatusReporter \<Rightarrow> 'w StatusReporter" where
  "SetReleaseVersion version r = r\<lparr>sr_config := (sr_config r)\<lparr>src_ReleaseVersion := version\<rparr>\<rparr>"

definition SetRelatedObjects :: "ConfigObjectReference list \<Rightarrow> 'w StatusReporter \<Rightarrow> 'w StatusReporter" where
  "SetRelatedObjects objs r = r\<lparr>sr_config := (sr_config r)\<lparr>src_RelatedObjects := objs\<rparr>\<rparr>"

definition AddRelatedObjects :: "ConfigObjectReference list \<Rightarrow> 'w StatusReporter \<Rightarrow> 'w StatusReporter" where
  "AddRelatedObjects objs r =
     r\<lparr>sr_config := (sr_config r)\<lparr>src_RelatedObjects := src_RelatedObjects (sr_config r) @ objs\<rparr>\<rparr>"

section \<open>The ClusterOperator object\<close>

definition GetClusterOperator :: "'w StatusReporter \<Rightarrow> ('w, go_error + ClusterOperator) state" where
  "GetClusterOperator r = State (cc_Get (sr_configClient r) OperatorName)"

definition new_operator :: ClusterOperator where
  "new_operator = \<lparr>co_TypeMeta = zero_TypeMeta, co_Meta = zero_ObjectMeta\<lparr>om_Name := OperatorName\<rparr>,
     co_Status = zero_ClusterOperatorStatus\<rparr>"

definition GetOrCreateClusterOperator :: "'w StatusReporter \<Rightarrow> ('w, go_error + ClusterOperator) state" where
  "GetOrCreateClusterOperator r =
     do { existing \<leftarrow> GetClusterOperator r;
          case existing of
            Inl err \<Rightarrow>
              if IsNotFound err then State (cc_Create (sr_configClient r) new_operator)
              else State_Monad.return (Inl err)
          | Inr co \<Rightarrow> State_Monad.return (Inr co) }"

text \<open>One round of the loop over the conditions, with the instant it reads.\<close>

definition stamped ::
  "Time \<Rightarrow> ClusterOperatorStatusCondition list \<Rightarrow> ClusterOperatorStatusCondition \<Rightarrow> ClusterOperatorStatusCondition" where
  "stamped timestamp existing cond =
     (let c = map_option ((!) existing) (FindOperatorStatusCondition existing (cc_Type cond));
          cond = (case c of Some c' \<Rightarrow>
                    if cc_Status c' \<noteq> cc_Status cond then cond\<lparr>cc_LastTransitionTime := timestamp\<rparr> else cond
                  | None \<Rightarrow> cond);
          cond = (case c of Some c' \<Rightarrow>
                    if cc_Status c' = cc_Status cond
                    then cond\<lparr>cc_LastTransitionTime := cc_LastTransitionTime c'\<rparr> else cond
                  | None \<Rightarrow> cond)
      in if cc_LastTransitionTime cond = 0 then cond\<lparr>cc_LastTransitionTime := timestamp\<rparr> else cond)"

fun stamp_conditions ::
  "'w StatusReporter \<Rightarrow> ClusterOperatorStatusCondition list \<Rightarrow> ClusterOperatorStatusCondition list \<Rightarrow>
     ('w, ClusterOperatorStatusCondition list) state" where
  "stamp_conditions r existing [] = State_Monad.return []"
| "stamp_conditions r existing (cond # conds) =
     do { timestamp \<leftarrow> State (sr_now r);
          rest \<leftarrow> stamp_conditions r existing conds;
          State_Monad.return (stamped timestamp existing cond # rest) }"

text \<open>
  \<open>ApplyStatus\<close>. The second instant of \<open>ResetProgressingTime\<close> is only used when there is no
  Progressing condition.
\<close>

definition ApplyStatus :: "'w StatusReporter \<Rightarrow> ClusterOperatorStatus \<Rightarrow> ('w, go_error option) state" where
  "ApplyStatus r status =
     do { got \<leftarrow> GetOrCreateClusterOperator r;
          case got of
            Inl err \<Rightarrow> State_Monad.return (Some err)
          | Inr co \<Rightarrow>
              do { let status = status\<lparr>cos_RelatedObjects := src_RelatedObjects (sr_config r)\<rparr>;
                   let status = (if cos_Versions status = None
                                 then status\<lparr>cos_Versions := cos_Versions (co_Status co)\<rparr> else status);
                   conds \<leftarrow> stamp_conditions r (cos_Conditions (co_Status co)) (cos_Conditions status);
                   conds \<leftarrow> (if nilslice (cos_Versions status) \<noteq> nilslice (cos_Versions (co_Status co))
                            then do { now1 \<leftarrow> State (sr_now r); now2 \<leftarrow> State (sr_now r);
                                      State_Monad.return (ResetProgressingTime now1 now2 conds) }
                            else State_Monad.return conds);
                   let requiredCO = co\<lparr>co_Status := status\<lparr>cos_Conditions := conds\<rparr>\<rparr>;
                   case EnsureClusterOperatorStatus False co requiredCO of
                     (modified, co) \<Rightarrow>
                       if modified
                       then do { upd \<leftarrow> State (cc_UpdateStatus (sr_configClient r) co);
                                 State_Monad.return (case upd of Inl err \<Rightarrow> Some err | Inr co' \<Rightarrow> None) }
                       else State_Monad.return None } }"

section \<open>The three statuses\<close>

definition mk_condition :: "string \<Rightarrow> string \<Rightarrow> string \<Rightarrow> string \<Rightarrow> ClusterOperatorStatusCondition" where
  "mk_condition type status reason message =
     \<lparr>cc_Type = type, cc_Status = status, cc_LastTransitionTime = 0, cc_Reason = reason, cc_Message = message\<rparr>"

definition available_status :: "string \<Rightarrow> string \<Rightarrow> string \<Rightarrow> ClusterOperatorStatus" where
  "available_status version reason message = zero_ClusterOperatorStatus\<lparr>cos_Conditions :=
     [mk_condition OperatorAvailable ConditionTrue reason message,
      mk_condition OperatorProgressing ConditionFalse '''' '''',
      mk_condition OperatorDegraded ConditionFalse '''' ''''],
     cos_Versions := Some [\<lparr>ov_Name = ''operator'', ov_Version = version\<rparr>]\<rparr>"

definition degraded_status :: "string \<Rightarrow> string \<Rightarrow> ClusterOperatorStatus" where
  "degraded_status reason message = zero_ClusterOperatorStatus\<lparr>cos_Conditions :=
     [mk_condition OperatorAvailable ConditionTrue '''' '''',
      mk_condition OperatorProgressing ConditionFalse '''' '''',
      mk_condition OperatorDegraded ConditionTrue reason message]\<rparr>"

definition progressing_status :: "string \<Rightarrow> string \<Rightarrow> ClusterOperatorStatus" where
  "progressing_status reason message = zero_ClusterOperatorStatus\<lparr>cos_Conditions :=
     [mk_condition OperatorAvailable ConditionTrue '''' '''',
      mk_condition OperatorProgressing ConditionTrue reason message,
      mk_condition OperatorDegraded ConditionFalse '''' '''']\<rparr>"

definition available :: "'w StatusReporter \<Rightarrow> string \<Rightarrow> string \<Rightarrow> ('w, go_error option) state" where
  "available r reason message =
     ApplyStatus r (available_status (src_ReleaseVersion (sr_config r)) reason message)"

definition degraded :: "'w StatusReporter \<Rightarrow> string \<Rightarrow> string \<Rightarrow> ('w, go_error option) state" where
  "degraded r reason message = ApplyStatus r (degraded_status reason message)"

definition progressing :: "'w StatusReporter \<Rightarrow> string \<Rightarrow> string \<Rightarrow> ('w, go_error option) state" where
  "progressing r reason message = ApplyStatus r (progressing_status reason message)"

section \<open>Checking and reporting\<close>

definition CheckVPARecommender :: "'w StatusReporter \<Rightarrow> ('w, go_error + bool) state" where
  "CheckVPARecommender r =
     do { gotVPA \<leftarrow> State (cl_Get (sr_client r) KVPA
            \<lparr>nn_Namespace = src_Namespace (sr_config r), nn_Name = src_Name (sr_config r)\<rparr>);
          case decoded as_vpa gotVPA of
            Inl err \<Rightarrow> State_Monad.return (if IsNotFound err then Inr True else Inl err)
          | Inr vpa \<Rightarrow>
              do { got \<leftarrow> State (cl_Get (sr_client r) KDeployment
                     \<lparr>nn_Namespace = src_Namespace (sr_config r),
                      nn_Name = ''vpa-recommender-'' @ src_Name (sr_config r)\<rparr>);
                   State_Monad.return
                     (case decoded as_deployment got of
                        Inl err \<Rightarrow> if IsNotFound err then Inr False else Inl err
                      | Inr deployment \<Rightarrow>
                          if \<not> ReleaseVersionMatches (dep_Meta deployment) (src_ReleaseVersion (sr_config r))
                          then Inr False
                          else if \<not> DeploymentUpdated deployment then Inr False
                          else Inr True) } }"

definition ReportStatus :: "'w StatusReporter \<Rightarrow> ('w, go_error + bool) state" where
  "ReportStatus r =
     do { res \<leftarrow> CheckVPARecommender r;
          case res of
            Inl err \<Rightarrow>
              do { e \<leftarrow> degraded r ReasonCheckAutoscaler (''error checking VPA controllers status: '' @ Error err);
                   State_Monad.return (case e of Some err' \<Rightarrow> Inl err' | None \<Rightarrow> Inr False) }
          | Inr ok \<Rightarrow>
              if \<not> ok
              then do { e \<leftarrow> progressing r ReasonSyncing (''updating to '' @ src_ReleaseVersion (sr_config r));
                        State_Monad.return (case e of
                          Some err' \<Rightarrow> Inl (PlainError (''failed to set progressing status: '' @ Error err'))
                        | None \<Rightarrow> Inr False) }
              else do { e \<leftarrow> available r ReasonEmpty (''at version '' @ src_ReleaseVersion (sr_config r));
                        State_Monad.return (case e of
                          Some err' \<Rightarrow> Inl (PlainError (''failed to set available status: '' @ Error err'))
                        | None \<Rightarrow> Inr True) } }"

text \<open>
  \<open>PollUntilContextCancel\<close> with \<open>immediate\<close> true. \<open>tick\<close> is the wait for the timer or the context,
  during which anything may happen in the world: it says whether the context is cancelled.
\<close>

partial_function (option) poll_loop ::
  "('w \<Rightarrow> bool \<times> 'w) \<Rightarrow> ('w \<Rightarrow> (go_error + bool) \<times> 'w) \<Rightarrow> go_error \<Rightarrow> 'w \<Rightarrow> (go_error option \<times> 'w) option" where
  "poll_loop tick condition ctxErr w =
     (case tick w of (cancelled, w1) \<Rightarrow>
        if cancelled then Some (Some ctxErr, w1)
        else (case condition w1 of (res, w2) \<Rightarrow>
                (case res of
                   Inl err \<Rightarrow> Some (Some err, w2)
                 | Inr ok \<Rightarrow> if ok then Some (None, w2) else poll_loop tick condition ctxErr w2)))"

definition PollUntilContextCancel ::
  "('w \<Rightarrow> bool \<times> 'w) \<Rightarrow> ('w \<Rightarrow> (go_error + bool) \<times> 'w) \<Rightarrow> go_error \<Rightarrow> 'w \<Rightarrow> (go_error option \<times> 'w) option" where
  "PollUntilContextCancel tick condition ctxErr w =
     (case condition w of (res, w1) \<Rightarrow>
        (case res of
           Inl err \<Rightarrow> Some (Some err, w1)
         | Inr ok \<Rightarrow> if ok then Some (None, w1) else poll_loop tick condition ctxErr w1))"

definition StatusReporter_Start ::
  "'w StatusReporter \<Rightarrow> ('w \<Rightarrow> bool \<times> 'w) \<Rightarrow> go_error \<Rightarrow> 'w \<Rightarrow> (go_error option \<times> 'w) option" where
  "StatusReporter_Start r tick ctxErr w = PollUntilContextCancel tick (run_state (ReportStatus r)) ctxErr w"

end
