(* ===== verification/Status_Props.thy ===== *)
theory Status_Props
  imports Status_Reporter
begin

text \<open>
  What the status reporter guarantees over any clients that satisfy the laws of \<open>reporter_api\<close>:
  the checked condition, the reported status and its transition times, that a repeated report
  writes nothing, and how polling ends.
\<close>

section \<open>The interface\<close>

text \<open>
  A stored status is the one that was sent, up to a nil list of versions; the server keeps
  instants at its own precision, \<open>trunc\<close>.
\<close>

definition status_stored :: "(Time \<Rightarrow> Time) \<Rightarrow> ClusterOperatorStatus \<Rightarrow> ClusterOperatorStatus \<Rightarrow> bool" where
  "status_stored trunc sent stored \<longleftrightarrow>
     cos_Conditions stored =
       map (\<lambda>c. c\<lparr>cc_LastTransitionTime := trunc (cc_LastTransitionTime c)\<rparr>) (cos_Conditions sent) \<and>
     nilslice (cos_Versions stored) = nilslice (cos_Versions sent) \<and>
     cos_RelatedObjects stored = cos_RelatedObjects sent \<and>
     cos_ExtensionRaw stored = cos_ExtensionRaw sent \<and> cos_ExtensionObject stored = cos_ExtensionObject sent"

text \<open>
  \<open>coview\<close> is the operator's ClusterOperator object, if it exists. Owner references are a list map
  with the UID as its key, so the UIDs are distinct.
\<close>

locale reporter_api = kube_api "sr_client r" view wf
  for r :: "'w StatusReporter" and view :: "'w \<Rightarrow> objkey \<Rightarrow> KObject option" and wf :: "'w \<Rightarrow> bool" +
  fixes coview :: "'w \<Rightarrow> ClusterOperator option" and trunc :: "Time \<Rightarrow> Time"
  assumes client_get_frame: "wf w \<Longrightarrow> cl_Get (sr_client r) k n w = (g, w') \<Longrightarrow> coview w' = coview w"
    and co_found: "wf w \<Longrightarrow> cc_Get (sr_configClient r) OperatorName w = (Inr co, w') \<Longrightarrow> coview w = Some co"
    and co_missing: "wf w \<Longrightarrow> cc_Get (sr_configClient r) OperatorName w = (Inl e, w') \<Longrightarrow> IsNotFound e \<Longrightarrow>
      coview w = None"
    and co_get_frame: "wf w \<Longrightarrow> cc_Get (sr_configClient r) OperatorName w = (h, w') \<Longrightarrow>
      wf w' \<and> view w' = view w \<and> coview w' = coview w"
    and co_created: "wf w \<Longrightarrow> cc_Create (sr_configClient r) new_operator w = (Inr co, w') \<Longrightarrow>
      coview w' = Some co \<and> co_Status co = zero_ClusterOperatorStatus"
    and co_create_frame: "wf w \<Longrightarrow> cc_Create (sr_configClient r) new_operator w = (h, w') \<Longrightarrow>
      wf w' \<and> view w' = view w"
    and co_updated: "wf w \<Longrightarrow> coview w = Some old \<Longrightarrow> co_Meta co = co_Meta old \<Longrightarrow>
      cc_UpdateStatus (sr_configClient r) co w = (Inr co', w') \<Longrightarrow>
      \<exists>stored. coview w' = Some stored \<and> status_stored trunc (co_Status co) (co_Status stored)"
    and co_update_frame: "wf w \<Longrightarrow> coview w = Some old \<Longrightarrow> co_Meta co = co_Meta old \<Longrightarrow>
      cc_UpdateStatus (sr_configClient r) co w = (h, w') \<Longrightarrow> wf w' \<and> view w' = view w"
    and co_stored: "wf w \<Longrightarrow> coview w = Some co \<Longrightarrow> distinct (map or_UID (om_OwnerReferences (co_Meta co))) \<and>
      (\<forall>c \<in> set (cos_Conditions (co_Status co)). trunc (cc_LastTransitionTime c) = cc_LastTransitionTime c)"
    and now_frame: "wf w \<Longrightarrow> sr_now r w = (t, w') \<Longrightarrow>
      wf w' \<and> view w' = view w \<and> coview w' = coview w \<and> 0 < t"
    and trunc_pos: "0 < t \<Longrightarrow> 0 < trunc t"

section \<open>Stamping the conditions\<close>

text \<open>A condition without its transition time.\<close>

definition timeless :: "ClusterOperatorStatusCondition \<Rightarrow> ClusterOperatorStatusCondition" where
  "timeless c = c\<lparr>cc_LastTransitionTime := 0\<rparr>"

lemma timeless_eqD:
  assumes "timeless c = timeless d"
  shows "cc_Type c = cc_Type d" "cc_Status c = cc_Status d" "cc_Reason c = cc_Reason d" "cc_Message c = cc_Message d"
    "d\<lparr>cc_LastTransitionTime := cc_LastTransitionTime c\<rparr> = c"
  using assms by (cases c; cases d; simp add: timeless_def)+

lemma timeless_upd [simp]: "timeless (c\<lparr>cc_LastTransitionTime := t\<rparr>) = timeless c"
  by (simp add: timeless_def)

lemma timeless_stamped [simp]: "timeless (stamped t existing c) = timeless c"
  by (simp add: stamped_def Let_def split: option.split)

lemma stamped_pos: "0 < t \<Longrightarrow> 0 < cc_LastTransitionTime (stamped t existing c)"
  by (auto simp: stamped_def Let_def split: option.split)

lemma stamped_kept:
  assumes "FindOperatorStatusCondition existing (cc_Type c) = Some i" and "cc_Status (existing ! i) = cc_Status c"
    and "cc_LastTransitionTime (existing ! i) \<noteq> 0"
  shows "cc_LastTransitionTime (stamped t existing c) = cc_LastTransitionTime (existing ! i)"
  using assms by (simp add: stamped_def)

lemma stamped_changed:
  assumes "FindOperatorStatusCondition existing (cc_Type c) = Some i" and "cc_Status (existing ! i) \<noteq> cc_Status c"
    and "0 < t"
  shows "cc_LastTransitionTime (stamped t existing c) = t"
  using assms by (simp add: stamped_def)

lemma ResetProgressingTime_timeless:
  assumes "FindOperatorStatusCondition conds OperatorProgressing \<noteq> None"
  shows "map timeless (ResetProgressingTime now1 now2 conds) = map timeless conds"
    and "\<And>i. i < length conds \<Longrightarrow> cc_Type (conds ! i) \<noteq> OperatorProgressing \<Longrightarrow>
      ResetProgressingTime now1 now2 conds ! i = conds ! i"
    and "0 < now1 \<Longrightarrow> \<forall>c \<in> set conds. 0 < cc_LastTransitionTime c \<Longrightarrow>
      \<forall>c \<in> set (ResetProgressingTime now1 now2 conds). 0 < cc_LastTransitionTime c"
proof -
  obtain i where i: "FindOperatorStatusCondition conds OperatorProgressing = Some i" using assms by blast
  have eq: "ResetProgressingTime now1 now2 conds = conds[i := (conds ! i)\<lparr>cc_LastTransitionTime := now1\<rparr>]"
    using i ResetProgressingTime_found by simp
  have len: "i < length conds" "cc_Type (conds ! i) = OperatorProgressing" using i by (auto simp: Find_Some_iff)
  show "map timeless (ResetProgressingTime now1 now2 conds) = map timeless conds"
    unfolding eq map_update using len(1) by (metis list_update_id nth_map timeless_upd)
  show "ResetProgressingTime now1 now2 conds ! j = conds ! j"
    if "j < length conds" "cc_Type (conds ! j) \<noteq> OperatorProgressing" for j
    using that len(2) unfolding eq by (metis nth_list_update_neq)
  show "\<forall>c \<in> set (ResetProgressingTime now1 now2 conds). 0 < cc_LastTransitionTime c"
    if "0 < now1" "\<forall>c \<in> set conds. 0 < cc_LastTransitionTime c"
    unfolding eq using that set_update_subset_insert [of conds i] by fastforce
qed

section \<open>Applying a status\<close>

text \<open>The versions to report: the given ones, or those reported before.\<close>

definition next_versions :: "ClusterOperatorStatus \<Rightarrow> ClusterOperatorStatus \<Rightarrow> OperandVersion list" where
  "next_versions status old =
     nilslice (if cos_Versions status = None then cos_Versions old else cos_Versions status)"

text \<open>What it means that \<open>new\<close> reports \<open>status\<close>, after \<open>old\<close> was reported.\<close>

definition reports ::
  "ConfigObjectReference list \<Rightarrow> ClusterOperatorStatus \<Rightarrow> ClusterOperatorStatus \<Rightarrow> ClusterOperatorStatus \<Rightarrow> bool" where
  "reports related status old new \<longleftrightarrow>
     map timeless (cos_Conditions new) = map timeless (cos_Conditions status) \<and>
     (\<forall>c \<in> set (cos_Conditions new). 0 < cc_LastTransitionTime c) \<and>
     nilslice (cos_Versions new) = next_versions status old \<and>
     cos_RelatedObjects new = related \<and>
     cos_ExtensionRaw new = cos_ExtensionRaw status \<and> cos_ExtensionObject new = cos_ExtensionObject status"

text \<open>Transition times are kept where neither the status nor, for Progressing, the versions change.\<close>

definition times_kept :: "ClusterOperatorStatus \<Rightarrow> ClusterOperatorStatus \<Rightarrow> bool" where
  "times_kept old new \<longleftrightarrow> (\<forall>c \<in> set (cos_Conditions new). \<forall>i.
     FindOperatorStatusCondition (cos_Conditions old) (cc_Type c) = Some i \<longrightarrow>
     cc_Status (cos_Conditions old ! i) = cc_Status c \<longrightarrow> cc_LastTransitionTime (cos_Conditions old ! i) \<noteq> 0 \<longrightarrow>
     cc_Type c \<noteq> OperatorProgressing \<or> nilslice (cos_Versions new) = nilslice (cos_Versions old) \<longrightarrow>
     cc_LastTransitionTime c = cc_LastTransitionTime (cos_Conditions old ! i))"

text \<open>The conditions that \<open>ApplyStatus\<close> computes.\<close>

definition stamped_from ::
  "ClusterOperatorStatus \<Rightarrow> bool \<Rightarrow> ClusterOperatorStatusCondition list \<Rightarrow> ClusterOperatorStatusCondition list \<Rightarrow> bool" where
  "stamped_from old reset conds new \<longleftrightarrow> (\<exists>stamps now1 now2. 0 < now1 \<and>
     list_all2 (\<lambda>c c'. \<exists>t > 0. c' = stamped t (cos_Conditions old) c) conds stamps \<and>
     new = (if reset then ResetProgressingTime now1 now2 stamps else stamps))"

lemma list_all2_stamped:
  assumes "list_all2 (\<lambda>c c'. \<exists>t > 0. c' = stamped t existing c) conds stamps"
  shows "map timeless stamps = map timeless conds" and "\<forall>c \<in> set stamps. 0 < cc_LastTransitionTime c"
    and "c' \<in> set stamps \<Longrightarrow> FindOperatorStatusCondition existing (cc_Type c') = Some i \<Longrightarrow>
      cc_Status (existing ! i) = cc_Status c' \<Longrightarrow> cc_LastTransitionTime (existing ! i) \<noteq> 0 \<Longrightarrow>
      cc_LastTransitionTime c' = cc_LastTransitionTime (existing ! i)"
proof -
  have same: "cc_Type (stamped t existing c) = cc_Type c" "cc_Status (stamped t existing c) = cc_Status c" for t c
    using timeless_eqD [OF timeless_stamped [of t existing c]] by simp_all
  show "map timeless stamps = map timeless conds" "\<forall>c \<in> set stamps. 0 < cc_LastTransitionTime c"
    using assms by (induction rule: list_all2_induct) (auto simp: stamped_pos)
  show "c' \<in> set stamps \<Longrightarrow> FindOperatorStatusCondition existing (cc_Type c') = Some i \<Longrightarrow>
      cc_Status (existing ! i) = cc_Status c' \<Longrightarrow> cc_LastTransitionTime (existing ! i) \<noteq> 0 \<Longrightarrow>
      cc_LastTransitionTime c' = cc_LastTransitionTime (existing ! i)"
    using assms by (induction rule: list_all2_induct) (auto simp: stamped_kept same)
qed

lemma Find_types:
  "map cc_Type conds = map cc_Type conds' \<Longrightarrow> FindOperatorStatusCondition conds t = FindOperatorStatusCondition conds' t"
proof (induction conds arbitrary: conds')
  case (Cons c conds)
  then show ?case by (cases conds') simp_all
qed simp

lemma types_timeless: "map timeless conds = map timeless conds' \<Longrightarrow> map cc_Type conds = map cc_Type conds'"
proof -
  have "map cc_Type (map timeless xs) = map cc_Type xs" for xs by (simp add: timeless_def)
  then show "map timeless conds = map timeless conds' \<Longrightarrow> ?thesis" by metis
qed

lemmas Find_timeless = Find_types [OF types_timeless]

lemma stamped_from_props:
  assumes st: "stamped_from old reset conds new" and prog: "FindOperatorStatusCondition conds OperatorProgressing \<noteq> None"
  shows "map timeless new = map timeless conds" and "\<forall>c \<in> set new. 0 < cc_LastTransitionTime c"
    and "c \<in> set new \<Longrightarrow> FindOperatorStatusCondition (cos_Conditions old) (cc_Type c) = Some i \<Longrightarrow>
      cc_Status (cos_Conditions old ! i) = cc_Status c \<Longrightarrow> cc_LastTransitionTime (cos_Conditions old ! i) \<noteq> 0 \<Longrightarrow>
      cc_Type c \<noteq> OperatorProgressing \<or> \<not> reset \<Longrightarrow>
      cc_LastTransitionTime c = cc_LastTransitionTime (cos_Conditions old ! i)"
proof -
  obtain stamps now1 now2 where n: "0 < now1"
      "list_all2 (\<lambda>c c'. \<exists>t > 0. c' = stamped t (cos_Conditions old) c) conds stamps"
      "new = (if reset then ResetProgressingTime now1 now2 stamps else stamps)"
    using st by (auto simp: stamped_from_def)
  note L = list_all2_stamped [OF n(2)]
  have prog': "FindOperatorStatusCondition stamps OperatorProgressing \<noteq> None"
    using prog Find_timeless [OF L(1)] by simp
  note R = ResetProgressingTime_timeless [OF prog', where ?now1.0 = now1 and ?now2.0 = now2]
  show eq: "map timeless new = map timeless conds" using L(1) R(1) n(3) by simp
  show "\<forall>c \<in> set new. 0 < cc_LastTransitionTime c" using L(2) R(3) n by simp
  have mem: "c \<in> set stamps" if c: "c \<in> set new" "cc_Type c \<noteq> OperatorProgressing \<or> \<not> reset"
  proof (cases reset)
    case True
    then obtain j where j: "j < length new" "new ! j = c" using c(1) by (auto simp: in_set_conv_nth)
    have len: "length new = length stamps" using n(3) True R(1) by (metis length_map)
    have "timeless (new ! j) = timeless (stamps ! j)"
      using n(3) True R(1) j(1) len by (metis nth_map)
    then have "cc_Type (stamps ! j) \<noteq> OperatorProgressing" using timeless_eqD(1) j c(2) True by metis
    then have "new ! j = stamps ! j" using R(2) [of j] j(1) len n(3) True by simp
    then show ?thesis using j len by auto
  qed (use that n(3) in simp)
  show "c \<in> set new \<Longrightarrow> FindOperatorStatusCondition (cos_Conditions old) (cc_Type c) = Some i \<Longrightarrow>
      cc_Status (cos_Conditions old ! i) = cc_Status c \<Longrightarrow> cc_LastTransitionTime (cos_Conditions old ! i) \<noteq> 0 \<Longrightarrow>
      cc_Type c \<noteq> OperatorProgressing \<or> \<not> reset \<Longrightarrow>
      cc_LastTransitionTime c = cc_LastTransitionTime (cos_Conditions old ! i)"
    using L(3) mem by blast
qed

text \<open>Stamping conditions that are reported already gives the reported ones back.\<close>

lemma stamped_from_same:
  assumes st: "stamped_from old False conds new" and eq: "map timeless (cos_Conditions old) = map timeless conds"
    and dist: "distinct (map cc_Type conds)" and pos: "\<forall>c \<in> set (cos_Conditions old). 0 < cc_LastTransitionTime c"
  shows "new = cos_Conditions old"
proof (rule nth_equalityI)
  have L: "list_all2 (\<lambda>c c'. \<exists>t > 0. c' = stamped t (cos_Conditions old) c) conds new"
    using st by (auto simp: stamped_from_def)
  show len: "length new = length (cos_Conditions old)"
    using list_all2_lengthD [OF L] arg_cong [OF eq, of length] by simp
  fix i assume i: "i < length new"
  have tl: "timeless (cos_Conditions old ! i) = timeless (conds ! i)" "timeless (new ! i) = timeless (conds ! i)"
    using arg_cong [OF eq, of "\<lambda>xs. xs ! i"] arg_cong [OF list_all2_stamped(1) [OF L], of "\<lambda>xs. xs ! i"]
      arg_cong [OF eq, of length] i len by simp_all
  note T = timeless_eqD [OF tl(1)] and N = timeless_eqD [OF tl(2)]
  have dist': "distinct (map cc_Type (cos_Conditions old))" using dist types_timeless [OF eq] by simp
  have find: "FindOperatorStatusCondition (cos_Conditions old) (cc_Type (new ! i)) = Some i"
    unfolding Find_Some_iff
  proof (intro conjI allI impI)
    show "i < length (cos_Conditions old)" "cc_Type (cos_Conditions old ! i) = cc_Type (new ! i)"
      using i len T(1) N(1) by simp_all
    show "cc_Type (cos_Conditions old ! j) \<noteq> cc_Type (new ! i)" if "j < i" for j
      using dist' i len that T(1) N(1) nth_eq_iff_index_eq [OF dist', of i j] by auto
  qed
  have "cc_LastTransitionTime (new ! i) = cc_LastTransitionTime (cos_Conditions old ! i)"
    using list_all2_stamped(3) [OF L nth_mem [OF i] find] T(2) N(2) pos i len by (metis gr_implies_not0 nth_mem)
  then show "new ! i = cos_Conditions old ! i" using T(5) N(5) by metis
qed

text \<open>From the computed status to the stored one.\<close>

lemma reports_stored:
  assumes "stamped_from old (next_versions status old \<noteq> nilslice (cos_Versions old)) (cos_Conditions status) conds"
    and "FindOperatorStatusCondition (cos_Conditions status) OperatorProgressing \<noteq> None"
    and "cos_Conditions new = map (\<lambda>c. c\<lparr>cc_LastTransitionTime := f (cc_LastTransitionTime c)\<rparr>) conds"
    and "nilslice (cos_Versions new) = next_versions status old" and "cos_RelatedObjects new = related"
    and "cos_ExtensionRaw new = cos_ExtensionRaw status" and "cos_ExtensionObject new = cos_ExtensionObject status"
    and "\<And>t. 0 < t \<Longrightarrow> 0 < f t"
    and "\<And>c. c \<in> set (cos_Conditions old) \<Longrightarrow> f (cc_LastTransitionTime c) = cc_LastTransitionTime c"
  shows "reports related status old new \<and> times_kept old new"
proof
  note P = stamped_from_props [OF assms(1,2)]
  have "map timeless (cos_Conditions new) = map timeless conds" by (simp add: assms(3) comp_def)
  then show "reports related status old new"
    using P(1,2) assms(3-8) by (auto simp: reports_def)
  have "i < length (cos_Conditions old)" if "FindOperatorStatusCondition (cos_Conditions old) t = Some i" for t i
    using that by (simp add: Find_Some_iff)
  then show "times_kept old new"
    using P(3) assms(3,4,9) nth_mem by (fastforce simp: times_kept_def)
qed

definition reported :: "ClusterOperator option \<Rightarrow> ClusterOperatorStatus" where
  "reported co = (case co of None \<Rightarrow> zero_ClusterOperatorStatus | Some co \<Rightarrow> co_Status co)"

lemma next_versions_reported:
  "reports related status old new \<Longrightarrow> next_versions status new = nilslice (cos_Versions new)"
  by (auto simp: reports_def next_versions_def split: if_splits)

context reporter_api
begin

lemma stamp_run:
  assumes "wf w" and "run_state (stamp_conditions r existing conds) w = (conds', w')"
  shows "wf w' \<and> view w' = view w \<and> coview w' = coview w \<and>
    list_all2 (\<lambda>c c'. \<exists>t > 0. c' = stamped t existing c) conds conds'"
  using assms
proof (induction conds arbitrary: w w' conds')
  case Nil
  then show ?case by (simp add: run_simps)
next
  case (Cons c conds)
  obtain t w1 where t: "sr_now r w = (t, w1)" by fastforce
  obtain cs w2 where cs: "run_state (stamp_conditions r existing conds) w1 = (cs, w2)" by fastforce
  have "conds' = stamped t existing c # cs" "w' = w2"
    using Cons.prems(2) t cs by (auto simp: run_simps)
  then show ?case using now_frame [OF Cons.prems(1) t] Cons.IH [OF _ cs] by auto
qed

lemma GetOrCreate_run:
  assumes w: "wf w" and run: "run_state (GetOrCreateClusterOperator r) w = (res, w')"
  shows "wf w'" and "view w' = view w"
    and "res = Inr co \<Longrightarrow> coview w' = Some co"
    and "res = Inr co \<Longrightarrow> coview w = Some co \<or> coview w = None \<and> co_Status co = zero_ClusterOperatorStatus"
    and "coview w \<noteq> None \<Longrightarrow> coview w' = coview w"
proof -
  obtain g w1 where g: "cc_Get (sr_configClient r) OperatorName w = (g, w1)" by fastforce
  note F = co_get_frame [OF w g]
  obtain h w2 where h: "cc_Create (sr_configClient r) new_operator w1 = (h, w2)" by fastforce
  have w1: "wf w1" using F by simp
  note C = co_create_frame [OF w1 h]
  have out: "(res, w') = (case g of Inl err \<Rightarrow> if IsNotFound err then (h, w2) else (Inl err, w1) | Inr co \<Rightarrow> (Inr co, w1))"
    using run g h by (auto simp: GetOrCreateClusterOperator_def GetClusterOperator_def run_simps split: sum.splits if_splits)
  show "wf w'" and "view w' = view w" using out F C by (auto split: sum.splits if_splits)
  show "coview w' = Some co" if "res = Inr co"
    using out that F co_found [OF w] g co_created [OF w1] h by (auto split: sum.splits if_splits)
  show "coview w = Some co \<or> coview w = None \<and> co_Status co = zero_ClusterOperatorStatus" if "res = Inr co"
    using out that F co_found [OF w] co_missing [OF w] g co_created [OF w1] h by (auto split: sum.splits if_splits)
  show "coview w' = coview w" if "coview w \<noteq> None"
    using out that F co_missing [OF w] g by (auto split: sum.splits if_splits)
qed

text \<open>A run of \<open>ApplyStatus\<close>: it could not get the object, or the status was there, or it was sent.\<close>

lemma ApplyStatus_cases:
  assumes w: "wf w" and run: "run_state (ApplyStatus r status) w = (res, w')"
  obtains (unread) err where "res = Some err" "coview w \<noteq> None \<Longrightarrow> coview w' = coview w"
      "wf w'" "view w' = view w" "run_state (GetOrCreateClusterOperator r) w = (Inl err, w')"
    | (applied) co w1 status' modified co2 where
      "coview w = Some co \<or> coview w = None \<and> co_Status co = zero_ClusterOperatorStatus"
      "coview w1 = Some co" "wf w1" "view w1 = view w"
      "stamped_from (co_Status co) (next_versions status (co_Status co) \<noteq> nilslice (cos_Versions (co_Status co)))
         (cos_Conditions status) (cos_Conditions status')"
      "nilslice (cos_Versions status') = next_versions status (co_Status co)"
      "cos_RelatedObjects status' = src_RelatedObjects (sr_config r)"
      "cos_ExtensionRaw status' = cos_ExtensionRaw status" "cos_ExtensionObject status' = cos_ExtensionObject status"
      "EnsureClusterOperatorStatus False co (co\<lparr>co_Status := status'\<rparr>) = (modified, co2)"
      "if modified then (case cc_UpdateStatus (sr_configClient r) co2 w1 of
          (u, w2) \<Rightarrow> w' = w2 \<and> res = (case u of Inl err \<Rightarrow> Some err | Inr co' \<Rightarrow> None))
       else w' = w1 \<and> res = None"
proof -
  obtain g w1 where g: "run_state (GetOrCreateClusterOperator r) w = (g, w1)" by fastforce
  note G = GetOrCreate_run [OF w g]
  show thesis
  proof (cases g)
    case (Inl err)
    then have "res = Some err" "w' = w1" using run g by (simp_all add: ApplyStatus_def run_simps)
    then show thesis using unread G(1,2,5) g Inl by blast
  next
    case (Inr co)
    let ?st = "status\<lparr>cos_RelatedObjects := src_RelatedObjects (sr_config r)\<rparr>"
    let ?st2 = "if cos_Versions ?st = None then ?st\<lparr>cos_Versions := cos_Versions (co_Status co)\<rparr> else ?st"
    let ?reset = "nilslice (cos_Versions ?st2) \<noteq> nilslice (cos_Versions (co_Status co))"
    obtain conds w2 where c: "run_state (stamp_conditions r (cos_Conditions (co_Status co)) (cos_Conditions ?st2)) w1 = (conds, w2)"
      by fastforce
    note S = stamp_run [OF G(1) c]
    obtain t1 w3 where t1: "sr_now r w2 = (t1, w3)" by fastforce
    obtain t2 w4 where t2: "sr_now r w3 = (t2, w4)" by fastforce
    have wf2: "wf w2" using S by simp
    note N1 = now_frame [OF wf2 t1]
    have wf3: "wf w3" using N1 by simp
    note N2 = now_frame [OF wf3 t2]
    let ?new = "if ?reset then ResetProgressingTime t1 t2 conds else conds" and ?w = "if ?reset then w4 else w2"
    let ?status' = "?st2\<lparr>cos_Conditions := ?new\<rparr>"
    obtain modified co2 where ens: "EnsureClusterOperatorStatus False co (co\<lparr>co_Status := ?status'\<rparr>) = (modified, co2)"
      by fastforce
    have fin: "if modified then (case cc_UpdateStatus (sr_configClient r) co2 ?w of
          (u, w2) \<Rightarrow> w' = w2 \<and> res = (case u of Inl err \<Rightarrow> Some err | Inr co' \<Rightarrow> None))
        else w' = ?w \<and> res = None"
    proof (cases ?reset)
      case True
      then show ?thesis
        using run ens c t1 t2 g Inr by (simp add: ApplyStatus_def run_simps Let_def split: prod.splits if_splits)
    next
      case False
      then show ?thesis
        using run ens c g Inr by (simp add: ApplyStatus_def run_simps Let_def split: prod.splits if_splits)
    qed
    have nv: "nilslice (cos_Versions ?st2) = next_versions status (co_Status co)" by (simp add: next_versions_def)
    have cond: "cos_Conditions ?st2 = cos_Conditions status" by simp
    have "stamped_from (co_Status co) ?reset (cos_Conditions status) ?new"
      using S N1 cond unfolding stamped_from_def by (intro exI [of _ conds] exI [of _ t1] exI [of _ t2]) simp
    then show thesis
      using G(3) [OF Inr] G(4) [OF Inr] G(2) S N1 N2 ens fin nv
      by (intro applied [of co ?w ?status' modified co2]) simp_all
  qed
qed

text \<open>A status that was applied is reported, and keeps the transition times.\<close>

lemma ApplyStatus_nil:
  assumes w: "wf w" and run: "run_state (ApplyStatus r status) w = (None, w')"
    and prog: "FindOperatorStatusCondition (cos_Conditions status) OperatorProgressing \<noteq> None"
  shows "\<exists>co. coview w' = Some co \<and>
    reports (src_RelatedObjects (sr_config r)) status (reported (coview w)) (co_Status co) \<and>
    times_kept (reported (coview w)) (co_Status co)"
  using w run
proof (cases rule: ApplyStatus_cases)
  case (applied co w1 status' modified co2)
  have old: "reported (coview w) = co_Status co" using applied(1) by (auto simp: reported_def)
  have st: "distinct (map or_UID (om_OwnerReferences (co_Meta co)))"
      "\<forall>c \<in> set (cos_Conditions (co_Status co)). trunc (cc_LastTransitionTime c) = cc_LastTransitionTime c"
    using co_stored [OF applied(3,2)] by simp_all
  note E = EnsureClusterOperatorStatus_same_meta [of "co\<lparr>co_Status := status'\<rparr>" co False, simplified applied(10), simplified, OF st(1)]
  have eq: "cos_Conditions (co_Status co2) = cos_Conditions status'"
      "nilslice (cos_Versions (co_Status co2)) = nilslice (cos_Versions status')"
      "cos_RelatedObjects (co_Status co2) = cos_RelatedObjects status'"
      "cos_ExtensionRaw (co_Status co2) = cos_ExtensionRaw status'"
      "cos_ExtensionObject (co_Status co2) = cos_ExtensionObject status'"
    using E by (cases "co_Status co2"; cases status'; simp)+
  note R = reports_stored [OF applied(5) prog]
  show ?thesis
  proof (cases modified)
    case False
    then have same: "co_Status co2 = co_Status co" "coview w' = Some co" using E applied(2,11) by simp_all
    have "cos_Conditions (co_Status co) = map (\<lambda>c. c\<lparr>cc_LastTransitionTime := id (cc_LastTransitionTime c)\<rparr>) (cos_Conditions status')"
      using eq(1) same(1) by (simp add: map_idI)
    from R [OF this] show ?thesis using eq same old applied(6-9) by simp
  next
    case True
    obtain u where u: "cc_UpdateStatus (sr_configClient r) co2 w1 = (Inr u, w')"
      using applied(11) True by (auto split: prod.splits sum.splits)
    obtain stored where "coview w' = Some stored" "status_stored trunc (co_Status co2) (co_Status stored)"
      using co_updated [OF applied(3,2) _ u] E by auto
    then show ?thesis
      using R [of "co_Status stored" trunc] eq old applied(6-9) st(2) trunc_pos by (auto simp: status_stored_def)
  qed
qed simp

text \<open>A status that is reported already is not sent again.\<close>

lemma ApplyStatus_again:
  assumes w: "wf w" and run: "run_state (ApplyStatus r status) w = (res, w')"
    and co: "coview w = Some co" "reports (src_RelatedObjects (sr_config r)) status old (co_Status co)"
    and dist: "distinct (map cc_Type (cos_Conditions status))"
  shows "coview w' = coview w"
  using w run
proof (cases rule: ApplyStatus_cases)
  case (applied co' w1 status' modified co2)
  have [simp]: "co' = co" using applied(1) co(1) by simp
  have nv: "next_versions status (co_Status co) = nilslice (cos_Versions (co_Status co))"
    by (rule next_versions_reported [OF co(2)])
  then have "stamped_from (co_Status co) False (cos_Conditions status) (cos_Conditions status')"
    using applied(5) by simp
  then have conds: "cos_Conditions status' = cos_Conditions (co_Status co)"
    by (rule stamped_from_same) (use co(2) dist in \<open>simp_all add: reports_def\<close>)
  have "EnsureClusterOperatorStatus False co (co\<lparr>co_Status := status'\<rparr>) = (False, co)"
    using co(2) conds nv applied(6-9) co_stored [OF applied(3,2)]
    by (intro EnsureClusterOperatorStatus_same) (simp_all add: reports_def)
  then show ?thesis using applied(2,10,11) co(1) by simp
qed (use co in simp)

lemma ApplyStatus_frame:
  assumes w: "wf w" and run: "run_state (ApplyStatus r status) w = (res, w')"
  shows "wf w' \<and> view w' = view w"
  using w run
proof (cases rule: ApplyStatus_cases)
  case (applied co w1 status' modified co2)
  obtain u w2 where u: "cc_UpdateStatus (sr_configClient r) co2 w1 = (u, w2)" by fastforce
  have "co_Meta co2 = co_Meta co"
    using EnsureClusterOperatorStatus_same_meta [of "co\<lparr>co_Status := status'\<rparr>" co False] co_stored [OF applied(3,2)]
      applied(10) by simp
  then show ?thesis using applied(3,4,11) co_update_frame [OF applied(3,2) _ u] u by (auto split: if_splits)
qed simp

end

section \<open>Checking the recommender\<close>

definition vpa_ref :: "StatusReporterConfig \<Rightarrow> objkey" where
  "vpa_ref cfg = (KVPA, \<lparr>nn_Namespace = src_Namespace cfg, nn_Name = src_Name cfg\<rparr>)"

definition recommender_ref :: "StatusReporterConfig \<Rightarrow> objkey" where
  "recommender_ref cfg =
     (KDeployment, \<lparr>nn_Namespace = src_Namespace cfg, nn_Name = ''vpa-recommender-'' @ src_Name cfg\<rparr>)"

text \<open>There is nothing to run, or the recommender of this release is rolled out.\<close>

definition ready :: "(objkey \<Rightarrow> KObject option) \<Rightarrow> StatusReporterConfig \<Rightarrow> bool" where
  "ready objs cfg \<longleftrightarrow> objs (vpa_ref cfg) = None \<or>
     (\<exists>d. objs (recommender_ref cfg) = Some (ODeployment d) \<and>
        fmlookup (nilmap (om_Annotations (dep_Meta d))) ReleaseVersionAnnotation = Some (src_ReleaseVersion cfg) \<and>
        om_Generation (dep_Meta d) \<le> ds_ObservedGeneration (dep_Status d) \<and>
        ds_UpdatedReplicas (dep_Status d) = ds_Replicas (dep_Status d) \<and>
        ds_AvailableReplicas (dep_Status d) \<noteq> 0)"

lemma DeploymentUpdated_iff:
  "DeploymentUpdated d \<longleftrightarrow> om_Generation (dep_Meta d) \<le> ds_ObservedGeneration (dep_Status d) \<and>
     ds_UpdatedReplicas (dep_Status d) = ds_Replicas (dep_Status d) \<and> ds_AvailableReplicas (dep_Status d) \<noteq> 0"
  by (auto simp: DeploymentUpdated_def)

context kube_api
begin

lemma Check_run:
  assumes c: "sr_client r = c" and w: "wf w" and run: "run_state (CheckVPARecommender r) w = (res, w')"
  shows "wf w'" and "view w' = view w" and "res = Inr b \<Longrightarrow> b \<longleftrightarrow> ready (view w) (sr_config r)"
proof -
  let ?cfg = "sr_config r"
  let ?n1 = "\<lparr>nn_Namespace = src_Namespace ?cfg, nn_Name = src_Name ?cfg\<rparr>"
  let ?n2 = "\<lparr>nn_Namespace = src_Namespace ?cfg, nn_Name = ''vpa-recommender-'' @ src_Name ?cfg\<rparr>"
  obtain g w1 where g: "cl_Get c KVPA ?n1 w = (g, w1)" by fastforce
  have w1: "wf w1" "view w1 = view w" using get_frame [OF w g] by simp_all
  obtain h w2 where h: "cl_Get c KDeployment ?n2 w1 = (h, w2)" by fastforce
  have w2: "wf w2" "view w2 = view w" using get_frame [OF w1(1) h] w1(2) by simp_all
  note V = typed_get [OF decodes_simps(5) w g] and D = typed_get [OF decodes_simps(1) w1(1) h]
  have "wf w' \<and> view w' = view w \<and> (\<forall>b. res = Inr b \<longrightarrow> b = ready (view w) ?cfg)"
  proof (cases "decoded as_vpa g")
    case (Inl err)
    then show ?thesis
      using run c g w1 V(2) [OF Inl] by (auto simp: CheckVPARecommender_def run_simps ready_def vpa_ref_def split: if_splits)
  next
    case (Inr vpa)
    have out: "w' = w2" "res = (case decoded as_deployment h of
        Inl err \<Rightarrow> if IsNotFound err then Inr False else Inl err
      | Inr d \<Rightarrow> Inr (ReleaseVersionMatches (dep_Meta d) (src_ReleaseVersion ?cfg) \<and> DeploymentUpdated d))"
      using run c g h Inr by (auto simp: CheckVPARecommender_def run_simps split: sum.splits)
    show ?thesis
    proof (cases "decoded as_deployment h")
      case (Inl err)
      then show ?thesis using out w2 V(1) [OF Inr] D(2) [OF Inl] w1(2)
        by (auto simp: ready_def vpa_ref_def recommender_ref_def)
    next
      case (Inr d)
      then show ?thesis using out w2 V(1) [OF \<open>decoded as_vpa g = Inr vpa\<close>] D(1) [OF Inr] w1(2)
        by (auto simp: ready_def vpa_ref_def recommender_ref_def ReleaseVersionMatches_iff DeploymentUpdated_iff)
    qed
  qed
  then show "wf w'" and "view w' = view w" and "res = Inr b \<Longrightarrow> b \<longleftrightarrow> ready (view w) (sr_config r)" by auto
qed

end

section \<open>Reporting\<close>

lemma status_conditions:
  "FindOperatorStatusCondition (cos_Conditions (available_status v reason msg)) OperatorProgressing \<noteq> None"
  "FindOperatorStatusCondition (cos_Conditions (progressing_status reason msg)) OperatorProgressing \<noteq> None"
  "FindOperatorStatusCondition (cos_Conditions (degraded_status reason msg)) OperatorProgressing \<noteq> None"
  "distinct (map cc_Type (cos_Conditions (available_status v reason msg)))"
  "distinct (map cc_Type (cos_Conditions (progressing_status reason msg)))"
  "distinct (map cc_Type (cos_Conditions (degraded_status reason msg)))"
  by (simp_all add: available_status_def progressing_status_def degraded_status_def mk_condition_def go_defs)

text \<open>The status that \<open>ReportStatus\<close> means to report, by the result of the check.\<close>

definition intended :: "StatusReporterConfig \<Rightarrow> go_error + bool \<Rightarrow> ClusterOperatorStatus" where
  "intended cfg check =
     (case check of
        Inl err \<Rightarrow> degraded_status ReasonCheckAutoscaler (''error checking VPA controllers status: '' @ Error err)
      | Inr ok \<Rightarrow> if ok then available_status (src_ReleaseVersion cfg) ReasonEmpty (''at version '' @ src_ReleaseVersion cfg)
                 else progressing_status ReasonSyncing (''updating to '' @ src_ReleaseVersion cfg))"

lemma intended_conditions:
  "FindOperatorStatusCondition (cos_Conditions (intended cfg check)) OperatorProgressing \<noteq> None"
  "distinct (map cc_Type (cos_Conditions (intended cfg check)))"
  using status_conditions by (simp_all add: intended_def split: sum.split)

context reporter_api
begin

lemma check_coview:
  assumes w: "wf w" and run: "run_state (CheckVPARecommender r) w = (res, w')"
  shows "coview w' = coview w"
proof -
  obtain g w1 where g: "cl_Get (sr_client r) KVPA
      \<lparr>nn_Namespace = src_Namespace (sr_config r), nn_Name = src_Name (sr_config r)\<rparr> w = (g, w1)" by fastforce
  obtain h w2 where h: "cl_Get (sr_client r) KDeployment \<lparr>nn_Namespace = src_Namespace (sr_config r),
      nn_Name = ''vpa-recommender-'' @ src_Name (sr_config r)\<rparr> w1 = (h, w2)" by fastforce
  have "wf w1" using get_frame [OF w g] by simp
  then have "coview w1 = coview w" "coview w2 = coview w"
    using client_get_frame [OF w g] client_get_frame [of w1] h by auto
  then show ?thesis using run g h by (auto simp: CheckVPARecommender_def run_simps split: sum.splits)
qed

text \<open>A run of \<open>ReportStatus\<close> is a check followed by \<open>ApplyStatus\<close> of the intended status.\<close>

lemma ReportStatus_run:
  assumes w: "wf w" and run: "run_state (ReportStatus r) w = (res, w')"
  obtains check w1 e where "wf w1" "view w1 = view w" "coview w1 = coview w"
    "\<And>b. check = Inr b \<Longrightarrow> b \<longleftrightarrow> ready (view w) (sr_config r)"
    "run_state (ApplyStatus r (intended (sr_config r) check)) w1 = (e, w')"
    "\<And>b. res = Inr b \<longleftrightarrow> e = None \<and> (b \<longleftrightarrow> check = Inr True)"
proof -
  obtain check w1 where c: "run_state (CheckVPARecommender r) w = (check, w1)" by fastforce
  note C = Check_run [OF refl w c]
  obtain e w2 where e: "run_state (ApplyStatus r (intended (sr_config r) check)) w1 = (e, w2)" by fastforce
  have "w' = w2 \<and> (\<forall>b. res = Inr b \<longleftrightarrow> e = None \<and> (b \<longleftrightarrow> check = Inr True))"
    using run c e
    by (cases check) (auto simp: ReportStatus_def run_simps intended_def available_def progressing_def degraded_def
        split: option.splits if_splits)
  then show thesis using that [OF C(1,2) check_coview [OF w c] C(3), of check] e by blast
qed

lemma ReportStatus_reported:
  assumes w: "wf w" and run: "run_state (ReportStatus r) w = (Inr b, w')"
  shows "\<exists>check co. (b \<longleftrightarrow> check = Inr True) \<and> (\<forall>ok. check = Inr ok \<longrightarrow> (ok \<longleftrightarrow> ready (view w) (sr_config r))) \<and>
    coview w' = Some co \<and> times_kept (reported (coview w)) (co_Status co) \<and>
    reports (src_RelatedObjects (sr_config r)) (intended (sr_config r) check) (reported (coview w)) (co_Status co)"
proof (rule ReportStatus_run [OF w run])
  fix check w1 e
  assume a: "wf w1" "coview w1 = coview w" "\<And>b. check = Inr b \<Longrightarrow> b \<longleftrightarrow> ready (view w) (sr_config r)"
    "run_state (ApplyStatus r (intended (sr_config r) check)) w1 = (e, w')"
    "\<And>b'. Inr b = (Inr b' :: go_error + bool) \<longleftrightarrow> e = None \<and> (b' \<longleftrightarrow> check = Inr True)"
  have e: "e = None" "b \<longleftrightarrow> check = Inr True" using a(5) [of b] by simp_all
  show ?thesis
    using ApplyStatus_nil [OF a(1) a(4) [unfolded e(1)] intended_conditions(1)] a(2,3) e(2) by auto
qed

lemma ReportStatus_frame:
  assumes w: "wf w" and run: "run_state (ReportStatus r) w = (res, w')"
  shows "wf w' \<and> view w' = view w"
proof (rule ReportStatus_run [OF w run])
  fix check w1 e
  assume a: "wf w1" "view w1 = view w" "run_state (ApplyStatus r (intended (sr_config r) check)) w1 = (e, w')"
  show ?thesis using ApplyStatus_frame [OF a(1,3)] a(2) by simp
qed

end

section \<open>Polling\<close>

text \<open>What the last call of the condition was when polling ended without an error.\<close>

lemma poll_loop_nil:
  fixes tick :: "'w \<Rightarrow> bool \<times> 'w"
  assumes "poll_loop tick cond err w = Some (None, w')" and "good w"
    and "\<And>w b w1. good w \<Longrightarrow> tick w = (b, w1) \<Longrightarrow> good w1"
    and "\<And>w res w1. good w \<Longrightarrow> cond w = (res, w1) \<Longrightarrow> good w1"
  shows "\<exists>w1. good w1 \<and> cond w1 = (Inr True, w')"
proof -
  let ?P = "\<lambda>tk cd (er :: go_error) w (y :: go_error option \<times> 'w). tk = tick \<longrightarrow> cd = cond \<longrightarrow> good w \<longrightarrow>
    (\<forall>w'. y = (None, w') \<longrightarrow> (\<exists>w1. good w1 \<and> cond w1 = (Inr True, w')))"
  have "?P tick cond err w (None, w')"
  proof (rule poll_loop.raw_induct [of ?P, OF _ assms(1)])
    fix loop tk cd er w y
    assume IH: "\<And>tk cd er w y. loop tk cd er w = Some y \<Longrightarrow> ?P tk cd er w y"
      and run: "(case tk w of (cancelled, w1) \<Rightarrow> if cancelled then Some (Some er, w1)
        else case cd w1 of (res, w2) \<Rightarrow> case res of Inl err \<Rightarrow> Some (Some err, w2)
          | Inr ok \<Rightarrow> if ok then Some (None, w2) else loop tk cd er w2) = Some y"
    show "?P tk cd er w y"
    proof (intro impI)
      assume eq: "tk = tick" "cd = cond" and w: "good w"
      obtain b w1 where t: "tick w = (b, w1)" by fastforce
      obtain res w2 where c: "cond w1 = (res, w2)" by fastforce
      have good: "good w1" "good w2" using assms(3) [OF w t] assms(4) c by blast+
      show "\<forall>w'. y = (None, w') \<longrightarrow> (\<exists>w1. good w1 \<and> cond w1 = (Inr True, w'))"
        using run eq t c good IH [of tick cond er w2 y] by (cases res) (auto split: if_splits)
    qed
  qed
  then show ?thesis using assms(2) by blast
qed

end
