(* ===== verification/Status_Theorems.thy ===== *)
theory Status_Theorems
  imports Status_Props
begin

text \<open>
  The guarantees of the status reporter, and their application to the in-memory clients that the
  operator's tests use: the client of theory \<open>Fake_Client\<close>, the object tracker of client-go for the
  ClusterOperator objects (\<open>tracker.add\<close> of \<open>testing/fixture.go\<close>), and a clock that advances with
  every reading.
\<close>

section \<open>The in-memory clients\<close>

record rworld =
  rw_tracker :: tracker
  rw_operators :: "(string, ClusterOperator) fmap"
  rw_clock :: Time

text \<open>A client of one part of a world, as a client of the world.\<close>

definition lift_run :: "('u \<Rightarrow> 'w) \<Rightarrow> ('w \<Rightarrow> 'u \<Rightarrow> 'u) \<Rightarrow> ('w \<Rightarrow> 'a \<times> 'w) \<Rightarrow> 'u \<Rightarrow> 'a \<times> 'u" where
  "lift_run get put f u = (case f (get u) of (x, w) \<Rightarrow> (x, put w u))"

definition lift_client :: "('u \<Rightarrow> 'w) \<Rightarrow> ('w \<Rightarrow> 'u \<Rightarrow> 'u) \<Rightarrow> 'w client \<Rightarrow> 'u client" where
  "lift_client get put c =
     \<lparr>cl_Get = \<lambda>k n. lift_run get put (cl_Get c k n), cl_Create = \<lambda>obj. lift_run get put (cl_Create c obj),
      cl_Update = \<lambda>obj. lift_run get put (cl_Update c obj), cl_Patch = \<lambda>k n p. lift_run get put (cl_Patch c k n p)\<rparr>"

lemma lift_run_iff: "lift_run get put f u = (x, u') \<longleftrightarrow> (\<exists>w. f (get u) = (x, w) \<and> u' = put w u)"
  by (auto simp: lift_run_def split: prod.splits)

lemma lift_client_iff:
  "cl_Get (lift_client get put c) k n u = (g, u') \<longleftrightarrow> (\<exists>w. cl_Get c k n (get u) = (g, w) \<and> u' = put w u)"
  "cl_Create (lift_client get put c) obj u = (e, u') \<longleftrightarrow> (\<exists>w. cl_Create c obj (get u) = (e, w) \<and> u' = put w u)"
  "cl_Update (lift_client get put c) obj u = (e, u') \<longleftrightarrow> (\<exists>w. cl_Update c obj (get u) = (e, w) \<and> u' = put w u)"
  "cl_Patch (lift_client get put c) k n p u = (e, u') \<longleftrightarrow> (\<exists>w. cl_Patch c k n p (get u) = (e, w) \<and> u' = put w u)"
  by (simp_all add: lift_client_def lift_run_iff)

lemma lift_kube_api:
  assumes K: "kube_api c view good" and put [simp]: "\<And>w u. get (put w u) = w" and Q [simp]: "\<And>w u. Q (put w u) = Q u"
  shows "kube_api (lift_client get put c) (\<lambda>u. view (get u)) (\<lambda>u. good (get u) \<and> Q u)"
proof (unfold_locales, unfold lift_client_iff)
  fix u u' key k n obj e h p g
  assume u: "good (get u) \<and> Q u"
  then have w: "good (get u)" by simp
  show "view (get u) key = Some obj \<Longrightarrow> obj_key obj = key" by (rule kube_api.view_key [OF K w])
  show "\<exists>w. cl_Get c k n (get u) = (Inr obj, w) \<and> u' = put w u \<Longrightarrow> view (get u) (k, n) = Some obj"
    using kube_api.get_found [OF K w] by blast
  show "\<exists>w. cl_Get c k n (get u) = (Inl e, w) \<and> u' = put w u \<Longrightarrow> IsNotFound e \<Longrightarrow> view (get u) (k, n) = None"
    using kube_api.get_missing [OF K w] by blast
  show "\<exists>w. cl_Get c k n (get u) = (g, w) \<and> u' = put w u \<Longrightarrow> (good (get u') \<and> Q u') \<and> view (get u') = view (get u)"
    using kube_api.get_frame [OF K w] u by auto
  show "\<exists>w. cl_Create c obj (get u) = (None, w) \<and> u' = put w u \<Longrightarrow>
      \<exists>obj'. view (get u') (obj_key obj) = Some obj' \<and> stored_as obj obj'"
    using kube_api.create_stored [OF K w] by fastforce
  show "\<exists>w. cl_Create c obj (get u) = (h, w) \<and> u' = put w u \<Longrightarrow>
      (good (get u') \<and> Q u') \<and> (\<forall>key. key \<noteq> obj_key obj \<longrightarrow> view (get u') key = view (get u) key)"
    using kube_api.create_frame [OF K w] u by auto
  show "\<exists>w. cl_Create c obj (get u) = (Some e, w) \<and> u' = put w u \<Longrightarrow> IsAlreadyExists e \<Longrightarrow>
      view (get u') (obj_key obj) \<noteq> None"
    using kube_api.create_exists [OF K w] by fastforce
  show "\<exists>w. cl_Update c obj (get u) = (None, w) \<and> u' = put w u \<Longrightarrow>
      \<exists>obj'. view (get u') (obj_key obj) = Some obj' \<and> stored_as obj obj'"
    using kube_api.update_stored [OF K w] by fastforce
  show "\<exists>w. cl_Update c obj (get u) = (h, w) \<and> u' = put w u \<Longrightarrow>
      (good (get u') \<and> Q u') \<and> (\<forall>key. key \<noteq> obj_key obj \<longrightarrow> view (get u') key = view (get u) key)"
    using kube_api.update_frame [OF K w] u by auto
  show "\<exists>w. cl_Patch c k n p (get u) = (None, w) \<and> u' = put w u \<Longrightarrow>
      \<exists>obj obj'. view (get u) (k, n) = Some obj \<and> view (get u') (k, n) = Some obj' \<and>
        nilmap (om_Annotations (obj_meta obj')) = apply_annotation_patch p (nilmap (om_Annotations (obj_meta obj)))"
    using kube_api.patch_stored [OF K w] by fastforce
  show "\<exists>w. cl_Patch c k n p (get u) = (h, w) \<and> u' = put w u \<Longrightarrow>
      (good (get u') \<and> Q u') \<and> (\<forall>key. key \<noteq> (k, n) \<longrightarrow> view (get u') key = view (get u) key)"
    using kube_api.patch_frame [OF K w] u by auto
qed

definition co_error :: "string \<Rightarrow> int \<Rightarrow> string \<Rightarrow> string \<Rightarrow> go_error" where
  "co_error reason code name what = StatusError reason code
     (''clusteroperators.config.openshift.io \"'' @ name @ ''\" '' @ what)"

text \<open>\<open>add\<close> with \<open>replaceExisting\<close> for an update, without it for a creation.\<close>

definition fixture_add :: "bool \<Rightarrow> ClusterOperator \<Rightarrow> rworld \<Rightarrow> (go_error + ClusterOperator) \<times> rworld" where
  "fixture_add replaceExisting co w =
     (let name = om_Name (co_Meta co); stored = w\<lparr>rw_operators := fmupd name co (rw_operators w)\<rparr>
      in case fmlookup (rw_operators w) name of
           Some old \<Rightarrow> if replaceExisting then (Inr co, stored)
             else (Inl (co_error StatusReasonAlreadyExists 409 name ''already exists''), w)
         | None \<Rightarrow> if replaceExisting then (Inl (co_error StatusReasonNotFound 404 name ''not found''), w)
             else (Inr co, stored))"

definition fixture_get :: "string \<Rightarrow> rworld \<Rightarrow> (go_error + ClusterOperator) \<times> rworld" where
  "fixture_get name w =
     (case fmlookup (rw_operators w) name of
        None \<Rightarrow> (Inl (co_error StatusReasonNotFound 404 name ''not found''), w)
      | Some co \<Rightarrow> (Inr co, w))"

definition example_reporter :: "rworld StatusReporter" where
  "example_reporter =
     \<lparr>sr_client = lift_client rw_tracker (\<lambda>t w. w\<lparr>rw_tracker := t\<rparr>) fake_client,
      sr_configClient = \<lparr>cc_Get = fixture_get, cc_Create = fixture_add False, cc_UpdateStatus = fixture_add True\<rparr>,
      sr_config = \<lparr>src_Name = ''default'', src_Namespace = ''vpa'', src_ReleaseVersion = ''4.20'', src_RelatedObjects = []\<rparr>,
      sr_now = (\<lambda>w. (rw_clock w + 1, w\<lparr>rw_clock := rw_clock w + 1\<rparr>))\<rparr>"

definition operators_wf :: "rworld \<Rightarrow> bool" where
  "operators_wf w \<longleftrightarrow> (\<forall>co. fmlookup (rw_operators w) OperatorName = Some co \<longrightarrow>
     om_Name (co_Meta co) = OperatorName \<and> distinct (map or_UID (om_OwnerReferences (co_Meta co))))"

definition rworld_wf :: "rworld \<Rightarrow> bool" where
  "rworld_wf w \<longleftrightarrow> fake_wf (rw_tracker w) \<and> operators_wf w"

lemma example_client: "kube_api (sr_client example_reporter) (\<lambda>w. fake_view (rw_tracker w)) rworld_wf"
  using lift_kube_api [OF fake.kube_api_axioms, of rw_tracker "\<lambda>t w. w\<lparr>rw_tracker := t\<rparr>" operators_wf]
  by (simp add: example_reporter_def rworld_wf_def [abs_def] operators_wf_def)

interpretation fixture: reporter_api example_reporter "\<lambda>w. fake_view (rw_tracker w)" rworld_wf
  "\<lambda>w. fmlookup (rw_operators w) OperatorName" "\<lambda>t. t"
proof (intro reporter_api.intro [OF example_client] reporter_api_axioms.intro)
  fix w w' :: rworld and k n g co co' e h old t
  assume w: "rworld_wf w"
  show "cl_Get (sr_client example_reporter) k n w = (g, w') \<Longrightarrow>
      fmlookup (rw_operators w') OperatorName = fmlookup (rw_operators w) OperatorName"
    by (auto simp: example_reporter_def lift_client_iff)
  show "cc_Get (sr_configClient example_reporter) OperatorName w = (Inr co, w') \<Longrightarrow>
      fmlookup (rw_operators w) OperatorName = Some co"
    by (auto simp: example_reporter_def fixture_get_def split: option.splits)
  show "cc_Get (sr_configClient example_reporter) OperatorName w = (Inl e, w') \<Longrightarrow> IsNotFound e \<Longrightarrow>
      fmlookup (rw_operators w) OperatorName = None"
    by (auto simp: example_reporter_def fixture_get_def split: option.splits)
  show "cc_Get (sr_configClient example_reporter) OperatorName w = (h, w') \<Longrightarrow>
      rworld_wf w' \<and> fake_view (rw_tracker w') = fake_view (rw_tracker w) \<and>
      fmlookup (rw_operators w') OperatorName = fmlookup (rw_operators w) OperatorName"
    using w by (auto simp: example_reporter_def fixture_get_def split: option.splits)
  show "cc_Create (sr_configClient example_reporter) new_operator w = (Inr co, w') \<Longrightarrow>
      fmlookup (rw_operators w') OperatorName = Some co \<and> co_Status co = zero_ClusterOperatorStatus"
    by (auto simp: example_reporter_def fixture_add_def new_operator_def Let_def split: option.splits)
  show "cc_Create (sr_configClient example_reporter) new_operator w = (h, w') \<Longrightarrow>
      rworld_wf w' \<and> fake_view (rw_tracker w') = fake_view (rw_tracker w)"
    using w by (auto simp: example_reporter_def fixture_add_def new_operator_def rworld_wf_def operators_wf_def
        zero_ObjectMeta_def Let_def split: option.splits)
  show "\<exists>stored. fmlookup (rw_operators w') OperatorName = Some stored \<and>
      status_stored (\<lambda>t. t) (co_Status co) (co_Status stored)"
    if "fmlookup (rw_operators w) OperatorName = Some old" "co_Meta co = co_Meta old"
      "cc_UpdateStatus (sr_configClient example_reporter) co w = (Inr co', w')"
    using w that by (auto simp: example_reporter_def fixture_add_def rworld_wf_def operators_wf_def status_stored_def
        Let_def split: option.splits)
  show "rworld_wf w' \<and> fake_view (rw_tracker w') = fake_view (rw_tracker w)"
    if "fmlookup (rw_operators w) OperatorName = Some old" "co_Meta co = co_Meta old"
      "cc_UpdateStatus (sr_configClient example_reporter) co w = (h, w')"
    using w that by (auto simp: example_reporter_def fixture_add_def rworld_wf_def operators_wf_def
        Let_def split: option.splits)
  show "fmlookup (rw_operators w) OperatorName = Some co \<Longrightarrow> distinct (map or_UID (om_OwnerReferences (co_Meta co))) \<and>
      (\<forall>c \<in> set (cos_Conditions (co_Status co)). cc_LastTransitionTime c = cc_LastTransitionTime c)"
    using w by (simp add: rworld_wf_def operators_wf_def)
  show "sr_now example_reporter w = (t, w') \<Longrightarrow> rworld_wf w' \<and> fake_view (rw_tracker w') = fake_view (rw_tracker w) \<and>
      fmlookup (rw_operators w') OperatorName = fmlookup (rw_operators w) OperatorName \<and> 0 < t"
    using w by (auto simp: example_reporter_def rworld_wf_def operators_wf_def)
qed

section \<open>The guarantees\<close>

text \<open>The types and statuses of the reported conditions.\<close>

definition conditions_of :: "ClusterOperatorStatus \<Rightarrow> (string \<times> string) list" where
  "conditions_of st = map (\<lambda>c. (cc_Type c, cc_Status c)) (cos_Conditions st)"

lemma reports_conditions: "reports related status old new \<Longrightarrow> conditions_of new = conditions_of status"
proof -
  have "conditions_of st = map (\<lambda>c. (cc_Type c, cc_Status c)) (map timeless (cos_Conditions st))" for st
    by (simp add: conditions_of_def timeless_def)
  then show "reports related status old new \<Longrightarrow> conditions_of new = conditions_of status"
    by (metis reports_def)
qed

lemma intended_conditions_of:
  "conditions_of (intended cfg check) =
     [(''Available'', ''True''), (''Progressing'', if check = Inr False then ''True'' else ''False''),
      (''Degraded'', case check of Inl err \<Rightarrow> ''True'' | Inr ok \<Rightarrow> ''False'')]"
  by (auto simp: intended_def conditions_of_def available_status_def progressing_status_def degraded_status_def
      mk_condition_def go_defs split: sum.split)

lemma intended_versions:
  "cos_Versions (intended cfg check) =
     (if check = Inr True then Some [\<lparr>ov_Name = ''operator'', ov_Version = src_ReleaseVersion cfg\<rparr>] else None)"
  by (auto simp: intended_def available_status_def progressing_status_def degraded_status_def
      zero_ClusterOperatorStatus_def split: sum.split)

text \<open>
  \<open>CheckVPARecommender\<close> says yes exactly when there is no custom resource, or the recommender's
  deployment exists, carries the reporter's release version, and is rolled out: its latest
  generation is observed, all its replicas are updated, and at least one is available. It
  changes nothing.
\<close>

theorem CheckVPARecommender_correct:
  assumes "kube_api (sr_client r) view good" and "good w" and "run_state (CheckVPARecommender r) w = (Inr b, w')"
  shows "(b \<longleftrightarrow> ready (view w) (sr_config r)) \<and> view w' = view w"
  using kube_api.Check_run [OF assms(1) refl assms(2,3)] by blast

text \<open>The recommender's deployment of the example, rolled out and of the right version.\<close>

definition empty_rworld :: rworld where
  "empty_rworld = \<lparr>rw_tracker = fmempty, rw_operators = fmempty, rw_clock = 0\<rparr>"

lemma empty_rworld_wf: "rworld_wf empty_rworld"
  by (simp add: rworld_wf_def operators_wf_def empty_rworld_def fake_wf_def)

lemma empty_check: "run_state (CheckVPARecommender example_reporter) empty_rworld = (Inr True, empty_rworld)"
  by (simp add: CheckVPARecommender_def run_simps example_reporter_def lift_client_def lift_run_def fake_client_def
      fake_Get_def empty_rworld_def decoded_def NewNotFound_def IsNotFound_def)

theorem CheckVPARecommender_correct_witness:
  "ready (fake_view (rw_tracker empty_rworld)) (sr_config example_reporter)"
  using CheckVPARecommender_correct [OF example_client empty_rworld_wf empty_check] by simp


text \<open>The first report of the example: the recommender is ready, so the status is that of availability.\<close>

definition first_status :: ClusterOperatorStatus where
  "first_status = available_status ''4.20'' ReasonEmpty ''at version 4.20''"

lemma first_applied: "\<exists>w. run_state (ApplyStatus example_reporter first_status) empty_rworld = (None, w)"
proof -
  obtain res w' where run: "run_state (ApplyStatus example_reporter first_status) empty_rworld = (res, w')" by fastforce
  show ?thesis
  proof (rule fixture.ApplyStatus_cases [OF empty_rworld_wf run])
    fix err
    assume "run_state (GetOrCreateClusterOperator example_reporter) empty_rworld = (Inl err, w')"
    then show ?thesis
      by (simp add: GetOrCreateClusterOperator_def GetClusterOperator_def run_simps example_reporter_def empty_rworld_def
          fixture_get_def fixture_add_def co_error_def IsNotFound_def)
  next
    fix co w1 status' modified co2
    assume co: "fmlookup (rw_operators w1) OperatorName = Some co" and w1: "rworld_wf w1"
      and ens: "EnsureClusterOperatorStatus False co (co\<lparr>co_Status := status'\<rparr>) = (modified, co2)"
      and sent: "if modified then (case cc_UpdateStatus (sr_configClient example_reporter) co2 w1 of
          (u, w2) \<Rightarrow> w' = w2 \<and> res = (case u of Inl err \<Rightarrow> Some err | Inr co' \<Rightarrow> None))
        else w' = w1 \<and> res = None"
    have "om_Name (co_Meta co) = OperatorName" "distinct (map or_UID (om_OwnerReferences (co_Meta co)))"
      using co w1 by (simp_all add: rworld_wf_def operators_wf_def)
    then have "om_Name (co_Meta co2) = OperatorName"
      using EnsureClusterOperatorStatus_same_meta [of "co\<lparr>co_Status := status'\<rparr>" co False] ens by simp
    then show ?thesis
      using sent co run by (simp add: example_reporter_def fixture_add_def Let_def split: if_splits)
  qed
qed

lemma first_status_shape:
  "FindOperatorStatusCondition (cos_Conditions first_status) OperatorProgressing \<noteq> None"
  "distinct (map cc_Type (cos_Conditions first_status))"
  by (simp_all add: first_status_def available_status_def mk_condition_def go_defs)


text \<open>
  C25: Reporting the same status again writes nothing: after \<open>ApplyStatus\<close> returned nil, a second
  \<open>ApplyStatus\<close> of the same status, whatever it returns, leaves the ClusterOperator object as it
  was, transition times included.
\<close>

theorem ApplyStatus_idempotent:
  assumes "reporter_api r view good coview trunc" and "good w"
    and "run_state (ApplyStatus r status) w = (None, w1)" and "run_state (ApplyStatus r status) w1 = (res, w2)"
    and "FindOperatorStatusCondition (cos_Conditions status) OperatorProgressing \<noteq> None"
    and "distinct (map cc_Type (cos_Conditions status))"
  shows "coview w2 = coview w1"
proof -
  obtain co where co: "coview w1 = Some co"
      "reports (src_RelatedObjects (sr_config r)) status (reported (coview w)) (co_Status co)"
    using reporter_api.ApplyStatus_nil [OF assms(1,2,3,5)] by blast
  have "good w1" using reporter_api.ApplyStatus_frame [OF assms(1,2,3)] by blast
  then show ?thesis by (rule reporter_api.ApplyStatus_again [OF assms(1) _ assms(4) co assms(6)])
qed

theorem ApplyStatus_idempotent_witness:
  "\<exists>w1 res w2. run_state (ApplyStatus example_reporter first_status) empty_rworld = (None, w1) \<and>
     run_state (ApplyStatus example_reporter first_status) w1 = (res, w2) \<and>
     fmlookup (rw_operators w2) OperatorName = fmlookup (rw_operators w1) OperatorName"
proof -
  obtain w1 where w1: "run_state (ApplyStatus example_reporter first_status) empty_rworld = (None, w1)"
    using first_applied by blast
  obtain res w2 where w2: "run_state (ApplyStatus example_reporter first_status) w1 = (res, w2)" by fastforce
  show ?thesis
    using ApplyStatus_idempotent [OF fixture.reporter_api_axioms empty_rworld_wf w1 w2 first_status_shape] w1 w2 by blast
qed

text \<open>
  C23: What \<open>ReportStatus\<close> reports. When it returns true, the recommender is ready, and the
  ClusterOperator object says available, not progressing, not degraded, at the reporter's
  release version. When it returns false, the object says available and either progressing
  (then the recommender is not ready) or degraded (then the check failed), and the
  versions stay as they were.
\<close>

theorem ReportStatus_correct:
  assumes "reporter_api r view good coview trunc" and "good w" and "run_state (ReportStatus r) w = (Inr b, w')"
  shows "\<exists>co. coview w' = Some co \<and>
    (if b then ready (view w) (sr_config r) \<and>
       conditions_of (co_Status co) = [(''Available'', ''True''), (''Progressing'', ''False''), (''Degraded'', ''False'')] \<and>
       nilslice (cos_Versions (co_Status co)) = [\<lparr>ov_Name = ''operator'', ov_Version = src_ReleaseVersion (sr_config r)\<rparr>]
     else (conditions_of (co_Status co) = [(''Available'', ''True''), (''Progressing'', ''True''), (''Degraded'', ''False'')] \<and>
           \<not> ready (view w) (sr_config r) \<or>
           conditions_of (co_Status co) = [(''Available'', ''True''), (''Progressing'', ''False''), (''Degraded'', ''True'')]) \<and>
       nilslice (cos_Versions (co_Status co)) = nilslice (cos_Versions (reported (coview w))))"
proof -
  obtain check co where c: "b \<longleftrightarrow> check = Inr True" "\<forall>ok. check = Inr ok \<longrightarrow> (ok \<longleftrightarrow> ready (view w) (sr_config r))"
      "coview w' = Some co"
      "reports (src_RelatedObjects (sr_config r)) (intended (sr_config r) check) (reported (coview w)) (co_Status co)"
    using reporter_api.ReportStatus_reported [OF assms] by blast
  have v: "nilslice (cos_Versions (co_Status co)) = next_versions (intended (sr_config r) check) (reported (coview w))"
    using c(4) by (simp add: reports_def)
  show ?thesis
    using c(1-3) reports_conditions [OF c(4)] v
    by (cases check) (auto simp: intended_conditions_of next_versions_def intended_versions)
qed

lemma first_report: "\<exists>w. run_state (ReportStatus example_reporter) empty_rworld = (Inr True, w)"
proof -
  obtain w where "run_state (ApplyStatus example_reporter first_status) empty_rworld = (None, w)"
    using first_applied by blast
  moreover have "available example_reporter ReasonEmpty (''at version '' @ src_ReleaseVersion (sr_config example_reporter)) =
      ApplyStatus example_reporter first_status"
    by (simp add: available_def first_status_def example_reporter_def)
  ultimately show ?thesis using empty_check by (simp add: ReportStatus_def run_simps)
qed

theorem ReportStatus_correct_witness:
  "\<exists>w co. run_state (ReportStatus example_reporter) empty_rworld = (Inr True, w) \<and>
     fmlookup (rw_operators w) OperatorName = Some co \<and>
     nilslice (cos_Versions (co_Status co)) = [\<lparr>ov_Name = ''operator'', ov_Version = ''4.20''\<rparr>]"
proof -
  obtain w where w: "run_state (ReportStatus example_reporter) empty_rworld = (Inr True, w)" using first_report by blast
  have "src_ReleaseVersion (sr_config example_reporter) = ''4.20''" by (simp add: example_reporter_def)
  then show ?thesis
    using ReportStatus_correct [OF fixture.reporter_api_axioms empty_rworld_wf w] w by auto
qed



text \<open>
  The first report comes at once, and if it says available, \<open>Start\<close> returns nil without waiting for
  the context.
\<close>

theorem Start_returns_at_once:
  assumes "run_state (ReportStatus r) w = (Inr True, w1)"
  shows "StatusReporter_Start r tick ctxErr w = Some (None, w1)"
  using assms by (simp add: StatusReporter_Start_def PollUntilContextCancel_def)

end
