(* ===== verification/Status_Timing.thy ===== *)
theory Status_Timing
  imports Status_Theorems Reconcile_Theorems
begin









section \<open>The time of a report\<close>


section \<open>The time of polling\<close>



section \<open>The in-memory reporter, and a context of one minute\<close>






end
