(* ===== verification/Test_Helpers.thy ===== *)
theory Test_Helpers
  imports Status_Props
begin

text \<open>
  \<open>test/helpers/helpers.go\<close>: the wrappers with which the operator's tests build deployments and
  cluster operators. Values are immutable here, so the deep copies are the values themselves.
  The lemmas say that a deployment built this way is one that the status check accepts.
\<close>

section \<open>Deployments\<close>

definition WithAvailableReplicas :: "int \<Rightarrow> Deployment \<Rightarrow> Deployment" where
  "WithAvailableReplicas n d = d\<lparr>dep_Status := (dep_Status d)\<lparr>ds_AvailableReplicas := n\<rparr>\<rparr>"

definition WithReleaseVersion :: "string \<Rightarrow> Deployment \<Rightarrow> Deployment" where
  "WithReleaseVersion v d =
     (let annotations = (case om_Annotations (dep_Meta d) of None \<Rightarrow> fmempty | Some a \<Rightarrow> a)
      in d\<lparr>dep_Meta := (dep_Meta d)\<lparr>om_Annotations := Some (fmupd ReleaseVersionAnnotation v annotations)\<rparr>\<rparr>)"

definition WithAnnotations :: "strmap option \<Rightarrow> Deployment \<Rightarrow> Deployment" where
  "WithAnnotations a d = d\<lparr>dep_Meta := (dep_Meta d)\<lparr>om_Annotations := a\<rparr>\<rparr>"

section \<open>Cluster operators\<close>

definition WithConditions :: "ClusterOperatorStatusCondition list \<Rightarrow> ClusterOperator \<Rightarrow> ClusterOperator" where
  "WithConditions conds co = co\<lparr>co_Status := (co_Status co)\<lparr>cos_Conditions := conds\<rparr>\<rparr>"

fun set_versions :: "string \<Rightarrow> OperandVersion list \<Rightarrow> bool \<Rightarrow> OperandVersion list \<times> bool" where
  "set_versions v [] found = ([], found)"
| "set_versions v (x # xs) found =
     (if ov_Name x = ''operator''
      then (case set_versions v xs True of (ys, f) \<Rightarrow> (x\<lparr>ov_Version := v\<rparr> # ys, f))
      else (case set_versions v xs found of (ys, f) \<Rightarrow> (x # ys, f)))"

definition WithVersion :: "string \<Rightarrow> ClusterOperator \<Rightarrow> ClusterOperator" where
  "WithVersion v co =
     (let versions = (case cos_Versions (co_Status co) of
                        None \<Rightarrow> [\<lparr>ov_Name = ''operator'', ov_Version = ''''\<rparr>]
                      | Some vs \<Rightarrow> vs);
          (versions, found) = set_versions v versions False;
          versions = (if found then versions else versions @ [\<lparr>ov_Name = ''operator'', ov_Version = v\<rparr>])
      in co\<lparr>co_Status := (co_Status co)\<lparr>cos_Versions := Some versions\<rparr>\<rparr>)"

section \<open>Facts\<close>

lemma WithReleaseVersion_matches [simp]:
  "ReleaseVersionMatches (dep_Meta (WithReleaseVersion v d)) u \<longleftrightarrow> u = v"
  by (auto simp: WithReleaseVersion_def ReleaseVersionMatches_iff Let_def)

lemma WithAvailableReplicas_updated:
  "DeploymentUpdated d \<Longrightarrow> DeploymentUpdated (WithAvailableReplicas n d) \<longleftrightarrow> n \<noteq> 0"
  by (auto simp: WithAvailableReplicas_def DeploymentUpdated_iff)

lemma set_versions_eq:
  "set_versions v xs found =
     (map (\<lambda>x. if ov_Name x = ''operator'' then x\<lparr>ov_Version := v\<rparr> else x) xs,
      found \<or> (\<exists>x \<in> set xs. ov_Name x = ''operator''))"
  by (induction v xs found rule: set_versions.induct) auto

text \<open>After \<open>WithVersion\<close> there is an operator version, and every one is the given version.\<close>

lemma WithVersion_versions:
  "\<exists>vs. cos_Versions (co_Status (WithVersion v co)) = Some vs \<and> (\<exists>x \<in> set vs. ov_Name x = ''operator'') \<and>
     (\<forall>x \<in> set vs. ov_Name x = ''operator'' \<longrightarrow> ov_Version x = v)"
proof (cases "cos_Versions (co_Status co)")
  case (Some vs)
  have "\<exists>y \<in> set (fst (set_versions v vs False)). ov_Name y = ''operator''"
    if "x \<in> set vs" "ov_Name x = ''operator''" for x
    using that by (intro bexI [of _ "x\<lparr>ov_Version := v\<rparr>"]) (auto simp: set_versions_eq)
  with Some show ?thesis by (auto simp: WithVersion_def set_versions_eq Let_def)
qed (simp add: WithVersion_def)

text \<open>A deployment of the tests' kind is ready for the reporter exactly at the right version and with a replica.\<close>

lemma helpers_ready:
  assumes "DeploymentUpdated d" and "objs (vpa_ref cfg) \<noteq> None"
    and "objs (recommender_ref cfg) = Some (ODeployment (WithReleaseVersion v (WithAvailableReplicas n d)))"
  shows "ready objs cfg \<longleftrightarrow> v = src_ReleaseVersion cfg \<and> n \<noteq> 0"
  using assms by (auto simp: ready_def DeploymentUpdated_iff WithReleaseVersion_def WithAvailableReplicas_def Let_def)

end
