(* ===== verification/Operator_Config.thy ===== *)
theory Operator_Config
  imports VPA_Prelude
begin

text \<open>
  \<open>internal/operator/config.go\<close> and \<open>internal/operator/infrastructure.go\<close>: the operator's
  configuration, its defaults and the environment variables that override them, and the
  detection of a hosted control plane. The process environment is a finite map; the
  OpenShift client that reads the Infrastructure object is a parameter.
\<close>

definition DefaultWatchNamespace :: string where
  [go_defs]: "DefaultWatchNamespace = ''openshift-vertical-pod-autoscaler''"
definition DefaultVerticalPodAutoscalerNamespace :: string where
  [go_defs]: "DefaultVerticalPodAutoscalerNamespace = ''openshift-vertical-pod-autoscaler''"
definition DefaultVerticalPodAutoscalerName :: string where
  [go_defs]: "DefaultVerticalPodAutoscalerName = ''default''"
definition DefaultVerticalPodAutoscalerImage :: string where
  [go_defs]: "DefaultVerticalPodAutoscalerImage = ''quay.io/openshift/origin-vertical-pod-autoscaler:latest''"
definition DefaultVerticalPodAutoscalerVerbosity :: int where
  [go_defs]: "DefaultVerticalPodAutoscalerVerbosity = 1"

record OperatorConfig =
  oc_ReleaseVersion :: string
  oc_WatchNamespace :: string
  oc_VerticalPodAutoscalerNamespace :: string
  oc_VerticalPodAutoscalerName :: string
  oc_VerticalPodAutoscalerImage :: string
  oc_VerticalPodAutoscalerVerbosity :: int
  oc_VerticalPodAutoscalerExtraArgs :: string

definition NewConfig :: OperatorConfig where
  "NewConfig = \<lparr>oc_ReleaseVersion = '''',
     oc_WatchNamespace = DefaultWatchNamespace,
     oc_VerticalPodAutoscalerNamespace = DefaultVerticalPodAutoscalerNamespace,
     oc_VerticalPodAutoscalerName = DefaultVerticalPodAutoscalerName,
     oc_VerticalPodAutoscalerImage = DefaultVerticalPodAutoscalerImage,
     oc_VerticalPodAutoscalerVerbosity = DefaultVerticalPodAutoscalerVerbosity,
     oc_VerticalPodAutoscalerExtraArgs = ''''\<rparr>"

text \<open>\<open>env\<close> is what \<open>os.LookupEnv\<close> reads.\<close>

definition override :: "strmap \<Rightarrow> string \<Rightarrow> (string \<Rightarrow> 'c \<Rightarrow> 'c) \<Rightarrow> 'c \<Rightarrow> 'c" where
  "override env var assign config =
     (case fmlookup env var of None \<Rightarrow> config | Some v \<Rightarrow> assign v config)"

definition ConfigFromEnvironment :: "strmap \<Rightarrow> OperatorConfig" where
  "ConfigFromEnvironment env =
     (let c0 = NewConfig;
          c1 = override env ''RELEASE_VERSION'' (\<lambda>v c. c\<lparr>oc_ReleaseVersion := v\<rparr>) c0;
          c2 = override env ''WATCH_NAMESPACE'' (\<lambda>v c. c\<lparr>oc_WatchNamespace := v\<rparr>) c1;
          c3 = override env ''VERTICAL_POD_AUTOSCALER_NAME''
                 (\<lambda>v c. c\<lparr>oc_VerticalPodAutoscalerName := v\<rparr>) c2;
          c4 = override env ''VPA_OPERAND_IMAGE''
                 (\<lambda>v c. c\<lparr>oc_VerticalPodAutoscalerImage := v\<rparr>) c3;
          c5 = override env ''VERTICAL_POD_AUTOSCALER_NAMESPACE''
                 (\<lambda>v c. c\<lparr>oc_VerticalPodAutoscalerNamespace := v\<rparr>) c4;
          c6 = override env ''VERTICAL_POD_AUTOSCALER_VERBOSITY''
                 (\<lambda>v c. c\<lparr>oc_VerticalPodAutoscalerVerbosity :=
                    (case Atoi v of None \<Rightarrow> DefaultVerticalPodAutoscalerVerbosity | Some n \<Rightarrow> n)\<rparr>) c5;
          c7 = override env ''VERTICAL_POD_AUTOSCALER_EXTRA_ARGS''
                 (\<lambda>v c. c\<lparr>oc_VerticalPodAutoscalerExtraArgs := v\<rparr>) c6
      in c7)"

section \<open>Control plane topology\<close>

definition InfrastructureName :: string where [go_defs]: "InfrastructureName = ''cluster''"
definition ExternalTopologyMode :: string where [go_defs]: "ExternalTopologyMode = ''External''"

text \<open>
  \<open>newForConfig\<close> is the error of creating the client, \<open>getInfra\<close> reads the control plane
  topology of the named Infrastructure object.
\<close>

definition GetControlPlaneTopology ::
  "go_error option \<Rightarrow> (string \<Rightarrow> go_error + string) \<Rightarrow> go_error + string" where
  "GetControlPlaneTopology newForConfig getInfra =
     (case newForConfig of
        Some err \<Rightarrow> Inl (WrapError ''failed to create config client: '' err)
      | None \<Rightarrow>
          (case getInfra InfrastructureName of
             Inl err \<Rightarrow> Inl (WrapError ''failed to get Infrastructure resource: '' err)
           | Inr topology \<Rightarrow> Inr topology))"

definition IsExternalControlPlane ::
  "go_error option \<Rightarrow> (string \<Rightarrow> go_error + string) \<Rightarrow> bool" where
  "IsExternalControlPlane newForConfig getInfra =
     (case GetControlPlaneTopology newForConfig getInfra of
        Inl err \<Rightarrow> False
      | Inr topology \<Rightarrow> topology = ExternalTopologyMode)"

section \<open>Properties\<close>

definition env_or :: "strmap \<Rightarrow> string \<Rightarrow> string \<Rightarrow> string" where
  "env_or env var dflt = (case fmlookup env var of None \<Rightarrow> dflt | Some v \<Rightarrow> v)"

lemma override_field:
  assumes "\<And>c. assign (fld c) c = c"
  shows "override env var assign c = assign (env_or env var (fld c)) c"
  using assms by (cases "fmlookup env var") (simp_all add: override_def env_or_def)

lemmas override_fields =
  override_field [where fld = oc_ReleaseVersion and assign = "\<lambda>v c. c\<lparr>oc_ReleaseVersion := v\<rparr>", simplified]
  override_field [where fld = oc_WatchNamespace and assign = "\<lambda>v c. c\<lparr>oc_WatchNamespace := v\<rparr>", simplified]
  override_field [where fld = oc_VerticalPodAutoscalerName
    and assign = "\<lambda>v c. c\<lparr>oc_VerticalPodAutoscalerName := v\<rparr>", simplified]
  override_field [where fld = oc_VerticalPodAutoscalerImage
    and assign = "\<lambda>v c. c\<lparr>oc_VerticalPodAutoscalerImage := v\<rparr>", simplified]
  override_field [where fld = oc_VerticalPodAutoscalerNamespace
    and assign = "\<lambda>v c. c\<lparr>oc_VerticalPodAutoscalerNamespace := v\<rparr>", simplified]
  override_field [where fld = oc_VerticalPodAutoscalerExtraArgs
    and assign = "\<lambda>v c. c\<lparr>oc_VerticalPodAutoscalerExtraArgs := v\<rparr>", simplified]

text \<open>
  \<open>ConfigFromEnvironment\<close> sets each field from its own variable when the variable is set,
  even to the empty string, and leaves the default otherwise; the verbosity falls back to the
  default also when the variable is not a decimal integer of 64 bits.
\<close>

theorem ConfigFromEnvironment_correct:
  "ConfigFromEnvironment env =
     \<lparr>oc_ReleaseVersion = env_or env ''RELEASE_VERSION'' '''',
      oc_WatchNamespace = env_or env ''WATCH_NAMESPACE'' DefaultWatchNamespace,
      oc_VerticalPodAutoscalerNamespace =
        env_or env ''VERTICAL_POD_AUTOSCALER_NAMESPACE'' DefaultVerticalPodAutoscalerNamespace,
      oc_VerticalPodAutoscalerName =
        env_or env ''VERTICAL_POD_AUTOSCALER_NAME'' DefaultVerticalPodAutoscalerName,
      oc_VerticalPodAutoscalerImage =
        env_or env ''VPA_OPERAND_IMAGE'' DefaultVerticalPodAutoscalerImage,
      oc_VerticalPodAutoscalerVerbosity =
        (case Option.bind (fmlookup env ''VERTICAL_POD_AUTOSCALER_VERBOSITY'') Atoi of
           None \<Rightarrow> DefaultVerticalPodAutoscalerVerbosity | Some n \<Rightarrow> n),
      oc_VerticalPodAutoscalerExtraArgs = env_or env ''VERTICAL_POD_AUTOSCALER_EXTRA_ARGS'' ''''\<rparr>"
proof -
  let ?verb = "\<lambda>v c. c\<lparr>oc_VerticalPodAutoscalerVerbosity :=
      (case Atoi v of None \<Rightarrow> DefaultVerticalPodAutoscalerVerbosity | Some n \<Rightarrow> n)\<rparr>"
  have verb: "override env ''VERTICAL_POD_AUTOSCALER_VERBOSITY'' ?verb c =
      c\<lparr>oc_VerticalPodAutoscalerVerbosity :=
        (case Option.bind (fmlookup env ''VERTICAL_POD_AUTOSCALER_VERBOSITY'') Atoi of
           None \<Rightarrow> DefaultVerticalPodAutoscalerVerbosity | Some n \<Rightarrow> n)\<rparr>"
    if "oc_VerticalPodAutoscalerVerbosity c = DefaultVerticalPodAutoscalerVerbosity"
    for c :: OperatorConfig
    using that by (cases "fmlookup env ''VERTICAL_POD_AUTOSCALER_VERBOSITY''")
      (simp_all add: override_def flip: that)
  show ?thesis
    by (simp add: ConfigFromEnvironment_def NewConfig_def Let_def override_fields verb)
qed

text \<open>
  The control plane is taken to be external only when the client could be created, the
  Infrastructure object named \<open>cluster\<close> could be read and it reports the External topology;
  every error counts as a standard control plane.
\<close>

theorem IsExternalControlPlane_iff:
  "IsExternalControlPlane newForConfig getInfra \<longleftrightarrow>
     newForConfig = None \<and> getInfra ''cluster'' = Inr ''External''"
  by (auto simp: IsExternalControlPlane_def GetControlPlaneTopology_def go_defs
      split: option.splits sum.splits)

end
