(* ===== verification/Operator_Main.thy ===== *)
theory Operator_Main
  imports Controller Operator_Config "HOL-Library.Word"
begin

text \<open>
  \<open>cmd/main.go\<close>: the set-up of the process, from the parsed flags and the environment to the
  options of the metrics server and of the manager, the reconciler's configuration and the watcher
  that ends the process when the cluster's TLS settings change; with the functions it takes from
  the vendored \<open>controller-runtime-common/pkg/tls\<close> and \<open>library-go/pkg/crypto\<close>.

  The calls into controller-runtime that create the manager, register controllers and checks, and
  read the kubeconfig are parameters (their errors are fields of the record \<open>runtime\<close>).
\<close>

section \<open>TLS settings of the metrics server\<close>

text \<open>\<open>tls.Config\<close>, the fields that are set here.\<close>

record TLSConfig =
  tc_NextProtos :: "string list"
  tc_MinVersion :: "16 word"
  tc_CipherSuites :: "16 word list"

definition tls_versions :: "(string \<times> 16 word) list" where
  "tls_versions = [(''VersionTLS10'', 0x0301), (''VersionTLS11'', 0x0302), (''VersionTLS12'', 0x0303),
     (''VersionTLS13'', 0x0304)]"

definition TLSVersion :: "string \<Rightarrow> go_error + 16 word" where
  "TLSVersion versionName =
     (if length versionName = 0 then Inr 0x0303
      else (case map_of tls_versions versionName of
              Some version \<Rightarrow> Inr version
            | None \<Rightarrow> Inl (PlainError (''unknown tls version '' @ ''\"'' @ versionName @ ''\"''))))"

definition cipher_ids :: "(string \<times> 16 word) list" where
  "cipher_ids =
    [(''TLS_RSA_WITH_RC4_128_SHA'', 0x0005), (''TLS_RSA_WITH_3DES_EDE_CBC_SHA'', 0x000a),
     (''TLS_RSA_WITH_AES_128_CBC_SHA'', 0x002f), (''TLS_RSA_WITH_AES_256_CBC_SHA'', 0x0035),
     (''TLS_RSA_WITH_AES_128_CBC_SHA256'', 0x003c), (''TLS_RSA_WITH_AES_128_GCM_SHA256'', 0x009c),
     (''TLS_RSA_WITH_AES_256_GCM_SHA384'', 0x009d), (''TLS_ECDHE_ECDSA_WITH_RC4_128_SHA'', 0xc007),
     (''TLS_ECDHE_ECDSA_WITH_AES_128_CBC_SHA'', 0xc009), (''TLS_ECDHE_ECDSA_WITH_AES_256_CBC_SHA'', 0xc00a),
     (''TLS_ECDHE_RSA_WITH_RC4_128_SHA'', 0xc011), (''TLS_ECDHE_RSA_WITH_3DES_EDE_CBC_SHA'', 0xc012),
     (''TLS_ECDHE_RSA_WITH_AES_128_CBC_SHA'', 0xc013), (''TLS_ECDHE_RSA_WITH_AES_256_CBC_SHA'', 0xc014),
     (''TLS_ECDHE_ECDSA_WITH_AES_128_CBC_SHA256'', 0xc023), (''TLS_ECDHE_RSA_WITH_AES_128_CBC_SHA256'', 0xc027),
     (''TLS_ECDHE_RSA_WITH_AES_128_GCM_SHA256'', 0xc02f), (''TLS_ECDHE_ECDSA_WITH_AES_128_GCM_SHA256'', 0xc02b),
     (''TLS_ECDHE_RSA_WITH_AES_256_GCM_SHA384'', 0xc030), (''TLS_ECDHE_ECDSA_WITH_AES_256_GCM_SHA384'', 0xc02c),
     (''TLS_ECDHE_RSA_WITH_CHACHA20_POLY1305'', 0xcca8), (''TLS_ECDHE_ECDSA_WITH_CHACHA20_POLY1305'', 0xcca9),
     (''TLS_ECDHE_RSA_WITH_CHACHA20_POLY1305_SHA256'', 0xcca8), (''TLS_ECDHE_ECDSA_WITH_CHACHA20_POLY1305_SHA256'', 0xcca9),
     (''TLS_AES_128_GCM_SHA256'', 0x1301), (''TLS_AES_256_GCM_SHA384'', 0x1302),
     (''TLS_CHACHA20_POLY1305_SHA256'', 0x1303)]"

definition cipherCode :: "string \<Rightarrow> 16 word" where
  "cipherCode cipher =
     (case map_of cipher_ids cipher of
        Some code \<Rightarrow> code
      | None \<Rightarrow>
          (case OpenSSLToIANACipherSuites [cipher] of
             [iana] \<Rightarrow> (case map_of cipher_ids iana of Some code \<Rightarrow> code | None \<Rightarrow> 0)
           | _ \<Rightarrow> 0))"

fun cipherCodes :: "string list \<Rightarrow> 16 word list \<times> string list" where
  "cipherCodes [] = ([], [])"
| "cipherCodes (cipher # ciphers) =
     (case cipherCodes ciphers of (codes, unsupported) \<Rightarrow>
        if cipherCode cipher = 0 then (codes, cipher # unsupported)
        else (cipherCode cipher # codes, unsupported))"

text \<open>\<open>Inl\<close> is the panic of \<open>TLSVersionOrDie\<close>.\<close>

definition NewTLSConfigFromProfile ::
  "TLSProfileSpec \<Rightarrow> go_error + ((TLSConfig \<Rightarrow> TLSConfig) \<times> string list)" where
  "NewTLSConfigFromProfile profile =
     (case TLSVersion (tps_MinTLSVersion profile) of
        Inl err \<Rightarrow> Inl err
      | Inr minVersion \<Rightarrow>
          (case cipherCodes (tps_Ciphers profile) of (cipherSuites, unsupported) \<Rightarrow>
             Inr (\<lambda>tlsConf.
                    let tlsConf = tlsConf\<lparr>tc_MinVersion := minVersion\<rparr>
                    in if minVersion \<noteq> 0x0304 then tlsConf\<lparr>tc_CipherSuites := cipherSuites\<rparr> else tlsConf,
                  unsupported)))"

definition disableHTTP2 :: "TLSConfig \<Rightarrow> TLSConfig" where
  "disableHTTP2 c = c\<lparr>tc_NextProtos := [''http/1.1'']\<rparr>"

section \<open>Set-up\<close>

text \<open>The flags, as \<open>flag.Parse\<close> leaves them.\<close>

record flags =
  fl_metricsAddr :: string
  fl_probeAddr :: string
  fl_enableLeaderElection :: bool
  fl_secureMetrics :: bool
  fl_enableHTTP2 :: bool

definition default_flags :: flags where
  "default_flags = \<lparr>fl_metricsAddr = ''0'', fl_probeAddr = '':8081'', fl_enableLeaderElection = False,
     fl_secureMetrics = True, fl_enableHTTP2 = False\<rparr>"

record MetricsOptions =
  mt_BindAddress :: string
  mt_SecureServing :: bool
  mt_TLSOpts :: "(TLSConfig \<Rightarrow> TLSConfig) list"
  mt_CertDir :: string
  mt_CertName :: string
  mt_KeyName :: string
  mt_WithAuthenticationAndAuthorization :: bool

definition metricsServerOptions :: "flags \<Rightarrow> (TLSConfig \<Rightarrow> TLSConfig) list \<Rightarrow> MetricsOptions" where
  "metricsServerOptions fl tlsOpts =
     (let o0 = \<lparr>mt_BindAddress = fl_metricsAddr fl, mt_SecureServing = fl_secureMetrics fl, mt_TLSOpts = tlsOpts,
                mt_CertDir = '''', mt_CertName = '''', mt_KeyName = '''',
                mt_WithAuthenticationAndAuthorization = False\<rparr>
      in if fl_secureMetrics fl
         then o0\<lparr>mt_CertDir := ''/etc/metrics-tls-certs'', mt_CertName := ''tls.crt'', mt_KeyName := ''tls.key'',
                 mt_WithAuthenticationAndAuthorization := True\<rparr>
         else o0)"

record ManagerOptions =
  mo_Metrics :: MetricsOptions
  mo_HealthProbeBindAddress :: string
  mo_LeaderElection :: bool
  mo_LeaderElectionID :: string
  mo_DefaultNamespaces :: "string list"

definition manager_options :: "flags \<Rightarrow> OperatorConfig \<Rightarrow> MetricsOptions \<Rightarrow> ManagerOptions" where
  "manager_options fl config metrics =
     \<lparr>mo_Metrics = metrics, mo_HealthProbeBindAddress = fl_probeAddr fl,
      mo_LeaderElection = fl_enableLeaderElection fl, mo_LeaderElectionID = ''201e3e80.openshift.io'',
      mo_DefaultNamespaces = [oc_WatchNamespace config]\<rparr>"

definition reconciler_config :: "OperatorConfig \<Rightarrow> TLSProfileSpec option \<Rightarrow> bool \<Rightarrow> Config" where
  "reconciler_config config tlsProfilePointer isExternalControlPlane =
     \<lparr>cfg_ReleaseVersion = oc_ReleaseVersion config,
      cfg_Name = oc_VerticalPodAutoscalerName config,
      cfg_Namespace = oc_VerticalPodAutoscalerNamespace config,
      cfg_Image = oc_VerticalPodAutoscalerImage config,
      cfg_Verbosity = oc_VerticalPodAutoscalerVerbosity config,
      cfg_ExtraArgs = oc_VerticalPodAutoscalerExtraArgs config,
      cfg_TLSProfileSpec = tlsProfilePointer,
      cfg_IsExternalControlPlane = isExternalControlPlane\<rparr>"

text \<open>
  \<open>SecurityProfileWatcher\<close>, the fields it keeps, with the variable that its callbacks capture. Slices
  of ciphers and groups are lists, so \<open>reflect.DeepEqual\<close> on profiles is equality.
\<close>

record SecurityProfileWatcher =
  sw_InitialTLSProfileSpec :: TLSProfileSpec
  sw_InitialTLSAdherencePolicy :: string
  sw_shouldHonorClusterTLSProfile :: bool

text \<open>
  What the process meets: its flags and environment, the kubeconfig (it is read twice), the bootstrap client, and the errors of
  the calls into controller-runtime.
\<close>

record 'w runtime =
  rt_flags :: flags
  rt_env :: strmap
  rt_GetConfig :: "go_error option"
  rt_NewClient :: "go_error + 'w client"
  rt_NewManager :: "ManagerOptions \<Rightarrow> go_error option"
  rt_GetConfigAgain :: "go_error option"
  rt_NewForConfig :: "go_error option"
  rt_Infrastructure :: "string \<Rightarrow> go_error + string"
  rt_SetupWithManager :: "Config \<Rightarrow> go_error option"
  rt_WatcherSetup :: "go_error option"
  rt_AddHealthzCheck :: "go_error option"
  rt_AddReadyzCheck :: "go_error option"

text \<open>The process exits with status 1 after logging a message, or panics, or starts the manager.\<close>

datatype stop = Exit string go_error | Panic go_error

record operator_setup =
  su_Manager :: ManagerOptions
  su_Config :: Config
  su_Watcher :: "SecurityProfileWatcher option"

definition or_exit :: "go_error option \<Rightarrow> string \<Rightarrow> stop + 'a \<Rightarrow> stop + 'a" where
  "or_exit err msg k = (case err of Some e \<Rightarrow> Inl (Exit msg e) | None \<Rightarrow> k)"

text \<open>\<open>main\<close> after the APIServer object is read.\<close>

definition main_after_read :: "'w runtime \<Rightarrow> APIServerSpec \<Rightarrow> stop + operator_setup" where
  "main_after_read rt spec =
     (let fl = rt_flags rt;
          shouldHonor = ShouldHonorClusterTLSProfile (as_TLSAdherence spec);
          tlsOpts = (if \<not> fl_enableHTTP2 fl then [disableHTTP2] else [])
      in case GetTLSProfileSpec (as_TLSSecurityProfile spec) of
           Inl err \<Rightarrow> Inl (Exit ''unable to get APIServer TLS profile'' err)
         | Inr tlsProfile \<Rightarrow>
             (case (if fl_secureMetrics fl \<and> shouldHonor
                    then (case NewTLSConfigFromProfile tlsProfile of
                            Inl err \<Rightarrow> Inl (Panic err)
                          | Inr (tlsConfigFn, unsupported) \<Rightarrow> Inr (tlsOpts @ [tlsConfigFn]))
                    else Inr tlsOpts) of
                Inl stop \<Rightarrow> Inl stop
              | Inr tlsOpts \<Rightarrow>
                  (let config = ConfigFromEnvironment (rt_env rt);
                       mgrOpts = manager_options fl config (metricsServerOptions fl tlsOpts);
                       isExternal = IsExternalControlPlane (rt_NewForConfig rt) (rt_Infrastructure rt);
                       tlsProfilePointer = (if \<not> shouldHonor then None else Some tlsProfile);
                       cfg = reconciler_config config tlsProfilePointer isExternal;
                       watcher = (if fl_secureMetrics fl
                                  then Some \<lparr>sw_InitialTLSProfileSpec = tlsProfile,
                                    sw_InitialTLSAdherencePolicy = as_TLSAdherence spec,
                                    sw_shouldHonorClusterTLSProfile = shouldHonor\<rparr>
                                  else None)
                   in or_exit (rt_NewManager rt mgrOpts) ''unable to start manager''
                      (or_exit (rt_GetConfigAgain rt) ''unable to get kubeconfig''
                      (or_exit (rt_SetupWithManager rt cfg) ''unable to create controller''
                      (or_exit (if fl_secureMetrics fl then rt_WatcherSetup rt else None)
                        ''unable to set up TLS security profile watcher''
                      (or_exit (rt_AddHealthzCheck rt) ''unable to set up health check''
                      (or_exit (rt_AddReadyzCheck rt) ''unable to set up ready check''
                      (Inr \<lparr>su_Manager = mgrOpts, su_Config = cfg, su_Watcher = watcher\<rparr>)))))))))"

text \<open>\<open>main\<close>, up to the start of the manager.\<close>

definition main_setup :: "'w runtime \<Rightarrow> ('w, stop + operator_setup) state" where
  "main_setup rt =
     (case rt_GetConfig rt of
        Some err \<Rightarrow> State_Monad.return (Inl (Exit ''unable to get kubeconfig'' err))
      | None \<Rightarrow>
          (case rt_NewClient rt of
             Inl err \<Rightarrow> State_Monad.return (Inl (Exit ''unable to create bootstrap client'' err))
           | Inr bootstrapClient \<Rightarrow>
               do { got \<leftarrow> State (cl_Get bootstrapClient KAPIServer \<lparr>nn_Namespace = '''', nn_Name = APIServerName\<rparr>);
                    State_Monad.return
                      (case decoded as_apiserver got of
                         Inl err \<Rightarrow> Inl (Exit ''Failed to fetch OpenShift APIServer config'' err)
                       | Inr apiServerConfig \<Rightarrow> main_after_read rt (api_Spec apiServerConfig)) }))"

section \<open>The watcher\<close>

text \<open>The callbacks of \<open>main\<close>; true when they cancel the process's context.\<close>

definition OnProfileChange :: "SecurityProfileWatcher \<Rightarrow> TLSProfileSpec \<Rightarrow> TLSProfileSpec \<Rightarrow> bool" where
  "OnProfileChange r old new = sw_shouldHonorClusterTLSProfile r"

definition OnAdherencePolicyChange :: "string \<Rightarrow> string \<Rightarrow> bool" where
  "OnAdherencePolicyChange oldPolicy newPolicy \<longleftrightarrow>
     ShouldHonorClusterTLSProfile oldPolicy \<noteq> ShouldHonorClusterTLSProfile newPolicy"

text \<open>
  \<open>SecurityProfileWatcher.Reconcile\<close> with what its \<open>Get\<close> returned: its error, whether the context was
  cancelled, and the watcher after it.
\<close>

definition watcher_Reconcile ::
  "go_error + APIServer \<Rightarrow> SecurityProfileWatcher \<Rightarrow> (go_error option \<times> bool) \<times> SecurityProfileWatcher" where
  "watcher_Reconcile got r =
     (case got of
        Inl err \<Rightarrow>
          ((if IsNotFound err then None else Some (WrapError ''failed to get APIServer /cluster: '' err), False), r)
      | Inr apiServer \<Rightarrow>
          (case GetTLSProfileSpec (as_TLSSecurityProfile (api_Spec apiServer)) of
             Inl err \<Rightarrow> ((Some (WrapError ''failed to get TLS profile from APIServer /cluster: '' err), False), r)
           | Inr current \<Rightarrow>
               (let policy = as_TLSAdherence (api_Spec apiServer);
                    (c1, r1) = (if sw_InitialTLSProfileSpec r \<noteq> current
                                then (OnProfileChange r (sw_InitialTLSProfileSpec r) current,
                                      r\<lparr>sw_InitialTLSProfileSpec := current\<rparr>)
                                else (False, r));
                    (c2, r2) = (if sw_InitialTLSAdherencePolicy r1 \<noteq> policy
                                then (OnAdherencePolicyChange (sw_InitialTLSAdherencePolicy r1) policy,
                                      r1\<lparr>sw_InitialTLSAdherencePolicy := policy\<rparr>)
                                else (False, r1))
                in ((None, c1 \<or> c2), r2))))"

text \<open>Has one of a sequence of runs cancelled the context?\<close>

fun watch :: "(go_error + APIServer) list \<Rightarrow> SecurityProfileWatcher \<Rightarrow> bool" where
  "watch [] r = False"
| "watch (got # gots) r =
     (case watcher_Reconcile got r of ((err, cancelled), r') \<Rightarrow> cancelled \<or> watch gots r')"

end
