(* ===== verification/Main_Props.thy ===== *)
theory Main_Props
  imports Operator_Main Reconcile_Theorems
begin

text \<open>
  What the set-up of theory \<open>Operator_Main\<close> guarantees: when the process starts, that the metrics server
  and the operands use the same TLS profile, that a change of the profile in force restarts the process,
  and that the reconciler's own reading of the profile agrees with it.
\<close>

text \<open>The profiles with a minimum version that Go knows.\<close>

definition known_version :: "TLSProfileSpec \<Rightarrow> bool" where
  "known_version p \<longleftrightarrow>
     tps_MinTLSVersion p \<in> {'''', ''VersionTLS10'', ''VersionTLS11'', ''VersionTLS12'', ''VersionTLS13''}"

lemma TLSVersion_known: "(\<exists>v. TLSVersion (tps_MinTLSVersion p) = Inr v) \<longleftrightarrow> known_version p"
  by (auto simp: TLSVersion_def tls_versions_def known_version_def split: option.splits)

lemma NewTLSConfigFromProfile_known: "(\<exists>f. NewTLSConfigFromProfile p = Inr f) \<longleftrightarrow> known_version p"
  by (auto simp: NewTLSConfigFromProfile_def simp flip: TLSVersion_known split: sum.splits prod.splits)

lemma predefined_known:
  assumes "GetTLSProfileSpec profile = Inr p" and "map_option tsp_Type profile \<noteq> Some ''Custom''"
  shows "known_version p"
  using assms by (auto simp: GetTLSProfileSpec_def known_version_def TLSProfiles_def defaultProfile_def go_defs
      split: option.splits if_splits)

lemma or_exit_Inr: "or_exit err msg k = Inr x \<longleftrightarrow> err = None \<and> k = Inr x"
  by (simp add: or_exit_def split: option.split)

definition profile_opts :: "'w runtime \<Rightarrow> APIServerSpec \<Rightarrow> TLSProfileSpec \<Rightarrow> (TLSConfig \<Rightarrow> TLSConfig) list option" where
  "profile_opts rt spec p =
     (if fl_secureMetrics (rt_flags rt) \<and> ShouldHonorClusterTLSProfile (as_TLSAdherence spec)
      then (case NewTLSConfigFromProfile p of Inl err \<Rightarrow> None | Inr (f, unsupported) \<Rightarrow> Some [f])
      else Some [])"

lemma main_after_read_Inr:
  assumes "main_after_read rt spec = Inr su"
  obtains p opts where "GetTLSProfileSpec (as_TLSSecurityProfile spec) = Inr p" "profile_opts rt spec p = Some opts"
    "mt_TLSOpts (mo_Metrics (su_Manager su)) = (if fl_enableHTTP2 (rt_flags rt) then [] else [disableHTTP2]) @ opts"
    "su_Config su = reconciler_config (ConfigFromEnvironment (rt_env rt)) (synced_profile spec None)
       (IsExternalControlPlane (rt_NewForConfig rt) (rt_Infrastructure rt))"
    "su_Watcher su = (if fl_secureMetrics (rt_flags rt)
       then Some \<lparr>sw_InitialTLSProfileSpec = p, sw_InitialTLSAdherencePolicy = as_TLSAdherence spec,
         sw_shouldHonorClusterTLSProfile = ShouldHonorClusterTLSProfile (as_TLSAdherence spec)\<rparr> else None)"
proof (cases "GetTLSProfileSpec (as_TLSSecurityProfile spec)")
  case (Inr p)
  then obtain opts where opts: "profile_opts rt spec p = Some opts"
    using assms by (cases "profile_opts rt spec p")
      (auto simp: main_after_read_def profile_opts_def Let_def split: sum.splits if_splits)
  show thesis
    using assms Inr opts
    by (intro that [OF Inr opts])
      (auto simp: main_after_read_def profile_opts_def synced_profile_def Let_def or_exit_Inr manager_options_def
        metricsServerOptions_def split: sum.splits if_splits)
qed (use assms in \<open>simp add: main_after_read_def\<close>)

text \<open>The result of \<open>main_after_read\<close> when the calls of controller-runtime succeed.\<close>

definition runtime_succeeds :: "'w runtime \<Rightarrow> bool" where
  "runtime_succeeds rt \<longleftrightarrow> rt_NewManager rt = (\<lambda>opts. None) \<and> rt_GetConfigAgain rt = None \<and>
     rt_SetupWithManager rt = (\<lambda>cfg. None) \<and> rt_WatcherSetup rt = None \<and>
     rt_AddHealthzCheck rt = None \<and> rt_AddReadyzCheck rt = None"

lemma NewTLSConfigFromProfile_Inl: "NewTLSConfigFromProfile p = Inl err \<longleftrightarrow> TLSVersion (tps_MinTLSVersion p) = Inl err"
  by (auto simp: NewTLSConfigFromProfile_def split: sum.splits prod.splits)

lemma main_after_read_result:
  assumes "runtime_succeeds rt"
  shows "\<exists>su. main_after_read rt spec =
    (case GetTLSProfileSpec (as_TLSSecurityProfile spec) of
       Inl err \<Rightarrow> Inl (Exit ''unable to get APIServer TLS profile'' err)
     | Inr p \<Rightarrow>
         if fl_secureMetrics (rt_flags rt) \<and> ShouldHonorClusterTLSProfile (as_TLSAdherence spec)
         then (case TLSVersion (tps_MinTLSVersion p) of Inl err \<Rightarrow> Inl (Panic err) | Inr v \<Rightarrow> Inr su)
         else Inr su)"
proof (cases "GetTLSProfileSpec (as_TLSSecurityProfile spec)")
  case (Inr p)
  note S = assms [unfolded runtime_succeeds_def] Inr
  let ?used = "fl_secureMetrics (rt_flags rt) \<and> ShouldHonorClusterTLSProfile (as_TLSAdherence spec)"
  show ?thesis
  proof (cases "?used \<and> (\<exists>err. TLSVersion (tps_MinTLSVersion p) = Inl err)")
    case True
    then obtain err where "TLSVersion (tps_MinTLSVersion p) = Inl err" "NewTLSConfigFromProfile p = Inl err"
      using NewTLSConfigFromProfile_Inl [of p] by blast
    then show ?thesis using S True by (simp add: main_after_read_def Let_def)
  next
    case False
    then have "?used \<longrightarrow> (\<exists>f u. NewTLSConfigFromProfile p = Inr (f, u)) \<and> (\<exists>v. TLSVersion (tps_MinTLSVersion p) = Inr v)"
      using NewTLSConfigFromProfile_Inl [of p] by (metis sum.exhaust surj_pair)
    then consider "\<not> ?used" | f u v where "?used" "NewTLSConfigFromProfile p = Inr (f, u)" "TLSVersion (tps_MinTLSVersion p) = Inr v"
      by blast
    then show ?thesis
      by cases (use S in \<open>simp_all add: main_after_read_def Let_def or_exit_def\<close>)
  qed
qed (simp add: main_after_read_def)

text \<open>An unknown version can only come from a custom profile.\<close>

lemma custom_unknown:
  assumes "GetTLSProfileSpec profile = Inr p" and "\<not> known_version p"
  shows "\<exists>t. profile = Some t \<and> tsp_Type t = ''Custom'' \<and> tsp_Custom t = Some p"
  using assms predefined_known [OF assms(1)] by (auto simp: GetTLSProfileSpec_def split: option.splits if_splits)

lemma main_setup_Inr:
  assumes "run_state (main_setup rt) w = (Inr su, w')"
  obtains c g api where "rt_GetConfig rt = None" "rt_NewClient rt = Inr c"
    "cl_Get c KAPIServer \<lparr>nn_Namespace = '''', nn_Name = APIServerName\<rparr> w = (g, w')"
    "decoded as_apiserver g = Inr api" "main_after_read rt (api_Spec api) = Inr su"
  using assms by (auto simp: main_setup_def run_simps split: option.splits sum.splits prod.splits)

text \<open>
  C21: The metrics server and the operands follow one TLS profile. When \<open>main\<close> starts the manager, the
  options of a secure metrics server set HTTP/1.1 only (unless HTTP/2 is enabled), and the minimum
  version and the cipher suites of exactly the profile that is in the reconciler's configuration;
  without a profile there, or with insecure metrics, versions and suites stay as they were.
\<close>

theorem metrics_follow_profile:
  assumes "run_state (main_setup rt) w = (Inr su, w')"
  shows "let c' = fold (\<lambda>f. f) (mt_TLSOpts (mo_Metrics (su_Manager su))) c in
    tc_NextProtos c' = (if fl_enableHTTP2 (rt_flags rt) then tc_NextProtos c else [''http/1.1'']) \<and>
    (case (if fl_secureMetrics (rt_flags rt) then cfg_TLSProfileSpec (su_Config su) else None) of
       None \<Rightarrow> tc_MinVersion c' = tc_MinVersion c \<and> tc_CipherSuites c' = tc_CipherSuites c
     | Some p \<Rightarrow> TLSVersion (tps_MinTLSVersion p) = Inr (tc_MinVersion c') \<and>
         tc_CipherSuites c' = (if tc_MinVersion c' = 0x0304 then tc_CipherSuites c
           else filter (\<lambda>code. code \<noteq> 0) (map cipherCode (tps_Ciphers p))))"
proof -
  have codes: "cipherCodes cs = (filter (\<lambda>code. code \<noteq> 0) (map cipherCode cs), filter (\<lambda>c. cipherCode c = 0) cs)" for cs
    by (induction cs) simp_all
  show ?thesis
    using assms
  proof (rule main_setup_Inr)
    fix api assume "main_after_read rt (api_Spec api) = Inr su"
    then show ?thesis
    proof (rule main_after_read_Inr)
      fix p opts
      assume p: "GetTLSProfileSpec (as_TLSSecurityProfile (api_Spec api)) = Inr p" "profile_opts rt (api_Spec api) p = Some opts"
        "mt_TLSOpts (mo_Metrics (su_Manager su)) = (if fl_enableHTTP2 (rt_flags rt) then [] else [disableHTTP2]) @ opts"
        "su_Config su = reconciler_config (ConfigFromEnvironment (rt_env rt)) (synced_profile (api_Spec api) None)
           (IsExternalControlPlane (rt_NewForConfig rt) (rt_Infrastructure rt))"
      show ?thesis
        unfolding p(3) using p(1,2,4)
        by (auto simp: profile_opts_def NewTLSConfigFromProfile_def disableHTTP2_def synced_profile_def
            reconciler_config_def codes Let_def split: sum.splits if_splits)
    qed
  qed
qed

lemma watcher_step:
  assumes "watcher_Reconcile got r = ((err, cancelled), r')"
  shows "case got of
      Inr a \<Rightarrow> (case GetTLSProfileSpec (as_TLSSecurityProfile (api_Spec a)) of
        Inr p \<Rightarrow> r' = r\<lparr>sw_InitialTLSProfileSpec := p, sw_InitialTLSAdherencePolicy := as_TLSAdherence (api_Spec a)\<rparr> \<and>
          (cancelled \<longleftrightarrow> sw_InitialTLSProfileSpec r \<noteq> p \<and> sw_shouldHonorClusterTLSProfile r \<or>
             ShouldHonorClusterTLSProfile (sw_InitialTLSAdherencePolicy r) \<noteq> ShouldHonorClusterTLSProfile (as_TLSAdherence (api_Spec a)))
      | Inl e \<Rightarrow> r' = r \<and> \<not> cancelled)
    | Inl e \<Rightarrow> r' = r \<and> \<not> cancelled"
  using assms by (auto simp: watcher_Reconcile_def OnProfileChange_def OnAdherencePolicyChange_def Let_def
      split: sum.splits if_splits)

text \<open>A process on the in-memory client, with the default flags, where every call of controller-runtime succeeds.\<close>

definition example_runtime :: "strmap \<Rightarrow> tracker runtime" where
  "example_runtime vars =
     \<lparr>rt_flags = default_flags, rt_env = vars, rt_GetConfig = None, rt_NewClient = Inr fake_client,
      rt_NewManager = (\<lambda>opts. None), rt_GetConfigAgain = None, rt_NewForConfig = None, rt_Infrastructure = (\<lambda>name. Inr ''HighlyAvailable''),
      rt_SetupWithManager = (\<lambda>cfg. None), rt_WatcherSetup = None, rt_AddHealthzCheck = None, rt_AddReadyzCheck = None\<rparr>"

definition modern_profile :: TLSProfileSpec where
  "modern_profile = \<lparr>tps_Ciphers = tls13_ciphers, tps_Groups = tls_groups, tps_MinTLSVersion = ''VersionTLS13''\<rparr>"

lemma example_profile: "GetTLSProfileSpec (as_TLSSecurityProfile (api_Spec example_apiserver)) = Inr modern_profile"
  by (simp add: example_apiserver_def GetTLSProfileSpec_def TLSProfiles_def modern_profile_def go_defs)

lemma example_honored: "ShouldHonorClusterTLSProfile (as_TLSAdherence (api_Spec example_apiserver))"
  by (simp add: example_apiserver_def ShouldHonorClusterTLSProfile_def)

lemma example_read: "cl_Get fake_client KAPIServer \<lparr>nn_Namespace = '''', nn_Name = APIServerName\<rparr> example_tls_world =
    (Inr (OAPIServer example_apiserver), example_tls_world)"
  using example_tls_view by (auto simp: fake_client_def fake_Get_def fake_view_def apiserver_key_def)

lemma example_starts:
  "\<exists>su. run_state (main_setup (example_runtime vars)) example_tls_world = (Inr su, example_tls_world)"
  using example_profile example_honored
  by (simp add: main_setup_def example_runtime_def run_simps example_read decoded_def main_after_read_def Let_def
      default_flags_def or_exit_def NewTLSConfigFromProfile_def TLSVersion_def tls_versions_def modern_profile_def
      split: prod.split)

theorem metrics_follow_profile_witness:
  "\<exists>su. fst (run_state (main_setup (example_runtime fmempty)) example_tls_world) = Inr su \<and>
     tc_NextProtos (fold (\<lambda>f. f) (mt_TLSOpts (mo_Metrics (su_Manager su)))
       \<lparr>tc_NextProtos = [], tc_MinVersion = 0, tc_CipherSuites = []\<rparr>) = [''http/1.1'']"
proof -
  obtain su where su: "run_state (main_setup (example_runtime fmempty)) example_tls_world = (Inr su, example_tls_world)"
    using example_starts by blast
  then show ?thesis
    using metrics_follow_profile [OF su, of "\<lparr>tc_NextProtos = [], tc_MinVersion = 0, tc_CipherSuites = []\<rparr>"]
    by (simp add: Let_def example_runtime_def default_flags_def)
qed

text \<open>The profile that a process started on these settings would use; none when the settings are not valid.\<close>

definition outdated :: "SecurityProfileWatcher \<Rightarrow> go_error + APIServer \<Rightarrow> bool" where
  "outdated r got \<longleftrightarrow> (\<exists>a p. got = Inr a \<and> GetTLSProfileSpec (as_TLSSecurityProfile (api_Spec a)) = Inr p \<and>
     synced_profile (api_Spec a) None \<noteq>
       (if sw_shouldHonorClusterTLSProfile r then Some (sw_InitialTLSProfileSpec r) else None))"

lemma outdated_cong:
  assumes "sw_shouldHonorClusterTLSProfile r' = sw_shouldHonorClusterTLSProfile r"
    and "sw_shouldHonorClusterTLSProfile r \<Longrightarrow> sw_InitialTLSProfileSpec r' = sw_InitialTLSProfileSpec r"
  shows "outdated r' = outdated r"
  using assms by (auto simp: outdated_def fun_eq_iff)

lemma watch_iff:
  assumes "ShouldHonorClusterTLSProfile (sw_InitialTLSAdherencePolicy r) = sw_shouldHonorClusterTLSProfile r"
  shows "watch gots r \<longleftrightarrow> (\<exists>got \<in> set gots. outdated r got)"
  using assms
proof (induction gots arbitrary: r)
  case (Cons got gots)
  obtain err cancelled r' where w: "watcher_Reconcile got r = ((err, cancelled), r')" by (metis prod.exhaust)
  note S = watcher_step [OF w]
  have "cancelled \<longleftrightarrow> outdated r got"
  proof (cases "\<exists>a p. got = Inr a \<and> GetTLSProfileSpec (as_TLSSecurityProfile (api_Spec a)) = Inr p")
    case True
    then show ?thesis using S Cons.prems by (auto simp: outdated_def synced_profile_def)
  next
    case False
    then show ?thesis using S by (auto simp: outdated_def split: sum.splits)
  qed
  moreover have "ShouldHonorClusterTLSProfile (sw_InitialTLSAdherencePolicy r') = sw_shouldHonorClusterTLSProfile r'"
      "outdated r' = outdated r" if "\<not> cancelled"
    using S Cons.prems that by (auto intro: outdated_cong split: sum.splits)
  ultimately show ?case using w Cons.IH [of r'] by auto
qed simp

text \<open>
  A secure operator restarts exactly when its TLS settings are out of date. Whatever sequence of
  APIServer objects and errors the watcher reads after \<open>main\<close> has started the manager, the context is
  cancelled by then if and only if one of the objects has valid settings that
  give a TLS profile (or none) other than the one the process was configured with.
\<close>

theorem restarts_iff_outdated:
  assumes "run_state (main_setup rt) w = (Inr su, w')" and "su_Watcher su = Some watcher"
  shows "watch gots watcher \<longleftrightarrow>
    (\<exists>a p. Inr a \<in> set gots \<and> GetTLSProfileSpec (as_TLSSecurityProfile (api_Spec a)) = Inr p \<and>
       synced_profile (api_Spec a) None \<noteq> cfg_TLSProfileSpec (su_Config su))"
  using assms(1)
proof (rule main_setup_Inr)
  fix api assume "main_after_read rt (api_Spec api) = Inr su"
  then show ?thesis
  proof (rule main_after_read_Inr)
    fix p
    assume p: "GetTLSProfileSpec (as_TLSSecurityProfile (api_Spec api)) = Inr p"
      "su_Config su = reconciler_config (ConfigFromEnvironment (rt_env rt)) (synced_profile (api_Spec api) None)
         (IsExternalControlPlane (rt_NewForConfig rt) (rt_Infrastructure rt))"
      "su_Watcher su = (if fl_secureMetrics (rt_flags rt)
         then Some \<lparr>sw_InitialTLSProfileSpec = p, sw_InitialTLSAdherencePolicy = as_TLSAdherence (api_Spec api),
           sw_shouldHonorClusterTLSProfile = ShouldHonorClusterTLSProfile (as_TLSAdherence (api_Spec api))\<rparr> else None)"
    have r: "watcher = \<lparr>sw_InitialTLSProfileSpec = p, sw_InitialTLSAdherencePolicy = as_TLSAdherence (api_Spec api),
        sw_shouldHonorClusterTLSProfile = ShouldHonorClusterTLSProfile (as_TLSAdherence (api_Spec api))\<rparr>"
      using p(3) assms(2) by (simp split: if_splits)
    have out: "outdated watcher got \<longleftrightarrow> (\<exists>a p. got = Inr a \<and> GetTLSProfileSpec (as_TLSSecurityProfile (api_Spec a)) = Inr p \<and>
        synced_profile (api_Spec a) None \<noteq> cfg_TLSProfileSpec (su_Config su))" for got
      using p(1,2) by (simp add: outdated_def r reconciler_config_def synced_profile_def [of "api_Spec api"])
    have "watch gots watcher \<longleftrightarrow> (\<exists>got \<in> set gots. outdated watcher got)" by (rule watch_iff) (simp add: r)
    then show ?thesis by (simp only: out) blast
  qed
qed

text \<open>In the example the profile is in force, and the policy then stops asking for it.\<close>

definition relaxed_apiserver :: APIServer where
  "relaxed_apiserver = example_apiserver\<lparr>api_Spec := (api_Spec example_apiserver)\<lparr>as_TLSAdherence := ''''\<rparr>\<rparr>"

lemma example_setup:
  assumes "run_state (main_setup (example_runtime vars)) example_tls_world = (Inr su, w')"
  shows "cfg_TLSProfileSpec (su_Config su) = Some modern_profile" and "\<exists>r. su_Watcher su = Some r"
    and "su_Config su = reconciler_config (ConfigFromEnvironment vars) (Some modern_profile) False"
proof -
  have "main_after_read (example_runtime vars) (api_Spec example_apiserver) = Inr su"
    using assms by (simp add: main_setup_def example_runtime_def run_simps example_read decoded_def)
  then have "su_Config su = reconciler_config (ConfigFromEnvironment vars) (Some modern_profile) False \<and> (\<exists>r. su_Watcher su = Some r)"
    using example_profile example_honored
    by (elim main_after_read_Inr) (simp add: example_runtime_def default_flags_def synced_profile_def
        IsExternalControlPlane_def GetControlPlaneTopology_def go_defs)
  then show "su_Config su = reconciler_config (ConfigFromEnvironment vars) (Some modern_profile) False" "\<exists>r. su_Watcher su = Some r"
    "cfg_TLSProfileSpec (su_Config su) = Some modern_profile"
    by (simp_all add: reconciler_config_def)
qed

theorem restarts_iff_outdated_witness:
  "\<exists>su r. fst (run_state (main_setup (example_runtime fmempty)) example_tls_world) = Inr su \<and> su_Watcher su = Some r \<and>
     \<not> watch [Inr example_apiserver] r \<and> watch [Inr example_apiserver, Inr relaxed_apiserver] r"
proof -
  obtain su where su: "run_state (main_setup (example_runtime fmempty)) example_tls_world = (Inr su, example_tls_world)"
    using example_starts by blast
  obtain r where r: "su_Watcher su = Some r" using example_setup(2) [OF su] by blast
  have same: "synced_profile (api_Spec example_apiserver) None = Some modern_profile"
    using example_profile example_honored by (simp add: synced_profile_def)
  have relaxed: "GetTLSProfileSpec (as_TLSSecurityProfile (api_Spec relaxed_apiserver)) = Inr modern_profile"
      "synced_profile (api_Spec relaxed_apiserver) None = None"
    using example_profile by (simp_all add: relaxed_apiserver_def synced_profile_def ShouldHonorClusterTLSProfile_def)
  show ?thesis
    using su r same relaxed restarts_iff_outdated [OF su r] example_setup(1) [OF su]
    by (intro exI [of _ su] exI [of _ r]) (auto intro: exI [of _ relaxed_apiserver])
qed

text \<open>
  C32: \<open>main\<close> and \<open>syncTLSProfile\<close> agree on the profile: as long as the APIServer object is the one that
  \<open>main\<close> read, \<open>syncTLSProfile\<close> leaves the configuration that \<open>main\<close> made as it is, also when
  its own read fails.
\<close>

theorem main_profile_stable:
  assumes "kube_api (en_Client e) view good" and "rt_NewClient rt = Inr (en_Client e)" and "good w"
    and "run_state (main_setup rt) w = (Inr su, w')"
    and "good (rs_world s)" and "rs_Config s = su_Config su"
    and "view (rs_world s) apiserver_key = view w apiserver_key"
    and "run_state (syncTLSProfile e) s = (u, s')"
  shows "rs_Config s' = su_Config su"
  using assms(4)
proof (rule main_setup_Inr)
  fix c g api
  assume c: "rt_NewClient rt = Inr c" "cl_Get c KAPIServer \<lparr>nn_Namespace = '''', nn_Name = APIServerName\<rparr> w = (g, w')"
    "decoded as_apiserver g = Inr api" "main_after_read rt (api_Spec api) = Inr su"
  have v: "view w apiserver_key = Some (OAPIServer api)"
    using kube_api.typed_get [OF assms(1) decodes_simps(6) assms(3)] c assms(2)
    by (auto simp: apiserver_key_def)
  have sync: "tls_synced (view (rs_world s)) (rs_Config s) (rs_Config s')"
    using kube_api.syncTLSProfile_run [OF assms(1) refl assms(5,8)] by blast
  show ?thesis
    using c(4)
  proof (rule main_after_read_Inr)
    fix p
    assume "GetTLSProfileSpec (as_TLSSecurityProfile (api_Spec api)) = Inr p"
      "su_Config su = reconciler_config (ConfigFromEnvironment (rt_env rt)) (synced_profile (api_Spec api) None)
         (IsExternalControlPlane (rt_NewForConfig rt) (rt_Infrastructure rt))"
    then show ?thesis
      using sync v assms(6,7) by (auto simp: tls_synced_def reconciler_config_def synced_profile_def)
  qed
qed

theorem main_profile_stable_witness:
  "\<exists>su. fst (run_state (main_setup (example_runtime fmempty)) example_tls_world) = Inr su \<and>
     rs_Config (snd (run_state (syncTLSProfile example_env)
       \<lparr>rs_world = example_tls_world, rs_Config = su_Config su, rs_events = []\<rparr>)) = su_Config su"
proof -
  obtain su where su: "run_state (main_setup (example_runtime fmempty)) example_tls_world = (Inr su, example_tls_world)"
    using example_starts by blast
  let ?s = "\<lparr>rs_world = example_tls_world, rs_Config = su_Config su, rs_events = []\<rparr>"
  obtain u s' where s': "run_state (syncTLSProfile example_env) ?s = (u, s')" by (rule prod.exhaust)
  have "rs_Config s' = su_Config su"
    by (rule main_profile_stable [where e = example_env and view = fake_view and good = fake_wf
          and rt = "example_runtime fmempty" and s = ?s, OF _ _ example_tls_wf su _ _ _ s'])
      (use fake.kube_api_axioms example_tls_wf in \<open>simp_all add: example_env_def example_runtime_def\<close>)
  then show ?thesis using su s' by simp
qed

text \<open>
  C28: How the process comes up, provided that the calls of controller-runtime succeed. It starts the manager
  exactly when the kubeconfig, the bootstrap client and the APIServer object can be had, the object's TLS
  profile is valid, even if it is not to be honoured, and, if the profile is used for the metrics server, its
  minimum version is known. It panics exactly when a secure metrics server is to honour a custom profile with an unknown
  version. Otherwise it exits with the message of the first of the four things that went wrong: the
  kubeconfig, the bootstrap client, the APIServer object, or a custom profile that is missing. The control
  plane topology never prevents the start.
\<close>

theorem main_starts_iff:
  assumes "run_state (main_setup rt) w = (res, w')" and "runtime_succeeds rt"
    and "got = (\<lambda>c. decoded as_apiserver (fst (cl_Get c KAPIServer \<lparr>nn_Namespace = '''', nn_Name = ''cluster''\<rparr> w)))"
  shows "((\<exists>su. res = Inr su) \<longleftrightarrow>
      (\<exists>c a p. rt_GetConfig rt = None \<and> rt_NewClient rt = Inr c \<and> got c = Inr a \<and>
         GetTLSProfileSpec (as_TLSSecurityProfile (api_Spec a)) = Inr p \<and>
         (fl_secureMetrics (rt_flags rt) \<and> ShouldHonorClusterTLSProfile (as_TLSAdherence (api_Spec a)) \<longrightarrow>
            known_version p))) \<and>
    (\<forall>err. res = Inl (Panic err) \<longleftrightarrow>
      (\<exists>c a t p. rt_GetConfig rt = None \<and> rt_NewClient rt = Inr c \<and> got c = Inr a \<and>
         as_TLSSecurityProfile (api_Spec a) = Some t \<and> tsp_Type t = ''Custom'' \<and> tsp_Custom t = Some p \<and>
         fl_secureMetrics (rt_flags rt) \<and> ShouldHonorClusterTLSProfile (as_TLSAdherence (api_Spec a)) \<and>
         \<not> known_version p \<and> TLSVersion (tps_MinTLSVersion p) = Inl err)) \<and>
    (\<forall>msg err. res = Inl (Exit msg err) \<longleftrightarrow>
      msg = ''unable to get kubeconfig'' \<and> rt_GetConfig rt = Some err \<or>
      msg = ''unable to create bootstrap client'' \<and> rt_GetConfig rt = None \<and> rt_NewClient rt = Inl err \<or>
      (\<exists>c. rt_GetConfig rt = None \<and> rt_NewClient rt = Inr c \<and>
         (msg = ''Failed to fetch OpenShift APIServer config'' \<and> got c = Inl err \<or>
          (\<exists>a t. got c = Inr a \<and> as_TLSSecurityProfile (api_Spec a) = Some t \<and> tsp_Type t = ''Custom'' \<and>
             tsp_Custom t = None \<and> msg = ''unable to get APIServer TLS profile'' \<and> err = ErrCustomProfileNil))))"
proof (cases "rt_GetConfig rt = None \<and> (\<exists>c. rt_NewClient rt = Inr c)")
  case True
  then obtain c where c: "rt_NewClient rt = Inr c" by blast
  obtain g w1 where g: "cl_Get c KAPIServer \<lparr>nn_Namespace = '''', nn_Name = ''cluster''\<rparr> w = (g, w1)" by fastforce
  have res: "res = (case decoded as_apiserver g of
      Inl err \<Rightarrow> Inl (Exit ''Failed to fetch OpenShift APIServer config'' err)
    | Inr a \<Rightarrow> main_after_read rt (api_Spec a))"
    using assms(1) True c g by (simp add: main_setup_def run_simps go_defs split: sum.splits)
  show ?thesis
  proof (cases "decoded as_apiserver g")
    case (Inr a)
    obtain su where read: "res = (case GetTLSProfileSpec (as_TLSSecurityProfile (api_Spec a)) of
         Inl err \<Rightarrow> Inl (Exit ''unable to get APIServer TLS profile'' err)
       | Inr p \<Rightarrow>
           if fl_secureMetrics (rt_flags rt) \<and> ShouldHonorClusterTLSProfile (as_TLSAdherence (api_Spec a))
           then (case TLSVersion (tps_MinTLSVersion p) of Inl err \<Rightarrow> Inl (Panic err) | Inr v \<Rightarrow> Inr su)
           else Inr su)"
      using main_after_read_result [OF assms(2), of "api_Spec a"] res Inr by auto
    show ?thesis
    proof (cases "GetTLSProfileSpec (as_TLSSecurityProfile (api_Spec a))")
      case (Inl err)
      then show ?thesis
        using True c g \<open>decoded as_apiserver g = Inr a\<close> read GetTLSProfileSpec_error_iff [THEN iffD1, OF Inl]
        by (auto simp: assms(3))
    next
      case (Inr p)
      have custom: "\<not> known_version p \<Longrightarrow>
          \<exists>t. as_TLSSecurityProfile (api_Spec a) = Some t \<and> tsp_Type t = ''Custom'' \<and> tsp_Custom t = Some p"
        using custom_unknown [OF Inr] by blast
      show ?thesis
        using True c g \<open>decoded as_apiserver g = Inr a\<close> read Inr custom TLSVersion_known [of p]
        by (cases "TLSVersion (tps_MinTLSVersion p)") (auto simp: assms(3) GetTLSProfileSpec_def)
    qed
  qed (use True c g res in \<open>auto simp: assms(3)\<close>)
qed (use assms(1) in \<open>auto simp: main_setup_def run_simps split: option.splits sum.splits\<close>)

theorem main_starts_iff_witness:
  "known_version modern_profile \<and> (\<exists>su. fst (run_state (main_setup (example_runtime fmempty)) example_tls_world) = Inr su)"
proof -
  obtain res w' where run: "run_state (main_setup (example_runtime fmempty)) example_tls_world = (res, w')" by fastforce
  have ok: "runtime_succeeds (example_runtime fmempty)" by (simp add: runtime_succeeds_def example_runtime_def)
  have known: "known_version modern_profile" by (simp add: known_version_def modern_profile_def)
  have "\<exists>su. res = Inr su"
    using main_starts_iff [OF run ok refl] example_read example_profile known
    by (simp add: example_runtime_def decoded_def go_defs)
  then show ?thesis using run known by auto
qed

end
