(* ===== verification/Operator_Version.thy ===== *)
theory Operator_Version
  imports VPA_Prelude "HOL-Library.Word"
begin

text \<open>
  \<open>internal/version/version.go\<close>: the version that the build writes into the program, which is parsed by the vendored
  package \<open>semver\<close> while the packages are initialised, before \<open>main\<close> runs. A version that does
  not parse ends the process in a panic there.

  \<open>build_Raw\<close> is the value that the \<open>Makefile\<close> injects. The theorem says for which commits the built operator
  starts.
\<close>

section \<open>Semantic versions\<close>

definition numbers :: string where "numbers = ''0123456789''"

definition alphanum :: string where
  "alphanum = ''abcdefghijklmnopqrstuvwxyzABCDEFGHIJKLMNOPQRSTUVWXYZ-'' @ numbers"

definition containsOnly :: "string \<Rightarrow> string \<Rightarrow> bool" where
  "containsOnly s chars \<longleftrightarrow> list_all (\<lambda>c. c \<in> set chars) s"

definition hasLeadingZeroes :: "string \<Rightarrow> bool" where
  "hasLeadingZeroes s \<longleftrightarrow> length s > 1 \<and> hd s = CHR ''0''"

text \<open>\<open>strings.SplitN\<close> and \<open>strings.Split\<close> at a one-character separator.\<close>

fun SplitN :: "string \<Rightarrow> char \<Rightarrow> nat \<Rightarrow> string list" where
  "SplitN s sep 0 = []"
| "SplitN s sep (Suc 0) = [s]"
| "SplitN s sep (Suc (Suc n)) =
     (case Cut sep s of (x, None) \<Rightarrow> [x] | (x, Some rest) \<Rightarrow> x # SplitN rest sep (Suc n))"

fun Split :: "string \<Rightarrow> char \<Rightarrow> string list" where
  "Split [] sep = ['''']"
| "Split (c # cs) sep =
     (if c = sep then '''' # Split cs sep
      else (case Split cs sep of [] \<Rightarrow> [[c]] | x # xs \<Rightarrow> (c # x) # xs))"

datatype PRVersion = PRNum "64 word" | PRStr string

record Version =
  ver_Major :: "64 word"
  ver_Minor :: "64 word"
  ver_Patch :: "64 word"
  ver_Pre :: "PRVersion list"
  ver_Build :: "string list"

datatype version_error =
    VersionEmpty
  | NoElements
  | InvalidCharacters string string
  | LeadingZeroes string string
  | OutOfRange string
  | PrereleaseEmpty
  | BuildEmpty

text \<open>One of the three numbers, named by the error message.\<close>

definition parse_number :: "string \<Rightarrow> string \<Rightarrow> version_error + 64 word" where
  "parse_number what s =
     (if \<not> containsOnly s numbers then Inl (InvalidCharacters what s)
      else if hasLeadingZeroes s then Inl (LeadingZeroes what s)
      else (case ParseUint s of None \<Rightarrow> Inl (OutOfRange s) | Some n \<Rightarrow> Inr (of_nat n)))"

definition NewPRVersion :: "string \<Rightarrow> version_error + PRVersion" where
  "NewPRVersion s =
     (if length s = 0 then Inl PrereleaseEmpty
      else if containsOnly s numbers
      then (if hasLeadingZeroes s then Inl (LeadingZeroes ''prerelease'' s)
            else (case ParseUint s of None \<Rightarrow> Inl (OutOfRange s) | Some num \<Rightarrow> Inr (PRNum (of_nat num))))
      else if containsOnly s alphanum then Inr (PRStr s)
      else Inl (InvalidCharacters ''prerelease'' s))"

fun parse_pre :: "string list \<Rightarrow> version_error + PRVersion list" where
  "parse_pre [] = Inr []"
| "parse_pre (prstr # rest) =
     (case NewPRVersion prstr of
        Inl err \<Rightarrow> Inl err
      | Inr parsedPR \<Rightarrow> map_sum id (Cons parsedPR) (parse_pre rest))"

fun parse_build :: "string list \<Rightarrow> version_error + string list" where
  "parse_build [] = Inr []"
| "parse_build (str # rest) =
     (if length str = 0 then Inl BuildEmpty
      else if \<not> containsOnly str alphanum then Inl (InvalidCharacters ''build meta data'' str)
      else map_sum id (Cons str) (parse_build rest))"

definition Parse :: "string \<Rightarrow> version_error + Version" where
  "Parse s =
     (if length s = 0 then Inl VersionEmpty
      else (case SplitN s (CHR ''.'') 3 of
              [part0, part1, part2] \<Rightarrow>
                (case parse_number ''major'' part0 of Inl err \<Rightarrow> Inl err | Inr major \<Rightarrow>
                (case parse_number ''minor'' part1 of Inl err \<Rightarrow> Inl err | Inr minor \<Rightarrow>
                  (let (patchStr, meta) = Cut (CHR ''+'') part2;
                       build = (case meta of None \<Rightarrow> [] | Some t \<Rightarrow> Split t (CHR ''.''));
                       (patchStr, pr) = Cut (CHR ''-'') patchStr;
                       prerelease = (case pr of None \<Rightarrow> [] | Some t \<Rightarrow> Split t (CHR ''.''))
                   in case parse_number ''patch'' patchStr of Inl err \<Rightarrow> Inl err | Inr patch \<Rightarrow>
                     (case parse_pre prerelease of Inl err \<Rightarrow> Inl err | Inr pre \<Rightarrow>
                     (case parse_build build of Inl err \<Rightarrow> Inl err | Inr meta \<Rightarrow>
                        Inr \<lparr>ver_Major = major, ver_Minor = minor, ver_Patch = patch, ver_Pre = pre,
                             ver_Build = meta\<rparr>)))))
            | _ \<Rightarrow> Inl NoElements))"

text \<open>\<open>MustParse\<close>; \<open>Inl\<close> is its panic, with the text that did not parse.\<close>

definition MustParse :: "string \<Rightarrow> (string \<times> version_error) + Version" where
  "MustParse s = map_sum (Pair s) id (Parse s)"

section \<open>The package\<close>

definition TrimLeft :: "string \<Rightarrow> string \<Rightarrow> string" where
  "TrimLeft s cutset = dropWhile (\<lambda>c. c \<in> set cutset) s"

definition Raw :: string where "Raw = ''v0.0.0-was-not-built-properly''"

text \<open>The package's variables, for the value of \<open>Raw\<close> that the program is linked with.\<close>

definition version_Version :: "string \<Rightarrow> (string \<times> version_error) + Version" where
  "version_Version raw = MustParse (TrimLeft raw ''v'')"

definition version_String :: "string \<Rightarrow> string" where
  "version_String raw = ''vertical-pod-autoscaler-operator '' @ raw"

text \<open>The \<open>Makefile\<close>'s \<open>INJECT_VERSION\<close> for an \<open>OPERATOR_VERSION\<close> and the output of \<open>git rev-parse\<close>.\<close>

definition build_Raw :: "string \<Rightarrow> string \<Rightarrow> string" where
  "build_Raw operator_version hash = ''v'' @ operator_version @ ''-'' @ hash"

definition version_text :: "nat \<Rightarrow> nat \<Rightarrow> nat \<Rightarrow> string" where
  "version_text major minor patch = nat_text major @ ''.'' @ nat_text minor @ ''.'' @ nat_text patch"

definition hex_digits :: string where "hex_digits = ''0123456789abcdef''"

section \<open>Facts\<close>

lemma digit_chars: "digit_char ` {..<10} = set numbers"
proof -
  have "{..<10::nat} = set [0..<10]" by auto
  then show ?thesis by (simp add: numbers_def digit_char_def upt_rec char_of_def bit_0)
qed

lemma nat_text_numbers: "c \<in> set (nat_text n) \<Longrightarrow> c \<in> set numbers"
  using nat_text_digits [of n] by (auto simp: digit_chars)

lemma nat_text_ne [simp]: "nat_text n \<noteq> []"
  using nat_text_hd_digit [of n] by auto

lemma nat_text_free: "c \<notin> set numbers \<Longrightarrow> c \<notin> set (nat_text n)"
  using nat_text_numbers by blast

lemma nat_text_no_zero: "\<not> hasLeadingZeroes (nat_text n)"
proof (induction n rule: nat_text.induct)
  case (1 n)
  have hd: "n div 10 < 10 \<Longrightarrow> \<not> n < 10 \<Longrightarrow> digit_char (n div 10) \<noteq> CHR ''0''"
    using of_char_digit_char [of "n div 10"] by auto
  from 1 show ?case
    by (cases "n div 10 < 10")
      (auto simp: nat_text.simps [of n] nat_text.simps [of "n div 10"] hasLeadingZeroes_def hd_append hd)
qed

lemma parse_number_nat_text: "n < 2 ^ 64 \<Longrightarrow> parse_number what (nat_text n) = Inr (of_nat n)"
  by (auto simp: parse_number_def containsOnly_def list_all_iff nat_text_numbers nat_text_no_zero ParseUint_nat_text)

lemma Split_single: "sep \<notin> set s \<Longrightarrow> Split s sep = [s]"
  by (induction s) auto

lemma ParseUint_digits:
  assumes "s \<noteq> ''''" and "set s \<subseteq> set numbers" and "length s \<le> 19"
  shows "\<exists>n. ParseUint s = Some n"
proof -
  have digit: "\<exists>d<10. char_digit c = Some d" if "c \<in> set numbers" for c
    using that char_digit_digit_char by (auto simp: digit_chars [symmetric])
  have "\<exists>n. parse_digits acc s = Some n \<and> n < (acc + 1) * 10 ^ length s" if "set s \<subseteq> set numbers" for acc s
    using that
  proof (induction s arbitrary: acc)
    case (Cons c cs)
    obtain d where d: "char_digit c = Some d" "d < 10" using digit Cons.prems by auto
    obtain n where n: "parse_digits (acc * 10 + d) cs = Some n" "n < (acc * 10 + d + 1) * 10 ^ length cs"
      using Cons by auto
    have "(acc * 10 + d + 1) * 10 ^ length cs \<le> (acc + 1) * 10 * 10 ^ length cs" using d(2) by (intro mult_le_mono1) simp
    with n(2) have "n < (acc + 1) * 10 ^ length (c # cs)" by (simp only: list.size power_Suc add_0_right add_Suc_right mult.assoc)
    then show ?case using d(1) n(1) by simp
  qed simp
  from this [of s 0] obtain n where n: "parse_digits 0 s = Some n" "n < 10 ^ length s" using assms(2) by auto
  have "10 ^ length s \<le> (10 ^ 19 :: nat)" using assms(3) by (intro power_increasing) auto
  then show ?thesis using n assms(1) by (auto simp: ParseUint_def)
qed

text \<open>The version that the build injects: the three numbers, and the hash as the only prerelease identifier.\<close>

lemma TrimLeft_build: "TrimLeft (build_Raw (version_text M N P) hash) ''v'' = version_text M N P @ ''-'' @ hash"
proof -
  have "CHR ''v'' \<notin> set (nat_text M)" by (rule nat_text_free) (simp add: numbers_def)
  then show ?thesis
    using nat_text_ne [of M] by (cases "nat_text M") (auto simp: TrimLeft_def build_Raw_def version_text_def)
qed

lemma version_build:
  assumes "M < 2 ^ 64" and "N < 2 ^ 64" and "P < 2 ^ 64" and "set hash \<subseteq> set hex_digits"
  shows "version_Version (build_Raw (version_text M N P) hash) =
    (case NewPRVersion hash of
       Inl err \<Rightarrow> Inl (version_text M N P @ ''-'' @ hash, err)
     | Inr pre \<Rightarrow> Inr \<lparr>ver_Major = of_nat M, ver_Minor = of_nat N, ver_Patch = of_nat P, ver_Pre = [pre], ver_Build = []\<rparr>)"
proof -
  have free: "CHR ''.'' \<notin> set (nat_text n)" "CHR ''+'' \<notin> set (nat_text n)" "CHR ''-'' \<notin> set (nat_text n)" for n
    by (rule nat_text_free, simp add: numbers_def)+
  have hash: "CHR ''.'' \<notin> set hash" "CHR ''+'' \<notin> set hash"
    using assms(4) by (auto simp: hex_digits_def)
  have "SplitN (version_text M N P @ ''-'' @ hash) (CHR ''.'') 3 = [nat_text M, nat_text N, nat_text P @ ''-'' @ hash]"
    using free by (simp add: version_text_def numeral_3_eq_3)
  then show ?thesis
    using free hash assms(1-3)
    unfolding version_Version_def TrimLeft_build MustParse_def
    by (simp add: Parse_def parse_number_nat_text Split_single version_text_def split: sum.split)
qed

lemma NewPRVersion_hash:
  assumes "set hash \<subseteq> set hex_digits" and "length hash \<le> 19"
  shows "isl (NewPRVersion hash) \<longleftrightarrow> hash = '''' \<or> set hash \<subseteq> set numbers \<and> hasLeadingZeroes hash"
proof -
  have "set hex_digits \<subseteq> set alphanum" by (simp add: hex_digits_def alphanum_def numbers_def)
  with assms(1) have "containsOnly hash alphanum" by (auto simp: containsOnly_def list_all_iff)
  moreover have "containsOnly hash numbers \<longleftrightarrow> set hash \<subseteq> set numbers" by (auto simp: containsOnly_def list_all_iff)
  moreover have "hash = '''' \<or> \<not> set hash \<subseteq> set numbers \<or> (\<exists>n. ParseUint hash = Some n)"
    using ParseUint_digits assms(2) by blast
  ultimately show ?thesis by (auto simp: NewPRVersion_def split: option.splits)
qed

text \<open>
  C30: For every operator version of three 64-bit numbers and every abbreviated commit hash of at most nineteen characters, the package's initialisation
  panics exactly when the hash is empty, as it is when the sources are built outside of a git checkout, or consists of decimal digits only with a
  zero in front; in all other cases the version has the three numbers and the hash as its prerelease.
\<close>

theorem build_version_starts:
  assumes "M < 2 ^ 64" and "N < 2 ^ 64" and "P < 2 ^ 64" and "set hash \<subseteq> set hex_digits" and "length hash \<le> 19"
  shows "(isl (version_Version (build_Raw (version_text M N P) hash)) \<longleftrightarrow>
       hash = '''' \<or> set hash \<subseteq> set numbers \<and> hasLeadingZeroes hash) \<and>
    (case version_Version (build_Raw (version_text M N P) hash) of
       Inl panic \<Rightarrow> fst panic = version_text M N P @ ''-'' @ hash
     | Inr v \<Rightarrow> ver_Major v = of_nat M \<and> ver_Minor v = of_nat N \<and> ver_Patch v = of_nat P \<and> ver_Build v = [] \<and>
         ver_Pre v = [if set hash \<subseteq> set numbers then PRNum (of_nat (the (ParseUint hash))) else PRStr hash])"
proof -
  have "isl (version_Version (build_Raw (version_text M N P) hash)) \<longleftrightarrow> isl (NewPRVersion hash)"
    by (simp add: version_build [OF assms(1-4)] split: sum.split)
  moreover have "pre = (if set hash \<subseteq> set numbers then PRNum (of_nat (the (ParseUint hash))) else PRStr hash)"
    if "NewPRVersion hash = Inr pre" for pre
    using that by (auto simp: NewPRVersion_def containsOnly_def list_all_iff split: if_splits option.splits)
  ultimately show ?thesis
    using NewPRVersion_hash [OF assms(4,5)]
    by (simp add: version_build [OF assms(1-4)] split: sum.splits)
qed

theorem build_version_starts_witness:
  "isl (version_Version (build_Raw (version_text 4 22 0) ''0123456'')) \<and>
   \<not> isl (version_Version (build_Raw (version_text 4 21 0) ''2332559'')) \<and>
   isl (version_Version (build_Raw (version_text 4 22 0) ''''))"
  using build_version_starts [of 4 22 0 "''0123456''"] build_version_starts [of 4 21 0 "''2332559''"]
    build_version_starts [of 4 22 0 "''''"]
  by (simp add: hex_digits_def numbers_def hasLeadingZeroes_def)

text \<open>A program that was not built with the \<open>Makefile\<close> starts: the default version parses.\<close>

lemma default_version: "\<not> isl (version_Version Raw)"
  by (simp add: version_Version_def MustParse_def TrimLeft_def Raw_def Parse_def numeral_3_eq_3 parse_number_def containsOnly_def
      numbers_def alphanum_def hasLeadingZeroes_def ParseUint_def char_digit_def NewPRVersion_def)

end
