(* ===== verification/Operator_Flags.thy ===== *)
theory Operator_Flags
  imports Main_Props Operator_Version
begin

text \<open>
  The command line of the operator: the flags that \<open>main\<close> registers, parsed by Go's package \<open>flag\<close>
  (\<open>parse_flags\<close> is \<open>FlagSet.parseOne\<close> and \<open>Parse\<close> with \<open>ExitOnError\<close>, of the standard library), the scheme that \<open>init\<close> builds, and the whole process from its arguments to
  its exit status.

  Other packages register flags of their own (\<open>kubeconfig\<close>, those of the logger). They are a parameter: for a name, whether
  it is a boolean flag, and which values its \<open>Set\<close> method accepts.
\<close>

section \<open>Parsing\<close>

text \<open>\<open>strconv.ParseBool\<close>.\<close>

definition ParseBool :: "string \<Rightarrow> bool option" where
  "ParseBool s =
     (if s \<in> {''1'', ''t'', ''T'', ''true'', ''TRUE'', ''True''} then Some True
      else if s \<in> {''0'', ''f'', ''F'', ''false'', ''FALSE'', ''False''} then Some False
      else None)"

type_synonym other_flags = "string \<Rightarrow> (bool \<times> (string \<Rightarrow> bool)) option"

text \<open>Is a name a registered flag, and a boolean one?\<close>

definition bool_flag :: "other_flags \<Rightarrow> string \<Rightarrow> bool option" where
  "bool_flag other name =
     (if name \<in> {''metrics-bind-address'', ''health-probe-bind-address''} then Some False
      else if name \<in> {''leader-elect'', ''metrics-secure'', ''enable-http2''} then Some True
      else map_option fst (other name))"

text \<open>\<open>Set\<close> of the flag with this name; \<open>None\<close> if it rejects the value.\<close>

definition set_flag :: "other_flags \<Rightarrow> string \<Rightarrow> string \<Rightarrow> flags \<Rightarrow> flags option" where
  "set_flag other name value fl =
     (if name = ''metrics-bind-address'' then Some (fl\<lparr>fl_metricsAddr := value\<rparr>)
      else if name = ''health-probe-bind-address'' then Some (fl\<lparr>fl_probeAddr := value\<rparr>)
      else if name = ''leader-elect'' then map_option (\<lambda>b. fl\<lparr>fl_enableLeaderElection := b\<rparr>) (ParseBool value)
      else if name = ''metrics-secure'' then map_option (\<lambda>b. fl\<lparr>fl_secureMetrics := b\<rparr>) (ParseBool value)
      else if name = ''enable-http2'' then map_option (\<lambda>b. fl\<lparr>fl_enableHTTP2 := b\<rparr>) (ParseBool value)
      else (case other name of
              Some (b, accepts) \<Rightarrow> if accepts value then Some fl else None
            | None \<Rightarrow> None))"

datatype parse_stop = Help | BadFlag string

text \<open>
  \<open>Parse\<close>: the flags and the arguments that are left. One round is \<open>parseOne\<close>; an equals sign cannot be the first character of a name.
\<close>

function parse_flags :: "other_flags \<Rightarrow> string list \<Rightarrow> flags \<Rightarrow> parse_stop + flags \<times> string list" where
  "parse_flags other [] fl = Inr (fl, [])"
| "parse_flags other (s # args) fl =
     (if length s < 2 \<or> hd s \<noteq> CHR ''-'' then Inr (fl, s # args)
      else if s = ''--'' then Inr (fl, args)
      else (let name = (if s ! 1 = CHR ''-'' then drop 2 s else drop 1 s)
            in if hd name = CHR ''-'' \<or> hd name = CHR ''='' then Inl (BadFlag (''bad flag syntax: '' @ s))
               else (let (cut, value) = Cut (CHR ''='') (tl name); name = hd name # cut
                     in case bool_flag other name of
                          None \<Rightarrow>
                            if name = ''help'' \<or> name = ''h'' then Inl Help
                            else Inl (BadFlag (''flag provided but not defined: -'' @ name))
                        | Some True \<Rightarrow>
                            (case set_flag other name (case value of Some v \<Rightarrow> v | None \<Rightarrow> ''true'') fl of
                               None \<Rightarrow> Inl (BadFlag (''invalid boolean value for -'' @ name))
                             | Some fl' \<Rightarrow> parse_flags other args fl')
                        | Some False \<Rightarrow>
                            (case value of
                               Some v \<Rightarrow>
                                 (case set_flag other name v fl of
                                    None \<Rightarrow> Inl (BadFlag (''invalid value for flag -'' @ name))
                                  | Some fl' \<Rightarrow> parse_flags other args fl')
                             | None \<Rightarrow>
                                 (case args of
                                    [] \<Rightarrow> Inl (BadFlag (''flag needs an argument: -'' @ name))
                                  | v # args' \<Rightarrow>
                                      (case set_flag other name v fl of
                                         None \<Rightarrow> Inl (BadFlag (''invalid value for flag -'' @ name))
                                       | Some fl' \<Rightarrow> parse_flags other args' fl'))))))"
  by pat_completeness auto

termination by (relation "measure (\<lambda>(other, args, fl). length args)") auto

section \<open>The process\<close>

text \<open>\<open>init\<close>: the types of client-go, of \<open>api/v1\<close> and of the OpenShift configuration, in this order.\<close>

definition main_scheme :: "(Scheme \<Rightarrow> Scheme) \<Rightarrow> (Scheme \<Rightarrow> Scheme) \<Rightarrow> Scheme" where
  "main_scheme clientgoscheme_AddToScheme configv1_Install =
     configv1_Install (AddToScheme (clientgoscheme_AddToScheme []))"

text \<open>The end of \<open>main\<close>: \<open>mgr.Start\<close>, and status 1 if it fails.\<close>

definition manager_status :: "go_error option \<Rightarrow> nat" where
  "manager_status err = (case err of Some e \<Rightarrow> 1 | None \<Rightarrow> 0)"

definition start_manager :: "(operator_setup \<Rightarrow> 'w \<Rightarrow> go_error option \<times> 'w) \<Rightarrow> operator_setup \<Rightarrow> ('w, nat) state" where
  "start_manager start su =
     do { err \<leftarrow> State (start su);
          State_Monad.return (manager_status err) }"

text \<open>
  \<open>main\<close> with the arguments of the process, up to its exit status. \<open>start\<close> is \<open>mgr.Start\<close>, which
  returns when the context is cancelled or something fails.
\<close>

definition main_status ::
  "other_flags \<Rightarrow> 'w runtime \<Rightarrow> (operator_setup \<Rightarrow> 'w \<Rightarrow> go_error option \<times> 'w) \<Rightarrow> string list \<Rightarrow> ('w, nat) state" where
  "main_status other rt start args =
     (case parse_flags other args default_flags of
        Inl Help \<Rightarrow> State_Monad.return 0
      | Inl (BadFlag msg) \<Rightarrow> State_Monad.return 2
      | Inr (fl, rest) \<Rightarrow>
          do { res \<leftarrow> main_setup (rt\<lparr>rt_flags := fl\<rparr>);
               case res of
                 Inl (Exit msg err) \<Rightarrow> State_Monad.return 1
               | Inl (Panic err) \<Rightarrow> State_Monad.return 2
               | Inr su \<Rightarrow> start_manager start su })"

text \<open>The lines of \<open>printVersion\<close>, with Go's version, operating system and architecture.\<close>

definition printVersion :: "string \<Rightarrow> string \<Rightarrow> string \<Rightarrow> string \<Rightarrow> (string \<times> (string \<times> string) list) list" where
  "printVersion goVersion goos goarch raw =
     [(''Go Version'', [(''version'', goVersion)]), (''Go OS/Arch'', [(''os'', goos), (''arch'', goarch)]),
      (''Version'', [(''version'', version_String raw)])]"

text \<open>
  The process: the variables of package \<open>version\<close> are initialised before \<open>main\<close> runs, and a panic ends it with status 2. \<open>raw\<close>
  is the version that the program was linked with.
\<close>

definition operator_process ::
  "string \<Rightarrow> other_flags \<Rightarrow> 'w runtime \<Rightarrow> (operator_setup \<Rightarrow> 'w \<Rightarrow> go_error option \<times> 'w) \<Rightarrow> string list \<Rightarrow> ('w, nat) state" where
  "operator_process raw other rt start args =
     (case version_Version raw of
        Inl panic \<Rightarrow> State_Monad.return 2
      | Inr v \<Rightarrow> main_status other rt start args)"

section \<open>Properties\<close>

text \<open>The arguments of the operator in the bundle's deployment.\<close>

definition shipped_args :: "string list" where
  "shipped_args = [''--metrics-bind-address=:8443'', ''--metrics-secure'', ''--leader-elect'',
     ''--health-probe-bind-address=:8081'']"

lemma shipped_flags:
  "parse_flags other shipped_args default_flags =
     Inr (\<lparr>fl_metricsAddr = '':8443'', fl_probeAddr = '':8081'', fl_enableLeaderElection = True,
           fl_secureMetrics = True, fl_enableHTTP2 = False\<rparr>, [])"
  by (simp add: shipped_args_def default_flags_def bool_flag_def set_flag_def ParseBool_def)

text \<open>
  C31: The operator as it is shipped comes up as its manifests mean it. With the arguments of the bundle, in a cluster whose
  APIServer object can be read and has a usable TLS profile, the process starts the manager, whose result decides the exit status:
  with leader election under the operator's own ID, health probes on port 8081, one namespace to watch, and a metrics server on
  port 8443 that serves HTTPS with the certificate of the metrics service, asks who its clients are, speaks HTTP/1.1 only, and is
  restarted by the watcher, which begins with the settings that were read.
\<close>

theorem shipped_operator_starts:
  assumes "runtime_succeeds rt" and "rt_GetConfig rt = None" and "rt_NewClient rt = Inr c"
    and "cl_Get c KAPIServer \<lparr>nn_Namespace = '''', nn_Name = ''cluster''\<rparr> w = (Inr (OAPIServer a), w1)"
    and "GetTLSProfileSpec (as_TLSSecurityProfile (api_Spec a)) = Inr p"
    and "ShouldHonorClusterTLSProfile (as_TLSAdherence (api_Spec a)) \<Longrightarrow> known_version p"
  shows "\<exists>su. run_state (main_status other rt start shipped_args) w =
      (case start su w1 of (err, w2) \<Rightarrow> (if err = None then 0 else 1, w2)) \<and>
    mo_LeaderElection (su_Manager su) \<and> mo_LeaderElectionID (su_Manager su) = ''201e3e80.openshift.io'' \<and>
    mo_HealthProbeBindAddress (su_Manager su) = '':8081'' \<and>
    mo_DefaultNamespaces (su_Manager su) = [oc_WatchNamespace (ConfigFromEnvironment (rt_env rt))] \<and>
    mt_BindAddress (mo_Metrics (su_Manager su)) = '':8443'' \<and> mt_SecureServing (mo_Metrics (su_Manager su)) \<and>
    mt_CertDir (mo_Metrics (su_Manager su)) = ''/etc/metrics-tls-certs'' \<and>
    mt_CertName (mo_Metrics (su_Manager su)) = ''tls.crt'' \<and> mt_KeyName (mo_Metrics (su_Manager su)) = ''tls.key'' \<and>
    mt_WithAuthenticationAndAuthorization (mo_Metrics (su_Manager su)) \<and>
    (\<forall>conf. tc_NextProtos (fold (\<lambda>f. f) (mt_TLSOpts (mo_Metrics (su_Manager su))) conf) = [''http/1.1'']) \<and>
    su_Watcher su = Some \<lparr>sw_InitialTLSProfileSpec = p, sw_InitialTLSAdherencePolicy = as_TLSAdherence (api_Spec a),
      sw_shouldHonorClusterTLSProfile = ShouldHonorClusterTLSProfile (as_TLSAdherence (api_Spec a))\<rparr>"
proof -
  let ?fl = "\<lparr>fl_metricsAddr = '':8443'', fl_probeAddr = '':8081'', fl_enableLeaderElection = True,
    fl_secureMetrics = True, fl_enableHTTP2 = False\<rparr>"
  let ?rt = "rt\<lparr>rt_flags := ?fl\<rparr>" and ?honor = "ShouldHonorClusterTLSProfile (as_TLSAdherence (api_Spec a))"
  let ?mgr = "\<lambda>opts. manager_options ?fl (ConfigFromEnvironment (rt_env rt)) (metricsServerOptions ?fl opts)"
  let ?watcher = "\<lparr>sw_InitialTLSProfileSpec = p, sw_InitialTLSAdherencePolicy = as_TLSAdherence (api_Spec a),
    sw_shouldHonorClusterTLSProfile = ?honor\<rparr>"
  note S = assms(1) [unfolded runtime_succeeds_def] assms(5)
  obtain opts cfg where after: "main_after_read ?rt (api_Spec a) =
        Inr \<lparr>su_Manager = ?mgr opts, su_Config = cfg, su_Watcher = Some ?watcher\<rparr>"
      and opts: "\<forall>conf. tc_NextProtos (fold (\<lambda>f. f) opts conf) = [''http/1.1'']"
  proof (cases ?honor)
    case True
    then obtain f u where f: "NewTLSConfigFromProfile p = Inr (f, u)"
      using assms(6) NewTLSConfigFromProfile_known [of p] by auto
    then have "tc_NextProtos (f conf) = tc_NextProtos conf" for conf
      by (auto simp: NewTLSConfigFromProfile_def Let_def split: sum.splits prod.splits)
    then have "\<forall>conf. tc_NextProtos (fold (\<lambda>f. f) [disableHTTP2, f] conf) = [''http/1.1'']" by (simp add: disableHTTP2_def)
    moreover have "\<exists>cfg. main_after_read ?rt (api_Spec a) =
        Inr \<lparr>su_Manager = ?mgr [disableHTTP2, f], su_Config = cfg, su_Watcher = Some ?watcher\<rparr>"
      using S f True by (simp add: main_after_read_def or_exit_def Let_def)
    ultimately show thesis using that by blast
  next
    case False
    have "\<exists>cfg. main_after_read ?rt (api_Spec a) =
        Inr \<lparr>su_Manager = ?mgr [disableHTTP2], su_Config = cfg, su_Watcher = Some ?watcher\<rparr>"
      using S False by (simp add: main_after_read_def or_exit_def Let_def)
    then show thesis using that [of "[disableHTTP2]"] by (auto simp: disableHTTP2_def)
  qed
  then have "run_state (main_setup ?rt) w = (Inr \<lparr>su_Manager = ?mgr opts, su_Config = cfg, su_Watcher = Some ?watcher\<rparr>, w1)"
    using assms(2-4) by (simp add: main_setup_def run_simps decoded_def go_defs)
  then show ?thesis
    using opts shipped_flags [of other]
    by (intro exI [of _ "\<lparr>su_Manager = ?mgr opts, su_Config = cfg, su_Watcher = Some ?watcher\<rparr>"])
      (auto simp: main_status_def start_manager_def manager_status_def run_simps manager_options_def
        metricsServerOptions_def Let_def split: prod.splits option.splits)
qed

theorem shipped_operator_starts_witness:
  "\<exists>su :: operator_setup. run_state (main_status (\<lambda>name. None) (example_runtime fmempty) (\<lambda>su w. (None, w)) shipped_args) example_tls_world =
      (0, example_tls_world) \<and> mo_LeaderElection (su_Manager su) \<and> mt_SecureServing (mo_Metrics (su_Manager su))"
proof -
  have ok: "runtime_succeeds (example_runtime fmempty)" "rt_GetConfig (example_runtime fmempty) = None"
    "rt_NewClient (example_runtime fmempty) = Inr fake_client"
    by (simp_all add: runtime_succeeds_def example_runtime_def)
  have known: "known_version modern_profile" by (simp add: known_version_def modern_profile_def)
  have read: "cl_Get fake_client KAPIServer \<lparr>nn_Namespace = '''', nn_Name = ''cluster''\<rparr> example_tls_world =
      (Inr (OAPIServer example_apiserver), example_tls_world)"
    using example_read by (simp add: go_defs)
  show ?thesis
    using shipped_operator_starts [OF ok read example_profile known, of "\<lambda>name. None" "\<lambda>su w. (None, w)"]
    unfolding prod.case simp_thms if_True by blast
qed

text \<open>
  The exit status of the process tells why it ended. Status 2 without anything read from the cluster, if the linked version does not parse
  or the command line is wrong; otherwise status 0 means that help was asked for or that the manager was started with the
  parsed flags and returned without an error, status 1 that the set-up or the manager failed, and
  there is no other status.
\<close>

theorem process_status:
  assumes "run_state (operator_process raw other rt start args) w = (n, w')"
  shows "if isl (version_Version raw) then n = 2 \<and> w' = w
    else (case parse_flags other args default_flags of
        Inl Help \<Rightarrow> n = 0 \<and> w' = w
      | Inl (BadFlag msg) \<Rightarrow> n = 2 \<and> w' = w
      | Inr (fl, rest) \<Rightarrow>
          (case run_state (main_setup (rt\<lparr>rt_flags := fl\<rparr>)) w of
             (Inl (Exit msg err), w1) \<Rightarrow> n = 1 \<and> w' = w1
           | (Inl (Panic err), w1) \<Rightarrow> n = 2 \<and> w' = w1
           | (Inr su, w1) \<Rightarrow> (n, w') = (case start su w1 of (None, w2) \<Rightarrow> (0, w2) | (Some err, w2) \<Rightarrow> (1, w2))))"
  using assms
  by (auto simp: operator_process_def main_status_def start_manager_def manager_status_def run_simps
      split: sum.splits parse_stop.splits stop.splits prod.splits option.splits)

text \<open>The scheme of \<open>init\<close> knows the custom resource, once, if the other two packages do not register a type of its name.\<close>

lemma main_scheme_vpa:
  assumes "VPA_GoType \<notin> fst ` set (clientgo [])" and "\<And>sch. \<exists>ext. configv1 sch = sch @ ext \<and> VPA_GoType \<notin> fst ` set ext"
  shows "GVKForObject VPA_GoType tm (main_scheme clientgo configv1) = Inr VPA_GVK"
proof -
  obtain ext where ext: "main_scheme clientgo configv1 = AddToScheme (clientgo []) @ ext" "VPA_GoType \<notin> fst ` set ext"
    using assms(2) by (auto simp: main_scheme_def)
  have "filter (\<lambda>(t, g). t = VPA_GoType) ext = []" using ext(2) by (force simp: filter_empty_conv)
  then show ?thesis
    using GVKForObject_AddToScheme [of "clientgo []" tm] assms(1) ext(1) by (simp add: GVKForObject_def VPA_GoType_def)
qed

end
