(* ===== verification/Process_Lifecycle.thy ===== *)
theory Process_Lifecycle
  imports Operator_Flags
begin

text \<open>
  The life of the process after \<open>main\<close> has set it up: signals, leader election, the watcher of the TLS settings, and
  the end of the manager's \<open>Start\<close>, as a step relation on the state of the process. \<open>SetupSignalHandler\<close> and the
  \<open>select\<close> of \<open>Start\<close> are those of the vendored controller-runtime.

  What happens inside of the manager is a sequence of events: it has started or failed to, this process has been elected, it has lost
  its lease, the watcher has read the settings, a runnable has failed, the runnables have stopped. The relation says when an event
  can happen and what it does. An election while the runnables stop and the errors that are drained then are left out: they do not
  change the status.
\<close>

section \<open>State and events\<close>

text \<open>\<open>Stopping err\<close>: \<open>Start\<close> waits for the runnables to stop and \<open>err\<close> is what its body returned. \<open>Ended n\<close>: the process ended with status \<open>n\<close>.\<close>

datatype phase = Starting | Serving | Stopping "go_error option" | Ended nat

record process =
  pr_phase :: phase
  pr_signalled :: bool
  pr_cancelled :: bool
  pr_leading :: bool
  pr_watcher :: "SecurityProfileWatcher option"

datatype process_event =
    Signal
  | Started
  | StartFailed go_error
  | Elected
  | LeaseLost
  | SettingsRead "go_error + APIServer"
  | RunnableFailed go_error
  | ContextDone
  | Stopped "go_error option"

section \<open>Steps\<close>

text \<open>A signal cancels the context that \<open>SetupSignalHandler\<close> returns, and the context of \<open>main\<close> with it. A second one ends the process.\<close>

definition handle_signal :: "process \<Rightarrow> process" where
  "handle_signal p =
     (if pr_signalled p then p\<lparr>pr_phase := Ended 1\<rparr>
      else p\<lparr>pr_signalled := True, pr_cancelled := True\<rparr>)"

text \<open>The result of \<open>Start\<close>, from that of its body and that of \<open>engageStopProcedure\<close>.\<close>

definition NewAggregate_text :: "go_error \<Rightarrow> go_error \<Rightarrow> string" where
  "NewAggregate_text err stopErr =
     (if Error err = Error stopErr then Error err else ''['' @ Error err @ '', '' @ Error stopErr @ '']'')"

definition Start_result :: "go_error option \<Rightarrow> go_error option \<Rightarrow> go_error option" where
  "Start_result err stopErr =
     (case stopErr of
        None \<Rightarrow> err
      | Some e \<Rightarrow> (case err of None \<Rightarrow> Some e | Some e' \<Rightarrow> Some (PlainError (NewAggregate_text e' e))))"

text \<open>
  The controllers, and the watcher among them, run once the process leads; without leader election
  it leads from the start. While the manager serves, \<open>Start\<close> waits for the context to be done or for an error,
  and takes either if both are there.
\<close>

inductive process_step :: "bool \<Rightarrow> process \<Rightarrow> process_event \<Rightarrow> process \<Rightarrow> bool" for election where
  signal: "\<forall>n. pr_phase p \<noteq> Ended n \<Longrightarrow> process_step election p Signal (handle_signal p)"
| started: "pr_phase p = Starting \<Longrightarrow>
    process_step election p Started (p\<lparr>pr_phase := Serving, pr_leading := \<not> election\<rparr>)"
| start_failed: "pr_phase p = Starting \<Longrightarrow>
    process_step election p (StartFailed err) (p\<lparr>pr_phase := Stopping (Some err)\<rparr>)"
| elected: "pr_phase p = Serving \<Longrightarrow> election \<Longrightarrow> \<not> pr_leading p \<Longrightarrow>
    process_step election p Elected (p\<lparr>pr_leading := True\<rparr>)"
| lease_lost: "pr_phase p = Serving \<Longrightarrow> election \<Longrightarrow> pr_leading p \<Longrightarrow>
    process_step election p LeaseLost (p\<lparr>pr_phase := Stopping (Some (PlainError ''leader election lost''))\<rparr>)"
| settings_read: "pr_phase p = Serving \<or> (\<exists>err. pr_phase p = Stopping err) \<Longrightarrow> pr_leading p \<Longrightarrow> pr_watcher p = Some r \<Longrightarrow>
    watcher_Reconcile got r = ((err, cancelled), r') \<Longrightarrow>
    process_step election p (SettingsRead got) (p\<lparr>pr_watcher := Some r', pr_cancelled := pr_cancelled p \<or> cancelled\<rparr>)"
| runnable_failed: "pr_phase p = Serving \<Longrightarrow>
    process_step election p (RunnableFailed err) (p\<lparr>pr_phase := Stopping (Some err)\<rparr>)"
| context_done: "pr_phase p = Serving \<Longrightarrow> pr_cancelled p \<Longrightarrow>
    process_step election p ContextDone (p\<lparr>pr_phase := Stopping None\<rparr>)"
| stopped: "pr_phase p = Stopping err \<Longrightarrow>
    process_step election p (Stopped stopErr) (p\<lparr>pr_phase := Ended (manager_status (Start_result err stopErr))\<rparr>)"

inductive process_run :: "bool \<Rightarrow> process \<Rightarrow> process_event list \<Rightarrow> process \<Rightarrow> bool" for election where
  stay: "process_run election p [] p"
| go_on: "process_step election p ev q \<Longrightarrow> process_run election q evs q' \<Longrightarrow> process_run election p (ev # evs) q'"

inductive_cases process_stepE: "process_step election p ev q"

text \<open>The process when \<open>main\<close> calls \<open>Start\<close>.\<close>

definition set_up :: "operator_setup \<Rightarrow> process" where
  "set_up su = \<lparr>pr_phase = Starting, pr_signalled = False, pr_cancelled = False, pr_leading = False, pr_watcher = su_Watcher su\<rparr>"

text \<open>Events that say that something went wrong; and the number of signals.\<close>

definition failure :: "process_event \<Rightarrow> bool" where
  "failure ev \<longleftrightarrow> (case ev of StartFailed err \<Rightarrow> True | LeaseLost \<Rightarrow> True | RunnableFailed err \<Rightarrow> True | Stopped stopErr \<Rightarrow> stopErr \<noteq> None | _ \<Rightarrow> False)"

definition signals :: "process_event list \<Rightarrow> nat" where
  "signals evs = length (filter (\<lambda>ev. ev = Signal) evs)"

lemma signals_Cons: "signals (ev # evs) = (if ev = Signal then Suc (signals evs) else signals evs)"
  by (simp add: signals_def)

text \<open>What the watcher read.\<close>

definition settings :: "process_event list \<Rightarrow> (go_error + APIServer) list" where
  "settings evs = List.map_filter (\<lambda>ev. case ev of SettingsRead got \<Rightarrow> Some got | _ \<Rightarrow> None) evs"

lemma settings_simps [simp]:
  "settings [] = []"
  "settings (ev # evs) = (case ev of SettingsRead got \<Rightarrow> got # settings evs | _ \<Rightarrow> settings evs)"
  by (simp_all add: settings_def List.map_filter_def split: process_event.split)

lemma settings_set: "got \<in> set (settings evs) \<longleftrightarrow> SettingsRead got \<in> set evs"
  by (induction evs) (auto split: process_event.split)

section \<open>When the process stops\<close>

text \<open>The context is done exactly if there was a signal, or the watcher has cancelled it.\<close>

lemma run_cancelled:
  assumes "process_run election p evs q" and "pr_signalled p \<Longrightarrow> pr_cancelled p"
  shows "pr_cancelled q \<longleftrightarrow> pr_cancelled p \<or> Signal \<in> set evs \<or> (\<exists>r. pr_watcher p = Some r \<and> watch (settings evs) r)"
  using assms
proof (induction rule: process_run.induct)
  case (go_on p ev q evs q')
  from go_on.hyps(1) show ?case
  proof cases
    case signal
    then show ?thesis using go_on.IH go_on.prems by (auto simp: handle_signal_def split: if_splits)
  next
    case (settings_read r got err cancelled r')
    then show ?thesis using go_on.IH go_on.prems by auto
  qed (use go_on.IH go_on.prems in auto)
qed simp

text \<open>The status, once the process has ended.\<close>

lemma run_ended: "process_run election p evs q \<Longrightarrow> pr_phase p = Ended n \<Longrightarrow> evs = [] \<and> q = p"
  by (erule process_run.cases) (auto elim: process_stepE)

lemma run_status:
  assumes "process_run election p evs q" and "pr_phase q = Ended n"
  shows "pr_phase p = Ended n \<or>
    n = (if (\<exists>e. pr_phase p = Stopping (Some e)) \<or> (\<exists>ev \<in> set evs. failure ev) \<or> 2 \<le> signals evs + of_bool (pr_signalled p)
         then 1 else 0)"
  using assms
proof (induction rule: process_run.induct)
  case (go_on p ev q evs q')
  note IH = go_on.IH [OF go_on.prems]
  note ended = run_ended [OF go_on.hyps(2)]
  from go_on.hyps(1) show ?case
  proof cases
    case signal
    then show ?thesis
      using IH ended go_on.prems by (cases "pr_signalled p") (auto simp: handle_signal_def signals_Cons failure_def)
  next
    case (stopped err stopErr)
    then have "evs = []" "n = manager_status (Start_result err stopErr)" using ended go_on.prems by auto
    then show ?thesis
      using stopped by (auto simp: signals_def failure_def manager_status_def Start_result_def split: option.splits)
  qed (use IH in \<open>auto simp: signals_Cons failure_def\<close>)
qed simp

text \<open>Without an error \<open>Start\<close> returns only after its context is done.\<close>

lemma run_clean:
  assumes "process_run election p evs q" and "pr_phase p \<in> {Stopping None, Ended 0} \<Longrightarrow> pr_cancelled p"
    and "pr_phase q \<in> {Stopping None, Ended 0}"
  shows "pr_cancelled q"
  using assms
proof (induction rule: process_run.induct)
  case (go_on p ev q evs q')
  have "pr_phase q \<in> {Stopping None, Ended 0} \<Longrightarrow> pr_cancelled q"
    using go_on.hyps(1) go_on.prems(1)
    by cases (auto simp: handle_signal_def manager_status_def Start_result_def split: if_splits option.splits)
  then show ?case using go_on.IH go_on.prems(2) by blast
qed simp

text \<open>A process that takes part in an election and has not been elected reads no settings.\<close>

lemma run_standby:
  assumes "process_run True p evs q" and "\<not> pr_leading p" and "Elected \<notin> set evs"
  shows "settings evs = []"
  using assms
proof (induction rule: process_run.induct)
  case (go_on p ev q evs q')
  from go_on.hyps(1) show ?case
    by cases (use go_on.IH go_on.prems in \<open>auto simp: handle_signal_def split: if_splits\<close>)
qed simp

lemma run_unwatched:
  assumes "process_run election p evs q" and "pr_watcher p = None"
  shows "settings evs = []"
  using assms
proof (induction rule: process_run.induct)
  case (go_on p ev q evs q')
  from go_on.hyps(1) show ?case
    by cases (use go_on.IH go_on.prems in \<open>auto simp: handle_signal_def split: if_splits\<close>)
qed simp

text \<open>Settings that call for another TLS profile than the one of the configuration.\<close>

definition calls_for_other :: "Config \<Rightarrow> go_error + APIServer \<Rightarrow> bool" where
  "calls_for_other cfg got \<longleftrightarrow> (\<exists>a p. got = Inr a \<and> GetTLSProfileSpec (as_TLSSecurityProfile (api_Spec a)) = Inr p \<and>
     synced_profile (api_Spec a) None \<noteq> cfg_TLSProfileSpec cfg)"

lemma main_election:
  assumes "run_state (main_setup rt) w = (Inr su, w')"
  shows "mo_LeaderElection (su_Manager su) = fl_enableLeaderElection (rt_flags rt)"
  using assms
  by (elim main_setup_Inr) (auto simp: main_after_read_def manager_options_def Let_def or_exit_Inr split: sum.splits if_splits)

lemma cancelled_iff:
  assumes "run_state (main_setup rt) w = (Inr su, w')" and "process_run election (set_up su) evs p"
  shows "pr_cancelled p \<longleftrightarrow> Signal \<in> set evs \<or> (\<exists>got. SettingsRead got \<in> set evs \<and> calls_for_other (su_Config su) got)"
proof -
  have run: "pr_cancelled p \<longleftrightarrow> Signal \<in> set evs \<or> (\<exists>r. su_Watcher su = Some r \<and> watch (settings evs) r)"
    using run_cancelled [OF assms(2)] by (simp add: set_up_def)
  show ?thesis
  proof (cases "su_Watcher su")
    case None
    then have "settings evs = []" using run_unwatched [OF assms(2)] by (simp add: set_up_def)
    then show ?thesis using run None settings_set [of _ evs] by auto
  next
    case (Some r)
    then show ?thesis
      using run restarts_iff_outdated [OF assms(1) Some, of "settings evs"] settings_set [of _ evs]
      by (fastforce simp: calls_for_other_def)
  qed
qed

text \<open>
  C19: A process that \<open>main\<close> has set up stops for the sake of TLS exactly when its settings are out of date. In every run of the manager, with
  any order of elections, signals, failures and reads, its context is done if and only if there was a signal or the watcher read valid settings
  that give another TLS profile (or none) than the one of the configuration. While it stands by in an election
  it has only the signals: it does not learn that its settings are out of date.
\<close>

theorem stops_iff_outdated:
  assumes "run_state (main_setup rt) w = (Inr su, w')"
    and "process_run (mo_LeaderElection (su_Manager su)) (set_up su) evs p"
  shows "(pr_cancelled p \<longleftrightarrow> Signal \<in> set evs \<or> (\<exists>got. SettingsRead got \<in> set evs \<and> calls_for_other (su_Config su) got)) \<and>
    (mo_LeaderElection (su_Manager su) \<and> Elected \<notin> set evs \<longrightarrow> (pr_cancelled p \<longleftrightarrow> Signal \<in> set evs))"
proof -
  have "SettingsRead got \<notin> set evs" if "mo_LeaderElection (su_Manager su)" "Elected \<notin> set evs" for got
    using run_standby [of "set_up su" evs p] assms(2) that settings_set [of got evs] by (simp add: set_up_def)
  then show ?thesis using cancelled_iff [OF assms] by auto
qed

text \<open>In the example the process starts, and the policy then stops asking for the profile.\<close>

lemma example_outdated:
  assumes "cfg_TLSProfileSpec cfg = Some modern_profile"
  shows "calls_for_other cfg (Inr relaxed_apiserver)" and "\<not> calls_for_other cfg (Inr example_apiserver)"
  using assms example_profile example_honored
  by (auto simp: calls_for_other_def relaxed_apiserver_def synced_profile_def ShouldHonorClusterTLSProfile_def)

lemma example_served:
  assumes "run_state (main_setup (example_runtime fmempty)) example_tls_world = (Inr su, w')"
  shows "\<exists>p. process_run False (set_up su) [Started, SettingsRead got] p \<and> pr_phase p = Serving"
proof -
  obtain r where r: "su_Watcher su = Some r" using example_setup(2) [OF assms] by blast
  obtain err cancelled r' where w: "watcher_Reconcile got r = ((err, cancelled), r')" by (metis prod.exhaust)
  let ?p = "(set_up su)\<lparr>pr_phase := Serving, pr_leading := True\<rparr>"
  let ?q = "?p\<lparr>pr_watcher := Some r', pr_cancelled := pr_cancelled ?p \<or> cancelled\<rparr>"
  have s1: "process_step False (set_up su) Started ?p" using started [of "set_up su" False] by (simp add: set_up_def)
  have s2: "process_step False ?p (SettingsRead got) ?q"
    by (rule settings_read [OF _ _ _ w]) (simp_all add: set_up_def r)
  from go_on [OF s1 go_on [OF s2 stay]] show ?thesis by (rule exI [where x = ?q, OF conjI]) simp
qed

theorem stops_iff_outdated_witness:
  "\<exists>su p. fst (run_state (main_setup (example_runtime fmempty)) example_tls_world) = Inr su \<and>
     process_run False (set_up su) [Started, SettingsRead (Inr relaxed_apiserver)] p \<and> pr_cancelled p"
proof -
  obtain su where su: "run_state (main_setup (example_runtime fmempty)) example_tls_world = (Inr su, example_tls_world)"
    using example_starts by blast
  have "\<not> mo_LeaderElection (su_Manager su)"
    using main_election [OF su] by (simp add: example_runtime_def default_flags_def)
  moreover obtain p where "process_run False (set_up su) [Started, SettingsRead (Inr relaxed_apiserver)] p"
    using example_served [OF su] by blast
  ultimately show ?thesis
    using stops_iff_outdated [OF su] su example_outdated(1) [OF example_setup(1) [OF su]]
    by (intro exI [where x = su] exI [where x = p]) auto
qed

text \<open>
  C20: The exit status tells why a process that \<open>main\<close> has set up has ended. It is 1 exactly if something went wrong: the
  manager failed to start or a runnable failed, the lease was lost, the runnables did not stop
  in time, or a second signal came. It is 0 otherwise, and then there was one signal or the watcher has read settings that call for another TLS profile.
\<close>

theorem exit_status:
  assumes "run_state (main_setup rt) w = (Inr su, w')"
    and "process_run (mo_LeaderElection (su_Manager su)) (set_up su) evs p" and "pr_phase p = Ended n"
  shows "n = (if (\<exists>ev \<in> set evs. failure ev) \<or> 2 \<le> signals evs then 1 else 0) \<and>
    (n = 0 \<longrightarrow> Signal \<in> set evs \<or> (\<exists>got. SettingsRead got \<in> set evs \<and> calls_for_other (su_Config su) got))"
proof -
  have "pr_cancelled p" if "n = 0"
    using run_clean [OF assms(2)] assms(3) that by (simp add: set_up_def)
  then show ?thesis
    using run_status [OF assms(2,3)] cancelled_iff [OF assms(1,2)] by (auto simp: set_up_def)
qed

text \<open>The example process ends with status 0 after one signal.\<close>

theorem exit_status_witness:
  "\<exists>su p. fst (run_state (main_setup (example_runtime fmempty)) example_tls_world) = Inr su \<and>
     process_run False (set_up su) [Started, Signal, ContextDone, Stopped None] p \<and> pr_phase p = Ended 0"
proof -
  obtain su where su: "run_state (main_setup (example_runtime fmempty)) example_tls_world = (Inr su, example_tls_world)"
    using example_starts by blast
  have e: "\<not> mo_LeaderElection (su_Manager su)"
    using main_election [OF su] by (simp add: example_runtime_def default_flags_def)
  let ?p1 = "(set_up su)\<lparr>pr_phase := Serving, pr_leading := True\<rparr>"
  let ?p2 = "handle_signal ?p1"
  let ?p3 = "?p2\<lparr>pr_phase := Stopping None\<rparr>"
  let ?p4 = "?p3\<lparr>pr_phase := Ended (manager_status (Start_result None None))\<rparr>"
  have s1: "process_step False (set_up su) Started ?p1" using started [of "set_up su" False] by (simp add: set_up_def)
  have s2: "process_step False ?p1 Signal ?p2" by (rule signal) simp
  have s3: "process_step False ?p2 ContextDone ?p3" by (rule context_done) (simp_all add: handle_signal_def set_up_def)
  have s4: "process_step False ?p3 (Stopped None) ?p4" by (rule stopped) simp
  note run = go_on [OF s1 go_on [OF s2 go_on [OF s3 go_on [OF s4 stay]]]]
  have "process_run (mo_LeaderElection (su_Manager su)) (set_up su) [Started, Signal, ContextDone, Stopped None] ?p4"
    using run e by simp
  from exit_status [OF su this] have "manager_status (Start_result None None) = 0"
    by (simp add: failure_def signals_def)
  then show ?thesis using run su by (intro exI [where x = su] exI [where x = ?p4]) simp
qed

end
