(* ===== verification/Go_Heap.thy ===== *)
theory Go_Heap
  imports VPA_Prelude
begin

text \<open>
  A heap for Go's references (pointers, slices and maps), and the contract of a deep copy: the
  copy has the value of the original, what the heap held before is unchanged, and the
  copy reaches no cell that existed before. The contract is a locale; it is closed under the ways in which
  generated \<open>DeepCopyInto\<close> methods are put together: plain values, references, slices and structs.

  A nil reference is \<open>None\<close>. Go's references never dangle; reading a heap that has no such cell
  gives no value, and a copy is then nil.
\<close>

section \<open>The heap\<close>

record 'c heap =
  hp_cells :: "(nat, 'c) fmap"
  hp_next :: nat

definition heap_ok :: "'c heap \<Rightarrow> bool" where
  "heap_ok h \<longleftrightarrow> (\<forall>a \<in> fset (fmdom (hp_cells h)). a < hp_next h)"

definition alloc :: "'c \<Rightarrow> ('c heap, nat) state" where
  "alloc c = State (\<lambda>h. (hp_next h, h\<lparr>hp_cells := fmupd (hp_next h) c (hp_cells h), hp_next := hp_next h + 1\<rparr>))"

definition store :: "nat \<Rightarrow> 'c \<Rightarrow> 'c heap \<Rightarrow> 'c heap" where
  "store a c h = h\<lparr>hp_cells := fmupd a c (hp_cells h)\<rparr>"

abbreviation used :: "'c heap \<Rightarrow> nat set" where
  "used h \<equiv> fset (fmdom (hp_cells h))"

text \<open>The cells of the first heap are in the second, unchanged.\<close>

definition grown :: "'c heap \<Rightarrow> 'c heap \<Rightarrow> bool" where
  "grown h h' \<longleftrightarrow> (\<forall>a \<in> used h. fmlookup (hp_cells h') a = fmlookup (hp_cells h) a)"

lemma grown_refl [simp]: "grown h h"
  by (simp add: grown_def)

lemma grown_used: "grown h h' \<Longrightarrow> used h \<subseteq> used h'"
  by (auto simp: grown_def fmlookup_dom_iff)

lemma grown_trans: "grown h h' \<Longrightarrow> grown h' h'' \<Longrightarrow> grown h h''"
  using grown_used by (fastforce simp: grown_def)

lemma alloc_run:
  assumes "heap_ok h" and "run_state (alloc c) h = (a, h')"
  shows "heap_ok h'" and "grown h h'" and "a \<notin> used h" and "fmlookup (hp_cells h') a = Some c"
  using assms by (auto simp: alloc_def heap_ok_def grown_def less_Suc_eq)

section \<open>The contract of a deep copy\<close>

text \<open>\<open>foot h x\<close> is the set of cells that are reached from \<open>x\<close>.\<close>

locale deep_copy =
  fixes copy :: "'h \<Rightarrow> ('c heap, 'h) state" and val :: "'c heap \<Rightarrow> 'h \<Rightarrow> 'v option"
    and foot :: "'c heap \<Rightarrow> 'h \<Rightarrow> nat set"
  assumes frame: "val h x = Some v \<Longrightarrow> (\<And>a. a \<in> foot h x \<Longrightarrow> fmlookup (hp_cells h') a = fmlookup (hp_cells h) a) \<Longrightarrow>
      val h' x = Some v \<and> foot h' x = foot h x"
    and foot_used: "val h x = Some v \<Longrightarrow> foot h x \<subseteq> used h"
    and copied: "heap_ok h \<Longrightarrow> val h x = Some v \<Longrightarrow> run_state (copy x) h = (y, h') \<Longrightarrow>
      heap_ok h' \<and> grown h h' \<and> val h' y = Some v \<and> foot h' y \<inter> used h = {}"
begin

lemma grown_val:
  assumes "val h x = Some v" and "grown h h'"
  shows "val h' x = Some v" and "foot h' x = foot h x"
proof -
  have "fmlookup (hp_cells h') a = fmlookup (hp_cells h) a" if "a \<in> foot h x" for a
    using that foot_used [OF assms(1)] assms(2) by (auto simp: grown_def)
  then have "val h' x = Some v \<and> foot h' x = foot h x" by (rule frame [OF assms(1)])
  then show "val h' x = Some v" "foot h' x = foot h x" by simp_all
qed

text \<open>After a copy, a write to a cell of one of the two is not seen by the other.\<close>

lemma independent:
  assumes "heap_ok h" and "val h x = Some v" and "run_state (copy x) h = (y, h')"
  shows "a \<in> foot h' y \<Longrightarrow> val (store a c h') x = Some v"
    and "a \<in> foot h' x \<Longrightarrow> val (store a c h') y = Some v"
proof -
  note C = copied [OF assms]
  have x: "val h' x = Some v" "foot h' x = foot h x" using grown_val assms(2) C by blast+
  have disjoint: "foot h' y \<inter> foot h' x = {}" using C x(2) foot_used [OF assms(2)] by blast
  show "val (store a c h') x = Some v" if "a \<in> foot h' y"
  proof -
    have "fmlookup (hp_cells (store a c h')) b = fmlookup (hp_cells h') b" if "b \<in> foot h' x" for b
      using that \<open>a \<in> foot h' y\<close> disjoint by (auto simp: store_def)
    then show ?thesis using frame [OF x(1)] by blast
  qed
  show "val (store a c h') y = Some v" if "a \<in> foot h' x"
  proof -
    have "fmlookup (hp_cells (store a c h')) b = fmlookup (hp_cells h') b" if "b \<in> foot h' y" for b
      using that \<open>a \<in> foot h' x\<close> disjoint by (auto simp: store_def)
    then show ?thesis using frame [of h' y v] C by blast
  qed
qed

end

section \<open>Building copies\<close>

text \<open>Plain values need no copying.\<close>

lemma deep_plain: "deep_copy State_Monad.return (\<lambda>h x. Some x) (\<lambda>h x. {})"
  by unfold_locales (auto simp: run_simps)

text \<open>
  A reference to a cell: \<open>con\<close> and \<open>prj\<close> say which cells it refers to, \<open>c\<close> copies the contents.
\<close>

definition copy_ref ::
  "('k \<Rightarrow> 'c) \<Rightarrow> ('c \<Rightarrow> 'k option) \<Rightarrow> ('k \<Rightarrow> ('c heap, 'k) state) \<Rightarrow> nat option \<Rightarrow> ('c heap, nat option) state" where
  "copy_ref con prj c r =
     (case r of
        None \<Rightarrow> State_Monad.return None
      | Some a \<Rightarrow>
          do { h \<leftarrow> State_Monad.get;
               case Option.bind (fmlookup (hp_cells h) a) prj of
                 None \<Rightarrow> State_Monad.return None
               | Some k \<Rightarrow> do { k' \<leftarrow> c k; a' \<leftarrow> alloc (con k'); State_Monad.return (Some a') } })"

definition val_ref :: "('c \<Rightarrow> 'k option) \<Rightarrow> ('c heap \<Rightarrow> 'k \<Rightarrow> 'v option) \<Rightarrow> 'c heap \<Rightarrow> nat option \<Rightarrow> 'v option option" where
  "val_ref prj v h r =
     (case r of
        None \<Rightarrow> Some None
      | Some a \<Rightarrow> (case Option.bind (fmlookup (hp_cells h) a) prj of None \<Rightarrow> None | Some k \<Rightarrow> map_option Some (v h k)))"

definition foot_ref :: "('c \<Rightarrow> 'k option) \<Rightarrow> ('c heap \<Rightarrow> 'k \<Rightarrow> nat set) \<Rightarrow> 'c heap \<Rightarrow> nat option \<Rightarrow> nat set" where
  "foot_ref prj f h r =
     (case r of
        None \<Rightarrow> {}
      | Some a \<Rightarrow> insert a (case Option.bind (fmlookup (hp_cells h) a) prj of None \<Rightarrow> {} | Some k \<Rightarrow> f h k))"

lemma val_ref_Some:
  "val_ref prj v h r = Some w \<longleftrightarrow> r = None \<and> w = None \<or>
     (\<exists>a c k x. r = Some a \<and> fmlookup (hp_cells h) a = Some c \<and> prj c = Some k \<and> v h k = Some x \<and> w = Some x)"
  by (auto simp: val_ref_def bind_eq_Some_conv split: option.splits)

lemma deep_ref:
  assumes D: "deep_copy c v f" and prj: "\<And>k. prj (con k) = Some k"
  shows "deep_copy (copy_ref con prj c) (val_ref prj v) (foot_ref prj f)"
proof
  fix h h' r w y
  show "val_ref prj v h' r = Some w \<and> foot_ref prj f h' r = foot_ref prj f h r"
    if w: "val_ref prj v h r = Some w"
      and same: "\<And>a. a \<in> foot_ref prj f h r \<Longrightarrow> fmlookup (hp_cells h') a = fmlookup (hp_cells h) a"
  proof (cases r)
    case (Some a)
    then obtain cc k x where k: "fmlookup (hp_cells h) a = Some cc" "prj cc = Some k" "v h k = Some x" "w = Some x"
      using w by (auto simp: val_ref_Some)
    have "fmlookup (hp_cells h') a = Some cc" using same [of a] Some k(1) by (simp add: foot_ref_def)
    moreover have "v h' k = Some x \<and> f h' k = f h k"
      by (rule deep_copy.frame [OF D k(3)], rule same) (simp add: foot_ref_def Some k)
    ultimately show ?thesis using Some k by (simp add: val_ref_Some foot_ref_def)
  qed (use w in \<open>simp add: val_ref_def foot_ref_def\<close>)
  show "foot_ref prj f h r \<subseteq> used h" if "val_ref prj v h r = Some w"
    using that deep_copy.foot_used [OF D] by (fastforce simp: val_ref_Some foot_ref_def fmlookup_dom_iff)
  assume h: "heap_ok h" and val: "val_ref prj v h r = Some w" and run: "run_state (copy_ref con prj c r) h = (y, h')"
  show "heap_ok h' \<and> grown h h' \<and> val_ref prj v h' y = Some w \<and> foot_ref prj f h' y \<inter> used h = {}"
  proof (cases r)
    case None
    then show ?thesis using h val run by (auto simp: copy_ref_def val_ref_def foot_ref_def run_simps)
  next
    case (Some a)
    then obtain cc k x where k: "fmlookup (hp_cells h) a = Some cc" "prj cc = Some k" "v h k = Some x" "w = Some x"
      using val by (auto simp: val_ref_Some)
    obtain k' h1 where c: "run_state (c k) h = (k', h1)" by fastforce
    obtain a' h2 where al: "run_state (alloc (con k')) h1 = (a', h2)" by fastforce
    have res: "y = Some a'" "h' = h2"
      using run Some k c al by (auto simp: copy_ref_def run_simps State_Monad.get_def)
    have C: "heap_ok h1" "grown h h1" "v h1 k' = Some x" "f h1 k' \<inter> used h = {}"
      using deep_copy.copied [OF D h k(3) c] by blast+
    note A = alloc_run [OF C(1) al]
    have G: "v h2 k' = Some x" "f h2 k' = f h1 k'" using deep_copy.grown_val [OF D C(3) A(2)] by blast+
    show ?thesis
      using A C G res k(4) prj grown_trans [OF C(2) A(2)] grown_used [OF C(2)]
      by (auto simp: val_ref_Some foot_ref_def)
  qed
qed

text \<open>Several values, one after the other.\<close>

definition copy_pair ::
  "('a \<Rightarrow> ('c heap, 'a) state) \<Rightarrow> ('b \<Rightarrow> ('c heap, 'b) state) \<Rightarrow> 'a \<times> 'b \<Rightarrow> ('c heap, 'a \<times> 'b) state" where
  "copy_pair c1 c2 p = do { x \<leftarrow> c1 (fst p); y \<leftarrow> c2 (snd p); State_Monad.return (x, y) }"

definition val_pair :: "('c heap \<Rightarrow> 'a \<Rightarrow> 'v option) \<Rightarrow> ('c heap \<Rightarrow> 'b \<Rightarrow> 'w option) \<Rightarrow> 'c heap \<Rightarrow> 'a \<times> 'b \<Rightarrow> ('v \<times> 'w) option" where
  "val_pair v1 v2 h p = (case v1 h (fst p) of None \<Rightarrow> None | Some x \<Rightarrow> map_option (Pair x) (v2 h (snd p)))"

lemma val_pair_Some: "val_pair v1 v2 h p = Some w \<longleftrightarrow> v1 h (fst p) = Some (fst w) \<and> v2 h (snd p) = Some (snd w)"
  by (cases w) (auto simp: val_pair_def split: option.splits)

lemma deep_pair:
  assumes D1: "deep_copy c1 v1 f1" and D2: "deep_copy c2 v2 f2"
  shows "deep_copy (copy_pair c1 c2) (val_pair v1 v2) (\<lambda>h p. f1 h (fst p) \<union> f2 h (snd p))"
proof
  fix h h' p w y
  show "val_pair v1 v2 h' p = Some w \<and> f1 h' (fst p) \<union> f2 h' (snd p) = f1 h (fst p) \<union> f2 h (snd p)"
    if "val_pair v1 v2 h p = Some w"
      "\<And>a. a \<in> f1 h (fst p) \<union> f2 h (snd p) \<Longrightarrow> fmlookup (hp_cells h') a = fmlookup (hp_cells h) a"
  proof -
    have "v1 h' (fst p) = Some (fst w) \<and> f1 h' (fst p) = f1 h (fst p)"
      by (rule deep_copy.frame [OF D1]) (use that in \<open>auto simp: val_pair_Some\<close>)
    moreover have "v2 h' (snd p) = Some (snd w) \<and> f2 h' (snd p) = f2 h (snd p)"
      by (rule deep_copy.frame [OF D2]) (use that in \<open>auto simp: val_pair_Some\<close>)
    ultimately show ?thesis by (simp add: val_pair_Some)
  qed
  show "f1 h (fst p) \<union> f2 h (snd p) \<subseteq> used h" if "val_pair v1 v2 h p = Some w"
    using that deep_copy.foot_used [OF D1] deep_copy.foot_used [OF D2] by (auto simp: val_pair_Some)
  assume h: "heap_ok h" and val: "val_pair v1 v2 h p = Some w" and run: "run_state (copy_pair c1 c2 p) h = (y, h')"
  obtain y1 h1 where r1: "run_state (c1 (fst p)) h = (y1, h1)" by fastforce
  obtain y2 h2 where r2: "run_state (c2 (snd p)) h1 = (y2, h2)" by fastforce
  have res: "y = (y1, y2)" "h' = h2" using run r1 r2 by (auto simp: copy_pair_def run_simps)
  have C1: "heap_ok h1" "grown h h1" "v1 h1 y1 = Some (fst w)" "f1 h1 y1 \<inter> used h = {}"
    using deep_copy.copied [OF D1 h _ r1] val by (auto simp: val_pair_Some)
  have "v2 h1 (snd p) = Some (snd w)"
    using deep_copy.grown_val(1) [OF D2 _ C1(2)] val by (simp add: val_pair_Some)
  then have C2: "heap_ok h2" "grown h1 h2" "v2 h2 y2 = Some (snd w)" "f2 h2 y2 \<inter> used h1 = {}"
    using deep_copy.copied [OF D2 C1(1) _ r2] by auto
  have "v1 h2 y1 = Some (fst w)" "f1 h2 y1 = f1 h1 y1" using deep_copy.grown_val [OF D1 C1(3) C2(2)] by blast+
  then show "heap_ok h' \<and> grown h h' \<and> val_pair v1 v2 h' y = Some w \<and> (f1 h' (fst y) \<union> f2 h' (snd y)) \<inter> used h = {}"
    using C1 C2 res grown_trans [OF C1(2) C2(2)] grown_used [OF C1(2)] by (auto simp: val_pair_Some)
qed

fun copy_list :: "('a \<Rightarrow> ('c heap, 'a) state) \<Rightarrow> 'a list \<Rightarrow> ('c heap, 'a list) state" where
  "copy_list c [] = State_Monad.return []"
| "copy_list c (x # xs) = do { y \<leftarrow> c x; ys \<leftarrow> copy_list c xs; State_Monad.return (y # ys) }"

fun val_list :: "('c heap \<Rightarrow> 'a \<Rightarrow> 'v option) \<Rightarrow> 'c heap \<Rightarrow> 'a list \<Rightarrow> 'v list option" where
  "val_list v h [] = Some []"
| "val_list v h (x # xs) = (case v h x of None \<Rightarrow> None | Some y \<Rightarrow> map_option (Cons y) (val_list v h xs))"

lemma val_list_Cons: "val_list v h (x # xs) = Some w \<longleftrightarrow>
    (\<exists>y ys. w = y # ys \<and> v h x = Some y \<and> val_list v h xs = Some ys)"
  by (auto split: option.splits)

context deep_copy
begin

lemma list_frame:
  assumes "val_list val h xs = Some w"
    and "\<And>a. a \<in> (\<Union>x \<in> set xs. foot h x) \<Longrightarrow> fmlookup (hp_cells h') a = fmlookup (hp_cells h) a"
  shows "val_list val h' xs = Some w \<and> (\<Union>x \<in> set xs. foot h' x) = (\<Union>x \<in> set xs. foot h x)"
  using assms
proof (induction xs arbitrary: w)
  case (Cons x xs)
  then obtain v vs where w: "w = v # vs" "val h x = Some v" "val_list val h xs = Some vs"
    unfolding val_list_Cons by blast
  have "val h' x = Some v \<and> foot h' x = foot h x" by (rule frame [OF w(2)]) (rule Cons.prems(2), simp)
  moreover have "val_list val h' xs = Some vs \<and> (\<Union>x \<in> set xs. foot h' x) = (\<Union>x \<in> set xs. foot h x)"
    by (rule Cons.IH [OF w(3)]) (rule Cons.prems(2), simp)
  ultimately show ?case using w(1) by simp
qed simp

lemma list_foot_used: "val_list val h xs = Some w \<Longrightarrow> (\<Union>x \<in> set xs. foot h x) \<subseteq> used h"
proof (induction xs arbitrary: w)
  case (Cons x xs)
  then obtain v vs where "val h x = Some v" "val_list val h xs = Some vs" unfolding val_list_Cons by blast
  then show ?case using foot_used [of h x v] Cons.IH by simp
qed simp

lemma list_grown:
  assumes "val_list val h xs = Some w" and "grown h h'"
  shows "val_list val h' xs = Some w" and "(\<Union>x \<in> set xs. foot h' x) = (\<Union>x \<in> set xs. foot h x)"
proof -
  have "fmlookup (hp_cells h') a = fmlookup (hp_cells h) a" if "a \<in> (\<Union>x \<in> set xs. foot h x)" for a
    using that list_foot_used [OF assms(1)] assms(2) by (auto simp: grown_def)
  note F = list_frame [OF assms(1) this]
  show "val_list val h' xs = Some w" "(\<Union>x \<in> set xs. foot h' x) = (\<Union>x \<in> set xs. foot h x)" using F by simp_all
qed

lemma list_copied:
  assumes "heap_ok h" and "val_list val h xs = Some w" and "run_state (copy_list copy xs) h = (ys, h')"
  shows "heap_ok h' \<and> grown h h' \<and> val_list val h' ys = Some w \<and> (\<Union>x \<in> set ys. foot h' x) \<inter> used h = {}"
  using assms
proof (induction xs arbitrary: h w ys h')
  case Nil
  then show ?case by (simp add: run_simps)
next
  case (Cons x xs)
  obtain v vs where w: "w = v # vs" "val h x = Some v" "val_list val h xs = Some vs"
    using Cons.prems(2) unfolding val_list_Cons by blast
  obtain z h1 where r1: "run_state (copy x) h = (z, h1)" by fastforce
  obtain zs h2 where r2: "run_state (copy_list copy xs) h1 = (zs, h2)" by fastforce
  have res: "ys = z # zs" "h' = h2" using Cons.prems(3) r1 r2 by (auto simp: run_simps)
  note C1 = copied [OF Cons.prems(1) w(2) r1]
  have C2: "heap_ok h2 \<and> grown h1 h2 \<and> val_list val h2 zs = Some vs \<and> (\<Union>x \<in> set zs. foot h2 x) \<inter> used h1 = {}"
    using Cons.IH [of h1 vs zs h2] list_grown(1) [OF w(3), of h1] r2 C1 by blast
  have keep: "val h2 z = Some v" "foot h2 z = foot h1 z" using grown_val [of h1 z v h2] C1 C2 by simp_all
  have "grown h h2" "used h \<subseteq> used h1" using C1 C2 grown_trans [of h h1 h2] grown_used [of h h1] by simp_all
  moreover have "val_list val h2 (z # zs) = Some w" using keep(1) C2 w(1) by simp
  moreover have "foot h2 z \<inter> used h = {}" using keep(2) C1 by simp
  ultimately show ?case using C2 res by auto
qed

end

lemma deep_list:
  assumes D: "deep_copy c v f"
  shows "deep_copy (copy_list c) (val_list v) (\<lambda>h xs. \<Union>x \<in> set xs. f h x)"
proof
  fix h h' xs w ys
  show "val_list v h' xs = Some w \<and> (\<Union>x \<in> set xs. f h' x) = (\<Union>x \<in> set xs. f h x)"
    if w: "val_list v h xs = Some w"
      and same: "\<And>a. a \<in> (\<Union>x \<in> set xs. f h x) \<Longrightarrow> fmlookup (hp_cells h') a = fmlookup (hp_cells h) a"
    by (rule deep_copy.list_frame [OF D w]) (rule same)
  show "(\<Union>x \<in> set xs. f h x) \<subseteq> used h" if "val_list v h xs = Some w"
    by (rule deep_copy.list_foot_used [OF D that])
  show "heap_ok h' \<and> grown h h' \<and> val_list v h' ys = Some w \<and> (\<Union>x \<in> set ys. f h' x) \<inter> used h = {}"
    if "heap_ok h" "val_list v h xs = Some w" "run_state (copy_list c xs) h = (ys, h')"
    by (rule deep_copy.list_copied [OF D that])
qed

text \<open>
  A struct: \<open>get\<close> are its references, \<open>put\<close> replaces them, \<open>plain\<close> is the rest. \<open>DeepCopyInto\<close> copies the
  struct and then replaces the references one by one.
\<close>

lemma deep_struct:
  assumes D: "deep_copy c v f"
    and copy: "\<And>x. copy x = do { k \<leftarrow> c (get x); State_Monad.return (put x k) }"
    and val: "\<And>h x. val h x = map_option (mk (plain x)) (v h (get x))"
    and foot: "\<And>h x. foot h x = f h (get x)"
    and put: "\<And>x k. get (put x k) = k" "\<And>x k. plain (put x k) = plain x"
  shows "deep_copy copy val foot"
proof
  fix h h' x w y
  show "val h' x = Some w \<and> foot h' x = foot h x"
    if w: "val h x = Some w" and same: "\<And>a. a \<in> foot h x \<Longrightarrow> fmlookup (hp_cells h') a = fmlookup (hp_cells h) a"
  proof -
    obtain u where u: "v h (get x) = Some u" "w = mk (plain x) u" using w unfolding val by blast
    have "v h' (get x) = Some u \<and> f h' (get x) = f h (get x)"
      by (rule deep_copy.frame [OF D u(1)]) (rule same, simp add: foot)
    then show ?thesis using u(2) by (simp add: val foot)
  qed
  show "val h x = Some w \<Longrightarrow> foot h x \<subseteq> used h"
    using deep_copy.foot_used [OF D] unfolding val foot by auto
  assume "heap_ok h" "val h x = Some w" "run_state (copy x) h = (y, h')"
  then obtain k u where k: "run_state (c (get x)) h = (k, h')" "y = put x k" "v h (get x) = Some u" "w = mk (plain x) u"
    unfolding copy val by (auto simp: run_simps split: prod.splits)
  show "heap_ok h' \<and> grown h h' \<and> val h' y = Some w \<and> foot h' y \<inter> used h = {}"
    using deep_copy.copied [OF D \<open>heap_ok h\<close> k(3,1)] k(2,4) unfolding val foot by (simp add: put)
qed

end
