(* ===== verification/Deep_Copy.thy ===== *)
theory Deep_Copy
  imports Go_Heap VPA_Api
begin

text \<open>
  \<open>api/v1/zz_generated.deepcopy.go\<close> on the heap of theory \<open>Go_Heap\<close>, with the methods of the vendored types
  that it calls (\<open>ResourceRequirements\<close>, \<open>Toleration\<close>, \<open>ObjectMeta\<close>, \<open>ListMeta\<close> and what they contain). The other theories
  treat Go values as immutable and a deep copy as the value itself; here the references are explicit,
  and the theorem at the end says what justifies that.

  A struct is a record with a type parameter for each kind of reference in it: on the heap the
  fields are references (\<open>nat option\<close>), in a value they are what the references lead to, with \<open>None\<close> for nil.
  \<open>*out = *in\<close> copies the struct; the statements after it replace the references, in the order of the code. The elements of a
  new slice are copied before the slice is allocated, which only exchanges addresses. A quantity is a plain value.
\<close>

section \<open>The structs\<close>

record ('lims, 'claims) ResourceRequirements_g =
  rg_Limits :: 'lims
  rg_Requests :: 'lims
  rg_Claims :: 'claims

record 'int Toleration_g =
  tg_Key :: string
  tg_Operator :: string
  tg_Value :: string
  tg_Effect :: string
  tg_TolerationSeconds :: 'int

record 'bool OwnerReference_g =
  og_APIVersion :: string
  og_Kind :: string
  og_Name :: string
  og_UID :: string
  og_Controller :: 'bool
  og_BlockOwnerDeletion :: 'bool

record 'bytes FieldsV1_g =
  fg_Raw :: 'bytes

record ('time, 'fields) ManagedFieldsEntry_g =
  mg_plain :: strmap
  mg_Time :: 'time
  mg_FieldsV1 :: 'fields

record ('time, 'int, 'map, 'owners, 'strings, 'managed) ObjectMeta_g =
  omg_plain :: strmap
  omg_DeletionTimestamp :: 'time
  omg_DeletionGracePeriodSeconds :: 'int
  omg_Labels :: 'map
  omg_Annotations :: 'map
  omg_OwnerReferences :: 'owners
  omg_Finalizers :: 'strings
  omg_ManagedFields :: 'managed

record 'int ListMeta_g =
  lmg_SelfLink :: string
  lmg_ResourceVersion :: string
  lmg_Continue :: string
  lmg_RemainingItemCount :: 'int

record ('strings, 'res) ContainerOverride_g =
  cg_Args :: 'strings
  cg_Resources :: 'res

record ('cont, 'map, 'tols) DeploymentOverride_g =
  dg_Container :: 'cont
  dg_NodeSelector :: 'map
  dg_Tolerations :: 'tols

record 'ov DeploymentOverrides_g =
  dsg_Admission :: 'ov
  dsg_Recommender :: 'ov
  dsg_Updater :: 'ov

record ('float, 'bool, 'int, 'ovs) Spec_g =
  sg_SafetyMarginFraction :: 'float
  sg_PodMinCPUMillicores :: 'float
  sg_PodMinMemoryMb :: 'float
  sg_RecommendationOnly :: 'bool
  sg_MinReplicas :: 'int
  sg_DeploymentOverrides :: 'ovs

record ('meta, 'spec) VPA_g =
  vg_TypeMeta :: TypeMeta
  vg_ObjectMeta :: 'meta
  vg_Spec :: 'spec

record ('meta, 'items) VPAList_g =
  lg_TypeMeta :: TypeMeta
  lg_ListMeta :: 'meta
  lg_Items :: 'items

text \<open>The structs on the heap. The status has no fields.\<close>

type_synonym ref = "nat option"
type_synonym ResourceRequirements_h = "(ref, ref) ResourceRequirements_g"
type_synonym Toleration_h = "ref Toleration_g"
type_synonym OwnerReference_h = "ref OwnerReference_g"
type_synonym FieldsV1_h = "ref FieldsV1_g"
type_synonym ManagedFieldsEntry_h = "(ref, ref) ManagedFieldsEntry_g"
type_synonym ObjectMeta_h = "(ref, ref, ref, ref, ref, ref) ObjectMeta_g"
type_synonym ListMeta_h = "ref ListMeta_g"
type_synonym ContainerOverride_h = "(ref, ResourceRequirements_h) ContainerOverride_g"
type_synonym DeploymentOverride_h = "(ContainerOverride_h, ref, ref) DeploymentOverride_g"
type_synonym DeploymentOverrides_h = "DeploymentOverride_h DeploymentOverrides_g"
type_synonym Spec_h = "(ref, ref, ref, DeploymentOverrides_h) Spec_g"
type_synonym VPA_h = "(ObjectMeta_h, Spec_h) VPA_g"
type_synonym VPAList_h = "(ListMeta_h, ref) VPAList_g"

datatype cell =
    is_CFloat: CFloat (un_CFloat: float64)
  | is_CBool: CBool (un_CBool: bool)
  | is_CInt: CInt (un_CInt: int)
  | is_CTime: CTime (un_CTime: int)
  | is_CBytes: CBytes (un_CBytes: string)
  | is_CStrings: CStrings (un_CStrings: "string list")
  | is_CMap: CMap (un_CMap: strmap)
  | is_CQuantities: CQuantities (un_CQuantities: "(string, Quantity) fmap")
  | is_CClaims: CClaims (un_CClaims: "(string \<times> string) list")
  | is_CTolerations: CTolerations (un_CTolerations: "Toleration_h list")
  | is_COwners: COwners (un_COwners: "OwnerReference_h list")
  | is_CFieldsV1: CFieldsV1 (un_CFieldsV1: FieldsV1_h)
  | is_CManaged: CManaged (un_CManaged: "ManagedFieldsEntry_h list")
  | is_CContainerOverride: CContainerOverride (un_CContainerOverride: ContainerOverride_h)
  | is_CDeploymentOverride: CDeploymentOverride (un_CDeploymentOverride: DeploymentOverride_h)
  | is_CDeploymentOverrides: CDeploymentOverrides (un_CDeploymentOverrides: DeploymentOverrides_h)
  | is_CSpec: CSpec (un_CSpec: Spec_h)
  | is_CStatus: CStatus
  | is_CVPA: CVPA (un_CVPA: VPA_h)
  | is_CItems: CItems (un_CItems: "VPA_h list")
  | is_CVPAList: CVPAList (un_CVPAList: VPAList_h)

definition cell_sel :: "(cell \<Rightarrow> bool) \<Rightarrow> (cell \<Rightarrow> 'k) \<Rightarrow> cell \<Rightarrow> 'k option" where
  "cell_sel is_con un c = (if is_con c then Some (un c) else None)"

text \<open>References to plain values: \<open>new\<close> or \<open>make\<close>, and a copy of the contents.\<close>

definition copy_leaf :: "('k \<Rightarrow> cell) \<Rightarrow> (cell \<Rightarrow> bool) \<Rightarrow> (cell \<Rightarrow> 'k) \<Rightarrow> ref \<Rightarrow> (cell heap, ref) state" where
  "copy_leaf con is_con un = copy_ref con (cell_sel is_con un) State_Monad.return"

definition val_leaf :: "(cell \<Rightarrow> bool) \<Rightarrow> (cell \<Rightarrow> 'k) \<Rightarrow> cell heap \<Rightarrow> ref \<Rightarrow> 'k option option" where
  "val_leaf is_con un = val_ref (cell_sel is_con un) (\<lambda>h x. Some x)"

definition foot_leaf :: "(cell \<Rightarrow> bool) \<Rightarrow> (cell \<Rightarrow> 'k) \<Rightarrow> cell heap \<Rightarrow> ref \<Rightarrow> nat set" where
  "foot_leaf is_con un = foot_ref (cell_sel is_con un) (\<lambda>h x. {})"

lemma deep_leaf:
  assumes "\<And>k. is_con (con k)" and "\<And>k. un (con k) = k"
  shows "deep_copy (copy_leaf con is_con un) (val_leaf is_con un) (foot_leaf is_con un)"
  unfolding copy_leaf_def val_leaf_def foot_leaf_def by (rule deep_ref [OF deep_plain]) (simp add: cell_sel_def assms)

section \<open>The methods\<close>

definition ResourceRequirements_DeepCopyInto :: "ResourceRequirements_h \<Rightarrow> (cell heap, ResourceRequirements_h) state" where
  "ResourceRequirements_DeepCopyInto inp =
     do { let out = inp;
          x \<leftarrow> copy_leaf CQuantities is_CQuantities un_CQuantities (rg_Limits inp);
          let out = out\<lparr>rg_Limits := x\<rparr>;
          x \<leftarrow> copy_leaf CQuantities is_CQuantities un_CQuantities (rg_Requests inp);
          let out = out\<lparr>rg_Requests := x\<rparr>;
          x \<leftarrow> copy_leaf CClaims is_CClaims un_CClaims (rg_Claims inp);
          let out = out\<lparr>rg_Claims := x\<rparr>;
          State_Monad.return out }"

definition Toleration_DeepCopyInto :: "Toleration_h \<Rightarrow> (cell heap, Toleration_h) state" where
  "Toleration_DeepCopyInto inp =
     do { let out = inp;
          x \<leftarrow> copy_leaf CInt is_CInt un_CInt (tg_TolerationSeconds inp);
          let out = out\<lparr>tg_TolerationSeconds := x\<rparr>;
          State_Monad.return out }"

definition OwnerReference_DeepCopyInto :: "OwnerReference_h \<Rightarrow> (cell heap, OwnerReference_h) state" where
  "OwnerReference_DeepCopyInto inp =
     do { let out = inp;
          x \<leftarrow> copy_leaf CBool is_CBool un_CBool (og_Controller inp);
          let out = out\<lparr>og_Controller := x\<rparr>;
          x \<leftarrow> copy_leaf CBool is_CBool un_CBool (og_BlockOwnerDeletion inp);
          let out = out\<lparr>og_BlockOwnerDeletion := x\<rparr>;
          State_Monad.return out }"

definition FieldsV1_DeepCopyInto :: "FieldsV1_h \<Rightarrow> (cell heap, FieldsV1_h) state" where
  "FieldsV1_DeepCopyInto inp =
     do { let out = inp;
          x \<leftarrow> copy_leaf CBytes is_CBytes un_CBytes (fg_Raw inp);
          let out = out\<lparr>fg_Raw := x\<rparr>;
          State_Monad.return out }"

definition ManagedFieldsEntry_DeepCopyInto :: "ManagedFieldsEntry_h \<Rightarrow> (cell heap, ManagedFieldsEntry_h) state" where
  "ManagedFieldsEntry_DeepCopyInto inp =
     do { let out = inp;
          x \<leftarrow> copy_leaf CTime is_CTime un_CTime (mg_Time inp);
          let out = out\<lparr>mg_Time := x\<rparr>;
          x \<leftarrow> copy_ref CFieldsV1 (cell_sel is_CFieldsV1 un_CFieldsV1) FieldsV1_DeepCopyInto (mg_FieldsV1 inp);
          let out = out\<lparr>mg_FieldsV1 := x\<rparr>;
          State_Monad.return out }"

definition ObjectMeta_DeepCopyInto :: "ObjectMeta_h \<Rightarrow> (cell heap, ObjectMeta_h) state" where
  "ObjectMeta_DeepCopyInto inp =
     do { let out = inp;
          x \<leftarrow> copy_leaf CTime is_CTime un_CTime (omg_DeletionTimestamp inp);
          let out = out\<lparr>omg_DeletionTimestamp := x\<rparr>;
          x \<leftarrow> copy_leaf CInt is_CInt un_CInt (omg_DeletionGracePeriodSeconds inp);
          let out = out\<lparr>omg_DeletionGracePeriodSeconds := x\<rparr>;
          x \<leftarrow> copy_leaf CMap is_CMap un_CMap (omg_Labels inp);
          let out = out\<lparr>omg_Labels := x\<rparr>;
          x \<leftarrow> copy_leaf CMap is_CMap un_CMap (omg_Annotations inp);
          let out = out\<lparr>omg_Annotations := x\<rparr>;
          x \<leftarrow> copy_ref COwners (cell_sel is_COwners un_COwners) (copy_list OwnerReference_DeepCopyInto) (omg_OwnerReferences inp);
          let out = out\<lparr>omg_OwnerReferences := x\<rparr>;
          x \<leftarrow> copy_leaf CStrings is_CStrings un_CStrings (omg_Finalizers inp);
          let out = out\<lparr>omg_Finalizers := x\<rparr>;
          x \<leftarrow> copy_ref CManaged (cell_sel is_CManaged un_CManaged) (copy_list ManagedFieldsEntry_DeepCopyInto) (omg_ManagedFields inp);
          let out = out\<lparr>omg_ManagedFields := x\<rparr>;
          State_Monad.return out }"

definition ListMeta_DeepCopyInto :: "ListMeta_h \<Rightarrow> (cell heap, ListMeta_h) state" where
  "ListMeta_DeepCopyInto inp =
     do { let out = inp;
          x \<leftarrow> copy_leaf CInt is_CInt un_CInt (lmg_RemainingItemCount inp);
          let out = out\<lparr>lmg_RemainingItemCount := x\<rparr>;
          State_Monad.return out }"

definition ContainerOverride_DeepCopyInto :: "ContainerOverride_h \<Rightarrow> (cell heap, ContainerOverride_h) state" where
  "ContainerOverride_DeepCopyInto inp =
     do { let out = inp;
          x \<leftarrow> copy_leaf CStrings is_CStrings un_CStrings (cg_Args inp);
          let out = out\<lparr>cg_Args := x\<rparr>;
          x \<leftarrow> ResourceRequirements_DeepCopyInto (cg_Resources inp);
          let out = out\<lparr>cg_Resources := x\<rparr>;
          State_Monad.return out }"

definition DeploymentOverride_DeepCopyInto :: "DeploymentOverride_h \<Rightarrow> (cell heap, DeploymentOverride_h) state" where
  "DeploymentOverride_DeepCopyInto inp =
     do { let out = inp;
          x \<leftarrow> ContainerOverride_DeepCopyInto (dg_Container inp);
          let out = out\<lparr>dg_Container := x\<rparr>;
          x \<leftarrow> copy_leaf CMap is_CMap un_CMap (dg_NodeSelector inp);
          let out = out\<lparr>dg_NodeSelector := x\<rparr>;
          x \<leftarrow> copy_ref CTolerations (cell_sel is_CTolerations un_CTolerations) (copy_list Toleration_DeepCopyInto) (dg_Tolerations inp);
          let out = out\<lparr>dg_Tolerations := x\<rparr>;
          State_Monad.return out }"

definition DeploymentOverrides_DeepCopyInto :: "DeploymentOverrides_h \<Rightarrow> (cell heap, DeploymentOverrides_h) state" where
  "DeploymentOverrides_DeepCopyInto inp =
     do { let out = inp;
          x \<leftarrow> DeploymentOverride_DeepCopyInto (dsg_Admission inp);
          let out = out\<lparr>dsg_Admission := x\<rparr>;
          x \<leftarrow> DeploymentOverride_DeepCopyInto (dsg_Recommender inp);
          let out = out\<lparr>dsg_Recommender := x\<rparr>;
          x \<leftarrow> DeploymentOverride_DeepCopyInto (dsg_Updater inp);
          let out = out\<lparr>dsg_Updater := x\<rparr>;
          State_Monad.return out }"

definition Spec_DeepCopyInto :: "Spec_h \<Rightarrow> (cell heap, Spec_h) state" where
  "Spec_DeepCopyInto inp =
     do { let out = inp;
          x \<leftarrow> copy_leaf CFloat is_CFloat un_CFloat (sg_SafetyMarginFraction inp);
          let out = out\<lparr>sg_SafetyMarginFraction := x\<rparr>;
          x \<leftarrow> copy_leaf CFloat is_CFloat un_CFloat (sg_PodMinCPUMillicores inp);
          let out = out\<lparr>sg_PodMinCPUMillicores := x\<rparr>;
          x \<leftarrow> copy_leaf CFloat is_CFloat un_CFloat (sg_PodMinMemoryMb inp);
          let out = out\<lparr>sg_PodMinMemoryMb := x\<rparr>;
          x \<leftarrow> copy_leaf CBool is_CBool un_CBool (sg_RecommendationOnly inp);
          let out = out\<lparr>sg_RecommendationOnly := x\<rparr>;
          x \<leftarrow> copy_leaf CInt is_CInt un_CInt (sg_MinReplicas inp);
          let out = out\<lparr>sg_MinReplicas := x\<rparr>;
          x \<leftarrow> DeploymentOverrides_DeepCopyInto (sg_DeploymentOverrides inp);
          let out = out\<lparr>sg_DeploymentOverrides := x\<rparr>;
          State_Monad.return out }"

definition VPA_DeepCopyInto :: "VPA_h \<Rightarrow> (cell heap, VPA_h) state" where
  "VPA_DeepCopyInto inp =
     do { let out = inp;
          x \<leftarrow> ObjectMeta_DeepCopyInto (vg_ObjectMeta inp);
          let out = out\<lparr>vg_ObjectMeta := x\<rparr>;
          x \<leftarrow> Spec_DeepCopyInto (vg_Spec inp);
          let out = out\<lparr>vg_Spec := x\<rparr>;
          State_Monad.return out }"

definition VPAList_DeepCopyInto :: "VPAList_h \<Rightarrow> (cell heap, VPAList_h) state" where
  "VPAList_DeepCopyInto inp =
     do { let out = inp;
          x \<leftarrow> ListMeta_DeepCopyInto (lg_ListMeta inp);
          let out = out\<lparr>lg_ListMeta := x\<rparr>;
          x \<leftarrow> copy_ref CItems (cell_sel is_CItems un_CItems) (copy_list VPA_DeepCopyInto) (lg_Items inp);
          let out = out\<lparr>lg_Items := x\<rparr>;
          State_Monad.return out }"

text \<open>\<open>DeepCopy\<close>: nil for nil, otherwise a new struct that \<open>DeepCopyInto\<close> fills.\<close>

definition ContainerOverride_DeepCopy :: "ref \<Rightarrow> (cell heap, ref) state" where
  "ContainerOverride_DeepCopy = copy_ref CContainerOverride (cell_sel is_CContainerOverride un_CContainerOverride) ContainerOverride_DeepCopyInto"

definition DeploymentOverride_DeepCopy :: "ref \<Rightarrow> (cell heap, ref) state" where
  "DeploymentOverride_DeepCopy = copy_ref CDeploymentOverride (cell_sel is_CDeploymentOverride un_CDeploymentOverride) DeploymentOverride_DeepCopyInto"

definition DeploymentOverrides_DeepCopy :: "ref \<Rightarrow> (cell heap, ref) state" where
  "DeploymentOverrides_DeepCopy = copy_ref CDeploymentOverrides (cell_sel is_CDeploymentOverrides un_CDeploymentOverrides) DeploymentOverrides_DeepCopyInto"

definition Spec_DeepCopy :: "ref \<Rightarrow> (cell heap, ref) state" where
  "Spec_DeepCopy = copy_ref CSpec (cell_sel is_CSpec un_CSpec) Spec_DeepCopyInto"

definition VPA_DeepCopy :: "ref \<Rightarrow> (cell heap, ref) state" where
  "VPA_DeepCopy = copy_ref CVPA (cell_sel is_CVPA un_CVPA) VPA_DeepCopyInto"

definition VPAList_DeepCopy :: "ref \<Rightarrow> (cell heap, ref) state" where
  "VPAList_DeepCopy = copy_ref CVPAList (cell_sel is_CVPAList un_CVPAList) VPAList_DeepCopyInto"

text \<open>The status has no fields: \<open>*out = *in\<close> is all.\<close>

definition Status_DeepCopyInto :: "unit \<Rightarrow> (cell heap, unit) state" where
  "Status_DeepCopyInto inp = State_Monad.return inp"

definition Status_DeepCopy :: "ref \<Rightarrow> (cell heap, ref) state" where
  "Status_DeepCopy = copy_ref (\<lambda>x. CStatus) (\<lambda>c. if is_CStatus c then Some () else None) Status_DeepCopyInto"

text \<open>\<open>DeepCopyObject\<close> returns the copy as a \<open>runtime.Object\<close>, or a nil interface.\<close>

datatype runtime_Object = VPAObject nat | VPAListObject nat

definition VPA_DeepCopyObject :: "ref \<Rightarrow> (cell heap, runtime_Object option) state" where
  "VPA_DeepCopyObject inp =
     do { c \<leftarrow> VPA_DeepCopy inp;
          State_Monad.return (case c of Some a \<Rightarrow> Some (VPAObject a) | None \<Rightarrow> None) }"

definition VPAList_DeepCopyObject :: "ref \<Rightarrow> (cell heap, runtime_Object option) state" where
  "VPAList_DeepCopyObject inp =
     do { c \<leftarrow> VPAList_DeepCopy inp;
          State_Monad.return (case c of Some a \<Rightarrow> Some (VPAListObject a) | None \<Rightarrow> None) }"

section \<open>Values and cells\<close>

text \<open>The value of a struct, and the cells that it reaches.\<close>

type_synonym ResourceRequirements_v = "((string, Quantity) fmap option, (string \<times> string) list option) ResourceRequirements_g"
type_synonym Toleration_v = "int option Toleration_g"
type_synonym OwnerReference_v = "bool option OwnerReference_g"
type_synonym FieldsV1_v = "string option FieldsV1_g"
type_synonym ManagedFieldsEntry_v = "(int option, FieldsV1_v option) ManagedFieldsEntry_g"
type_synonym ObjectMeta_v = "(int option, int option, strmap option, OwnerReference_v list option, string list option, ManagedFieldsEntry_v list option) ObjectMeta_g"
type_synonym ListMeta_v = "int option ListMeta_g"
type_synonym ContainerOverride_v = "(string list option, ResourceRequirements_v) ContainerOverride_g"
type_synonym DeploymentOverride_v = "(ContainerOverride_v, strmap option, Toleration_v list option) DeploymentOverride_g"
type_synonym DeploymentOverrides_v = "DeploymentOverride_v DeploymentOverrides_g"
type_synonym Spec_v = "(float64 option, bool option, int option, DeploymentOverrides_v) Spec_g"
type_synonym VPA_v = "(ObjectMeta_v, Spec_v) VPA_g"
type_synonym VPAList_v = "(ListMeta_v, VPA_v list option) VPAList_g"

definition ResourceRequirements_val :: "cell heap \<Rightarrow> ResourceRequirements_h \<Rightarrow> ResourceRequirements_v option" where
  "ResourceRequirements_val h x = map_option (\<lambda>(a, (b, c)). \<lparr>rg_Limits = a, rg_Requests = b, rg_Claims = c\<rparr>)
     (val_pair (val_leaf is_CQuantities un_CQuantities) (val_pair (val_leaf is_CQuantities un_CQuantities) (val_leaf is_CClaims un_CClaims)) h (rg_Limits x, (rg_Requests x, rg_Claims x)))"

definition ResourceRequirements_foot :: "cell heap \<Rightarrow> ResourceRequirements_h \<Rightarrow> nat set" where
  "ResourceRequirements_foot h x = foot_leaf is_CQuantities un_CQuantities h (rg_Limits x) \<union> (foot_leaf is_CQuantities un_CQuantities h (rg_Requests x) \<union> (foot_leaf is_CClaims un_CClaims h (rg_Claims x)))"

definition Toleration_val :: "cell heap \<Rightarrow> Toleration_h \<Rightarrow> Toleration_v option" where
  "Toleration_val h x = map_option (\<lambda>a. \<lparr>tg_Key = tg_Key x, tg_Operator = tg_Operator x, tg_Value = tg_Value x, tg_Effect = tg_Effect x, tg_TolerationSeconds = a\<rparr>)
     ((val_leaf is_CInt un_CInt) h (tg_TolerationSeconds x))"

definition Toleration_foot :: "cell heap \<Rightarrow> Toleration_h \<Rightarrow> nat set" where
  "Toleration_foot h x = foot_leaf is_CInt un_CInt h (tg_TolerationSeconds x)"

definition OwnerReference_val :: "cell heap \<Rightarrow> OwnerReference_h \<Rightarrow> OwnerReference_v option" where
  "OwnerReference_val h x = map_option (\<lambda>(a, b). \<lparr>og_APIVersion = og_APIVersion x, og_Kind = og_Kind x, og_Name = og_Name x, og_UID = og_UID x, og_Controller = a, og_BlockOwnerDeletion = b\<rparr>)
     (val_pair (val_leaf is_CBool un_CBool) (val_leaf is_CBool un_CBool) h (og_Controller x, og_BlockOwnerDeletion x))"

definition OwnerReference_foot :: "cell heap \<Rightarrow> OwnerReference_h \<Rightarrow> nat set" where
  "OwnerReference_foot h x = foot_leaf is_CBool un_CBool h (og_Controller x) \<union> (foot_leaf is_CBool un_CBool h (og_BlockOwnerDeletion x))"

definition FieldsV1_val :: "cell heap \<Rightarrow> FieldsV1_h \<Rightarrow> FieldsV1_v option" where
  "FieldsV1_val h x = map_option (\<lambda>a. \<lparr>fg_Raw = a\<rparr>)
     ((val_leaf is_CBytes un_CBytes) h (fg_Raw x))"

definition FieldsV1_foot :: "cell heap \<Rightarrow> FieldsV1_h \<Rightarrow> nat set" where
  "FieldsV1_foot h x = foot_leaf is_CBytes un_CBytes h (fg_Raw x)"

definition ManagedFieldsEntry_val :: "cell heap \<Rightarrow> ManagedFieldsEntry_h \<Rightarrow> ManagedFieldsEntry_v option" where
  "ManagedFieldsEntry_val h x = map_option (\<lambda>(a, b). \<lparr>mg_plain = mg_plain x, mg_Time = a, mg_FieldsV1 = b\<rparr>)
     (val_pair (val_leaf is_CTime un_CTime) (val_ref (cell_sel is_CFieldsV1 un_CFieldsV1) FieldsV1_val) h (mg_Time x, mg_FieldsV1 x))"

definition ManagedFieldsEntry_foot :: "cell heap \<Rightarrow> ManagedFieldsEntry_h \<Rightarrow> nat set" where
  "ManagedFieldsEntry_foot h x = foot_leaf is_CTime un_CTime h (mg_Time x) \<union> (foot_ref (cell_sel is_CFieldsV1 un_CFieldsV1) FieldsV1_foot h (mg_FieldsV1 x))"

definition ObjectMeta_val :: "cell heap \<Rightarrow> ObjectMeta_h \<Rightarrow> ObjectMeta_v option" where
  "ObjectMeta_val h x = map_option (\<lambda>(a, (b, (c, (d, (e, (f, g)))))). \<lparr>omg_plain = omg_plain x, omg_DeletionTimestamp = a, omg_DeletionGracePeriodSeconds = b, omg_Labels = c, omg_Annotations = d, omg_OwnerReferences = e, omg_Finalizers = f, omg_ManagedFields = g\<rparr>)
     (val_pair (val_leaf is_CTime un_CTime) (val_pair (val_leaf is_CInt un_CInt) (val_pair (val_leaf is_CMap un_CMap) (val_pair (val_leaf is_CMap un_CMap) (val_pair (val_ref (cell_sel is_COwners un_COwners) (val_list OwnerReference_val)) (val_pair (val_leaf is_CStrings un_CStrings) (val_ref (cell_sel is_CManaged un_CManaged) (val_list ManagedFieldsEntry_val))))))) h (omg_DeletionTimestamp x, (omg_DeletionGracePeriodSeconds x, (omg_Labels x, (omg_Annotations x, (omg_OwnerReferences x, (omg_Finalizers x, omg_ManagedFields x)))))))"

definition ObjectMeta_foot :: "cell heap \<Rightarrow> ObjectMeta_h \<Rightarrow> nat set" where
  "ObjectMeta_foot h x = foot_leaf is_CTime un_CTime h (omg_DeletionTimestamp x) \<union> (foot_leaf is_CInt un_CInt h (omg_DeletionGracePeriodSeconds x) \<union> (foot_leaf is_CMap un_CMap h (omg_Labels x) \<union> (foot_leaf is_CMap un_CMap h (omg_Annotations x) \<union> (foot_ref (cell_sel is_COwners un_COwners) (\<lambda>h xs. \<Union>x \<in> set xs. OwnerReference_foot h x) h (omg_OwnerReferences x) \<union> (foot_leaf is_CStrings un_CStrings h (omg_Finalizers x) \<union> (foot_ref (cell_sel is_CManaged un_CManaged) (\<lambda>h xs. \<Union>x \<in> set xs. ManagedFieldsEntry_foot h x) h (omg_ManagedFields x)))))))"

definition ListMeta_val :: "cell heap \<Rightarrow> ListMeta_h \<Rightarrow> ListMeta_v option" where
  "ListMeta_val h x = map_option (\<lambda>a. \<lparr>lmg_SelfLink = lmg_SelfLink x, lmg_ResourceVersion = lmg_ResourceVersion x, lmg_Continue = lmg_Continue x, lmg_RemainingItemCount = a\<rparr>)
     ((val_leaf is_CInt un_CInt) h (lmg_RemainingItemCount x))"

definition ListMeta_foot :: "cell heap \<Rightarrow> ListMeta_h \<Rightarrow> nat set" where
  "ListMeta_foot h x = foot_leaf is_CInt un_CInt h (lmg_RemainingItemCount x)"

definition ContainerOverride_val :: "cell heap \<Rightarrow> ContainerOverride_h \<Rightarrow> ContainerOverride_v option" where
  "ContainerOverride_val h x = map_option (\<lambda>(a, b). \<lparr>cg_Args = a, cg_Resources = b\<rparr>)
     (val_pair (val_leaf is_CStrings un_CStrings) ResourceRequirements_val h (cg_Args x, cg_Resources x))"

definition ContainerOverride_foot :: "cell heap \<Rightarrow> ContainerOverride_h \<Rightarrow> nat set" where
  "ContainerOverride_foot h x = foot_leaf is_CStrings un_CStrings h (cg_Args x) \<union> (ResourceRequirements_foot h (cg_Resources x))"

definition DeploymentOverride_val :: "cell heap \<Rightarrow> DeploymentOverride_h \<Rightarrow> DeploymentOverride_v option" where
  "DeploymentOverride_val h x = map_option (\<lambda>(a, (b, c)). \<lparr>dg_Container = a, dg_NodeSelector = b, dg_Tolerations = c\<rparr>)
     (val_pair ContainerOverride_val (val_pair (val_leaf is_CMap un_CMap) (val_ref (cell_sel is_CTolerations un_CTolerations) (val_list Toleration_val))) h (dg_Container x, (dg_NodeSelector x, dg_Tolerations x)))"

definition DeploymentOverride_foot :: "cell heap \<Rightarrow> DeploymentOverride_h \<Rightarrow> nat set" where
  "DeploymentOverride_foot h x = ContainerOverride_foot h (dg_Container x) \<union> (foot_leaf is_CMap un_CMap h (dg_NodeSelector x) \<union> (foot_ref (cell_sel is_CTolerations un_CTolerations) (\<lambda>h xs. \<Union>x \<in> set xs. Toleration_foot h x) h (dg_Tolerations x)))"

definition DeploymentOverrides_val :: "cell heap \<Rightarrow> DeploymentOverrides_h \<Rightarrow> DeploymentOverrides_v option" where
  "DeploymentOverrides_val h x = map_option (\<lambda>(a, (b, c)). \<lparr>dsg_Admission = a, dsg_Recommender = b, dsg_Updater = c\<rparr>)
     (val_pair DeploymentOverride_val (val_pair DeploymentOverride_val DeploymentOverride_val) h (dsg_Admission x, (dsg_Recommender x, dsg_Updater x)))"

definition DeploymentOverrides_foot :: "cell heap \<Rightarrow> DeploymentOverrides_h \<Rightarrow> nat set" where
  "DeploymentOverrides_foot h x = DeploymentOverride_foot h (dsg_Admission x) \<union> (DeploymentOverride_foot h (dsg_Recommender x) \<union> (DeploymentOverride_foot h (dsg_Updater x)))"

definition Spec_val :: "cell heap \<Rightarrow> Spec_h \<Rightarrow> Spec_v option" where
  "Spec_val h x = map_option (\<lambda>(a, (b, (c, (d, (e, f))))). \<lparr>sg_SafetyMarginFraction = a, sg_PodMinCPUMillicores = b, sg_PodMinMemoryMb = c, sg_RecommendationOnly = d, sg_MinReplicas = e, sg_DeploymentOverrides = f\<rparr>)
     (val_pair (val_leaf is_CFloat un_CFloat) (val_pair (val_leaf is_CFloat un_CFloat) (val_pair (val_leaf is_CFloat un_CFloat) (val_pair (val_leaf is_CBool un_CBool) (val_pair (val_leaf is_CInt un_CInt) DeploymentOverrides_val)))) h (sg_SafetyMarginFraction x, (sg_PodMinCPUMillicores x, (sg_PodMinMemoryMb x, (sg_RecommendationOnly x, (sg_MinReplicas x, sg_DeploymentOverrides x))))))"

definition Spec_foot :: "cell heap \<Rightarrow> Spec_h \<Rightarrow> nat set" where
  "Spec_foot h x = foot_leaf is_CFloat un_CFloat h (sg_SafetyMarginFraction x) \<union> (foot_leaf is_CFloat un_CFloat h (sg_PodMinCPUMillicores x) \<union> (foot_leaf is_CFloat un_CFloat h (sg_PodMinMemoryMb x) \<union> (foot_leaf is_CBool un_CBool h (sg_RecommendationOnly x) \<union> (foot_leaf is_CInt un_CInt h (sg_MinReplicas x) \<union> (DeploymentOverrides_foot h (sg_DeploymentOverrides x))))))"

definition VPA_val :: "cell heap \<Rightarrow> VPA_h \<Rightarrow> VPA_v option" where
  "VPA_val h x = map_option (\<lambda>(a, b). \<lparr>vg_TypeMeta = vg_TypeMeta x, vg_ObjectMeta = a, vg_Spec = b\<rparr>)
     (val_pair ObjectMeta_val Spec_val h (vg_ObjectMeta x, vg_Spec x))"

definition VPA_foot :: "cell heap \<Rightarrow> VPA_h \<Rightarrow> nat set" where
  "VPA_foot h x = ObjectMeta_foot h (vg_ObjectMeta x) \<union> (Spec_foot h (vg_Spec x))"

definition VPAList_val :: "cell heap \<Rightarrow> VPAList_h \<Rightarrow> VPAList_v option" where
  "VPAList_val h x = map_option (\<lambda>(a, b). \<lparr>lg_TypeMeta = lg_TypeMeta x, lg_ListMeta = a, lg_Items = b\<rparr>)
     (val_pair ListMeta_val (val_ref (cell_sel is_CItems un_CItems) (val_list VPA_val)) h (lg_ListMeta x, lg_Items x))"

definition VPAList_foot :: "cell heap \<Rightarrow> VPAList_h \<Rightarrow> nat set" where
  "VPAList_foot h x = ListMeta_foot h (lg_ListMeta x) \<union> (foot_ref (cell_sel is_CItems un_CItems) (\<lambda>h xs. \<Union>x \<in> set xs. VPA_foot h x) h (lg_Items x))"

section \<open>The methods are deep copies\<close>

lemmas copy_eval = copy_pair_def Let_def State_Monad.bind_assoc

lemma ResourceRequirements_deep: "deep_copy ResourceRequirements_DeepCopyInto ResourceRequirements_val ResourceRequirements_foot"
proof -
  have d0: "deep_copy (copy_leaf CQuantities is_CQuantities un_CQuantities) (val_leaf is_CQuantities un_CQuantities) (foot_leaf is_CQuantities un_CQuantities)"
    by (rule deep_leaf) (simp_all add: cell_sel_def)
  have d1: "deep_copy (copy_leaf CQuantities is_CQuantities un_CQuantities) (val_leaf is_CQuantities un_CQuantities) (foot_leaf is_CQuantities un_CQuantities)"
    by (rule deep_leaf) (simp_all add: cell_sel_def)
  have d2: "deep_copy (copy_leaf CClaims is_CClaims un_CClaims) (val_leaf is_CClaims un_CClaims) (foot_leaf is_CClaims un_CClaims)"
    by (rule deep_leaf) (simp_all add: cell_sel_def)
  note D = deep_pair [OF d0 deep_pair [OF d1 d2]]
  show ?thesis
    by (rule deep_struct [OF D, where get = "\<lambda>x. (rg_Limits x, (rg_Requests x, rg_Claims x))" and put = "\<lambda>x (a, (b, c)). x\<lparr>rg_Limits := a, rg_Requests := b, rg_Claims := c\<rparr>"
          and plain = "\<lambda>x. ()" and mk = "\<lambda>_ (a, (b, c)). \<lparr>rg_Limits = a, rg_Requests = b, rg_Claims = c\<rparr>"])
      (simp_all add: ResourceRequirements_DeepCopyInto_def ResourceRequirements_val_def ResourceRequirements_foot_def copy_eval split: prod.splits)
qed

lemma Toleration_deep: "deep_copy Toleration_DeepCopyInto Toleration_val Toleration_foot"
proof -
  have d0: "deep_copy (copy_leaf CInt is_CInt un_CInt) (val_leaf is_CInt un_CInt) (foot_leaf is_CInt un_CInt)"
    by (rule deep_leaf) (simp_all add: cell_sel_def)
  note D = d0
  show ?thesis
    by (rule deep_struct [OF D, where get = "\<lambda>x. tg_TolerationSeconds x" and put = "\<lambda>x a. x\<lparr>tg_TolerationSeconds := a\<rparr>"
          and plain = "\<lambda>x. (tg_Key x, (tg_Operator x, (tg_Value x, tg_Effect x)))" and mk = "\<lambda>(p0, (p1, (p2, p3))) a. \<lparr>tg_Key = p0, tg_Operator = p1, tg_Value = p2, tg_Effect = p3, tg_TolerationSeconds = a\<rparr>"])
      (simp_all add: Toleration_DeepCopyInto_def Toleration_val_def Toleration_foot_def copy_eval split: prod.splits)
qed

lemma OwnerReference_deep: "deep_copy OwnerReference_DeepCopyInto OwnerReference_val OwnerReference_foot"
proof -
  have d0: "deep_copy (copy_leaf CBool is_CBool un_CBool) (val_leaf is_CBool un_CBool) (foot_leaf is_CBool un_CBool)"
    by (rule deep_leaf) (simp_all add: cell_sel_def)
  have d1: "deep_copy (copy_leaf CBool is_CBool un_CBool) (val_leaf is_CBool un_CBool) (foot_leaf is_CBool un_CBool)"
    by (rule deep_leaf) (simp_all add: cell_sel_def)
  note D = deep_pair [OF d0 d1]
  show ?thesis
    by (rule deep_struct [OF D, where get = "\<lambda>x. (og_Controller x, og_BlockOwnerDeletion x)" and put = "\<lambda>x (a, b). x\<lparr>og_Controller := a, og_BlockOwnerDeletion := b\<rparr>"
          and plain = "\<lambda>x. (og_APIVersion x, (og_Kind x, (og_Name x, og_UID x)))" and mk = "\<lambda>(p0, (p1, (p2, p3))) (a, b). \<lparr>og_APIVersion = p0, og_Kind = p1, og_Name = p2, og_UID = p3, og_Controller = a, og_BlockOwnerDeletion = b\<rparr>"])
      (simp_all add: OwnerReference_DeepCopyInto_def OwnerReference_val_def OwnerReference_foot_def copy_eval split: prod.splits)
qed

lemma FieldsV1_deep: "deep_copy FieldsV1_DeepCopyInto FieldsV1_val FieldsV1_foot"
proof -
  have d0: "deep_copy (copy_leaf CBytes is_CBytes un_CBytes) (val_leaf is_CBytes un_CBytes) (foot_leaf is_CBytes un_CBytes)"
    by (rule deep_leaf) (simp_all add: cell_sel_def)
  note D = d0
  show ?thesis
    by (rule deep_struct [OF D, where get = "\<lambda>x. fg_Raw x" and put = "\<lambda>x a. x\<lparr>fg_Raw := a\<rparr>"
          and plain = "\<lambda>x. ()" and mk = "\<lambda>_ a. \<lparr>fg_Raw = a\<rparr>"])
      (simp_all add: FieldsV1_DeepCopyInto_def FieldsV1_val_def FieldsV1_foot_def copy_eval split: prod.splits)
qed

lemma ManagedFieldsEntry_deep: "deep_copy ManagedFieldsEntry_DeepCopyInto ManagedFieldsEntry_val ManagedFieldsEntry_foot"
proof -
  have d0: "deep_copy (copy_leaf CTime is_CTime un_CTime) (val_leaf is_CTime un_CTime) (foot_leaf is_CTime un_CTime)"
    by (rule deep_leaf) (simp_all add: cell_sel_def)
  have d1: "deep_copy (copy_ref CFieldsV1 (cell_sel is_CFieldsV1 un_CFieldsV1) FieldsV1_DeepCopyInto) (val_ref (cell_sel is_CFieldsV1 un_CFieldsV1) FieldsV1_val) (foot_ref (cell_sel is_CFieldsV1 un_CFieldsV1) FieldsV1_foot)"
    by (rule deep_ref [OF FieldsV1_deep, where con = CFieldsV1 and prj = "cell_sel is_CFieldsV1 un_CFieldsV1"]) (simp_all add: cell_sel_def)
  note D = deep_pair [OF d0 d1]
  show ?thesis
    by (rule deep_struct [OF D, where get = "\<lambda>x. (mg_Time x, mg_FieldsV1 x)" and put = "\<lambda>x (a, b). x\<lparr>mg_Time := a, mg_FieldsV1 := b\<rparr>"
          and plain = "\<lambda>x. mg_plain x" and mk = "\<lambda>p0 (a, b). \<lparr>mg_plain = p0, mg_Time = a, mg_FieldsV1 = b\<rparr>"])
      (simp_all add: ManagedFieldsEntry_DeepCopyInto_def ManagedFieldsEntry_val_def ManagedFieldsEntry_foot_def copy_eval split: prod.splits)
qed

lemma ObjectMeta_deep: "deep_copy ObjectMeta_DeepCopyInto ObjectMeta_val ObjectMeta_foot"
proof -
  have d0: "deep_copy (copy_leaf CTime is_CTime un_CTime) (val_leaf is_CTime un_CTime) (foot_leaf is_CTime un_CTime)"
    by (rule deep_leaf) (simp_all add: cell_sel_def)
  have d1: "deep_copy (copy_leaf CInt is_CInt un_CInt) (val_leaf is_CInt un_CInt) (foot_leaf is_CInt un_CInt)"
    by (rule deep_leaf) (simp_all add: cell_sel_def)
  have d2: "deep_copy (copy_leaf CMap is_CMap un_CMap) (val_leaf is_CMap un_CMap) (foot_leaf is_CMap un_CMap)"
    by (rule deep_leaf) (simp_all add: cell_sel_def)
  have d3: "deep_copy (copy_leaf CMap is_CMap un_CMap) (val_leaf is_CMap un_CMap) (foot_leaf is_CMap un_CMap)"
    by (rule deep_leaf) (simp_all add: cell_sel_def)
  have d4: "deep_copy (copy_ref COwners (cell_sel is_COwners un_COwners) (copy_list OwnerReference_DeepCopyInto)) (val_ref (cell_sel is_COwners un_COwners) (val_list OwnerReference_val)) (foot_ref (cell_sel is_COwners un_COwners) (\<lambda>h xs. \<Union>x \<in> set xs. OwnerReference_foot h x))"
    by (rule deep_ref [OF deep_list [OF OwnerReference_deep], where con = COwners and prj = "cell_sel is_COwners un_COwners"]) (simp_all add: cell_sel_def)
  have d5: "deep_copy (copy_leaf CStrings is_CStrings un_CStrings) (val_leaf is_CStrings un_CStrings) (foot_leaf is_CStrings un_CStrings)"
    by (rule deep_leaf) (simp_all add: cell_sel_def)
  have d6: "deep_copy (copy_ref CManaged (cell_sel is_CManaged un_CManaged) (copy_list ManagedFieldsEntry_DeepCopyInto)) (val_ref (cell_sel is_CManaged un_CManaged) (val_list ManagedFieldsEntry_val)) (foot_ref (cell_sel is_CManaged un_CManaged) (\<lambda>h xs. \<Union>x \<in> set xs. ManagedFieldsEntry_foot h x))"
    by (rule deep_ref [OF deep_list [OF ManagedFieldsEntry_deep], where con = CManaged and prj = "cell_sel is_CManaged un_CManaged"]) (simp_all add: cell_sel_def)
  note D = deep_pair [OF d0 deep_pair [OF d1 deep_pair [OF d2 deep_pair [OF d3 deep_pair [OF d4 deep_pair [OF d5 d6]]]]]]
  show ?thesis
    by (rule deep_struct [OF D, where get = "\<lambda>x. (omg_DeletionTimestamp x, (omg_DeletionGracePeriodSeconds x, (omg_Labels x, (omg_Annotations x, (omg_OwnerReferences x, (omg_Finalizers x, omg_ManagedFields x))))))" and put = "\<lambda>x (a, (b, (c, (d, (e, (f, g)))))). x\<lparr>omg_DeletionTimestamp := a, omg_DeletionGracePeriodSeconds := b, omg_Labels := c, omg_Annotations := d, omg_OwnerReferences := e, omg_Finalizers := f, omg_ManagedFields := g\<rparr>"
          and plain = "\<lambda>x. omg_plain x" and mk = "\<lambda>p0 (a, (b, (c, (d, (e, (f, g)))))). \<lparr>omg_plain = p0, omg_DeletionTimestamp = a, omg_DeletionGracePeriodSeconds = b, omg_Labels = c, omg_Annotations = d, omg_OwnerReferences = e, omg_Finalizers = f, omg_ManagedFields = g\<rparr>"])
      (simp_all add: ObjectMeta_DeepCopyInto_def ObjectMeta_val_def ObjectMeta_foot_def copy_eval split: prod.splits)
qed

lemma ListMeta_deep: "deep_copy ListMeta_DeepCopyInto ListMeta_val ListMeta_foot"
proof -
  have d0: "deep_copy (copy_leaf CInt is_CInt un_CInt) (val_leaf is_CInt un_CInt) (foot_leaf is_CInt un_CInt)"
    by (rule deep_leaf) (simp_all add: cell_sel_def)
  note D = d0
  show ?thesis
    by (rule deep_struct [OF D, where get = "\<lambda>x. lmg_RemainingItemCount x" and put = "\<lambda>x a. x\<lparr>lmg_RemainingItemCount := a\<rparr>"
          and plain = "\<lambda>x. (lmg_SelfLink x, (lmg_ResourceVersion x, lmg_Continue x))" and mk = "\<lambda>(p0, (p1, p2)) a. \<lparr>lmg_SelfLink = p0, lmg_ResourceVersion = p1, lmg_Continue = p2, lmg_RemainingItemCount = a\<rparr>"])
      (simp_all add: ListMeta_DeepCopyInto_def ListMeta_val_def ListMeta_foot_def copy_eval split: prod.splits)
qed

lemma ContainerOverride_deep: "deep_copy ContainerOverride_DeepCopyInto ContainerOverride_val ContainerOverride_foot"
proof -
  have d0: "deep_copy (copy_leaf CStrings is_CStrings un_CStrings) (val_leaf is_CStrings un_CStrings) (foot_leaf is_CStrings un_CStrings)"
    by (rule deep_leaf) (simp_all add: cell_sel_def)
  note D = deep_pair [OF d0 ResourceRequirements_deep]
  show ?thesis
    by (rule deep_struct [OF D, where get = "\<lambda>x. (cg_Args x, cg_Resources x)" and put = "\<lambda>x (a, b). x\<lparr>cg_Args := a, cg_Resources := b\<rparr>"
          and plain = "\<lambda>x. ()" and mk = "\<lambda>_ (a, b). \<lparr>cg_Args = a, cg_Resources = b\<rparr>"])
      (simp_all add: ContainerOverride_DeepCopyInto_def ContainerOverride_val_def ContainerOverride_foot_def copy_eval split: prod.splits)
qed

lemma DeploymentOverride_deep: "deep_copy DeploymentOverride_DeepCopyInto DeploymentOverride_val DeploymentOverride_foot"
proof -
  have d1: "deep_copy (copy_leaf CMap is_CMap un_CMap) (val_leaf is_CMap un_CMap) (foot_leaf is_CMap un_CMap)"
    by (rule deep_leaf) (simp_all add: cell_sel_def)
  have d2: "deep_copy (copy_ref CTolerations (cell_sel is_CTolerations un_CTolerations) (copy_list Toleration_DeepCopyInto)) (val_ref (cell_sel is_CTolerations un_CTolerations) (val_list Toleration_val)) (foot_ref (cell_sel is_CTolerations un_CTolerations) (\<lambda>h xs. \<Union>x \<in> set xs. Toleration_foot h x))"
    by (rule deep_ref [OF deep_list [OF Toleration_deep], where con = CTolerations and prj = "cell_sel is_CTolerations un_CTolerations"]) (simp_all add: cell_sel_def)
  note D = deep_pair [OF ContainerOverride_deep deep_pair [OF d1 d2]]
  show ?thesis
    by (rule deep_struct [OF D, where get = "\<lambda>x. (dg_Container x, (dg_NodeSelector x, dg_Tolerations x))" and put = "\<lambda>x (a, (b, c)). x\<lparr>dg_Container := a, dg_NodeSelector := b, dg_Tolerations := c\<rparr>"
          and plain = "\<lambda>x. ()" and mk = "\<lambda>_ (a, (b, c)). \<lparr>dg_Container = a, dg_NodeSelector = b, dg_Tolerations = c\<rparr>"])
      (simp_all add: DeploymentOverride_DeepCopyInto_def DeploymentOverride_val_def DeploymentOverride_foot_def copy_eval split: prod.splits)
qed

lemma DeploymentOverrides_deep: "deep_copy DeploymentOverrides_DeepCopyInto DeploymentOverrides_val DeploymentOverrides_foot"
proof -
  note D = deep_pair [OF DeploymentOverride_deep deep_pair [OF DeploymentOverride_deep DeploymentOverride_deep]]
  show ?thesis
    by (rule deep_struct [OF D, where get = "\<lambda>x. (dsg_Admission x, (dsg_Recommender x, dsg_Updater x))" and put = "\<lambda>x (a, (b, c)). x\<lparr>dsg_Admission := a, dsg_Recommender := b, dsg_Updater := c\<rparr>"
          and plain = "\<lambda>x. ()" and mk = "\<lambda>_ (a, (b, c)). \<lparr>dsg_Admission = a, dsg_Recommender = b, dsg_Updater = c\<rparr>"])
      (simp_all add: DeploymentOverrides_DeepCopyInto_def DeploymentOverrides_val_def DeploymentOverrides_foot_def copy_eval split: prod.splits)
qed

lemma Spec_deep: "deep_copy Spec_DeepCopyInto Spec_val Spec_foot"
proof -
  have d0: "deep_copy (copy_leaf CFloat is_CFloat un_CFloat) (val_leaf is_CFloat un_CFloat) (foot_leaf is_CFloat un_CFloat)"
    by (rule deep_leaf) (simp_all add: cell_sel_def)
  have d1: "deep_copy (copy_leaf CFloat is_CFloat un_CFloat) (val_leaf is_CFloat un_CFloat) (foot_leaf is_CFloat un_CFloat)"
    by (rule deep_leaf) (simp_all add: cell_sel_def)
  have d2: "deep_copy (copy_leaf CFloat is_CFloat un_CFloat) (val_leaf is_CFloat un_CFloat) (foot_leaf is_CFloat un_CFloat)"
    by (rule deep_leaf) (simp_all add: cell_sel_def)
  have d3: "deep_copy (copy_leaf CBool is_CBool un_CBool) (val_leaf is_CBool un_CBool) (foot_leaf is_CBool un_CBool)"
    by (rule deep_leaf) (simp_all add: cell_sel_def)
  have d4: "deep_copy (copy_leaf CInt is_CInt un_CInt) (val_leaf is_CInt un_CInt) (foot_leaf is_CInt un_CInt)"
    by (rule deep_leaf) (simp_all add: cell_sel_def)
  note D = deep_pair [OF d0 deep_pair [OF d1 deep_pair [OF d2 deep_pair [OF d3 deep_pair [OF d4 DeploymentOverrides_deep]]]]]
  show ?thesis
    by (rule deep_struct [OF D, where get = "\<lambda>x. (sg_SafetyMarginFraction x, (sg_PodMinCPUMillicores x, (sg_PodMinMemoryMb x, (sg_RecommendationOnly x, (sg_MinReplicas x, sg_DeploymentOverrides x)))))" and put = "\<lambda>x (a, (b, (c, (d, (e, f))))). x\<lparr>sg_SafetyMarginFraction := a, sg_PodMinCPUMillicores := b, sg_PodMinMemoryMb := c, sg_RecommendationOnly := d, sg_MinReplicas := e, sg_DeploymentOverrides := f\<rparr>"
          and plain = "\<lambda>x. ()" and mk = "\<lambda>_ (a, (b, (c, (d, (e, f))))). \<lparr>sg_SafetyMarginFraction = a, sg_PodMinCPUMillicores = b, sg_PodMinMemoryMb = c, sg_RecommendationOnly = d, sg_MinReplicas = e, sg_DeploymentOverrides = f\<rparr>"])
      (simp_all add: Spec_DeepCopyInto_def Spec_val_def Spec_foot_def copy_eval split: prod.splits)
qed

lemma VPA_deep: "deep_copy VPA_DeepCopyInto VPA_val VPA_foot"
proof -
  note D = deep_pair [OF ObjectMeta_deep Spec_deep]
  show ?thesis
    by (rule deep_struct [OF D, where get = "\<lambda>x. (vg_ObjectMeta x, vg_Spec x)" and put = "\<lambda>x (a, b). x\<lparr>vg_ObjectMeta := a, vg_Spec := b\<rparr>"
          and plain = "\<lambda>x. vg_TypeMeta x" and mk = "\<lambda>p0 (a, b). \<lparr>vg_TypeMeta = p0, vg_ObjectMeta = a, vg_Spec = b\<rparr>"])
      (simp_all add: VPA_DeepCopyInto_def VPA_val_def VPA_foot_def copy_eval split: prod.splits)
qed

lemma VPAList_deep: "deep_copy VPAList_DeepCopyInto VPAList_val VPAList_foot"
proof -
  have d1: "deep_copy (copy_ref CItems (cell_sel is_CItems un_CItems) (copy_list VPA_DeepCopyInto)) (val_ref (cell_sel is_CItems un_CItems) (val_list VPA_val)) (foot_ref (cell_sel is_CItems un_CItems) (\<lambda>h xs. \<Union>x \<in> set xs. VPA_foot h x))"
    by (rule deep_ref [OF deep_list [OF VPA_deep], where con = CItems and prj = "cell_sel is_CItems un_CItems"]) (simp_all add: cell_sel_def)
  note D = deep_pair [OF ListMeta_deep d1]
  show ?thesis
    by (rule deep_struct [OF D, where get = "\<lambda>x. (lg_ListMeta x, lg_Items x)" and put = "\<lambda>x (a, b). x\<lparr>lg_ListMeta := a, lg_Items := b\<rparr>"
          and plain = "\<lambda>x. lg_TypeMeta x" and mk = "\<lambda>p0 (a, b). \<lparr>lg_TypeMeta = p0, lg_ListMeta = a, lg_Items = b\<rparr>"])
      (simp_all add: VPAList_DeepCopyInto_def VPAList_val_def VPAList_foot_def copy_eval split: prod.splits)
qed

section \<open>Copies of custom resources\<close>

text \<open>The custom resource at an address: its value, and its cells.\<close>

definition VPA_at :: "cell heap \<Rightarrow> nat \<Rightarrow> VPA_v option" where
  "VPA_at h a = Option.bind (val_ref (cell_sel is_CVPA un_CVPA) VPA_val h (Some a)) (\<lambda>v. v)"

definition VPA_cells :: "cell heap \<Rightarrow> nat \<Rightarrow> nat set" where
  "VPA_cells h a = foot_ref (cell_sel is_CVPA un_CVPA) VPA_foot h (Some a)"

interpretation vpa: deep_copy VPA_DeepCopy "val_ref (cell_sel is_CVPA un_CVPA) VPA_val"
    "foot_ref (cell_sel is_CVPA un_CVPA) VPA_foot"
  unfolding VPA_DeepCopy_def by (rule deep_ref [OF VPA_deep]) (simp add: cell_sel_def)

interpretation vpa_list: deep_copy VPAList_DeepCopy "val_ref (cell_sel is_CVPAList un_CVPAList) VPAList_val"
    "foot_ref (cell_sel is_CVPAList un_CVPAList) VPAList_foot"
  unfolding VPAList_DeepCopy_def by (rule deep_ref [OF VPAList_deep]) (simp add: cell_sel_def)

lemma VPA_at_Some: "VPA_at h a = Some v \<longleftrightarrow> val_ref (cell_sel is_CVPA un_CVPA) VPA_val h (Some a) = Some (Some v)"
  by (auto simp: VPA_at_def val_ref_def bind_eq_Some_conv split: option.splits)

text \<open>
  C29: A deep copy of a custom resource is a copy, and shares nothing with it. \<open>DeepCopyObject\<close> of a custom
  resource returns a new object with the same value (nil and empty slices and maps told apart), leaves the
  original as it was, and the two reach no common cell: whatever is then written to a cell of
  the one, the other keeps its value.
\<close>

theorem VPA_DeepCopyObject_correct:
  assumes "heap_ok h" and "VPA_at h a = Some v" and "run_state (VPA_DeepCopyObject (Some a)) h = (obj, h')"
  shows "\<exists>b. obj = Some (VPAObject b) \<and> b \<notin> used h \<and> VPA_at h' b = Some v \<and> VPA_at h' a = Some v \<and>
    VPA_cells h' a = VPA_cells h a \<and> VPA_cells h' a \<inter> VPA_cells h' b = {} \<and>
    (\<forall>x c. (x \<in> VPA_cells h' b \<longrightarrow> VPA_at (store x c h') a = Some v) \<and>
           (x \<in> VPA_cells h' a \<longrightarrow> VPA_at (store x c h') b = Some v))"
proof -
  obtain r where r: "run_state (VPA_DeepCopy (Some a)) h = (r, h')" "obj = map_option VPAObject r"
    using assms(3) by (auto simp: VPA_DeepCopyObject_def run_simps map_option_case split: prod.splits)
  have v: "val_ref (cell_sel is_CVPA un_CVPA) VPA_val h (Some a) = Some (Some v)" using assms(2) by (simp add: VPA_at_Some)
  note C = vpa.copied [OF assms(1) v r(1)]
  then obtain b where b: "r = Some b" by (cases r) (auto simp: val_ref_def)
  have fresh: "b \<in> VPA_cells h' b" "VPA_cells h' b \<inter> used h = {}"
    using C b by (simp_all add: VPA_cells_def foot_ref_def)
  have "grown h h'" using C by blast
  note G = vpa.grown_val [OF v this] vpa.foot_used [OF v]
  have orig: "VPA_at h' a = Some v" "VPA_cells h' a = VPA_cells h a" "VPA_cells h a \<subseteq> used h"
    using G by (simp_all add: VPA_at_Some VPA_cells_def)
  have indep: "VPA_at (store x c h') a = Some v" if "x \<in> VPA_cells h' b" for x c
    using vpa.independent(1) [OF assms(1) v r(1)] that b by (simp add: VPA_at_Some VPA_cells_def)
  have indep': "VPA_at (store x c h') b = Some v" if "x \<in> VPA_cells h' a" for x c
    using vpa.independent(2) [OF assms(1) v r(1)] that b by (simp add: VPA_at_Some VPA_cells_def)
  have copy: "VPA_at h' b = Some v" using C b by (simp add: VPA_at_Some)
  have disjoint: "VPA_cells h' a \<inter> VPA_cells h' b = {}" "b \<notin> used h" using fresh orig(2,3) by blast+
  have "obj = Some (VPAObject b)" using r(2) b by simp
  then show ?thesis
    using disjoint copy orig(1,2) indep indep' by (intro exI [of _ b] conjI allI impI)
qed

text \<open>The example: a custom resource with one argument for the updater, whose slice is at address 0.\<close>

definition nil_resources :: ResourceRequirements_h where
  "nil_resources = \<lparr>rg_Limits = None, rg_Requests = None, rg_Claims = None\<rparr>"

definition override_with :: "ref \<Rightarrow> DeploymentOverride_h" where
  "override_with args = \<lparr>dg_Container = \<lparr>cg_Args = args, cg_Resources = nil_resources\<rparr>, dg_NodeSelector = None,
     dg_Tolerations = None\<rparr>"

definition example_vpa_h :: VPA_h where
  "example_vpa_h = \<lparr>vg_TypeMeta = zero_TypeMeta,
     vg_ObjectMeta = \<lparr>omg_plain = fmempty, omg_DeletionTimestamp = None, omg_DeletionGracePeriodSeconds = None,
       omg_Labels = None, omg_Annotations = None, omg_OwnerReferences = None, omg_Finalizers = None, omg_ManagedFields = None\<rparr>,
     vg_Spec = \<lparr>sg_SafetyMarginFraction = None, sg_PodMinCPUMillicores = None, sg_PodMinMemoryMb = None,
       sg_RecommendationOnly = None, sg_MinReplicas = None,
       sg_DeploymentOverrides = \<lparr>dsg_Admission = override_with None, dsg_Recommender = override_with None,
         dsg_Updater = override_with (Some 0)\<rparr>\<rparr>\<rparr>"

definition example_heap :: "cell heap" where
  "example_heap = \<lparr>hp_cells = fmupd 1 (CVPA example_vpa_h) (fmupd 0 (CStrings [''--v=9'']) fmempty), hp_next = 2\<rparr>"

lemmas VPA_val_eval = VPA_val_def Spec_val_def ObjectMeta_val_def DeploymentOverrides_val_def DeploymentOverride_val_def
  ContainerOverride_val_def ResourceRequirements_val_def val_pair_def val_leaf_def val_ref_def cell_sel_def

lemma example_heap_value: "\<exists>v. VPA_at example_heap 1 = Some v \<and>
    cg_Args (dg_Container (dsg_Updater (sg_DeploymentOverrides (vg_Spec v)))) = Some [''--v=9'']"
  by (simp add: VPA_at_def example_heap_def example_vpa_h_def override_with_def nil_resources_def VPA_val_eval)

theorem VPA_DeepCopyObject_correct_witness:
  "\<exists>b h' v. run_state (VPA_DeepCopyObject (Some 1)) example_heap = (Some (VPAObject b), h') \<and>
     VPA_at (store 0 (CStrings []) h') b = Some v \<and>
     cg_Args (dg_Container (dsg_Updater (sg_DeploymentOverrides (vg_Spec v)))) = Some [''--v=9'']"
proof -
  obtain v where v: "VPA_at example_heap 1 = Some v"
      "cg_Args (dg_Container (dsg_Updater (sg_DeploymentOverrides (vg_Spec v)))) = Some [''--v=9'']"
    using example_heap_value by blast
  obtain obj h' where run: "run_state (VPA_DeepCopyObject (Some 1)) example_heap = (obj, h')" by fastforce
  have ok: "heap_ok example_heap" by (simp add: heap_ok_def example_heap_def)
  obtain b where b: "obj = Some (VPAObject b)" "VPA_cells h' 1 = VPA_cells example_heap 1"
      "\<forall>x c. x \<in> VPA_cells h' 1 \<longrightarrow> VPA_at (store x c h') b = Some v"
    using VPA_DeepCopyObject_correct [OF ok v(1) run] by blast
  have "0 \<in> VPA_cells example_heap 1"
    by (simp add: VPA_cells_def example_heap_def example_vpa_h_def override_with_def foot_ref_def foot_leaf_def cell_sel_def
        VPA_foot_def Spec_foot_def DeploymentOverrides_foot_def DeploymentOverride_foot_def ContainerOverride_foot_def)
  then have "VPA_at (store 0 (CStrings []) h') b = Some v" using b(2,3) by blast
  then show ?thesis using run b(1) v(2) by blast
qed

end
