(* ===== verification/Object_Types.thy ===== *)
theory Object_Types
  imports Reconcile_Theorems
begin

text \<open>
  A typing of the objects that travel to the API server: the parts of the API's validation that concern fields which the
  operator sets, those that the overrides of the custom resource reach included. The custom resource is valid if its
  overrides are. \<open>typed_api\<close> is a client that keeps an invariant of its world as long as it is sent valid objects, and that
  answers with valid ones. The lemma of the locale says that a run of \<open>Reconcile\<close> keeps the invariant, so everything it
  sends is valid; the in-memory client is an instance, with the invariant that all stored objects are valid.
\<close>

section \<open>Valid objects\<close>

definition valid_port :: "int \<Rightarrow> bool" where
  "valid_port p \<longleftrightarrow> 1 \<le> p \<and> p \<le> 65535"

fun valid_target :: "IntOrString \<Rightarrow> bool" where
  "valid_target (IntVal p) = valid_port p"
| "valid_target (StrVal s) = (s \<noteq> '''')"

text \<open>
  The syntax of label keys and values: a name of at most 63 characters that begins and ends with a letter or a digit, for a
  key after an optional domain name and a slash.
\<close>

definition lower_alnum :: "char \<Rightarrow> bool" where
  "lower_alnum c \<longleftrightarrow> (let n = of_char c :: nat in 97 \<le> n \<and> n \<le> 122 \<or> 48 \<le> n \<and> n \<le> 57)"

definition alnum :: "char \<Rightarrow> bool" where
  "alnum c \<longleftrightarrow> lower_alnum c \<or> (let n = of_char c :: nat in 65 \<le> n \<and> n \<le> 90)"

definition label_name :: "string \<Rightarrow> bool" where
  "label_name s \<longleftrightarrow> s \<noteq> '''' \<and> length s \<le> 63 \<and> alnum (hd s) \<and> alnum (last s) \<and>
     list_all (\<lambda>c. alnum c \<or> c \<in> set ''-_.'') s"

fun split_on :: "char \<Rightarrow> string \<Rightarrow> string list" where
  "split_on d [] = [[]]"
| "split_on d (c # cs) =
     (if c = d then [] # split_on d cs
      else case split_on d cs of [] \<Rightarrow> [[c]] | x # xs \<Rightarrow> (c # x) # xs)"

definition dns_subdomain :: "string \<Rightarrow> bool" where
  "dns_subdomain s \<longleftrightarrow> length s \<le> 253 \<and>
     list_all (\<lambda>l. l \<noteq> '''' \<and> lower_alnum (hd l) \<and> lower_alnum (last l) \<and>
       list_all (\<lambda>c. lower_alnum c \<or> c = CHR ''-'') l) (split_on (CHR ''.'') s)"

definition valid_label_key :: "string \<Rightarrow> bool" where
  "valid_label_key k \<longleftrightarrow>
     (case split_on (CHR ''/'') k of
        [n] \<Rightarrow> label_name n
      | [p, n] \<Rightarrow> dns_subdomain p \<and> label_name n
      | _ \<Rightarrow> False)"

definition valid_label_value :: "string \<Rightarrow> bool" where
  "valid_label_value v \<longleftrightarrow> v = '''' \<or> label_name v"

definition valid_node_selector :: "strmap \<Rightarrow> bool" where
  "valid_node_selector m \<longleftrightarrow> fmpred (\<lambda>k v. valid_label_key k \<and> valid_label_value v) m"

text \<open>
  Tolerations, with the operators that need no feature gate: an empty key goes with \<open>Exists\<close>, which takes no value, and the
  seconds are for \<open>NoExecute\<close>.
\<close>

definition valid_toleration :: "Toleration \<Rightarrow> bool" where
  "valid_toleration t \<longleftrightarrow>
     (if tol_Key t = '''' then tol_Operator t = ''Exists'' else valid_label_key (tol_Key t)) \<and>
     (if tol_Operator t = ''Exists'' then tol_Value t = ''''
      else tol_Operator t \<in> {'''', ''Equal''} \<and> valid_label_value (tol_Value t)) \<and>
     tol_Effect t \<in> {'''', ''NoSchedule'', ''PreferNoSchedule'', ''NoExecute''} \<and>
     (tol_TolerationSeconds t = None \<or> tol_Effect t = ''NoExecute'')"

text \<open>
  Resources: known or qualified names, no negative quantities, no request above the limit. The pods declare no resource claims,
  so their containers may not name any.
\<close>

definition valid_resource_name :: "string \<Rightarrow> bool" where
  "valid_resource_name s \<longleftrightarrow> s \<in> {''cpu'', ''memory'', ''ephemeral-storage''} \<or> HasPrefix s ''hugepages-'' \<or>
     CHR ''/'' \<in> set s \<and> valid_label_key s"

definition valid_resources :: "ResourceRequirements \<Rightarrow> bool" where
  "valid_resources r \<longleftrightarrow>
     fmpred (\<lambda>n q. valid_resource_name n \<and> 0 \<le> q) (nilmap (rr_Limits r)) \<and>
     fmpred (\<lambda>n q. valid_resource_name n \<and> 0 \<le> q \<and>
       (case fmlookup (nilmap (rr_Limits r)) n of None \<Rightarrow> True | Some l \<Rightarrow> q \<le> l)) (nilmap (rr_Requests r)) \<and>
     nilslice (rr_Claims r) = []"

text \<open>A container mounts volumes of its pod only, each at a path of its own. (Any text is a valid argument.)\<close>

definition valid_container :: "Volume list \<Rightarrow> Container \<Rightarrow> bool" where
  "valid_container vols c \<longleftrightarrow>
     c_Name c \<noteq> '''' \<and> list_all (\<lambda>p. valid_port (cp_ContainerPort p)) (c_Ports c) \<and>
     list_all (\<lambda>m. vm_Name m \<in> set (map vol_Name vols) \<and> vm_MountPath m \<noteq> '''') (c_VolumeMounts c) \<and>
     distinct (map vm_MountPath (c_VolumeMounts c)) \<and> valid_resources (c_Resources c)"

definition valid_podspec :: "PodSpec \<Rightarrow> bool" where
  "valid_podspec ps \<longleftrightarrow>
     ps_Containers ps \<noteq> [] \<and> distinct (map c_Name (ps_Containers ps)) \<and> distinct (map vol_Name (ps_Volumes ps)) \<and>
     list_all (valid_container (ps_Volumes ps)) (ps_Containers ps) \<and> ps_RestartPolicy ps = ''Always'' \<and>
     valid_node_selector (ps_NodeSelector ps) \<and> list_all valid_toleration (ps_Tolerations ps)"

text \<open>The selector of a deployment is not empty and selects the pods of its own template.\<close>

definition valid_deployment :: "Deployment \<Rightarrow> bool" where
  "valid_deployment d \<longleftrightarrow>
     (case dep_Replicas d of None \<Rightarrow> True | Some n \<Rightarrow> 0 \<le> n) \<and>
     (case dep_Selector d of
        None \<Rightarrow> False
      | Some s \<Rightarrow> (ls_MatchLabels s \<noteq> fmempty \<or> ls_MatchExpressions s \<noteq> []) \<and>
          selector_matches s (nilmap (om_Labels (pt_Meta (dep_Template d))))) \<and>
     valid_podspec (pt_Spec (dep_Template d))"

definition valid_service :: "Service \<Rightarrow> bool" where
  "valid_service s \<longleftrightarrow>
     svc_Ports s \<noteq> [] \<and> list_all (\<lambda>p. valid_port (sp_Port p) \<and> valid_target (sp_TargetPort p)) (svc_Ports s)"

definition valid_policy_port :: "NetworkPolicyPort \<Rightarrow> bool" where
  "valid_policy_port p \<longleftrightarrow>
     (case npp_Port p of None \<Rightarrow> npp_EndPort p = None | Some t \<Rightarrow> valid_target t) \<and>
     (case npp_EndPort p of None \<Rightarrow> True | Some n \<Rightarrow> valid_port n)"

definition valid_policy :: "NetworkPolicy \<Rightarrow> bool" where
  "valid_policy p \<longleftrightarrow>
     list_all (\<lambda>r. list_all valid_policy_port (nir_Ports r)) (nps_Ingress (np_Spec p)) \<and>
     list_all (\<lambda>r. list_all valid_policy_port (ner_Ports r)) (nps_Egress (np_Spec p)) \<and>
     nps_PolicyTypes (np_Spec p) \<noteq> [] \<and> list_all (\<lambda>t. t \<in> {''Ingress'', ''Egress''}) (nps_PolicyTypes (np_Spec p)) \<and>
     distinct (nps_PolicyTypes (np_Spec p))"

text \<open>The overrides of a custom resource, one for each operand.\<close>

definition valid_override :: "DeploymentOverride \<Rightarrow> bool" where
  "valid_override ov \<longleftrightarrow> valid_resources (cov_Resources (do_Container ov)) \<and>
     valid_node_selector (do_NodeSelector ov) \<and> list_all valid_toleration (do_Tolerations ov)"

definition valid_overrides :: "VerticalPodAutoscalerControllerSpec \<Rightarrow> bool" where
  "valid_overrides s \<longleftrightarrow> valid_override (dos_Admission (vs_DeploymentOverrides s)) \<and>
     valid_override (dos_Recommender (vs_DeploymentOverrides s)) \<and>
     valid_override (dos_Updater (vs_DeploymentOverrides s))"

fun valid_spec :: "KObject \<Rightarrow> bool" where
  "valid_spec (ODeployment d) = valid_deployment d"
| "valid_spec (OService s) = valid_service s"
| "valid_spec (ONetworkPolicy p) = valid_policy p"
| "valid_spec (OVPA v) = valid_overrides (vpa_Spec v)"
| "valid_spec _ = True"

definition valid_object :: "KObject \<Rightarrow> bool" where
  "valid_object obj \<longleftrightarrow> om_Name (obj_meta obj) \<noteq> '''' \<and> valid_spec obj"

section \<open>What the operator builds is valid\<close>

text \<open>What the operator sets where no override does.\<close>

lemma default_placement_valid:
  "valid_node_selector (getDefaultNodeSelector cfg)" "list_all valid_toleration (getDefaultTolerations cfg)"
proof -
  note syn = valid_label_key_def valid_label_value_def label_name_def dns_subdomain_def alnum_def lower_alnum_def Let_def
  have keys: "valid_label_key ''kubernetes.io/os''" "valid_label_value ''linux''"
    "valid_label_key ''node-role.kubernetes.io/control-plane''" "valid_label_value ''''"
    "valid_label_key ''node-role.kubernetes.io/master''" "valid_label_key ''CriticalAddonsOnly''"
    by (simp_all add: syn)
  then show "valid_node_selector (getDefaultNodeSelector cfg)" "list_all valid_toleration (getDefaultTolerations cfg)"
    by (auto simp: valid_node_selector_def getDefaultNodeSelector_def valid_toleration_def getDefaultTolerations_def
        toleration_def Let_def intro!: fmpred_upd)
qed

lemma default_resources_valid:
  assumes "params \<in> set controllerParams"
  shows "valid_resources (par_ResourceRequirements (ControllerParamsBase.truncate params))"
proof -
  have "valid_resources (requests cpu mem)" if "0 \<le> cpu" "0 \<le> mem" for cpu mem
    using that by (auto simp: valid_resources_def requests_def zero_ResourceRequirements_def valid_resource_name_def
        intro!: fmpred_upd)
  then show ?thesis
    using assms by (auto simp: controllerParams_def recommender_params_def updater_params_def admission_params_def
        ControllerParamsBase.truncate_def RecommenderResourceRequirements_def UpdaterResourceRequirements_def
        AdmissionResourceRequirements_def)
qed

text \<open>An operand's pod specification: what no override touches, and what the overrides replace as a whole.\<close>

lemma apply_overrides_frame:
  "ps_Volumes (apply_overrides ov spec) = ps_Volumes spec" "ps_RestartPolicy (apply_overrides ov spec) = ps_RestartPolicy spec"
  "ps_Containers spec = [c] \<Longrightarrow> \<exists>c'. ps_Containers (apply_overrides ov spec) = [c'] \<and> c_Name c' = c_Name c \<and> c_Ports c' = c_Ports c \<and>
     c_VolumeMounts c' = c_VolumeMounts c \<and> c_Resources c' \<in> {c_Resources c, cov_Resources (do_Container ov)}"
  "ps_NodeSelector (apply_overrides ov spec) \<in> {ps_NodeSelector spec, do_NodeSelector ov}"
  "ps_Tolerations (apply_overrides ov spec) \<in> {ps_Tolerations spec, do_Tolerations ov}"
  by (auto simp: apply_overrides_def map_container0_def Let_def)

text \<open>The specification that all operands have in common, after valid overrides.\<close>

lemma overridden_podspec:
  assumes "params \<in> set controllerParams" and "valid_override ov"
  obtains c where "ps_Containers (apply_overrides ov (VPAPodSpec cfg vpa (ControllerParamsBase.truncate params))) = [c]"
    "c_Name c = ''vertical-pod-autoscaler''" "c_Ports c = []" "c_VolumeMounts c = []" "valid_resources (c_Resources c)"
    "ps_Volumes (apply_overrides ov (VPAPodSpec cfg vpa (ControllerParamsBase.truncate params))) = []"
    "ps_RestartPolicy (apply_overrides ov (VPAPodSpec cfg vpa (ControllerParamsBase.truncate params))) = ''Always''"
    "valid_node_selector (ps_NodeSelector (apply_overrides ov (VPAPodSpec cfg vpa (ControllerParamsBase.truncate params))))"
    "list_all valid_toleration (ps_Tolerations (apply_overrides ov (VPAPodSpec cfg vpa (ControllerParamsBase.truncate params))))"
proof -
  let ?b = "ControllerParamsBase.truncate params"
  let ?spec = "VPAPodSpec cfg vpa ?b"
  obtain c where c: "ps_Containers ?spec = [c]" "c_Ports c = []" "c_VolumeMounts c = []"
      "c_Name c = ''vertical-pod-autoscaler''" "c_Resources c = par_ResourceRequirements ?b"
    by (simp add: VPAPodSpec_def Let_def)
  have base: "ps_Volumes ?spec = []" "ps_RestartPolicy ?spec = ''Always''"
    "ps_NodeSelector ?spec = getDefaultNodeSelector cfg" "ps_Tolerations ?spec = getDefaultTolerations cfg"
    by (simp_all add: VPAPodSpec_def Let_def)
  obtain c' where c': "ps_Containers (apply_overrides ov ?spec) = [c']" "c_Name c' = c_Name c" "c_Ports c' = c_Ports c"
      "c_VolumeMounts c' = c_VolumeMounts c" "c_Resources c' \<in> {c_Resources c, cov_Resources (do_Container ov)}"
    using apply_overrides_frame(3) [OF c(1)] by blast
  have ov: "valid_resources (cov_Resources (do_Container ov))" "valid_node_selector (do_NodeSelector ov)"
    "list_all valid_toleration (do_Tolerations ov)"
    using assms(2) by (simp_all add: valid_override_def)
  show thesis
    by (rule that [OF c'(1)])
      (use c c' base ov default_resources_valid [OF assms(1)] default_placement_valid [of cfg]
        apply_overrides_frame(1,2,4,5) [of ov ?spec] in auto)
qed

lemma operand_podspec_valid:
  assumes "params \<in> set controllerParams" and "valid_overrides (vpa_Spec vpa)"
  shows "valid_podspec (PodSpecMethod cfg vpa params)"
proof -
  let ?b = "ControllerParamsBase.truncate params"
  have p: "(\<exists>ov. valid_override ov \<and> PodSpecMethod cfg vpa params = apply_overrides ov (VPAPodSpec cfg vpa ?b)) \<or>
      PodSpecMethod cfg vpa params = AdmissionControllerPodSpec cfg vpa ?b"
    using assms by (auto simp: controllerParams_def PodSpecMethod_def recommender_params_def updater_params_def admission_params_def
        RecommenderControllerPodSpec_def UpdaterControllerPodSpec_def valid_overrides_def)
  have adm: "valid_override (dos_Admission (vs_DeploymentOverrides (vpa_Spec vpa)))"
    using assms(2) by (simp add: valid_overrides_def)
  show ?thesis
    using p
  proof
    assume "\<exists>ov. valid_override ov \<and> PodSpecMethod cfg vpa params = apply_overrides ov (VPAPodSpec cfg vpa ?b)"
    then obtain ov where ov: "valid_override ov" "PodSpecMethod cfg vpa params = apply_overrides ov (VPAPodSpec cfg vpa ?b)"
      by blast
    show ?thesis
      by (rule overridden_podspec [OF assms(1) ov(1), of cfg vpa])
        (simp add: ov(2) valid_podspec_def valid_container_def)
  next
    assume spec: "PodSpecMethod cfg vpa params = AdmissionControllerPodSpec cfg vpa ?b"
    show ?thesis
      by (rule overridden_podspec [OF assms(1) adm, of cfg vpa])
        (simp add: spec AdmissionControllerPodSpec_def Let_def map_container0_def valid_podspec_def valid_container_def
          valid_port_def AdmissionWebhookPort_def)
  qed
qed

lemma names_ne:
  "params \<in> set controllerParams \<Longrightarrow> nn_Name (par_NameMethod params cfg vpa) \<noteq> ''''"
  by (auto simp: controllerParams_def recommender_params_def updater_params_def admission_params_def RecommenderName_def
      UpdaterName_def AdmissionPluginName_def)

lemma AutoscalerDeployment_valid:
  assumes "params \<in> set controllerParams" and "valid_overrides (vpa_Spec vpa)"
  shows "valid_object (ODeployment (AutoscalerDeployment cfg vpa params))"
  using operand_podspec_valid [OF assms] names_ne [OF assms(1)]
  by (simp add: valid_object_def valid_deployment_def AutoscalerDeployment_def Let_def selector_matches_def labels_match_upd
      zero_ObjectMeta_def)

lemma updated_deployment_valid:
  assumes "params \<in> set controllerParams" and "valid_overrides (vpa_Spec vpa)" and "valid_object (ODeployment d)"
  shows "valid_object (ODeployment (updated_deployment cfg vpa params d))"
  using assms(3) operand_podspec_valid [OF assms(1,2)]
  by (simp add: valid_object_def valid_deployment_def updated_deployment_def expected_replicas_def UpdateAnnotations_def Let_def
      split: option.splits)

lemma service_valid:
  "valid_object (OService (WebhookService cfg vpa))"
  "valid_object (OService s) \<Longrightarrow> valid_object (OService (merged_service cfg vpa s))"
  by (simp_all add: valid_object_def valid_service_def WebhookService_def merged_service_def UpdateServiceAnnotations_def Let_def
      valid_port_def go_defs zero_ObjectMeta_def)

lemma configmap_valid:
  "valid_object (OConfigMap (CAConfigMap cfg vpa))"
  "valid_object (OConfigMap m) \<Longrightarrow> valid_object (OConfigMap (m\<lparr>cm_Meta := UpdateConfigMapAnnotations cfg (cm_Meta m)\<rparr>))"
  by (simp_all add: valid_object_def CAConfigMap_def UpdateConfigMapAnnotations_def Let_def go_defs zero_ObjectMeta_def)

lemma policy_valid: "policy \<in> set (NetworkPolicies cfg vpa) \<Longrightarrow> valid_object (ONetworkPolicy policy)"
  by (auto simp: valid_object_def NetworkPolicies_def Let_def valid_policy_def valid_policy_port_def makePort_def valid_port_def
      go_defs zero_ObjectMeta_def)

section \<open>Programs that keep a typed world\<close>

text \<open>From worlds with the invariant, a program leads to such worlds, and its result has the property.\<close>

definition keeps :: "('w \<Rightarrow> bool) \<Rightarrow> ('w rstate, 'a) state \<Rightarrow> ('a \<Rightarrow> bool) \<Rightarrow> bool" where
  "keeps typed p Q \<longleftrightarrow> (\<forall>s x s'. typed (rs_world s) \<and> run_state p s = (x, s') \<longrightarrow> typed (rs_world s') \<and> Q x)"

named_theorems keeps_rules \<open>programs that keep the invariant, by their form\<close>

lemma keeps_return [keeps_rules]: "keeps typed (State_Monad.return x) (\<lambda>x. True)"
  by (simp add: keeps_def)

lemma keeps_bind [keeps_rules]:
  assumes "keeps typed p Q" and "\<And>x. Q x \<Longrightarrow> keeps typed (f x) R"
  shows "keeps typed (p \<bind> f) R"
  unfolding keeps_def
proof (intro allI impI)
  fix s y s2
  assume s: "typed (rs_world s) \<and> run_state (p \<bind> f) s = (y, s2)"
  obtain x s1 where 1: "run_state p s = (x, s1)" by fastforce
  then have "typed (rs_world s1)" "Q x" using assms(1) s unfolding keeps_def by blast+
  moreover have "run_state (f x) s1 = (y, s2)" using s 1 by simp
  ultimately show "typed (rs_world s2) \<and> R y" using assms(2) [of x] unfolding keeps_def by blast
qed

lemma keeps_cases [keeps_rules]:
  "(b \<Longrightarrow> keeps typed p R) \<Longrightarrow> (\<not> b \<Longrightarrow> keeps typed p' R) \<Longrightarrow> keeps typed (if b then p else p') R"
  "(\<And>a. x = Inl a \<Longrightarrow> keeps typed (f a) R) \<Longrightarrow> (\<And>b. x = Inr b \<Longrightarrow> keeps typed (g b) R) \<Longrightarrow>
     keeps typed (case x of Inl a \<Rightarrow> f a | Inr b \<Rightarrow> g b) R"
  "keeps typed p R \<Longrightarrow> (\<And>a. y = Some a \<Longrightarrow> keeps typed (h a) R) \<Longrightarrow> keeps typed (case y of None \<Rightarrow> p | Some a \<Rightarrow> h a) R"
  "keeps typed (k z) R \<Longrightarrow> keeps typed (Let z k) R"
  by (auto split: sum.split option.split)

lemma keeps_quiet [keeps_rules]:
  "keeps typed getConfig (\<lambda>x. True)" "keeps typed (Eventf ref t reason action note) (\<lambda>x. True)"
  "keeps typed (State_Monad.update (\<lambda>s. s\<lparr>rs_Config := h s\<rparr>)) (\<lambda>x. True)"
  by (auto simp: keeps_def getConfig_def Eventf_def State_Monad.update_def State_Monad.get_def State_Monad.set_def)

lemma keeps_events [keeps_rules]:
  "keeps typed (fail_with ref reason action msg err) (\<lambda>x. True)" "keeps typed (succeed_with ref reason action msg) (\<lambda>x. True)"
  unfolding fail_with_def succeed_with_def by (rule keeps_rules | simp)+

lemma keeps_until_error:
  "(\<And>p. p \<in> set ps \<Longrightarrow> keeps typed p (\<lambda>x. True)) \<Longrightarrow> keeps typed (until_error ps) (\<lambda>x. True)"
  by (induction ps) (auto intro!: keeps_rules)

text \<open>A valid answer, decoded.\<close>

definition valid_answer :: "go_error + KObject \<Rightarrow> bool" where
  "valid_answer r \<longleftrightarrow> (case r of Inl err \<Rightarrow> True | Inr obj \<Rightarrow> valid_object obj)"

lemma valid_decoded:
  assumes "valid_answer r"
  shows "decoded as_deployment r = Inr d \<Longrightarrow> valid_object (ODeployment d)"
    "decoded as_service r = Inr sv \<Longrightarrow> valid_object (OService sv)"
    "decoded as_configmap r = Inr m \<Longrightarrow> valid_object (OConfigMap m)"
    "decoded as_vpa r = Inr vpa \<Longrightarrow> valid_object (OVPA vpa)"
  using assms
  by (cases r; auto simp: valid_answer_def decoded_def elim: as_deployment.elims as_service.elims as_configmap.elims as_vpa.elims)+

lemma valid_set_owner:
  assumes "set_owner e vpa (obj_meta obj) = Inr m" and "valid_object obj"
  shows "valid_object (map_meta (\<lambda>x. m) obj)"
  using assms(2) set_owner_meta(1) [OF assms(1)] by (cases obj) (simp_all add: valid_object_def valid_deployment_def valid_service_def valid_policy_def cong: option.case_cong)

locale typed_api =
  fixes c :: "'w client" and typed :: "'w \<Rightarrow> bool"
  assumes typed_get: "typed w \<Longrightarrow> cl_Get c k n w = (r, w') \<Longrightarrow> typed w' \<and> valid_answer r"
    and typed_create: "typed w \<Longrightarrow> valid_object obj \<Longrightarrow> cl_Create c obj w = (err, w') \<Longrightarrow> typed w'"
    and typed_update: "typed w \<Longrightarrow> valid_object obj \<Longrightarrow> cl_Update c obj w = (err, w') \<Longrightarrow> typed w'"
begin

lemma keeps_calls:
  assumes "en_Client e = c"
  shows "keeps typed (kget e k n) valid_answer"
    and "valid_object obj \<Longrightarrow> keeps typed (kcreate e obj) (\<lambda>x. True)"
    and "valid_object obj \<Longrightarrow> keeps typed (kupdate e obj) (\<lambda>x. True)"
proof -
  show "keeps typed (kget e k n) valid_answer"
    using assms by (auto simp: keeps_def kget_def split: prod.splits dest: typed_get)
  show "keeps typed (kcreate e obj) (\<lambda>x. True)" if "valid_object obj"
    using assms that by (auto simp: keeps_def kcreate_def split: prod.splits dest: typed_create)
  show "keeps typed (kupdate e obj) (\<lambda>x. True)" if "valid_object obj"
    using assms that by (auto simp: keeps_def kupdate_def split: prod.splits dest: typed_update)
qed

lemma keeps_create:
  assumes e: "en_Client e = c" and "valid_object obj" and "set_owner e vpa (obj_meta obj) = Inr m"
  shows "keeps typed (kcreate e (map_meta (\<lambda>x. m) obj)) (\<lambda>x. True)"
  using keeps_calls(2) [OF e] valid_set_owner [OF assms(3,2)] by blast

lemma keeps_deployment:
  assumes e: "en_Client e = c" and params: "params \<in> set controllerParams" and vpa: "valid_overrides (vpa_Spec vpa)"
  shows "keeps typed (reconcile_deployment e vpa ref params) (\<lambda>x. True)"
proof -
  have new: "keeps typed (kcreate e (ODeployment ((AutoscalerDeployment cfg vpa params)\<lparr>dep_Meta := m\<rparr>))) (\<lambda>x. True)"
    if "set_owner e vpa (dep_Meta (AutoscalerDeployment cfg vpa params)) = Inr m" for m cfg
    using keeps_create [OF e AutoscalerDeployment_valid [OF params vpa], of vpa cfg m] that by simp
  have create: "keeps typed (CreateAutoscaler e vpa params) (\<lambda>x. True)"
    unfolding CreateAutoscaler_def by (rule keeps_rules new | assumption)+
  have update: "keeps typed (UpdateAutoscaler e vpa params) (\<lambda>x. True)"
    unfolding UpdateAutoscaler_def
    by (rule keeps_rules keeps_calls [OF e] updated_deployment_valid [OF params vpa] valid_decoded | assumption)+
  show ?thesis
    unfolding reconcile_deployment_def by (rule keeps_rules keeps_calls [OF e] create update)+
qed

lemma keeps_service:
  assumes e: "en_Client e = c"
  shows "keeps typed (reconcile_service e vpa ref) (\<lambda>x. True)"
proof -
  have new: "keeps typed (kcreate e (OService ((WebhookService cfg vpa)\<lparr>svc_Meta := m\<rparr>))) (\<lambda>x. True)"
    if "set_owner e vpa (svc_Meta (WebhookService cfg vpa)) = Inr m" for m cfg
    using keeps_create [OF e service_valid(1), of vpa cfg vpa m] that by simp
  have create: "keeps typed (CreateWebhookService e vpa) (\<lambda>x. True)"
    unfolding CreateWebhookService_def by (rule keeps_rules new | assumption)+
  have update: "keeps typed (UpdateWebhookService e vpa) (\<lambda>x. True)"
    unfolding UpdateWebhookService_def
    by (rule keeps_rules keeps_calls [OF e] service_valid valid_decoded | assumption)+
  show ?thesis
    unfolding reconcile_service_def by (rule keeps_rules keeps_calls [OF e] create update)+
qed

lemma keeps_configmap:
  assumes e: "en_Client e = c"
  shows "keeps typed (reconcile_configmap e vpa ref) (\<lambda>x. True)"
proof -
  have new: "keeps typed (kcreate e (OConfigMap ((CAConfigMap cfg vpa)\<lparr>cm_Meta := m\<rparr>))) (\<lambda>x. True)"
    if "set_owner e vpa (cm_Meta (CAConfigMap cfg vpa)) = Inr m" for m cfg
    using keeps_create [OF e configmap_valid(1), of vpa cfg vpa m] that by simp
  have create: "keeps typed (CreateCAConfigMap e vpa) (\<lambda>x. True)"
    unfolding CreateCAConfigMap_def by (rule keeps_rules new | assumption)+
  have update: "keeps typed (UpdateCAConfigMap e vpa) (\<lambda>x. True)"
    unfolding UpdateCAConfigMap_def
    by (rule keeps_rules keeps_calls [OF e] configmap_valid valid_decoded | assumption)+
  show ?thesis
    unfolding reconcile_configmap_def by (rule keeps_rules keeps_calls [OF e] create update)+
qed

lemma keeps_policy:
  assumes e: "en_Client e = c" and policy: "policy \<in> set (NetworkPolicies cfg vpa')"
  shows "keeps typed (reconcile_policy e vpa ref policy) (\<lambda>x. True)"
proof -
  have new: "keeps typed (kcreate e (ONetworkPolicy (policy\<lparr>np_Meta := m\<rparr>))) (\<lambda>x. True)"
    if "set_owner e vpa (np_Meta policy) = Inr m" for m
    using keeps_create [OF e policy_valid [OF policy], of vpa m] that by simp
  show ?thesis
    unfolding reconcile_policy_def by (rule keeps_rules new keeps_calls [OF e] policy_valid [OF policy] | assumption)+
qed

lemma keeps_Reconcile:
  assumes e: "en_Client e = c"
  shows "keeps typed (Reconcile e req) (\<lambda>x. True)"
proof -
  have sync: "keeps typed (syncTLSProfile e) (\<lambda>x. True)"
    unfolding syncTLSProfile_def by (rule keeps_rules keeps_calls [OF e])+
  have steps: "keeps typed (until_error (reconcile_steps e cfg vpa ref)) (\<lambda>x. True)"
    if "valid_object (OVPA vpa)" for cfg vpa ref
    using that keeps_deployment [OF e] keeps_service [OF e] keeps_configmap [OF e] keeps_policy [OF e]
    by (intro keeps_until_error) (auto simp: reconcile_steps_def valid_object_def)
  show ?thesis
    unfolding Reconcile_def by (rule keeps_rules keeps_calls [OF e] sync steps valid_decoded(4) | assumption)+
qed

end

section \<open>The in-memory client\<close>

definition all_valid :: "tracker \<Rightarrow> bool" where
  "all_valid w = fmpred (\<lambda>k obj. valid_object obj) w"

lemma valid_json_resources [simp]: "valid_resources (json_resources r) = valid_resources r"
  by (simp add: valid_resources_def json_resources_def omit_list_def)

lemma valid_json_overrides [simp]: "valid_overrides (map_vpaspec_resources json_resources s) = valid_overrides s"
  by (simp add: valid_overrides_def valid_override_def map_vpaspec_resources_def map_override_resources_def Let_def)

lemma valid_read: "valid_object (read_object obj) = valid_object obj"
  by (cases obj) (auto simp: valid_object_def valid_deployment_def valid_service_def valid_policy_def valid_podspec_def read_meta_def
      json_meta_def json_podspec_def valid_container_def comp_def list_all_iff split: option.splits)

lemma valid_map_meta: "(\<And>m. om_Name (f m) = om_Name m) \<Longrightarrow> valid_object (map_meta f obj) = valid_object obj"
  by (cases obj) (simp_all add: valid_object_def valid_deployment_def valid_service_def valid_policy_def cong: option.case_cong)

lemma valid_copyStatus: "valid_object (copyStatusFrom old new) = valid_object new"
  by (cases old; cases new) (simp_all add: valid_object_def valid_deployment_def valid_service_def cong: option.case_cong)

lemma valid_set_rv: "valid_object (set_rv rv obj) = valid_object obj"
  unfolding set_rv_def by (rule valid_map_meta) simp

lemma all_valid_upd: "all_valid w \<Longrightarrow> valid_object obj \<Longrightarrow> all_valid (fmupd k obj w)"
  by (auto simp: all_valid_def fmpred_iff)

lemma all_valid_Create: "all_valid w \<Longrightarrow> valid_object obj \<Longrightarrow> all_valid (snd (tracker_Create obj w))"
  by (simp add: tracker_Create_def Let_def all_valid_upd valid_set_rv)

lemma all_valid_update: "all_valid w \<Longrightarrow> valid_object obj \<Longrightarrow> all_valid (snd (tracker_update patching obj w))"
  using all_valid_Create [of w obj]
  by (auto simp: tracker_update_def Let_def all_valid_upd valid_set_rv valid_copyStatus split: option.split)

interpretation typed_fake: typed_api fake_client all_valid
proof
  fix w k n r w' obj err
  assume w: "all_valid w"
  show "all_valid w' \<and> valid_answer r" if "cl_Get fake_client k n w = (r, w')"
    using that w by (auto simp: fake_client_def fake_Get_def valid_answer_def valid_read all_valid_def fmpred_iff split: option.splits)
  assume obj: "valid_object obj"
  show "all_valid w'" if "cl_Create fake_client obj w = (err, w')"
    using that all_valid_Create [OF w obj] by (simp add: fake_client_def fake_Create_def)
  show "all_valid w'" if run: "cl_Update fake_client obj w = (err, w')"
  proof -
    obtain x where x: "tracker_update False (map_meta (\<lambda>m. m\<lparr>om_rest := copy_key ''managedFields'' x (om_rest m)\<rparr>) obj) w = (err, w')"
      using run by (simp add: fake_client_def fake_Update_def Let_def)
    have "valid_object (map_meta (\<lambda>m. m\<lparr>om_rest := copy_key ''managedFields'' x (om_rest m)\<rparr>) obj)"
      using obj by (simp add: valid_map_meta)
    from all_valid_update [OF w this, of False] show ?thesis unfolding x by simp
  qed
qed

text \<open>
  C11: \<open>Reconcile\<close> sends valid objects only. Over any client that answers with valid objects (the custom resource, whose
  overrides are valid, among them) and keeps an invariant of its world as long as the objects it is sent are valid, every
  run, failed or not, keeps the invariant: every deployment that is created or updated has a selector that is not empty and
  selects its own pods, mounts only volumes that it declares, at different paths, has ports in range, no resource request
  above its limit, a node selector of well-formed labels and well-formed tolerations, whether these come from the overrides
  or from the operator's defaults; the ports of the service and of the policies are valid too.
\<close>

theorem Reconcile_typed:
  assumes "typed_api c typed" and "en_Client e = c" and "typed (rs_world s)" and "run_state (Reconcile e req) s = (res, s')"
  shows "typed (rs_world s')"
  using typed_api.keeps_Reconcile [OF assms(1,2), of req] assms(3,4) unfolding keeps_def by blast

lemma zero_overrides_valid: "valid_overrides zero_VPASpec"
  by (simp add: valid_overrides_def valid_override_def zero_VPASpec_def zero_DeploymentOverride_def valid_resources_def
      valid_node_selector_def zero_ResourceRequirements_def)

theorem Reconcile_typed_witness:
  "all_valid (rs_world (example_state fmempty)) \<and> all_valid (rs_world (snd (example_run fmempty)))"
proof -
  have w: "all_valid (rs_world (example_state fmempty))"
    by (simp add: example_state_def all_valid_def fmpred_upd valid_object_def example_vpa_def zero_overrides_valid)
  obtain res s' where run: "run_state (Reconcile example_env example_req) (example_state fmempty) = (res, s')" by fastforce
  have "all_valid (rs_world s')"
    by (rule Reconcile_typed [OF typed_fake.typed_api_axioms example_en_Client w run])
  with w run show ?thesis by (simp add: example_run_def)
qed

end
