(* ===== verification/Reconcile_Bounds.thy ===== *)
theory Reconcile_Bounds
  imports Controller
begin

text \<open>
  How much a run of \<open>Reconcile\<close> asks of the API server, over any client, whatever it answers. A client is traced:
  the world carries the list of the calls made. \<open>cost r n v p q\<close> says that the program \<open>p\<close> over the traced client
  does what \<open>q\<close> does over the client itself, with at most \<open>r\<close> reads, \<open>n\<close> writes and \<open>v\<close> events, and
  writes of permitted kinds only.
\<close>

section \<open>Traced clients\<close>

datatype call =
    CallGet Kind NamespacedName
  | CallCreate KObject
  | CallUpdate KObject
  | CallPatch Kind NamespacedName

definition traced :: "'w client \<Rightarrow> ('w \<times> call list) client" where
  "traced c =
     \<lparr>cl_Get = (\<lambda>k n (w, cs). case cl_Get c k n w of (r, w') \<Rightarrow> (r, w', cs @ [CallGet k n])),
      cl_Create = (\<lambda>obj (w, cs). case cl_Create c obj w of (r, w') \<Rightarrow> (r, w', cs @ [CallCreate obj])),
      cl_Update = (\<lambda>obj (w, cs). case cl_Update c obj w of (r, w') \<Rightarrow> (r, w', cs @ [CallUpdate obj])),
      cl_Patch = (\<lambda>k n p (w, cs). case cl_Patch c k n p w of (r, w') \<Rightarrow> (r, w', cs @ [CallPatch k n]))\<rparr>"

definition traced_env :: "'w env \<Rightarrow> ('w \<times> call list) env" where
  "traced_env e = \<lparr>en_Client = traced (en_Client e), en_Scheme = en_Scheme e\<rparr>"

definition traced_state :: "'w rstate \<Rightarrow> call list \<Rightarrow> ('w \<times> call list) rstate" where
  "traced_state s cs = \<lparr>rs_world = (rs_world s, cs), rs_Config = rs_Config s, rs_events = rs_events s\<rparr>"

fun is_read :: "call \<Rightarrow> bool" where
  "is_read (CallGet k n) = True"
| "is_read _ = False"

text \<open>Reads of anything; creations and updates of deployments, services, config maps and network policies; no patches.\<close>

fun permitted :: "call \<Rightarrow> bool" where
  "permitted (CallGet k n) = True"
| "permitted (CallCreate obj) = (obj_kind obj \<in> {KDeployment, KService, KConfigMap, KNetworkPolicy})"
| "permitted (CallUpdate obj) = (obj_kind obj \<in> {KDeployment, KService, KConfigMap, KNetworkPolicy})"
| "permitted (CallPatch k n) = False"

definition reads :: "call list \<Rightarrow> nat" where "reads cs = length (filter is_read cs)"
definition writes :: "call list \<Rightarrow> nat" where "writes cs = length (filter (\<lambda>c. \<not> is_read c) cs)"

lemma reads_writes [simp]:
  "reads [] = 0" "writes [] = 0" "reads (cs @ ds) = reads cs + reads ds" "writes (cs @ ds) = writes cs + writes ds"
  by (simp_all add: reads_def writes_def)

section \<open>Costs of programs\<close>

definition cost ::
  "nat \<Rightarrow> nat \<Rightarrow> nat \<Rightarrow> (('w \<times> call list) rstate, 'a) state \<Rightarrow> ('w rstate, 'a) state \<Rightarrow> bool" where
  "cost r n v p q \<longleftrightarrow>
     (\<forall>s cs. \<exists>x s' ds. run_state q s = (x, s') \<and> run_state p (traced_state s cs) = (x, traced_state s' (cs @ ds)) \<and>
        reads ds \<le> r \<and> writes ds \<le> n \<and> list_all permitted ds \<and> length (rs_events s') \<le> length (rs_events s) + v)"

named_theorems cost_rules \<open>costs of programs by their form\<close>
named_theorems cost_calls \<open>exact costs of the called programs\<close>

lemma cost_return [cost_rules]: "cost r n v (State_Monad.return x) (State_Monad.return x)"
  unfolding cost_def by (intro allI exI [where x = "[]"]) (auto simp: traced_state_def)

lemma cost_bind [cost_rules]:
  assumes "cost r1 n1 v1 p q" and "\<And>x. cost (r - r1) (n - n1) (v - v1) (f x) (g x)" and "r1 \<le> r" and "n1 \<le> n" and "v1 \<le> v"
  shows "cost r n v (p \<bind> f) (q \<bind> g)"
  unfolding cost_def
proof (intro allI)
  fix s cs
  obtain x s1 ds where 1: "run_state q s = (x, s1)" "run_state p (traced_state s cs) = (x, traced_state s1 (cs @ ds))"
      "reads ds \<le> r1" "writes ds \<le> n1" "list_all permitted ds" "length (rs_events s1) \<le> length (rs_events s) + v1"
    using assms(1) unfolding cost_def by blast
  obtain y s2 es where 2: "run_state (g x) s1 = (y, s2)"
      "run_state (f x) (traced_state s1 (cs @ ds)) = (y, traced_state s2 ((cs @ ds) @ es))"
      "reads es \<le> r - r1" "writes es \<le> n - n1" "list_all permitted es" "length (rs_events s2) \<le> length (rs_events s1) + (v - v1)"
    using assms(2) [of x] unfolding cost_def by blast
  show "\<exists>y s' ds. run_state (q \<bind> g) s = (y, s') \<and> run_state (p \<bind> f) (traced_state s cs) = (y, traced_state s' (cs @ ds)) \<and>
      reads ds \<le> r \<and> writes ds \<le> n \<and> list_all permitted ds \<and> length (rs_events s') \<le> length (rs_events s) + v"
    by (intro exI [where x = y] exI [where x = s2] exI [where x = "ds @ es"])
      (use 1 2 assms(3-5) in auto)
qed

lemma cost_mono:
  "cost r n v p q \<Longrightarrow> r \<le> r' \<Longrightarrow> n \<le> n' \<Longrightarrow> v \<le> v' \<Longrightarrow> cost r' n' v' p q"
  unfolding cost_def by (meson add_left_mono order_trans)

lemma cost_cases [cost_rules]:
  "cost r n v p q \<Longrightarrow> cost r n v p' q' \<Longrightarrow> cost r n v (if b then p else p') (if b then q else q')"
  "(\<And>a. cost r n v (f a) (f' a)) \<Longrightarrow> (\<And>b. cost r n v (g b) (g' b)) \<Longrightarrow>
     cost r n v (case x of Inl a \<Rightarrow> f a | Inr b \<Rightarrow> g b) (case x of Inl a \<Rightarrow> f' a | Inr b \<Rightarrow> g' b)"
  "cost r n v p q \<Longrightarrow> (\<And>a. cost r n v (h a) (h' a)) \<Longrightarrow>
     cost r n v (case y of None \<Rightarrow> p | Some a \<Rightarrow> h a) (case y of None \<Rightarrow> q | Some a \<Rightarrow> h' a)"
  "cost r n v (k z) (k' z) \<Longrightarrow> cost r n v (Let z k) (Let z k')"
  by (auto split: sum.split option.split)

lemma cost_getConfig [cost_calls]: "cost 0 0 0 getConfig getConfig"
  unfolding cost_def getConfig_def by (auto simp: traced_state_def intro!: exI [where x = "[]"])

lemma cost_kget [cost_calls]: "cost 1 0 0 (kget (traced_env e) k n) (kget e k n)"
  unfolding cost_def kget_def
  by (auto simp: traced_state_def traced_env_def traced_def reads_def writes_def split: prod.split
      intro!: exI [where x = "[CallGet k n]"])

lemma cost_kcreate [cost_calls]:
  "permitted (CallCreate obj) \<Longrightarrow> cost 0 1 0 (kcreate (traced_env e) obj) (kcreate e obj)"
  unfolding cost_def kcreate_def
  by (auto simp: traced_state_def traced_env_def traced_def reads_def writes_def split: prod.split
      intro!: exI [where x = "[CallCreate obj]"])

lemma cost_kupdate [cost_calls]:
  "permitted (CallUpdate obj) \<Longrightarrow> cost 0 1 0 (kupdate (traced_env e) obj) (kupdate e obj)"
  unfolding cost_def kupdate_def
  by (auto simp: traced_state_def traced_env_def traced_def reads_def writes_def split: prod.split
      intro!: exI [where x = "[CallUpdate obj]"])

lemma cost_Eventf [cost_calls]: "cost 0 0 1 (Eventf ref t reason action note) (Eventf ref t reason action note)"
  unfolding cost_def Eventf_def by (auto simp: traced_state_def intro!: exI [where x = "[]"])

lemma set_owner_traced [simp]: "set_owner (traced_env e) vpa m = set_owner e vpa m"
  by (simp add: set_owner_def traced_env_def)

section \<open>Costs of the steps\<close>

lemma cost_syncTLSProfile: "cost 1 0 0 (syncTLSProfile (traced_env e)) (syncTLSProfile e)"
proof -
  have "cost 0 0 0 (State_Monad.update (\<lambda>s. s\<lparr>rs_Config := f (rs_Config s)\<rparr>)) (State_Monad.update (\<lambda>s. s\<lparr>rs_Config := f (rs_Config s)\<rparr>))"
    for f :: "Config \<Rightarrow> Config"
    unfolding cost_def by (auto simp: traced_state_def State_Monad.update_def State_Monad.get_def State_Monad.set_def
        intro!: exI [where x = "[]"])
  then show ?thesis
    unfolding syncTLSProfile_def
    by (intro cost_bind [OF cost_kget] cost_cases cost_return) simp_all
qed

lemma cost_fail_succeed [cost_calls]:
  "cost 0 0 1 (fail_with ref reason action msg err) (fail_with ref reason action msg err)"
  "cost 0 0 1 (succeed_with ref reason action msg) (succeed_with ref reason action msg)"
  unfolding fail_with_def succeed_with_def by (rule cost_rules cost_calls cost_calls [THEN cost_mono] | simp)+

lemma cost_Create [cost_calls]:
  "cost 0 1 0 (CreateAutoscaler (traced_env e) vpa params) (CreateAutoscaler e vpa params)"
  "cost 0 1 0 (CreateWebhookService (traced_env e) vpa) (CreateWebhookService e vpa)"
  "cost 0 1 0 (CreateCAConfigMap (traced_env e) vpa) (CreateCAConfigMap e vpa)"
  unfolding CreateAutoscaler_def CreateWebhookService_def CreateCAConfigMap_def set_owner_traced
  by (rule cost_rules cost_calls cost_calls [THEN cost_mono] | simp)+

lemma cost_Update [cost_calls]:
  "cost 1 1 0 (UpdateAutoscaler (traced_env e) vpa params) (UpdateAutoscaler e vpa params)"
  "cost 1 1 0 (UpdateWebhookService (traced_env e) vpa) (UpdateWebhookService e vpa)"
  "cost 1 1 0 (UpdateCAConfigMap (traced_env e) vpa) (UpdateCAConfigMap e vpa)"
  unfolding UpdateAutoscaler_def UpdateWebhookService_def UpdateCAConfigMap_def
  by (rule cost_rules cost_calls cost_calls [THEN cost_mono] | simp)+

lemma cost_steps:
  "cost 2 1 1 (reconcile_deployment (traced_env e) vpa ref params) (reconcile_deployment e vpa ref params)"
  "cost 2 1 1 (reconcile_service (traced_env e) vpa ref) (reconcile_service e vpa ref)"
  "cost 2 1 1 (reconcile_configmap (traced_env e) vpa ref) (reconcile_configmap e vpa ref)"
  "cost 1 1 1 (reconcile_policy (traced_env e) vpa ref policy) (reconcile_policy e vpa ref policy)"
  unfolding reconcile_deployment_def reconcile_service_def reconcile_configmap_def reconcile_policy_def set_owner_traced
  by (rule cost_rules cost_calls cost_calls [THEN cost_mono] | simp)+


lemma cost_until_error:
  "cost r n v p q \<Longrightarrow> cost r' n' v' (until_error ps) (until_error qs) \<Longrightarrow>
     cost (r + r') (n + n') (v + v') (until_error (p # ps)) (until_error (q # qs))"
  unfolding until_error.simps by (rule cost_bind, assumption) (rule cost_cases cost_return | simp)+

lemma cost_policies:
  "cost (length policies) (length policies) (length policies)
     (until_error (map (reconcile_policy (traced_env e) vpa ref) policies))
     (until_error (map (reconcile_policy e vpa ref) policies))"
proof (induction policies)
  case (Cons policy policies)
  then show ?case using cost_until_error [OF cost_steps(4)] by fastforce
qed (simp add: cost_return)

text \<open>Three deployments, the service and the config map at two reads each, and five policies at one.\<close>

lemma cost_reconcile_steps:
  "cost 15 10 10 (until_error (reconcile_steps (traced_env e) cfg vpa ref)) (until_error (reconcile_steps e cfg vpa ref))"
proof -
  have "length (NetworkPolicies cfg vpa) = 5" by (simp add: NetworkPolicies_def Let_def)
  note policies = cost_policies [of "NetworkPolicies cfg vpa", unfolded this]
  have "cost (2 + (2 + (2 + (2 + (2 + 5))))) (1 + (1 + (1 + (1 + (1 + 5))))) (1 + (1 + (1 + (1 + (1 + 5)))))
      (until_error (reconcile_steps (traced_env e) cfg vpa ref)) (until_error (reconcile_steps e cfg vpa ref))"
    unfolding reconcile_steps_def controllerParams_def list.map append.simps
    by (intro cost_until_error cost_steps policies)
  then show ?thesis by simp
qed

lemma cost_Reconcile: "cost 17 10 10 (Reconcile (traced_env e) req) (Reconcile e req)"
proof -
  have scheme: "en_Scheme (traced_env e) = en_Scheme e" by (simp add: traced_env_def)
  show ?thesis
    unfolding Reconcile_def scheme
    by (rule cost_rules cost_syncTLSProfile cost_reconcile_steps cost_calls | simp)+
qed

text \<open>
  C12: A run of \<open>Reconcile\<close> is bounded, whatever the client answers, with errors and inconsistent answers included. It
  makes at most 17 reads and 10 writes, every write creates or updates a deployment, service, config map or network policy, and at most
  10 events are recorded. Tracing the calls changes neither the result nor the state of the run.
\<close>

theorem Reconcile_bounded:
  "\<exists>res s' cs. run_state (Reconcile e req) s = (res, s') \<and>
     run_state (Reconcile (traced_env e) req) (traced_state s []) = (res, traced_state s' cs) \<and>
     reads cs \<le> 17 \<and> writes cs \<le> 10 \<and> list_all permitted cs \<and> length (rs_events s') \<le> length (rs_events s) + 10"
  using cost_Reconcile [of e req] unfolding cost_def by (metis append_Nil)

end
