(* ===== verification/Reconcile_Protocol.thy ===== *)
theory Reconcile_Protocol
  imports Reconcile_Bounds Reconcile_Theorems "HOL-Library.Sublist"
begin

text \<open>
  The order of the calls of a run. An abstract protocol says which calls a step may make for its object, and that a run
  makes the calls of the steps of the managed objects in their order, up to a step at which it stops. \<open>Reconcile\<close> follows
  it over every client that answers a read with an object of the key that was asked for.

  Such a client (locale \<open>keyed_api\<close>) is asked for nothing else, so other actors may write between any two calls of the run:
  \<open>interleaved\<close> builds a client in which they do.
\<close>

section \<open>The protocol\<close>

text \<open>A step reads its object first. Then it creates it, or updates it, after having read it again if it is not a policy, or writes nothing.\<close>

inductive step_calls :: "objkey \<Rightarrow> call list \<Rightarrow> bool" where
  only_read: "step_calls (k, n) [CallGet k n]"
| created: "obj_key obj = (k, n) \<Longrightarrow> step_calls (k, n) [CallGet k n, CallCreate obj]"
| read_again: "k \<noteq> KNetworkPolicy \<Longrightarrow> step_calls (k, n) [CallGet k n, CallGet k n]"
| updated: "k \<noteq> KNetworkPolicy \<Longrightarrow> obj_key obj = (k, n) \<Longrightarrow> step_calls (k, n) [CallGet k n, CallGet k n, CallUpdate obj]"
| policy_updated: "obj_key obj = (KNetworkPolicy, n) \<Longrightarrow>
    step_calls (KNetworkPolicy, n) [CallGet KNetworkPolicy n, CallUpdate obj]"

inductive run_calls :: "objkey list \<Rightarrow> bool \<Rightarrow> call list \<Rightarrow> bool" where
  finished: "run_calls [] True []"
| stopped: "step_calls key cs \<Longrightarrow> run_calls (key # keys) False cs"
| next_step: "step_calls key cs \<Longrightarrow> run_calls keys ok ds \<Longrightarrow> run_calls (key # keys) ok (cs @ ds)"

text \<open>After the request's resource has been read come the calls of the steps of its objects, if it was found; \<open>ok\<close>: with no error.\<close>

inductive request_calls :: "Config \<Rightarrow> NamespacedName \<Rightarrow> bool \<Rightarrow> call list \<Rightarrow> bool" for cfg req where
  no_resource: "request_calls cfg req ok [CallGet KVPA req]"
| its_objects: "meta_key (vpa_Meta vpa) = req \<Longrightarrow> run_calls (managed_keys cfg vpa) ok cs \<Longrightarrow>
    request_calls cfg req ok (CallGet KVPA req # cs)"

inductive_cases step_callsE: "step_calls key cs"

text \<open>The key that a call writes, if it writes.\<close>

fun written_key :: "call \<Rightarrow> objkey option" where
  "written_key (CallCreate obj) = Some (obj_key obj)"
| "written_key (CallUpdate obj) = Some (obj_key obj)"
| "written_key (CallPatch k n) = Some (k, n)"
| "written_key (CallGet k n) = None"

definition written_keys :: "call list \<Rightarrow> objkey list" where
  "written_keys cs = List.map_filter written_key cs"

lemma written_keys_simps [simp]:
  "written_keys [] = []" "written_keys (cs @ ds) = written_keys cs @ written_keys ds"
  by (simp_all add: written_keys_def List.map_filter_def)

lemma step_calls_written: "step_calls key cs \<Longrightarrow> written_keys cs = [] \<or> written_keys cs = [key]"
  by (erule step_callsE) (simp_all add: written_keys_def List.map_filter_def)

text \<open>What the protocol gives: the written keys are a subsequence of the managed ones.\<close>

lemma run_calls_written: "run_calls keys ok cs \<Longrightarrow> subseq (written_keys cs) keys"
proof (induction rule: run_calls.induct)
  case (stopped key cs keys)
  then show ?case using step_calls_written [OF stopped] by auto
next
  case (next_step key cs keys ok ds)
  then show ?case using step_calls_written [OF next_step.hyps(1)] by (auto intro: subseq_Cons')
qed simp

lemma request_calls_written:
  "request_calls cfg req ok cs \<Longrightarrow>
     written_keys cs = [] \<or> (\<exists>vpa. meta_key (vpa_Meta vpa) = req \<and> subseq (written_keys cs) (managed_keys cfg vpa))"
  by (erule request_calls.cases)
    (auto simp: written_keys_def List.map_filter_def dest: run_calls_written [unfolded written_keys_def List.map_filter_def])

section \<open>Clients that answer with the object that was asked for\<close>

text \<open>An answer with the object of the key, decoded.\<close>

definition answers :: "Kind \<Rightarrow> NamespacedName \<Rightarrow> go_error + KObject \<Rightarrow> bool" where
  "answers k n r \<longleftrightarrow> (\<forall>obj. r = Inr obj \<longrightarrow> obj_key obj = (k, n))"

lemma answers_decoded:
  assumes "answers k n r"
  shows "decoded as_deployment r = Inr d \<Longrightarrow> obj_key (ODeployment d) = (k, n)"
    "decoded as_service r = Inr sv \<Longrightarrow> obj_key (OService sv) = (k, n)"
    "decoded as_configmap r = Inr m \<Longrightarrow> obj_key (OConfigMap m) = (k, n)"
    "decoded as_vpa r = Inr v \<Longrightarrow> obj_key (OVPA v) = (k, n)"
  using assms
  by (cases r; auto simp: answers_def decoded_def elim: as_deployment.elims as_service.elims as_configmap.elims as_vpa.elims)+

text \<open>\<open>Reconcile\<close> after \<open>syncTLSProfile\<close>.\<close>

definition reconcile_request :: "'w env \<Rightarrow> NamespacedName \<Rightarrow> ('w rstate, Result \<times> go_error option) state" where
  "reconcile_request e req =
     do { got \<leftarrow> kget e KVPA req;
          case decoded as_vpa got of
            Inl err \<Rightarrow> if IsNotFound err then State_Monad.return (zero_Result, None) else State_Monad.return (zero_Result, Some err)
          | Inr vpa \<Rightarrow>
              do { cfg \<leftarrow> getConfig;
                   let vpaRef = objectReference cfg (en_Scheme e) vpa;
                   err \<leftarrow> until_error (reconcile_steps e cfg vpa vpaRef);
                   State_Monad.return (zero_Result, err) } }"

lemma Reconcile_split: "Reconcile e req = syncTLSProfile e \<bind> (\<lambda>u. reconcile_request e req)"
  by (simp add: Reconcile_def reconcile_request_def)

lemma answers_vpa: "answers KVPA req r \<Longrightarrow> decoded as_vpa r = Inr vpa \<Longrightarrow> meta_key (vpa_Meta vpa) = req"
  by (drule (1) answers_decoded) (simp add: obj_key_def)

locale keyed_api =
  fixes c :: "'w client" and good :: "'w \<Rightarrow> bool"
  assumes keyed_get: "good w \<Longrightarrow> cl_Get c k n w = (r, w') \<Longrightarrow> good w' \<and> answers k n r"
    and keyed_create: "good w \<Longrightarrow> cl_Create c obj w = (err, w') \<Longrightarrow> good w'"
    and keyed_update: "good w \<Longrightarrow> cl_Update c obj w = (err, w') \<Longrightarrow> good w'"

text \<open>Before every call other actors change the world.\<close>

definition interleaved :: "('w \<Rightarrow> 'w) \<Rightarrow> 'w client \<Rightarrow> 'w client" where
  "interleaved other c =
     \<lparr>cl_Get = (\<lambda>k n w. cl_Get c k n (other w)), cl_Create = (\<lambda>obj w. cl_Create c obj (other w)),
      cl_Update = (\<lambda>obj w. cl_Update c obj (other w)), cl_Patch = (\<lambda>k n p w. cl_Patch c k n p (other w))\<rparr>"

section \<open>Programs and the calls they make\<close>

text \<open>\<open>emits good cfg p T\<close>: from a good world and the configuration \<open>cfg\<close>, which it keeps, \<open>p\<close> makes calls that \<open>T\<close> permits for its result.\<close>

definition emits ::
  "('w \<Rightarrow> bool) \<Rightarrow> Config \<Rightarrow> (('w \<times> call list) rstate, 'a) state \<Rightarrow> ('a \<Rightarrow> call list \<Rightarrow> bool) \<Rightarrow> bool" where
  "emits good cfg p T \<longleftrightarrow> (\<forall>s. good (fst (rs_world s)) \<and> rs_Config s = cfg \<longrightarrow>
     (\<exists>x s' ds. run_state p s = (x, s') \<and> good (fst (rs_world s')) \<and> rs_Config s' = cfg \<and>
        snd (rs_world s') = snd (rs_world s) @ ds \<and> T x ds))"

lemma emitsD:
  fixes s :: "('w \<times> call list) rstate"
  assumes "emits good cfg p T" and "good (fst (rs_world s))" and "rs_Config s = cfg"
  obtains x s' ds where "run_state p s = (x, s')" and "good (fst (rs_world s'))" and "rs_Config s' = cfg"
    and "snd (rs_world s') = snd (rs_world s) @ ds" and "T x ds"
  using assms unfolding emits_def by metis

named_theorems emits_rules \<open>calls of programs by their form\<close>

lemma emits_weaken: "emits good cfg p T' \<Longrightarrow> (\<And>x ds. T' x ds \<Longrightarrow> T x ds) \<Longrightarrow> emits good cfg p T"
  unfolding emits_def by blast

lemma emits_return [emits_rules]: "T x [] \<Longrightarrow> emits good cfg (State_Monad.return x) T"
  by (auto simp: emits_def run_simps)

lemma emits_bind [emits_rules]:
  fixes p :: "(('w \<times> call list) rstate, 'a) state"
  assumes "emits good cfg p (\<lambda>x ds. emits good cfg (f x) (\<lambda>y es. T y (ds @ es)))"
  shows "emits good cfg (p \<bind> f) T"
  unfolding emits_def
proof (intro allI impI)
  fix s :: "('w \<times> call list) rstate"
  assume s: "good (fst (rs_world s)) \<and> rs_Config s = cfg"
  obtain x s1 ds where 1: "run_state p s = (x, s1)" "good (fst (rs_world s1))" "rs_Config s1 = cfg"
      "snd (rs_world s1) = snd (rs_world s) @ ds" "emits good cfg (f x) (\<lambda>y es. T y (ds @ es))"
    using emitsD [OF assms conjunct1 [OF s] conjunct2 [OF s]] .
  obtain y s2 es where 2: "run_state (f x) s1 = (y, s2)" "good (fst (rs_world s2))" "rs_Config s2 = cfg"
      "snd (rs_world s2) = snd (rs_world s1) @ es" "T y (ds @ es)"
    using emitsD [OF 1(5,2,3)] .
  show "\<exists>y s' ds. run_state (p \<bind> f) s = (y, s') \<and> good (fst (rs_world s')) \<and> rs_Config s' = cfg \<and>
      snd (rs_world s') = snd (rs_world s) @ ds \<and> T y ds"
    by (intro exI [where x = y] exI [where x = s2] exI [where x = "ds @ es"]) (simp add: 1 2)
qed

lemma emits_cases [emits_rules]:
  "(b \<Longrightarrow> emits good cfg p T) \<Longrightarrow> (\<not> b \<Longrightarrow> emits good cfg p' T) \<Longrightarrow> emits good cfg (if b then p else p') T"
  "(\<And>a. x = Inl a \<Longrightarrow> emits good cfg (f a) T) \<Longrightarrow> (\<And>b. x = Inr b \<Longrightarrow> emits good cfg (g b) T) \<Longrightarrow>
     emits good cfg (case x of Inl a \<Rightarrow> f a | Inr b \<Rightarrow> g b) T"
  "(y = None \<Longrightarrow> emits good cfg p T) \<Longrightarrow> (\<And>a. y = Some a \<Longrightarrow> emits good cfg (h a) T) \<Longrightarrow>
     emits good cfg (case y of None \<Rightarrow> p | Some a \<Rightarrow> h a) T"
  "emits good cfg (k z) T \<Longrightarrow> emits good cfg (Let z k) T"
  by (auto split: sum.split option.split)

lemma emits_getConfig [emits_rules]: "T cfg [] \<Longrightarrow> emits good cfg getConfig T"
  by (auto simp: emits_def run_simps)

lemma emits_events [emits_rules]:
  "T (Some err) [] \<Longrightarrow> emits good cfg (fail_with ref reason action msg err) T"
  "T None [] \<Longrightarrow> emits good cfg (succeed_with ref reason action msg) T"
  by (auto simp: emits_def run_simps)

text \<open>What the create and the update methods may call.\<close>

definition create_calls :: "objkey \<Rightarrow> call list \<Rightarrow> bool" where
  "create_calls key ds \<longleftrightarrow> ds = [] \<or> (\<exists>obj. obj_key obj = key \<and> ds = [CallCreate obj])"

definition update_calls :: "objkey \<Rightarrow> call list \<Rightarrow> bool" where
  "update_calls key ds \<longleftrightarrow> ds = [CallGet (fst key) (snd key)] \<or>
     (\<exists>obj. obj_key obj = key \<and> ds = [CallGet (fst key) (snd key), CallUpdate obj])"

lemma step_calls_ensure:
  "create_calls (k, n) ds \<Longrightarrow> step_calls (k, n) (CallGet k n # ds)"
  "update_calls (k, n) ds \<Longrightarrow> k \<noteq> KNetworkPolicy \<Longrightarrow> step_calls (k, n) (CallGet k n # ds)"
  by (auto simp: create_calls_def update_calls_def intro: step_calls.intros)

context keyed_api
begin

lemma emits_kget:
  assumes "en_Client e = c" and "\<And>r. answers k n r \<Longrightarrow> T r [CallGet k n]"
  shows "emits good cfg (kget (traced_env e) k n) T"
  using assms keyed_get unfolding emits_def kget_def
  by (fastforce simp: traced_env_def traced_def split: prod.splits)

lemma emits_write:
  assumes "en_Client e = c"
  shows "(\<And>r. T r [CallCreate obj]) \<Longrightarrow> emits good cfg (kcreate (traced_env e) obj) T"
    and "(\<And>r. T r [CallUpdate obj]) \<Longrightarrow> emits good cfg (kupdate (traced_env e) obj) T"
proof -
  show "emits good cfg (kcreate (traced_env e) obj) T" if "\<And>r. T r [CallCreate obj]"
    using that assms by (auto simp: emits_def kcreate_def traced_env_def traced_def split: prod.splits dest: keyed_create)
  show "emits good cfg (kupdate (traced_env e) obj) T" if "\<And>r. T r [CallUpdate obj]"
    using that assms by (auto simp: emits_def kupdate_def traced_env_def traced_def split: prod.splits dest: keyed_update)
qed

text \<open>The steps.\<close>

lemma emits_create:
  assumes "en_Client e = c" and "set_owner e vpa (obj_meta obj) = Inr m"
  shows "emits good cfg (kcreate (traced_env e) (map_meta (\<lambda>x. m) obj)) (\<lambda>r. create_calls (obj_key obj))"
  using set_owner_meta [OF assms(2)] key_with_meta [of m obj]
  by (intro emits_write(1) [OF assms(1)]) (simp add: create_calls_def)

lemmas emits_create_simps =
  emits_create [where obj = "ODeployment (AutoscalerDeployment cfg vpa params)" and vpa = vpa and cfg = cfg for cfg vpa params, simplified]
  emits_create [where obj = "OService (WebhookService cfg vpa)" and vpa = vpa and cfg = cfg for cfg vpa, simplified]
  emits_create [where obj = "OConfigMap (CAConfigMap cfg vpa)" and vpa = vpa and cfg = cfg for cfg vpa, simplified]

lemma emits_Create:
  assumes e: "en_Client e = c"
  shows "emits good cfg (CreateAutoscaler (traced_env e) vpa params) (\<lambda>r. create_calls (KDeployment, par_NameMethod params cfg vpa))"
    and "emits good cfg (CreateWebhookService (traced_env e) vpa) (\<lambda>r. create_calls (KService, service_name cfg))"
    and "emits good cfg (CreateCAConfigMap (traced_env e) vpa) (\<lambda>r. create_calls (KConfigMap, configmap_name cfg))"
  unfolding CreateAutoscaler_def CreateWebhookService_def CreateCAConfigMap_def set_owner_traced Let_def
  by (intro emits_bind emits_getConfig,
      (rule emits_cases emits_return emits_create_simps [OF e, THEN emits_weaken] | assumption
        | simp add: create_calls_def key_of_deployment key_of_service key_of_configmap)+)+

lemma emits_Update:
  assumes e: "en_Client e = c"
  shows "emits good cfg (UpdateAutoscaler (traced_env e) vpa params) (\<lambda>r. update_calls (KDeployment, par_NameMethod params cfg vpa))"
    and "emits good cfg (UpdateWebhookService (traced_env e) vpa) (\<lambda>r. update_calls (KService, service_name cfg))"
    and "emits good cfg (UpdateCAConfigMap (traced_env e) vpa) (\<lambda>r. update_calls (KConfigMap, configmap_name cfg))"
  unfolding UpdateAutoscaler_def UpdateWebhookService_def UpdateCAConfigMap_def merged_configmap_def [symmetric] Let_def
  by (intro emits_bind emits_getConfig emits_kget [OF e],
      (rule emits_rules emits_write(2) [OF e] | assumption
        | drule (1) answers_decoded, simp add: update_calls_def key_of_updates | simp add: update_calls_def)+)+

lemma emits_policy:
  assumes e: "en_Client e = c" and key: "meta_key (np_Meta policy) = \<lparr>nn_Namespace = cfg_Namespace cfg, nn_Name = om_Name (np_Meta policy)\<rparr>"
  shows "emits good cfg (reconcile_policy (traced_env e) vpa ref policy) (\<lambda>r. step_calls (obj_key (ONetworkPolicy policy)))"
proof -
  note new = emits_create [OF e, where obj = "ONetworkPolicy policy" and cfg = cfg, simplified]
  show ?thesis
    unfolding reconcile_policy_def set_owner_traced Let_def
    apply (intro emits_bind emits_getConfig emits_kget [OF e])
      apply (rule emits_rules emits_write(2) [OF e] emits_weaken [OF new] | assumption
        | simp add: step_calls_ensure key step_calls.intros obj_key_def)+
    done
qed

lemma emits_steps:
  assumes e: "en_Client e = c"
  shows "emits good cfg (reconcile_deployment (traced_env e) vpa ref params) (\<lambda>r. step_calls (KDeployment, par_NameMethod params cfg vpa))"
    and "emits good cfg (reconcile_service (traced_env e) vpa ref) (\<lambda>r. step_calls (KService, service_name cfg))"
    and "emits good cfg (reconcile_configmap (traced_env e) vpa ref) (\<lambda>r. step_calls (KConfigMap, configmap_name cfg))"
  unfolding reconcile_deployment_def reconcile_service_def reconcile_configmap_def Let_def
  by (intro emits_bind emits_getConfig emits_kget [OF e],
      (rule emits_rules emits_weaken [OF emits_Create(1) [OF e]] emits_weaken [OF emits_Create(2) [OF e]] emits_weaken [OF emits_Create(3) [OF e]]
         emits_weaken [OF emits_Update(1) [OF e]] emits_weaken [OF emits_Update(2) [OF e]] emits_weaken [OF emits_Update(3) [OF e]]
        | assumption | simp add: step_calls_ensure only_read)+)+

text \<open>A run.\<close>

lemma emits_until_error:
  "list_all2 (\<lambda>key p. emits good cfg p (\<lambda>r. step_calls key)) keys ps \<Longrightarrow>
     emits good cfg (until_error ps) (\<lambda>r. run_calls keys (r = None))"
proof (induction rule: list_all2_induct)
  case Nil
  show ?case by (simp add: emits_return run_calls.finished)
next
  case (Cons key keys p ps)
  show ?case
    unfolding until_error.simps
    by (rule emits_rules emits_weaken [OF Cons.hyps(1)] emits_weaken [OF Cons.IH] | simp add: run_calls.intros)+
qed

lemma emits_reconcile_steps:
  assumes "en_Client e = c"
  shows "list_all2 (\<lambda>key p. emits good cfg p (\<lambda>r. step_calls key)) (managed_keys cfg vpa) (reconcile_steps (traced_env e) cfg vpa ref)"
proof -
  have "meta_key (np_Meta p) = \<lparr>nn_Namespace = cfg_Namespace cfg, nn_Name = om_Name (np_Meta p)\<rparr>"
    if "p \<in> set (NetworkPolicies cfg vpa)" for p
    using NetworkPolicies_meta(2) [OF that] by (auto simp: meta_key_def)
  then show ?thesis
    using emits_steps [OF assms, of cfg vpa ref] emits_policy [OF assms, of _ cfg vpa ref]
    by (auto simp: managed_keys_def reconcile_steps_def list_all2_map1 list_all2_map2 list_all2_same obj_key_def
        intro!: list_all2_appendI)
qed

lemma sync_calls:
  assumes "en_Client e = c" and "good (fst (rs_world s))" and "run_state (syncTLSProfile (traced_env e)) s = (u, s')"
  shows "good (fst (rs_world s'))"
    and "snd (rs_world s') = snd (rs_world s) @ [CallGet KAPIServer \<lparr>nn_Namespace = '''', nn_Name = APIServerName\<rparr>]"
  using assms keyed_get [OF assms(2)]
  by (auto simp: syncTLSProfile_def kget_def traced_env_def traced_def run_simps State_Monad.update_def State_Monad.get_def
      State_Monad.set_def split: prod.splits sum.splits)

lemma keyed_interleaved:
  assumes other: "\<And>w. good w \<Longrightarrow> good (other w)"
  shows "keyed_api (interleaved other c) good"
proof
  show "good w' \<and> answers k n r" if "good w" "cl_Get (interleaved other c) k n w = (r, w')" for w k n r w'
    using that keyed_get [OF other [OF that(1)]] by (simp add: interleaved_def)
  show "good w'" if "good w" "cl_Create (interleaved other c) obj w = (r, w')" for w obj r w'
    using that keyed_create [OF other [OF that(1)]] by (simp add: interleaved_def)
  show "good w'" if "good w" "cl_Update (interleaved other c) obj w = (r, w')" for w obj r w'
    using that keyed_update [OF other [OF that(1)]] by (simp add: interleaved_def)
qed

lemma emits_reconcile_request:
  assumes e: "en_Client e = c"
  shows "emits good cfg (reconcile_request (traced_env e) req) (\<lambda>res cs. request_calls cfg req (snd res = None) cs)"
  unfolding reconcile_request_def Let_def
  by (intro emits_bind emits_kget [OF e])
    (rule emits_rules emits_weaken [OF emits_until_error [OF emits_reconcile_steps [OF e]]] | assumption
      | drule (1) answers_vpa, simp, erule (1) request_calls.its_objects | simp add: request_calls.no_resource)+

end

text \<open>Every client with the laws of the API is keyed.\<close>

context kube_api
begin

lemma keyed_laws: "keyed_api c wf"
proof
  show "wf w' \<and> answers k n r" if "wf w" "cl_Get c k n w = (r, w')" for w k n r w'
    using that get_frame [OF that] get_found [of w k n] view_key [OF that(1)] by (auto simp: answers_def)
  show "wf w'" if "wf w" "cl_Create c obj w = (r, w')" for w obj r w' using create_frame [OF that] by blast
  show "wf w'" if "wf w" "cl_Update c obj w = (r, w')" for w obj r w' using update_frame [OF that] by blast
qed

end

sublocale kube_api \<subseteq> keyed: keyed_api c wf by (rule keyed_laws)

section \<open>The calls of \<open>Reconcile\<close>\<close>

text \<open>
  C13: A run of \<open>Reconcile\<close> follows the protocol, whatever other actors do in between, so long as every read that succeeds
  answers with the object that was asked for. It reads the cluster's APIServer object, then the requested resource. If it
  found it, it goes through the ten managed objects in their order: it reads each, then creates it, updates it or leaves it,
  and every object but a policy is read again for the update. It goes through all of them exactly if it returns no error. So no object is
  written twice, and none before the ones that precede it.
\<close>

theorem Reconcile_protocol:
  fixes e :: "'w env" and s' :: "('w \<times> call list) rstate"
  assumes "keyed_api (en_Client e) good" and "good (rs_world s)"
    and "run_state (Reconcile (traced_env e) req) (traced_state s []) = (res, s')"
  shows "\<exists>cs. snd (rs_world s') = CallGet KAPIServer \<lparr>nn_Namespace = '''', nn_Name = APIServerName\<rparr> # cs \<and>
    request_calls (rs_Config s') req (snd res = None) cs \<and>
    (written_keys cs = [] \<or> (\<exists>vpa. meta_key (vpa_Meta vpa) = req \<and> subseq (written_keys cs) (managed_keys (rs_Config s') vpa)))"
proof -
  let ?s = "traced_state s []"
  obtain u s1 where sync: "run_state (syncTLSProfile (traced_env e)) ?s = (u, s1)" by (rule prod.exhaust)
  note 1 = keyed_api.sync_calls [OF assms(1) refl _ sync]
  have good: "good (fst (rs_world s1))" using 1(1) assms(2) by (simp add: traced_state_def)
  obtain x s2 cs where run: "run_state (reconcile_request (traced_env e) req) s1 = (x, s2)"
      and 2: "rs_Config s2 = rs_Config s1" "snd (rs_world s2) = snd (rs_world s1) @ cs"
        "request_calls (rs_Config s1) req (snd x = None) cs"
    by (rule emitsD [OF keyed_api.emits_reconcile_request [OF assms(1) refl] good refl])
  have "x = res" "s2 = s'" using assms(3) sync run by (simp_all add: Reconcile_split run_simps)
  with 1(2) 2 assms(2) request_calls_written [OF 2(3)] show ?thesis by (simp add: traced_state_def)
qed

text \<open>In the example another actor deletes the recommender's deployment before every call.\<close>

definition deletes_recommender :: "tracker \<Rightarrow> tracker" where
  "deletes_recommender w = fmdrop (KDeployment, RecommenderName example_cfg example_vpa) w"

lemma deletes_wf: "fake_wf w \<Longrightarrow> fake_wf (deletes_recommender w)"
  by (simp add: fake_wf_def deletes_recommender_def fmpred_drop)

interpretation disturbed: keyed_api "interleaved deletes_recommender fake_client" fake_wf
  by (rule fake.keyed.keyed_interleaved [OF deletes_wf])

definition disturbed_env :: "tracker env" where
  "disturbed_env = \<lparr>en_Client = interleaved deletes_recommender fake_client, en_Scheme = AddToScheme []\<rparr>"

theorem Reconcile_protocol_witness:
  "\<exists>res s' cs. run_state (Reconcile (traced_env disturbed_env) example_req) (traced_state (example_state fmempty) []) = (res, s') \<and>
     snd (rs_world s') = CallGet KAPIServer \<lparr>nn_Namespace = '''', nn_Name = APIServerName\<rparr> # cs \<and>
     request_calls (rs_Config s') example_req (snd res = None) cs"
proof -
  obtain res s' where run: "run_state (Reconcile (traced_env disturbed_env) example_req) (traced_state (example_state fmempty) []) = (res, s')"
    by (rule prod.exhaust)
  have "keyed_api (en_Client disturbed_env) fake_wf"
    using disturbed.keyed_api_axioms by (simp add: disturbed_env_def)
  from Reconcile_protocol [OF this example_wf [OF fake_wf_empty] run] run show ?thesis by blast
qed

end
