(* ===== verification/Interference.thy ===== *)
theory Interference
  imports Reconcile_Protocol
begin

text \<open>
  Convergence while others are at work. Between any two calls of a run other actors may write whatever they like, except the objects of
  the run itself: the requested resource, its managed objects, and the APIServer object. Then the laws of \<open>kube_api\<close> do not hold of the
  client, since a read may come with changes elsewhere.

  They do hold of the client that is confined to the objects of the run, seen through these objects only (\<open>confined_laws\<close>). A run asks for
  nothing else. The locale \<open>client_simulation\<close> relates the worlds of two clients that do the same on a set of objects, and \<open>Reconcile_simulated\<close>
  says that a run over one has the result of the run over the other. So the theorems over \<open>kube_api\<close> carry over.
\<close>

section \<open>Confined clients\<close>

text \<open>Calls for other objects than those of \<open>K\<close> fail.\<close>

definition out_of_scope :: go_error where
  "out_of_scope = PlainError ''out of scope''"

definition confined :: "objkey set \<Rightarrow> 'w client \<Rightarrow> 'w client" where
  "confined K c =
     \<lparr>cl_Get = (\<lambda>k n w. if (k, n) \<in> K then cl_Get c k n w else (Inl out_of_scope, w)),
      cl_Create = (\<lambda>obj w. if obj_key obj \<in> K then cl_Create c obj w else (Some out_of_scope, w)),
      cl_Update = (\<lambda>obj w. if obj_key obj \<in> K then cl_Update c obj w else (Some out_of_scope, w)),
      cl_Patch = (\<lambda>k n p w. if (k, n) \<in> K then cl_Patch c k n p w else (Some out_of_scope, w))\<rparr>"

definition confined_env :: "objkey set \<Rightarrow> 'w env \<Rightarrow> 'w env" where
  "confined_env K e = e\<lparr>en_Client := confined K (en_Client e)\<rparr>"

definition within :: "objkey set \<Rightarrow> ('w \<Rightarrow> objkey \<Rightarrow> KObject option) \<Rightarrow> 'w \<Rightarrow> objkey \<Rightarrow> KObject option" where
  "within K view w key = (if key \<in> K then view w key else None)"

lemma out_of_scope_kind [simp]: "\<not> IsNotFound out_of_scope" "\<not> IsAlreadyExists out_of_scope"
  by (simp_all add: out_of_scope_def IsNotFound_def IsAlreadyExists_def StatusReasonNotFound_def StatusReasonAlreadyExists_def)

lemma within_cong: "(\<And>key. key \<in> K \<Longrightarrow> view w key = view' w' key) \<Longrightarrow> within K view w = within K view' w'"
  by (auto simp: within_def fun_eq_iff)

text \<open>Actors that leave the objects of \<open>K\<close> alone.\<close>

definition leaves_alone :: "objkey set \<Rightarrow> ('w \<Rightarrow> objkey \<Rightarrow> KObject option) \<Rightarrow> ('w \<Rightarrow> bool) \<Rightarrow> ('w \<Rightarrow> 'w) \<Rightarrow> bool" where
  "leaves_alone K view good other \<longleftrightarrow> (\<forall>w. good w \<longrightarrow> good (other w) \<and> (\<forall>key \<in> K. view (other w) key = view w key))"

context kube_api
begin

lemma confined_laws:
  assumes "leaves_alone K view wf other"
  shows "kube_api (confined K (interleaved other c)) (within K view) wf"
proof -
  have o: "wf (other w)" "key \<in> K \<Longrightarrow> view (other w) key = view w key" if "wf w" for w key
    using assms that by (auto simp: leaves_alone_def)
  note defs = confined_def interleaved_def
  show ?thesis
  proof
    show "obj_key obj = key" if "wf w" "within K view w key = Some obj" for w key obj
      using that view_key by (auto simp: within_def split: if_splits)
    show "within K view w (k, n) = Some obj" if "wf w" "cl_Get (confined K (interleaved other c)) k n w = (Inr obj, w')" for w k n obj w'
      using that get_found [OF o(1) [OF that(1)]] o(2) [OF that(1), of "(k, n)"] by (auto simp: defs within_def split: if_splits)
    show "within K view w (k, n) = None"
      if "wf w" "cl_Get (confined K (interleaved other c)) k n w = (Inl err, w')" "IsNotFound err" for w k n err w'
      using that get_missing [OF o(1) [OF that(1)]] o(2) [OF that(1), of "(k, n)"] by (auto simp: defs within_def split: if_splits)
    show "wf w' \<and> within K view w' = within K view w" if "wf w" "cl_Get (confined K (interleaved other c)) k n w = (g, w')" for w k n g w'
      using that get_frame [OF o(1)] o(2) by (auto simp: defs intro!: within_cong split: if_splits)
  next
    show "\<exists>obj'. within K view w' (obj_key obj) = Some obj' \<and> stored_as obj obj'"
      if "wf w" "cl_Create (confined K (interleaved other c)) obj w = (None, w')" for w obj w'
      using that create_stored [OF o(1)] by (auto simp: defs within_def split: if_splits)
    show "wf w' \<and> (\<forall>key. key \<noteq> obj_key obj \<longrightarrow> within K view w' key = within K view w key)"
      if "wf w" "cl_Create (confined K (interleaved other c)) obj w = (r, w')" for w obj r w'
      using that create_frame [OF o(1)] o(2) by (auto simp: defs within_def split: if_splits)
    show "within K view w' (obj_key obj) \<noteq> None"
      if "wf w" "cl_Create (confined K (interleaved other c)) obj w = (Some err, w')" "IsAlreadyExists err" for w obj err w'
      using that create_exists [OF o(1)] by (auto simp: defs within_def split: if_splits)
  next
    show "\<exists>obj'. within K view w' (obj_key obj) = Some obj' \<and> stored_as obj obj'"
      if "wf w" "cl_Update (confined K (interleaved other c)) obj w = (None, w')" for w obj w'
      using that update_stored [OF o(1)] by (auto simp: defs within_def split: if_splits)
    show "wf w' \<and> (\<forall>key. key \<noteq> obj_key obj \<longrightarrow> within K view w' key = within K view w key)"
      if "wf w" "cl_Update (confined K (interleaved other c)) obj w = (r, w')" for w obj r w'
      using that update_frame [OF o(1)] o(2) by (auto simp: defs within_def split: if_splits)
  next
    show "\<exists>obj obj'. within K view w (k, n) = Some obj \<and> within K view w' (k, n) = Some obj' \<and>
        nilmap (om_Annotations (obj_meta obj')) = apply_annotation_patch p (nilmap (om_Annotations (obj_meta obj)))"
      if "wf w" "cl_Patch (confined K (interleaved other c)) k n p w = (None, w')" for w k n p w'
      using patch_stored [OF o(1) [OF that(1)], of k n p w'] o(2) [OF that(1), of "(k, n)"] that(2)
      by (auto simp: defs within_def split: if_splits)
    show "wf w' \<and> (\<forall>key. key \<noteq> (k, n) \<longrightarrow> within K view w' key = within K view w key)"
      if "wf w" "cl_Patch (confined K (interleaved other c)) k n p w = (r, w')" for w k n p r w'
      using that patch_frame [OF o(1)] o(2) by (auto simp: defs within_def split: if_splits)
  qed
qed

end

section \<open>Runs over clients that do the same\<close>

text \<open>
  Two clients do the same on the objects of \<open>K\<close> if a relation of their worlds says so: from related worlds calls for these
  objects answer the same and lead to related worlds.
\<close>

locale client_simulation =
  fixes c :: "'w client" and c' :: "'v client" and R :: "'w \<Rightarrow> 'v \<Rightarrow> bool" and K :: "objkey set"
  assumes sim_get: "R w v \<Longrightarrow> (k, n) \<in> K \<Longrightarrow> cl_Get c k n w = (r, w') \<Longrightarrow>
      answers k n r \<and> (\<exists>v'. cl_Get c' k n v = (r, v') \<and> R w' v')"
    and sim_create: "R w v \<Longrightarrow> obj_key obj \<in> K \<Longrightarrow> cl_Create c obj w = (err, w') \<Longrightarrow> \<exists>v'. cl_Create c' obj v = (err, v') \<and> R w' v'"
    and sim_update: "R w v \<Longrightarrow> obj_key obj \<in> K \<Longrightarrow> cl_Update c obj w = (err, w') \<Longrightarrow> \<exists>v'. cl_Update c' obj v = (err, v') \<and> R w' v'"

definition related :: "('w \<Rightarrow> 'v \<Rightarrow> bool) \<Rightarrow> 'w rstate \<Rightarrow> 'v rstate \<Rightarrow> bool" where
  "related R s t \<longleftrightarrow> R (rs_world s) (rs_world t) \<and> rs_Config t = rs_Config s \<and> rs_events t = rs_events s"

text \<open>From related states with the configuration \<open>cfg\<close>, which they keep, two programs have the same result, one that \<open>T\<close> permits.\<close>

definition agree ::
  "('w \<Rightarrow> 'v \<Rightarrow> bool) \<Rightarrow> Config \<Rightarrow> ('w rstate, 'a) state \<Rightarrow> ('v rstate, 'a) state \<Rightarrow> ('a \<Rightarrow> bool) \<Rightarrow> bool" where
  "agree R cfg p q T \<longleftrightarrow> (\<forall>s t. related R s t \<and> rs_Config s = cfg \<longrightarrow>
     (\<exists>x s' t'. run_state p s = (x, s') \<and> run_state q t = (x, t') \<and> related R s' t' \<and> rs_Config s' = cfg \<and> T x))"

lemma agreeD:
  fixes s :: "'w rstate" and t :: "'v rstate"
  assumes "agree R cfg p q T" and "related R s t" and "rs_Config s = cfg"
  obtains x s' t' where "run_state p s = (x, s')" and "run_state q t = (x, t')" and "related R s' t'" and "rs_Config s' = cfg" and "T x"
  using assms unfolding agree_def by metis

named_theorems agree_rules \<open>programs that do the same, by their form\<close>

lemma agree_weaken: "agree R cfg p q T' \<Longrightarrow> (\<And>x. T' x \<Longrightarrow> T x) \<Longrightarrow> agree R cfg p q T"
  unfolding agree_def by blast

lemma agree_return [agree_rules]: "T x \<Longrightarrow> agree R cfg (State_Monad.return x) (State_Monad.return x) T"
  by (auto simp: agree_def run_simps)

lemma agree_bind [agree_rules]:
  fixes p :: "('w rstate, 'a) state" and q :: "('v rstate, 'a) state"
  assumes "agree R cfg p q (\<lambda>x. agree R cfg (f x) (g x) T)"
  shows "agree R cfg (p \<bind> f) (q \<bind> g) T"
  unfolding agree_def
proof (intro allI impI)
  fix s :: "'w rstate" and t :: "'v rstate"
  assume s: "related R s t \<and> rs_Config s = cfg"
  obtain x s1 t1 where 1: "run_state p s = (x, s1)" "run_state q t = (x, t1)" "related R s1 t1" "rs_Config s1 = cfg"
      "agree R cfg (f x) (g x) T"
    using agreeD [OF assms conjunct1 [OF s] conjunct2 [OF s]] .
  obtain y s2 t2 where 2: "run_state (f x) s1 = (y, s2)" "run_state (g x) t1 = (y, t2)" "related R s2 t2" "rs_Config s2 = cfg" "T y"
    using agreeD [OF 1(5,3,4)] .
  show "\<exists>y s' t'. run_state (p \<bind> f) s = (y, s') \<and> run_state (q \<bind> g) t = (y, t') \<and> related R s' t' \<and> rs_Config s' = cfg \<and> T y"
    by (intro exI [where x = y] exI [where x = s2] exI [where x = t2]) (simp add: 1 2)
qed

lemma agree_cases [agree_rules]:
  "(b \<Longrightarrow> agree R cfg p q T) \<Longrightarrow> (\<not> b \<Longrightarrow> agree R cfg p' q' T) \<Longrightarrow>
     agree R cfg (if b then p else p') (if b then q else q') T"
  "(\<And>a. x = Inl a \<Longrightarrow> agree R cfg (f a) (f' a) T) \<Longrightarrow> (\<And>b. x = Inr b \<Longrightarrow> agree R cfg (g b) (g' b) T) \<Longrightarrow>
     agree R cfg (case x of Inl a \<Rightarrow> f a | Inr b \<Rightarrow> g b) (case x of Inl a \<Rightarrow> f' a | Inr b \<Rightarrow> g' b) T"
  "(y = None \<Longrightarrow> agree R cfg p q T) \<Longrightarrow> (\<And>a. y = Some a \<Longrightarrow> agree R cfg (h a) (h' a) T) \<Longrightarrow>
     agree R cfg (case y of None \<Rightarrow> p | Some a \<Rightarrow> h a) (case y of None \<Rightarrow> q | Some a \<Rightarrow> h' a) T"
  by (auto split: sum.split option.split)

lemma agree_getConfig [agree_rules]: "T cfg \<Longrightarrow> agree R cfg getConfig getConfig T"
  by (auto simp: agree_def related_def run_simps)

lemma agree_events [agree_rules]:
  "T (Some err) \<Longrightarrow> agree R cfg (fail_with ref reason action msg err) (fail_with ref reason action msg err) T"
  "T None \<Longrightarrow> agree R cfg (succeed_with ref reason action msg) (succeed_with ref reason action msg) T"
  by (auto simp: agree_def related_def run_simps)

lemma set_owner_scheme: "en_Scheme e' = en_Scheme e \<Longrightarrow> set_owner e' vpa m = set_owner e vpa m"
  by (simp add: set_owner_def)

lemma Config_tls_same: "\<exists>t. cfg = cfg\<lparr>cfg_TLSProfileSpec := t\<rparr>" for cfg :: Config
  by (rule exI [where x = "cfg_TLSProfileSpec cfg"]) simp

lemma cluster_matches_mono:
  assumes "cluster_matches objs cfg vpa" and "\<And>key obj. objs key = Some obj \<Longrightarrow> objs' key = Some obj"
  shows "cluster_matches objs' cfg vpa"
  using assms unfolding cluster_matches_def by (meson assms(2))

text \<open>The objects of a run: the APIServer object, the requested resource, and what is managed for a resource of this key.\<close>

definition run_keys :: "Config \<Rightarrow> NamespacedName \<Rightarrow> objkey set" where
  "run_keys cfg req =
     insert apiserver_key (insert (KVPA, req) {k. \<exists>vpa. meta_key (vpa_Meta vpa) = req \<and> k \<in> set (managed_keys cfg vpa)})"

lemma run_keys_tls [simp]: "run_keys (cfg\<lparr>cfg_TLSProfileSpec := t\<rparr>) req = run_keys cfg req"
  by (simp add: run_keys_def)

context client_simulation
begin

lemma agree_kget:
  assumes "en_Client e = c" and "en_Client e' = c'" and "(k, n) \<in> K" and "\<And>r. answers k n r \<Longrightarrow> T r"
  shows "agree R cfg (kget e k n) (kget e' k n) T"
  using assms sim_get by (fastforce simp: agree_def related_def kget_def split: prod.splits)

lemma agree_write:
  assumes "en_Client e = c" and "en_Client e' = c'" and "obj_key obj \<in> K" and "\<And>r. T r"
  shows "agree R cfg (kcreate e obj) (kcreate e' obj) T"
    and "agree R cfg (kupdate e obj) (kupdate e' obj) T"
proof -
  show "agree R cfg (kcreate e obj) (kcreate e' obj) T"
    using assms sim_create [OF _ assms(3)] by (fastforce simp: agree_def related_def kcreate_def split: prod.splits)
  show "agree R cfg (kupdate e obj) (kupdate e' obj) T"
    using assms sim_update [OF _ assms(3)] by (fastforce simp: agree_def related_def kupdate_def split: prod.splits)
qed

lemma agree_create:
  assumes e: "en_Client e = c" "en_Client e' = c'" and "set_owner e vpa (obj_meta obj) = Inr m" and "obj_key obj \<in> K" and "\<And>r. T r"
  shows "agree R cfg (kcreate e (map_meta (\<lambda>x. m) obj)) (kcreate e' (map_meta (\<lambda>x. m) obj)) T"
  using set_owner_meta [OF assms(3)] key_with_meta [of m obj] assms by (intro agree_write) simp_all

lemmas agree_creates =
  agree_create [where obj = "ODeployment (AutoscalerDeployment cfg vpa params)" and vpa = vpa and cfg = cfg for cfg vpa params,
    simplified, unfolded key_of_deployment]
  agree_create [where obj = "OService (WebhookService cfg vpa)" and vpa = vpa and cfg = cfg for cfg vpa, simplified, unfolded key_of_service]
  agree_create [where obj = "OConfigMap (CAConfigMap cfg vpa)" and vpa = vpa and cfg = cfg for cfg vpa, simplified, unfolded key_of_configmap]
  agree_create [where obj = "ONetworkPolicy p" for p, simplified]

lemma agree_Create:
  assumes e: "en_Client e = c" "en_Client e' = c'" "en_Scheme e' = en_Scheme e"
  shows "(KDeployment, par_NameMethod params cfg vpa) \<in> K \<Longrightarrow>
      agree R cfg (CreateAutoscaler e vpa params) (CreateAutoscaler e' vpa params) (\<lambda>r. True)"
    and "(KService, service_name cfg) \<in> K \<Longrightarrow>
      agree R cfg (CreateWebhookService e vpa) (CreateWebhookService e' vpa) (\<lambda>r. True)"
    and "(KConfigMap, configmap_name cfg) \<in> K \<Longrightarrow>
      agree R cfg (CreateCAConfigMap e vpa) (CreateCAConfigMap e' vpa) (\<lambda>r. True)"
  unfolding CreateAutoscaler_def CreateWebhookService_def CreateCAConfigMap_def set_owner_scheme [OF e(3)] Let_def
  by (intro agree_bind agree_getConfig, (rule agree_rules agree_creates [OF e(1,2)] TrueI | assumption)+)+

lemma agree_Update:
  assumes e: "en_Client e = c" "en_Client e' = c'" "en_Scheme e' = en_Scheme e"
  shows "(KDeployment, par_NameMethod params cfg vpa) \<in> K \<Longrightarrow>
      agree R cfg (UpdateAutoscaler e vpa params) (UpdateAutoscaler e' vpa params) (\<lambda>r. True)"
    and "(KService, service_name cfg) \<in> K \<Longrightarrow>
      agree R cfg (UpdateWebhookService e vpa) (UpdateWebhookService e' vpa) (\<lambda>r. True)"
    and "(KConfigMap, configmap_name cfg) \<in> K \<Longrightarrow>
      agree R cfg (UpdateCAConfigMap e vpa) (UpdateCAConfigMap e' vpa) (\<lambda>r. True)"
  unfolding UpdateAutoscaler_def UpdateWebhookService_def UpdateCAConfigMap_def merged_configmap_def [symmetric] Let_def
  by (intro agree_bind agree_getConfig agree_kget [OF e(1,2)], assumption,
      (rule agree_rules agree_write(2) [OF e(1,2)] TrueI | assumption | drule (1) answers_decoded, simp add: key_of_updates)+)+

lemma agree_steps:
  assumes e: "en_Client e = c" "en_Client e' = c'" "en_Scheme e' = en_Scheme e"
  shows "(KDeployment, par_NameMethod params cfg vpa) \<in> K \<Longrightarrow>
      agree R cfg (reconcile_deployment e vpa ref params) (reconcile_deployment e' vpa ref params) (\<lambda>r. True)"
    and "(KService, service_name cfg) \<in> K \<Longrightarrow>
      agree R cfg (reconcile_service e vpa ref) (reconcile_service e' vpa ref) (\<lambda>r. True)"
    and "(KConfigMap, configmap_name cfg) \<in> K \<Longrightarrow>
      agree R cfg (reconcile_configmap e vpa ref) (reconcile_configmap e' vpa ref) (\<lambda>r. True)"
  unfolding reconcile_deployment_def reconcile_service_def reconcile_configmap_def Let_def
  by (intro agree_bind agree_getConfig agree_kget [OF e(1,2)], assumption,
      (rule agree_rules agree_Create [OF e, THEN agree_weaken] agree_Update [OF e, THEN agree_weaken] TrueI | assumption)+)+

lemma agree_policy:
  assumes e: "en_Client e = c" "en_Client e' = c'" "en_Scheme e' = en_Scheme e" and key: "obj_key (ONetworkPolicy policy) \<in> K"
    and nn: "meta_key (np_Meta policy) = \<lparr>nn_Namespace = cfg_Namespace cfg, nn_Name = om_Name (np_Meta policy)\<rparr>"
  shows "agree R cfg (reconcile_policy e vpa ref policy) (reconcile_policy e' vpa ref policy) (\<lambda>r. True)"
proof -
  have k: "(KNetworkPolicy, \<lparr>nn_Namespace = cfg_Namespace cfg, nn_Name = om_Name (np_Meta policy)\<rparr>) \<in> K"
    using key nn by (simp add: obj_key_def)
  show ?thesis
    unfolding reconcile_policy_def set_owner_scheme [OF e(3)] Let_def
    by (intro agree_bind agree_getConfig agree_kget [OF e(1,2) k])
      (rule agree_rules agree_creates(4) [OF e(1,2) _ key] agree_write(2) [OF e(1,2) key] TrueI | assumption)+
qed

lemma agree_until_error:
  "list_all2 (\<lambda>p q. agree R cfg p q (\<lambda>r. True)) ps qs \<Longrightarrow> agree R cfg (until_error ps) (until_error qs) (\<lambda>r. True)"
proof (induction rule: list_all2_induct)
  case (Cons p ps q qs)
  show ?case
    unfolding until_error.simps
    by (rule agree_rules agree_weaken [OF Cons.hyps(1)] agree_weaken [OF Cons.IH] TrueI)+
qed (simp add: agree_return)

lemma agree_reconcile_steps:
  assumes e: "en_Client e = c" "en_Client e' = c'" "en_Scheme e' = en_Scheme e" and K: "set (managed_keys cfg vpa) \<subseteq> K"
  shows "list_all2 (\<lambda>p q. agree R cfg p q (\<lambda>r. True)) (reconcile_steps e cfg vpa ref) (reconcile_steps e' cfg vpa ref)"
proof -
  have "agree R cfg (reconcile_policy e vpa ref p) (reconcile_policy e' vpa ref p) (\<lambda>r. True)"
    if "p \<in> set (NetworkPolicies cfg vpa)" for p
    using NetworkPolicies_meta(2) [OF that] K that
    by (intro agree_policy [OF e]) (auto simp: managed_keys_def obj_key_def meta_key_def)
  moreover have "agree R cfg (reconcile_deployment e vpa ref params) (reconcile_deployment e' vpa ref params) (\<lambda>r. True)"
    if "params \<in> set controllerParams" for params
    using K that by (intro agree_steps(1) [OF e]) (auto simp: managed_keys_def)
  ultimately show ?thesis
    using agree_steps(2,3) [OF e, where cfg = cfg and vpa = vpa and ref = ref] K
    by (auto simp: reconcile_steps_def managed_keys_def list_all2_map1 list_all2_map2 list_all2_same intro!: list_all2_appendI)
qed

lemma agree_reconcile_request:
  assumes e: "en_Client e = c" "en_Client e' = c'" "en_Scheme e' = en_Scheme e" and K: "run_keys cfg req \<subseteq> K"
  shows "agree R cfg (reconcile_request e req) (reconcile_request e' req) (\<lambda>res. True)"
proof -
  have managed: "set (managed_keys cfg vpa) \<subseteq> K" if "meta_key (vpa_Meta vpa) = req" for vpa
    using K that by (auto simp: run_keys_def)
  have req: "(KVPA, req) \<in> K" using K by (simp add: run_keys_def)
  show ?thesis
    unfolding reconcile_request_def e(3) Let_def
    by (intro agree_bind agree_kget [OF e(1,2) req])
      (rule agree_rules TrueI agree_until_error [OF agree_reconcile_steps [OF e managed [OF answers_vpa]], THEN agree_weaken] | assumption)+
qed

text \<open>So runs from related states have the same result and end in related states.\<close>

lemma Reconcile_simulated:
  assumes e: "en_Client e = c" "en_Client e' = c'" "en_Scheme e' = en_Scheme e" and s: "related R s t"
    and K: "run_keys (rs_Config s) req \<subseteq> K" and run: "run_state (Reconcile e req) s = (res, s')"
  shows "\<exists>t'. run_state (Reconcile e' req) t = (res, t') \<and> related R s' t'"
proof -
  let ?nn = "\<lparr>nn_Namespace = '''', nn_Name = APIServerName\<rparr>"
  have api: "(KAPIServer, ?nn) \<in> K" using K by (simp add: run_keys_def apiserver_key_def)
  obtain got w1 where get: "cl_Get c KAPIServer ?nn (rs_world s) = (got, w1)" by (rule prod.exhaust)
  then obtain v1 where get': "cl_Get c' KAPIServer ?nn (rs_world t) = (got, v1)" "R w1 v1"
    using sim_get [OF _ api get] s unfolding related_def by blast
  obtain s1 where sync: "run_state (syncTLSProfile e) s = ((), s1)" by (metis old.unit.exhaust prod.exhaust)
  obtain t1 where sync': "run_state (syncTLSProfile e') t = ((), t1)" by (metis old.unit.exhaust prod.exhaust)
  note ev = syncTLSProfile_def kget_def run_simps State_Monad.update_def State_Monad.get_def State_Monad.set_def
  have rel: "related R s1 t1" "\<exists>p. rs_Config s1 = (rs_Config s)\<lparr>cfg_TLSProfileSpec := p\<rparr>"
    using sync sync' e get get' s Config_tls_same [of "rs_Config s"] by (auto simp: ev related_def split: sum.splits)
  then have ag: "agree R (rs_Config s1) (reconcile_request e req) (reconcile_request e' req) (\<lambda>res. True)"
    using K by (intro agree_reconcile_request [OF e]) auto
  obtain x s2 t2 where "run_state (reconcile_request e req) s1 = (x, s2)" "run_state (reconcile_request e' req) t1 = (x, t2)" "related R s2 t2"
    by (rule agreeD [OF ag rel(1) refl])
  then show ?thesis using run sync sync' by (simp add: Reconcile_split run_simps)
qed

end

lemma confined_simulation:
  assumes "keyed_api c good"
  shows "client_simulation c (confined K c) (\<lambda>w v. good w \<and> v = w) K"
  by unfold_locales
    (auto simp: confined_def dest: keyed_api.keyed_get [OF assms] keyed_api.keyed_create [OF assms] keyed_api.keyed_update [OF assms])

section \<open>Convergence\<close>

text \<open>
  C2: A run of \<open>Reconcile\<close> that returns nil has brought the cluster to what the custom resource asks for. All three
  deployments have the desired pod specification, replica count and release version; the webhook service its port, selector and annotations;
  the CA config map its annotations; the five network policies their specifications. Any call may have failed on the way,
  and between any two calls other actors may have written what they like, except the run's own objects:
  the resource, what is managed for it, and the APIServer object.
\<close>

theorem Reconcile_converges_interleaved:
  assumes "kube_api c view good" and "leaves_alone (run_keys (rs_Config s) req) view good other"
    and "en_Client e = interleaved other c" and "good (rs_world s)"
    and "view (rs_world s) (KVPA, req) = Some (OVPA vpa)"
    and "run_state (Reconcile e req) s = (res, s')" and "snd res = None"
  shows "cluster_matches (view (rs_world s')) (rs_Config s') vpa"
proof -
  let ?K = "run_keys (rs_Config s) req" and ?same = "\<lambda>w v. good w \<and> v = w"
  have keyed: "keyed_api (interleaved other c) good"
    using assms(2) by (intro keyed_api.keyed_interleaved [OF kube_api.keyed_laws [OF assms(1)]]) (simp add: leaves_alone_def)
  have "\<exists>t'. run_state (Reconcile (confined_env ?K e) req) s = (res, t') \<and> related ?same s' t'"
    by (rule client_simulation.Reconcile_simulated [OF confined_simulation [OF keyed] assms(3) _ _ _ order_refl assms(6)])
      (simp_all add: confined_env_def related_def assms(3,4))
  then have run: "run_state (Reconcile (confined_env ?K e) req) s = (res, s')"
    by (auto simp: related_def)
  have lawful: "kube_api (en_Client (confined_env ?K e)) (within ?K view) good"
    using kube_api.confined_laws [OF assms(1,2)] assms(3) by (simp add: confined_env_def)
  have found: "within ?K view (rs_world s) (KVPA, req) = Some (OVPA vpa)"
    using assms(5) by (simp add: within_def run_keys_def)
  have "cluster_matches (within ?K view (rs_world s')) (rs_Config s') vpa"
    by (rule kube_api.converges [OF lawful refl assms(4) run assms(7) found])
  then show ?thesis
    by (rule cluster_matches_mono) (simp add: within_def split: if_splits)
qed

text \<open>In the example the root certificates of the cluster are published in the operand namespace before every call.\<close>

definition root_ca :: ConfigMap where
  "root_ca = \<lparr>cm_TypeMeta = zero_TypeMeta, cm_Meta = zero_ObjectMeta\<lparr>om_Name := ''kube-root-ca.crt'', om_Namespace := ''vpa''\<rparr>,
     cm_Data = fmupd ''ca.crt'' ''root'' fmempty, cm_rest = fmempty\<rparr>"

definition publishes_ca :: "tracker \<Rightarrow> tracker" where
  "publishes_ca w = fmupd (obj_key (OConfigMap root_ca)) (OConfigMap root_ca) w"

lemma publishes_wf: "fake_wf w \<Longrightarrow> fake_wf (publishes_ca w)"
  unfolding publishes_ca_def by (rule fake_wf_upd) (simp_all add: root_ca_def zero_ObjectMeta_def)

lemma publishes_elsewhere: "obj_key (OConfigMap root_ca) \<notin> run_keys example_cfg req"
  by (auto simp: run_keys_def managed_keys_def apiserver_key_def obj_key_def root_ca_def configmap_name_def meta_key_def go_defs)

lemma tracker_local:
  assumes "fmlookup v (obj_key obj) = fmlookup w (obj_key obj)"
  shows "fst (tracker_Create obj v) = fst (tracker_Create obj w)"
    and "fst (tracker_update b obj v) = fst (tracker_update b obj w)"
    and "fmlookup v k = fmlookup w k \<Longrightarrow> fmlookup (snd (tracker_Create obj v)) k = fmlookup (snd (tracker_Create obj w)) k"
    and "fmlookup v k = fmlookup w k \<Longrightarrow> fmlookup (snd (tracker_update b obj v)) k = fmlookup (snd (tracker_update b obj w)) k"
  using assms by (auto simp: tracker_update_def tracker_Create_def Let_def split: option.split)

lemma fake_local:
  assumes "fmlookup v (obj_key obj) = fmlookup w (obj_key obj)"
  shows "fst (fake_Update obj v) = fst (fake_Update obj w)"
    and "fmlookup v k = fmlookup w k \<Longrightarrow> fmlookup (snd (fake_Update obj v)) k = fmlookup (snd (fake_Update obj w)) k"
  using assms by (auto simp: fake_Update_def Let_def intro!: tracker_local)

lemma fake_simulation:
  assumes wf: "\<And>w. fake_wf w \<Longrightarrow> fake_wf (other w)" and alone: "\<And>w k. k \<in> K \<Longrightarrow> fmlookup (other w) k = fmlookup w k"
  shows "client_simulation fake_client (interleaved other fake_client) (\<lambda>w v. fake_wf w \<and> (\<forall>k \<in> K. fmlookup v k = fmlookup w k)) K"
proof
  let ?R = "\<lambda>w v. fake_wf w \<and> (\<forall>k \<in> K. fmlookup v k = fmlookup w k)"
  show "answers k n r \<and> (\<exists>v'. cl_Get (interleaved other fake_client) k n v = (r, v') \<and> ?R w' v')"
    if "?R w v" "(k, n) \<in> K" "cl_Get fake_client k n w = (r, w')" for w v k n r w'
    using that fake.keyed.keyed_get [OF _ that(3)] alone
    by (auto simp: interleaved_def fake_client_def fake_Get_def split: option.splits)
  show "\<exists>v'. cl_Create (interleaved other fake_client) obj v = (err, v') \<and> ?R w' v'"
    if "?R w v" "obj_key obj \<in> K" "cl_Create fake_client obj w = (err, w')" for w v obj err w'
    using that fake.keyed.keyed_create [OF _ that(3)] alone tracker_local(1,3) [of "other v" obj w]
    by (auto simp: interleaved_def fake_client_def fake_Create_def prod_eq_iff)
  show "\<exists>v'. cl_Update (interleaved other fake_client) obj v = (err, v') \<and> ?R w' v'"
    if "?R w v" "obj_key obj \<in> K" "cl_Update fake_client obj w = (err, w')" for w v obj err w'
    using that fake.keyed.keyed_update [OF _ that(3)] alone fake_local [of "other v" obj w]
    by (auto simp: interleaved_def fake_client_def prod_eq_iff)
qed

definition published_env :: "tracker env" where
  "published_env = \<lparr>en_Client = interleaved publishes_ca fake_client, en_Scheme = AddToScheme []\<rparr>"

lemma published_elsewhere: "k \<in> run_keys example_cfg req \<Longrightarrow> fmlookup (publishes_ca w) k = fmlookup w k"
  using publishes_elsewhere [of req] by (auto simp: publishes_ca_def)

interpretation published:
  client_simulation fake_client "interleaved publishes_ca fake_client"
    "\<lambda>w v. fake_wf w \<and> (\<forall>k \<in> run_keys example_cfg example_req. fmlookup v k = fmlookup w k)" "run_keys example_cfg example_req"
  by (rule fake_simulation) (simp_all add: publishes_wf published_elsewhere)

theorem Reconcile_converges_interleaved_witness:
  "\<exists>res s'. run_state (Reconcile published_env example_req) (example_state fmempty) = (res, s') \<and>
     cluster_matches (fake_view (rs_world s')) (rs_Config s') example_vpa"
proof -
  have cfg: "rs_Config (example_state fmempty) = example_cfg" by (simp add: example_state_def)
  have "\<exists>t'. run_state (Reconcile published_env example_req) (example_state fmempty) = (fst (example_run fmempty), t') \<and>
      related (\<lambda>w v. fake_wf w \<and> (\<forall>k \<in> run_keys example_cfg example_req. fmlookup v k = fmlookup w k)) (snd (example_run fmempty)) t'"
    by (rule published.Reconcile_simulated [OF example_en_Client _ _ _ _ example_run_eq])
      (simp_all add: published_env_def example_env_def related_def cfg example_wf [OF fake_wf_empty])
  then obtain s' where run: "run_state (Reconcile published_env example_req) (example_state fmempty) = (fst (example_run fmempty), s')"
    by blast
  have "leaves_alone (run_keys (rs_Config (example_state fmempty)) example_req) fake_view fake_wf publishes_ca"
    by (simp add: leaves_alone_def publishes_wf published_elsewhere cfg fake_view_def)
  from Reconcile_converges_interleaved [OF fake.kube_api_axioms this _ example_wf [OF fake_wf_empty] example_view run example_nil] run
  show ?thesis by (auto simp: published_env_def)
qed

end
