(* ===== verification/Lost_Updates.thy ===== *)
theory Lost_Updates
  imports Reconcile_Theorems
begin

text \<open>
  Writes of other actors between a read of the operator and its update. The update methods send back the object
  that they read, with its resource version, so the update is refused when the object has changed in the meantime, and nothing that the
  other actor wrote is lost.

  The other actor is a function on the tracker that runs just before an update arrives.
\<close>

definition interfered :: "(tracker \<Rightarrow> tracker) \<Rightarrow> tracker client" where
  "interfered other = fake_client\<lparr>cl_Update := \<lambda>obj w. fake_Update obj (other w)\<rparr>"

definition rv_of :: "KObject \<Rightarrow> string" where
  "rv_of obj = om_ResourceVersion (obj_meta obj)"

text \<open>The update methods of a run, with the objects they are responsible for.\<close>

definition update_methods ::
  "'w env \<Rightarrow> Config \<Rightarrow> VerticalPodAutoscalerController \<Rightarrow> (objkey \<times> ('w rstate, go_error + bool) state) list" where
  "update_methods e cfg vpa =
     map (\<lambda>params. ((KDeployment, par_NameMethod params cfg vpa), UpdateAutoscaler e vpa params)) controllerParams @
     [((KService, service_name cfg), UpdateWebhookService e vpa), ((KConfigMap, configmap_name cfg), UpdateCAConfigMap e vpa)]"

text \<open>An update with a resource version that is not the stored one changes nothing.\<close>

lemma fake_Update_stale:
  assumes "rv_of obj \<noteq> ''''" and "map_option rv_of (fmlookup w (obj_key obj)) \<noteq> Some (rv_of obj)"
  shows "\<exists>err. fake_Update obj w = (Some err, w)"
proof -
  have tracker: "\<exists>err. tracker_update False obj' w = (Some err, w)" if "obj_key obj' = obj_key obj" "rv_of obj' = rv_of obj" for obj'
    using that assms
    by (cases "fmlookup w (obj_key obj)") (auto simp: tracker_update_def tracker_Create_def rv_of_def Let_def)
  show ?thesis
    unfolding fake_Update_def Let_def by (rule tracker) (simp_all add: rv_of_def)
qed

lemma update_prog_interfered:
  assumes run: "run_state (update_prog e key dec con current upd) s = (r, s')"
    and dec: "\<And>obj. obj_kind obj = fst key \<Longrightarrow> \<exists>x. obj = con x \<and> dec obj = Inr x"
    and upd: "\<And>x. rv_of (con (upd x)) = rv_of (con x)" "\<And>x. obj_key (con (upd x)) = obj_key (con x)"
    and e: "en_Client e = interfered other" and w: "fake_wf (rs_world s)"
    and key: "fmlookup (rs_world s) key = Some old" "rv_of old \<noteq> []"
    and stale: "map_option rv_of (fmlookup (other (rs_world s)) key) \<noteq> Some (rv_of old)"
  shows "r = Inr False \<and> s' = s \<or> (\<exists>err. r = Inl err) \<and> rs_world s' = other (rs_world s)"
proof -
  have get: "cl_Get (en_Client e) (fst key) (snd key) (rs_world s) = (Inr (read_object old), rs_world s)"
    using key by (simp add: e interfered_def fake_client_def fake_Get_def)
  have old: "obj_key (read_object old) = key" "rv_of (read_object old) = rv_of old"
    using fake_wfD(1) [OF w key(1)] by (simp_all add: rv_of_def read_meta_def json_meta_def)
  then obtain x where x: "read_object old = con x" "dec (con x) = Inr x"
    using dec [of "read_object old"] by (auto simp: obj_key_def)
  obtain err where "cl_Update (en_Client e) (con (upd x)) (rs_world s) = (Some err, other (rs_world s))"
    using fake_Update_stale [of "con (upd x)" "other (rs_world s)"] old upd [of x] x(1) key(2) stale
    by (auto simp: e interfered_def)
  then show ?thesis
    using run get x
    by (auto simp: update_prog_def run_simps kget_def kupdate_def decoded_def update_result_def split: if_splits)
qed

lemma decode_kind:
  "obj_kind obj = KDeployment \<Longrightarrow> \<exists>d. obj = ODeployment d \<and> as_deployment obj = Inr d"
  "obj_kind obj = KService \<Longrightarrow> \<exists>sv. obj = OService sv \<and> as_service obj = Inr sv"
  "obj_kind obj = KConfigMap \<Longrightarrow> \<exists>m. obj = OConfigMap m \<and> as_configmap obj = Inr m"
  by (cases obj; simp)+

text \<open>
  C14: No update of another actor is lost. If an object changes, or disappears, after one of the update methods has read it and before its update
  arrives, then the method either found the object up to date and writes nothing, or returns an error and leaves
  the world as the other actor made it.
\<close>

theorem no_lost_updates:
  assumes "(key, method) \<in> set (update_methods e (rs_Config s) vpa)" and "en_Client e = interfered other"
    and "fake_wf (rs_world s)" and "fmlookup (rs_world s) key = Some old" and "rv_of old \<noteq> ''''"
    and "map_option rv_of (fmlookup (other (rs_world s)) key) \<noteq> Some (rv_of old)"
    and "run_state method s = (r, s')"
  shows "r = Inr False \<and> s' = s \<or> (\<exists>err. r = Inl err) \<and> rs_world s' = other (rs_world s)"
proof -
  note keys = rv_of_def obj_key_def meta_key_def
  consider params where "key = (KDeployment, par_NameMethod params (rs_Config s) vpa)" "method = UpdateAutoscaler e vpa params"
    | "key = (KService, service_name (rs_Config s))" "method = UpdateWebhookService e vpa"
    | "key = (KConfigMap, configmap_name (rs_Config s))" "method = UpdateCAConfigMap e vpa"
    using assms(1) by (auto simp: update_methods_def)
  then show ?thesis
  proof cases
    case (1 params)
    note run = assms(7) [unfolded 1(2) UpdateAutoscaler_eq [OF refl], folded 1(1)]
    show ?thesis
      by (rule update_prog_interfered [OF run _ _ _ assms(2-6)])
        (use decode_kind(1) 1(1) in \<open>auto simp: keys updated_deployment_def UpdateAnnotations_def Let_def\<close>)
  next
    case 2
    note run = assms(7) [unfolded 2(2) UpdateWebhookService_eq [OF refl], folded 2(1)]
    show ?thesis
      by (rule update_prog_interfered [OF run _ _ _ assms(2-6)])
        (use decode_kind(2) 2(1) in \<open>auto simp: keys merged_service_def UpdateServiceAnnotations_def Let_def\<close>)
  next
    case 3
    note run = assms(7) [unfolded 3(2) UpdateCAConfigMap_eq [OF refl], folded 3(1)]
    show ?thesis
      by (rule update_prog_interfered [OF run _ _ _ assms(2-6)])
        (use decode_kind(3) 3(1) in \<open>auto simp: keys merged_configmap_def UpdateConfigMapAnnotations_def Let_def\<close>)
  qed
qed

text \<open>A service of an older release at version 5, and another actor who writes it in the meantime.\<close>

definition old_service :: "string \<Rightarrow> KObject" where
  "old_service rv = OService ((WebhookService example_cfg example_vpa)\<lparr>svc_Selector := fmempty,
     svc_Meta := zero_ObjectMeta\<lparr>om_Name := WebhookServiceName, om_Namespace := ''vpa'', om_ResourceVersion := rv\<rparr>\<rparr>)"

definition service_world :: "string \<Rightarrow> tracker" where
  "service_world rv = fmupd (KService, service_name example_cfg) (old_service rv) fmempty"

theorem no_lost_updates_witness:
  "\<exists>r s'. run_state (UpdateWebhookService \<lparr>en_Client = interfered (\<lambda>w. service_world ''6''), en_Scheme = []\<rparr> example_vpa)
       \<lparr>rs_world = service_world ''5'', rs_Config = example_cfg, rs_events = []\<rparr> = (r, s') \<and>
     (r = Inr False \<and> rs_world s' = service_world ''5'' \<or> (\<exists>err. r = Inl err) \<and> rs_world s' = service_world ''6'')"
proof -
  let ?e = "\<lparr>en_Client = interfered (\<lambda>w. service_world ''6''), en_Scheme = []\<rparr>"
  let ?s = "\<lparr>rs_world = service_world ''5'', rs_Config = example_cfg, rs_events = []\<rparr>"
  obtain r s' where run: "run_state (UpdateWebhookService ?e example_vpa) ?s = (r, s')" by fastforce
  have key: "obj_key (old_service rv) = (KService, service_name example_cfg)" for rv
    by (simp add: old_service_def obj_key_def meta_key_def service_name_def example_cfg_def)
  have wf: "fake_wf (service_world ''5'')"
    using key [of "''5''"]
    by (simp add: service_world_def fake_wf_def fmpred_upd old_service_def zero_ObjectMeta_def go_defs ParseUint_def char_digit_def)
  have "r = Inr False \<and> s' = ?s \<or> (\<exists>err. r = Inl err) \<and> rs_world s' = (\<lambda>w. service_world ''6'') (rs_world ?s)"
    by (rule no_lost_updates [where key = "(KService, service_name example_cfg)" and old = "old_service ''5''"
          and vpa = example_vpa and e = ?e, OF _ _ _ _ _ _ run])
      (simp_all add: update_methods_def wf, simp_all add: service_world_def old_service_def rv_of_def)
  then show ?thesis using run by (intro exI [of _ r] exI [of _ s']) auto
qed

end
