(* ===== verification/Command_Tools.thy ===== *)
theory Command_Tools
  imports Kube_Client
begin

text \<open>
  The small programs beside the operator: \<open>cmd/testutil/json2yaml\<close> and \<open>cmd/testutil/yaml2json\<close>, which convert a file, or their
  standard input, and \<open>validator.go\<close>, a type with two setters that the operator never creates.

  The two conversions of the package \<open>sigs.k8s.io/yaml\<close> are parameters. Reading a stream
  gives the bytes up to its end or up to an error; \<open>buf.ReadFrom\<close>'s error is dropped by the programs, so a stream
  that breaks off is converted as far as it was read.
\<close>

section \<open>The converters\<close>

type_synonym stream = "string \<times> go_error option"

record process_io =
  io_Args :: "string list"
  io_Stdin :: stream
  io_Open :: "string \<Rightarrow> go_error + stream"

text \<open>The input: the file named by the first argument, or the standard input; \<open>Inl\<close> is a panic.\<close>

definition open_input :: "process_io \<Rightarrow> go_error + stream" where
  "open_input io = (if length (io_Args io) > 1 then io_Open io (io_Args io ! 1) else Inr (io_Stdin io))"

definition ReadFrom :: "stream \<Rightarrow> string" where
  "ReadFrom r = fst r"

text \<open>The programs, with what they write to their standard output.\<close>

definition json2yaml_main :: "(string \<Rightarrow> go_error + string) \<Rightarrow> process_io \<Rightarrow> go_error + string" where
  "json2yaml_main JSONToYAML io =
     (case open_input io of
        Inl err \<Rightarrow> Inl err
      | Inr r \<Rightarrow>
          (case JSONToYAML (ReadFrom r) of
             Inl err \<Rightarrow> Inl err
           | Inr yamlPayload \<Rightarrow> Inr yamlPayload))"

definition yaml2json_main :: "(string \<Rightarrow> go_error + string) \<Rightarrow> process_io \<Rightarrow> go_error + string" where
  "yaml2json_main YAMLToJSON io =
     (case open_input io of
        Inl err \<Rightarrow> Inl err
      | Inr r \<Rightarrow>
          (case YAMLToJSON (ReadFrom r) of
             Inl err \<Rightarrow> Inl err
           | Inr jsonPayload \<Rightarrow> Inr jsonPayload))"

text \<open>A pipe: the second program reads what the first one wrote.\<close>

definition piped :: "string \<Rightarrow> process_io" where
  "piped out = \<lparr>io_Args = [''''], io_Stdin = (out, None), io_Open = \<lambda>name. Inl (PlainError name)\<rparr>"

text \<open>
  If the package converts the JSON text that it printed itself back to what it came from, the two programs in a pipe give
  every document back in the package's own form.
\<close>

lemma pipe_roundtrip:
  assumes "\<And>doc json. YAMLToJSON doc = Inr json \<Longrightarrow>
      \<exists>yaml. JSONToYAML json = Inr yaml \<and> YAMLToJSON yaml = Inr json"
    and "yaml2json_main YAMLToJSON io = Inr json"
  shows "\<exists>yaml. json2yaml_main JSONToYAML (piped json) = Inr yaml \<and> yaml2json_main YAMLToJSON (piped yaml) = Inr json"
proof -
  from assms(2) obtain r where "YAMLToJSON (ReadFrom r) = Inr json"
    by (auto simp: yaml2json_main_def split: sum.splits)
  from assms(1) [OF this] show ?thesis
    by (auto simp: json2yaml_main_def yaml2json_main_def open_input_def piped_def ReadFrom_def)
qed

text \<open>The dropped error: a file that cannot be read to its end is converted as if it ended there.\<close>

lemma truncated_input:
  assumes "io_Args io = [prog, file]" and "io_Open io file = Inr (prefix, Some err)" and "io_Open io' file = Inr (prefix, None)"
    and "io_Args io' = [prog, file]"
  shows "json2yaml_main JSONToYAML io = json2yaml_main JSONToYAML io'"
  using assms by (simp add: json2yaml_main_def open_input_def ReadFrom_def)

section \<open>The validator\<close>

record ('w, 'd) Validator =
  val_client :: "'w client option"
  val_decoder :: "'d option"

definition InjectClient :: "'w client option \<Rightarrow> ('w, 'd) Validator \<Rightarrow> go_error option \<times> ('w, 'd) Validator" where
  "InjectClient c v = (None, v\<lparr>val_client := c\<rparr>)"

definition InjectDecoder :: "'d option \<Rightarrow> ('w, 'd) Validator \<Rightarrow> go_error option \<times> ('w, 'd) Validator" where
  "InjectDecoder d v = (None, v\<lparr>val_decoder := d\<rparr>)"

text \<open>The setters never fail and can be called in any order.\<close>

lemma Inject_commute:
  "InjectDecoder d (snd (InjectClient c v)) = (None, \<lparr>val_client = c, val_decoder = d\<rparr>)"
  "InjectClient c (snd (InjectDecoder d v)) = (None, \<lparr>val_client = c, val_decoder = d\<rparr>)"
  by (simp_all add: InjectClient_def InjectDecoder_def)

end
