(* ===== verification/Spec2Isabelle.thy ===== *)
theory Spec2Isabelle
  imports Bootstrap Reconcile_Events Status_Timing Test_Helpers Process_Lifecycle Deep_Copy Object_Types Interference Lost_Updates Command_Tools
begin

text \<open>
  Verification of the vertical pod autoscaler operator (\<open>src/\<close>), an OpenShift operator that keeps
  three operands running in its namespace: the recommender, the updater and the admission
  webhook of the vertical pod autoscaler. What it keeps in place is described by one custom resource, a
  \<open>VerticalPodAutoscalerController\<close>, and by the operator's own configuration.

  \<^bold>\<open>The program.\<close> \<open>cmd/main.go\<close> reads flags and environment, fetches the cluster's TLS settings, sets up the
  manager with its metrics server, the reconciler and a watcher of the TLS settings, and starts the manager.
  \<open>SetupWithManager\<close> starts a goroutine that creates the default custom resource once
  (\<open>ensureVPAController\<close>) and declares the watches that fill the queue of requests. \<open>Reconcile\<close> handles one
  request: it refreshes the TLS profile, reads the custom resource, and creates or updates three
  deployments, a service, a config map and five network policies, stopping at the first error. \<open>status.go\<close> has a reporter
  that tells the cluster version operator, through a ClusterOperator object, how the recommender
  is doing; \<open>cmd/main.go\<close> does not start it.

  \<^bold>\<open>How it is modelled.\<close> Pure Go functions are HOL functions. Code that talks to the API server is a
  program of the state monad whose calls are in the order of the code; every error return, panic and
  process exit is a value. The world behind a client is a type parameter, and a client is a record of
  functions on it. The locales \<open>kube_api\<close> and \<open>reliable_api\<close> (theory \<open>Kube_Client\<close>) state what a call that
  succeeded means and, for the second, when calls succeed; \<open>reporter_api\<close> (theory \<open>Status_Props\<close>) adds the
  client of the ClusterOperator objects and the clock. The first two are interpreted on controller-runtime's in-memory
  client (theory \<open>Fake_Client\<close>, a model of the vendored code), the third on that client and the object tracker of client-go
  (theory \<open>Status_Theorems\<close>). In theorems over \<open>kube_api\<close> any call may fail, and a failed write may have reached its object or not.

  \<^bold>\<open>The theories, in the order of the imports.\<close>

  \<^item> \<open>VPA_Prelude\<close>: Go errors, maps that may be nil, decimal integers (\<open>strconv\<close>), the state monad, the
    collections of simplification rules. \<open>Go_Fmt\<close>: the text of a float64 (\<open>%v\<close>), exactly, from its 64-bit word.
  \<^item> \<open>Kube_Types\<close>, \<open>VPA_Api\<close>, \<open>TLS_Profiles\<close>, \<open>VPA_Util\<close>: the Kubernetes and OpenShift types, semantic equality,
    \<open>SetControllerReference\<close>, \<open>api/v1\<close>, \<open>internal/util\<close>.
  \<^item> \<open>Resource_Merge\<close>: \<open>internal/lib/resourcemerge\<close> and \<open>ResetProgressingTime\<close>. \<open>EnsureObjectMeta\<close> and \<open>EnsureClusterOperatorStatus\<close> change
    exactly what differs and report it, are idempotent, and do not depend on the order in which Go iterates over a map.
  \<^item> \<open>Operator_Config\<close>: \<open>internal/operator/config.go\<close>, \<open>infrastructure.go\<close>.
  \<^item> \<open>Kube_Client\<close>: objects, client and the laws. \<open>Kube_Semantics\<close>: what selectors, policies and taints mean.
  \<^item> \<open>Operand_Args\<close>, \<open>Operand_Specs\<close>, \<open>Network_Policies\<close>: the command lines (\<open>recommender.go\<close>, \<open>updater.go\<close>,
    \<open>admission_plugin.go\<close>), the pod specifications, deployments, service and config map, and the policies.
    \<open>Operand_Props\<close>: overrides, placement, security settings, the wiring of the webhook.
  \<^item> \<open>Controller\<close>: \<open>Reconcile\<close> and its methods. \<open>Step_Contracts\<close> states one contract for the steps of a run and proves that
    a sequence of steps inherits it; \<open>Controller_Props\<close> shows it for each step, \<open>Reconcile_Props\<close> for the run,
    \<open>Reconcile_Live\<close> adds success. \<open>Fake_Client\<close>: the in-memory client. \<open>Reconcile_Theorems\<close>: convergence, liveness,
    frame, idempotence, ownership, kept metadata, TLS, replicas. \<open>Reconcile_Events\<close>: what a run records, over any client.
  \<^item> \<open>Object_Types\<close>: a typing of the objects on the wire (the locale \<open>typed_api\<close>); runs that read valid objects send valid objects, whether the fields come from overrides or defaults. \<open>Reconcile_Bounds\<close>: the calls of a run
    are traced and counted, over any client. \<open>Reconcile_Protocol\<close>: their order, as a refinement of an inductive protocol, over clients that answer
    with the object asked for (the locale \<open>keyed_api\<close>), with other actors between any two calls. \<open>Interference\<close>: a simulation of clients
    (the locale \<open>client_simulation\<close>) lifts the theorems over \<open>kube_api\<close> to runs that others interleave with. \<open>Lost_Updates\<close>: writes of others between a read and an update survive.
  \<^item> \<open>Default_Controller\<close>: \<open>ensureVPAController\<close>. \<open>Watches\<close>: events and requests. \<open>Operator_System\<close>: the reconciler, its queue, restarts and
    other clients as a step relation with an invariant by rule induction: a request is pending or every operand is as asked for, but for those that changed where no watch shows it. \<open>Bootstrap\<close>: an installation comes up.
  \<^item> \<open>Status_Reporter\<close>, \<open>Status_Props\<close>, \<open>Status_Theorems\<close>: \<open>internal/operator/status.go\<close>. \<open>Status_Timing\<close>: how long a report and \<open>Start\<close> take (the locales
    \<open>timed_reporter\<close> and \<open>timed_polling\<close>). \<open>Test_Helpers\<close>: \<open>test/helpers\<close>.
  \<^item> \<open>Operator_Main\<close>, \<open>Main_Props\<close>: \<open>cmd/main.go\<close> and the watcher of the TLS settings.
    \<open>Operator_Version\<close>: \<open>internal/version\<close> and the parser of semantic versions that runs when the process is initialised.
    \<open>Operator_Flags\<close>: the command line, the scheme, the process from its arguments to its exit status, and how the shipped operator comes up; the parser is that of Go's package \<open>flag\<close>. \<open>Process_Lifecycle\<close>: signals, leader
    election, the watcher and the end of the manager as a step relation; when the process stops, and with which status.
  \<^item> \<open>Go_Heap\<close>, \<open>Deep_Copy\<close>: \<open>api/v1/zz_generated.deepcopy.go\<close> over an explicit heap. A locale \<open>deep_copy\<close> states what a deep copy is; the contract is
    closed under pointers, slices, pairs and structs, so that the copy of every type of the custom resource has it.
  \<^item> \<open>Command_Tools\<close>: \<open>cmd/testutil\<close> and \<open>validator.go\<close>.
  \<^item> This theory: the environment's way to the command lines, and the agreement of reporter and reconciler.

  \<^bold>\<open>Bounds and termination.\<close> Every definition is total but one: polling (\<open>poll_loop\<close>) may run forever and is a partial function into \<open>option\<close>,
  with a theorem that it returns at most one report after the context is cancelled, from the pace of the timer. There is no fuel. A run of \<open>Reconcile\<close> makes at most 17 reads and 10 writes. Integers are unbounded where the code does not
  compute with them; \<open>Atoi\<close> has the 64-bit range, floats and cipher codes are words.

  \<^bold>\<open>Abstractions.\<close> Log lines are left out. Fields of Kubernetes objects that the operator neither sets nor reads are collected
  in one map per record. A deep copy is the value (\<open>Deep_Copy\<close> justifies it for the custom resource). Slices are lists; nil and empty are told apart where the code does, with one exception:
  the cipher and group lists that the watcher compares with \<open>reflect.DeepEqual\<close>, where a change from nil to empty counts as no change.
  A reconcile run is one step of the system: the queue never runs two requests for the same object at once, and the theorems over \<open>kube_api\<close>
  see the changes of others during a run only in what its calls return. \<open>Interference\<close> shows that writes of others elsewhere do not matter,
  \<open>Lost_Updates\<close> what becomes of theirs to the same objects. Error texts are those of the code up to the parts that third-party code prints.

  \<^bold>\<open>Not modelled.\<close> The API server and the operands, controller-runtime's manager, cache and leader election: they are behind
  the parameters, and the manager while it runs is the events of \<open>Process_Lifecycle\<close>. The YAML library of \<open>cmd/testutil\<close> and the
  flags that other packages register are parameters too. Log output. Of the Kubernetes libraries only what the operator calls.
\<close>

section \<open>From the environment to the command lines\<close>

text \<open>The environment of the example process: it configures the example of the other theories, with verbosity 4.\<close>

definition example_vars :: strmap where
  "example_vars = fmupd ''VERTICAL_POD_AUTOSCALER_VERBOSITY'' (int_text 4)
     (fmupd ''VERTICAL_POD_AUTOSCALER_NAMESPACE'' ''vpa'' (fmupd ''RELEASE_VERSION'' ''4.20'' fmempty))"

lemma environment_config:
  assumes "run_state (main_setup rt) w = (Inr su, w')"
  shows "cfg_Verbosity (su_Config su) = oc_VerticalPodAutoscalerVerbosity (ConfigFromEnvironment (rt_env rt))"
    and "cfg_ExtraArgs (su_Config su) = oc_VerticalPodAutoscalerExtraArgs (ConfigFromEnvironment (rt_env rt))"
    and "cfg_ReleaseVersion (su_Config su) = oc_ReleaseVersion (ConfigFromEnvironment (rt_env rt))"
proof -
  obtain t x where "su_Config su = reconciler_config (ConfigFromEnvironment (rt_env rt)) t x"
    using assms by (elim main_setup_Inr main_after_read_Inr) blast
  then show "cfg_Verbosity (su_Config su) = oc_VerticalPodAutoscalerVerbosity (ConfigFromEnvironment (rt_env rt))"
    "cfg_ExtraArgs (su_Config su) = oc_VerticalPodAutoscalerExtraArgs (ConfigFromEnvironment (rt_env rt))"
    "cfg_ReleaseVersion (su_Config su) = oc_ReleaseVersion (ConfigFromEnvironment (rt_env rt))"
    by (simp_all add: reconciler_config_def)
qed

lemmas environment_fields = ConfigFromEnvironment_def NewConfig_def override_def Let_def

text \<open>
  C18: The operator's environment reaches the operands' command lines. If the verbosity variable holds
  the decimal text of a 64-bit integer, and neither extra arguments nor the custom resource's overrides
  set the flag, then once \<open>main\<close> has set up the reconciler, every successful run of \<open>Reconcile\<close>
  leaves each of the three deployments with one container that runs at that verbosity.
\<close>

theorem environment_verbosity:
  assumes "run_state (main_setup rt) w0 = (Inr su, w1)"
    and "fmlookup (rt_env rt) ''VERTICAL_POD_AUTOSCALER_VERBOSITY'' = Some (int_text n)"
    and "- (2 ^ 63) \<le> n" and "n < 2 ^ 63"
    and "fmlookup (rt_env rt) ''VERTICAL_POD_AUTOSCALER_EXTRA_ARGS'' = None"
    and "kube_api c view good" and "en_Client e = c" and "good (rs_world s)" and "rs_Config s = su_Config su"
    and "view (rs_world s) (KVPA, req) = Some (OVPA vpa)"
    and "run_state (Reconcile e req) s = (res, s')" and "snd res = None"
    and "(params, sel) \<in> set operands"
    and "\<not> ArgExists (cov_Args (do_Container (sel (vs_DeploymentOverrides (vpa_Spec vpa))))) ''--v''"
  shows "\<exists>d cont. view (rs_world s') (KDeployment, par_NameMethod params (rs_Config s') vpa) = Some (ODeployment d) \<and>
    ps_Containers (pt_Spec (dep_Template d)) = [cont] \<and> effective (c_Args cont) ''--v'' = Some (int_text n)"
proof -
  have "cfg_Verbosity (su_Config su) = n" "cfg_ExtraArgs (su_Config su) = ''''"
    using environment_config [OF assms(1)] assms(2,5) Atoi_int_text [OF assms(3,4)]
    by (simp_all add: environment_fields split: option.split)
  moreover obtain t where "rs_Config s' = (rs_Config s)\<lparr>cfg_TLSProfileSpec := t\<rparr>"
    using kube_api.frame [OF assms(6,7,8,11)] tls_syncedD by blast
  ultimately have cfg: "cfg_Verbosity (rs_Config s') = n" "cfg_ExtraArgs (rs_Config s') = ''''"
    using assms(9) by simp_all
  have "cluster_matches (view (rs_world s')) (rs_Config s') vpa"
    by (rule kube_api.converges [OF assms(6,7,8,11,12,10)])
  then show ?thesis
    using assms(13)
  proof (rule matches_args)
    fix d cont
    assume d: "view (rs_world s') (KDeployment, par_NameMethod params (rs_Config s') vpa) = Some (ODeployment d)"
      "ps_Containers (pt_Spec (dep_Template d)) = [cont]"
      "c_Args cont = operator_args (rs_Config s') vpa (ControllerParamsBase.truncate params) @
         cov_Args (do_Container (sel (vs_DeploymentOverrides (vpa_Spec vpa))))"
    have "effective (c_Args cont) ''--v'' = Some (int_text n)"
      using d(3) assms(14) operand_verbosity [OF assms(13)] cfg
      by (simp add: effective_append_if operator_args_def ControllerParamsBase.truncate_def)
    with d(1,2) show ?thesis by blast
  qed
qed

lemma example_main:
  obtains su where "run_state (main_setup (example_runtime example_vars)) example_tls_world = (Inr su, example_tls_world)"
    "cfg_Namespace (su_Config su) = ''vpa''" "cfg_ReleaseVersion (su_Config su) = ''4.20''"
proof -
  obtain su where su: "run_state (main_setup (example_runtime example_vars)) example_tls_world = (Inr su, example_tls_world)"
    using example_starts by blast
  show thesis
    by (rule that [OF su]) (simp_all add: example_setup(3) [OF su] reconciler_config_def environment_fields example_vars_def)
qed

lemma example_reconciles:
  assumes "cfg_Namespace cfg = ''vpa''"
  shows "snd (fst (run_state (Reconcile example_env example_req) ((example_state fmempty)\<lparr>rs_Config := cfg\<rparr>))) = None"
proof -
  have own: "can_own example_env (rs_Config ((example_state fmempty)\<lparr>rs_Config := cfg\<rparr>)) example_vpa"
    using example_can_own [of fmempty] assms by (auto simp: can_own_def example_state_def example_cfg_def)
  have world: "rs_world ((example_state fmempty)\<lparr>rs_Config := cfg\<rparr>) = rs_world (example_state fmempty)" by simp
  have "fst (run_state (Reconcile example_env example_req) ((example_state fmempty)\<lparr>rs_Config := cfg\<rparr>)) = (zero_Result, None)"
  proof (rule fake.live [OF example_en_Client _ _ own], unfold world)
    show "fake_wf (rs_world (example_state fmempty))" by (rule example_wf [OF fake_wf_empty])
    show "fake_view (rs_world (example_state fmempty)) (KVPA, example_req) = Some (OVPA example_vpa)" by (rule example_view)
  qed (auto simp: fake_view_def example_state_def)
  then show ?thesis by simp
qed

theorem environment_verbosity_witness:
  "\<exists>su d cont. fst (run_state (main_setup (example_runtime example_vars)) example_tls_world) = Inr su \<and>
     fake_view (rs_world (snd (run_state (Reconcile example_env example_req)
         ((example_state fmempty)\<lparr>rs_Config := su_Config su\<rparr>))))
       (KDeployment, \<lparr>nn_Namespace = ''vpa'', nn_Name = ''vpa-recommender-default''\<rparr>) = Some (ODeployment d) \<and>
     ps_Containers (pt_Spec (dep_Template d)) = [cont] \<and> effective (c_Args cont) ''--v'' = Some (int_text 4)"
proof (rule example_main)
  fix su
  assume su: "run_state (main_setup (example_runtime example_vars)) example_tls_world = (Inr su, example_tls_world)"
    "cfg_Namespace (su_Config su) = ''vpa''"
  let ?s = "(example_state fmempty)\<lparr>rs_Config := su_Config su\<rparr>"
  obtain res s' where run: "run_state (Reconcile example_env example_req) ?s = (res, s')" by fastforce
  have w: "fake_wf (rs_world ?s)" using example_wf [OF fake_wf_empty] by simp
  have v: "fake_view (rs_world ?s) (KVPA, example_req) = Some (OVPA example_vpa)" using example_view by simp
  obtain t where "rs_Config s' = (rs_Config ?s)\<lparr>cfg_TLSProfileSpec := t\<rparr>"
    using fake.frame [OF example_en_Client w run] tls_syncedD by blast
  then have name: "par_NameMethod recommender_params (rs_Config s') example_vpa =
      \<lparr>nn_Namespace = ''vpa'', nn_Name = ''vpa-recommender-default''\<rparr>"
    using su(2) by (simp add: recommender_params_def RecommenderName_def example_vpa_def)
  have "\<exists>d cont. fake_view (rs_world s') (KDeployment, par_NameMethod recommender_params (rs_Config s') example_vpa) =
      Some (ODeployment d) \<and> ps_Containers (pt_Spec (dep_Template d)) = [cont] \<and>
      effective (c_Args cont) ''--v'' = Some (int_text 4)"
    by (rule environment_verbosity [OF su(1) _ _ _ _ fake.kube_api_axioms example_en_Client w _ v run,
          where n = 4 and sel = dos_Recommender])
      (use example_reconciles [OF su(2)] run in \<open>simp_all add: example_runtime_def example_vars_def operands_def
        example_vpa_def zero_VPASpec_def zero_DeploymentOverride_def ArgExists_def\<close>)
  then show ?thesis using su(1) run name by auto
qed

section \<open>The reconciler and the status reporter\<close>

text \<open>
  C22: The status reporter and the reconciler agree. After a successful run of \<open>Reconcile\<close> for the
  reporter's custom resource with the reporter's release version, a status check that gets its
  answers says yes exactly when the deployment of the recommender, which exists, is rolled out: the version
  never holds it back.
\<close>

theorem report_after_reconcile:
  assumes "kube_api c view good" and "en_Client e = c" and "good (rs_world s)"
    and "view (rs_world s) (KVPA, req) = Some (OVPA vpa)"
    and "run_state (Reconcile e req) s = (res, s')" and "snd res = None"
    and "req = \<lparr>nn_Namespace = cfg_Namespace (rs_Config s), nn_Name = src_Name (sr_config r)\<rparr>"
    and "src_Namespace (sr_config r) = cfg_Namespace (rs_Config s)"
    and "src_ReleaseVersion (sr_config r) = cfg_ReleaseVersion (rs_Config s)"
    and "sr_client r = c" and "run_state (CheckVPARecommender r) (rs_world s') = (Inr ok, w')"
  shows "\<exists>d. view (rs_world s') (recommender_ref (sr_config r)) = Some (ODeployment d) \<and> (ok \<longleftrightarrow> DeploymentUpdated d)"
proof -
  obtain t where cfg: "rs_Config s' = (rs_Config s)\<lparr>cfg_TLSProfileSpec := t\<rparr>"
    using kube_api.frame [OF assms(1,2,3,5)] tls_syncedD by blast
  have w: "good (rs_world s')" using kube_api.frame [OF assms(1,2,3,5)] by blast
  have "obj_key (OVPA vpa) = (KVPA, req)" by (rule kube_api.view_key [OF assms(1,3,4)])
  then have name: "om_Name (vpa_Meta vpa) = src_Name (sr_config r)"
    using assms(7) by (simp add: obj_key_def meta_key_def)
  have "cluster_matches (view (rs_world s')) (rs_Config s') vpa"
    by (rule kube_api.converges [OF assms(1,2,3,5,6,4)])
  then obtain d where d: "view (rs_world s') (recommender_ref (sr_config r)) = Some (ODeployment d)"
      "deployment_current (rs_Config s') vpa recommender_params d"
    using cfg name assms(8) by (auto simp: cluster_matches_def controllerParams_def recommender_params_def
        RecommenderName_def recommender_ref_def)
  have "(KVPA, req) \<notin> set (managed_keys (rs_Config s) v)" for v by (auto simp: managed_keys_def)
  then have "view (rs_world s') (KVPA, req) = view (rs_world s) (KVPA, req)"
    using kube_api.frame [OF assms(1,2,3,5)] by blast
  then have "view (rs_world s') (vpa_ref (sr_config r)) \<noteq> None" using assms(4,7,8) by (simp add: vpa_ref_def)
  moreover have "ok \<longleftrightarrow> ready (view (rs_world s')) (sr_config r)"
    using kube_api.Check_run [OF assms(1) assms(10) w assms(11)] by blast
  moreover have "fmlookup (nilmap (om_Annotations (dep_Meta d))) ReleaseVersionAnnotation =
      Some (src_ReleaseVersion (sr_config r))"
    using d(2) cfg assms(9) by (simp add: deployment_current_def ReleaseVersionMatches_iff)
  ultimately show ?thesis using d(1) by (auto simp: ready_def DeploymentUpdated_iff)
qed

text \<open>A reporter on the in-memory client; its check does not use the client of the ClusterOperator objects.\<close>

definition tracker_reporter :: "tracker StatusReporter" where
  "tracker_reporter =
     \<lparr>sr_client = fake_client,
      sr_configClient = \<lparr>cc_Get = (\<lambda>name w. (Inl decode_error, w)), cc_Create = (\<lambda>co w. (Inl decode_error, w)),
        cc_UpdateStatus = (\<lambda>co w. (Inl decode_error, w))\<rparr>,
      sr_config = \<lparr>src_Name = ''default'', src_Namespace = ''vpa'', src_ReleaseVersion = ''4.20'', src_RelatedObjects = []\<rparr>,
      sr_now = (\<lambda>w. (1, w))\<rparr>"

lemma fake_get_answer:
  assumes "fake_wf w" and "decodes k dec con" and "cl_Get fake_client k n w = (g, w')"
  shows "w' = w \<and> ((\<exists>x. decoded dec g = Inr x) \<or> (\<exists>err. decoded dec g = Inl err \<and> IsNotFound err))"
proof (cases "fmlookup w (k, n)")
  case None
  then show ?thesis using assms(3) by (auto simp: fake_client_def fake_Get_def decoded_def NewNotFound_def IsNotFound_def)
next
  case (Some obj)
  then have g: "g = Inr (read_object obj)" "w' = w" using assms(3) by (simp_all add: fake_client_def fake_Get_def)
  have "fake_view w (k, n) = Some (read_object obj)" using Some by (simp add: fake_view_def)
  then have "obj_key (read_object obj) = (k, n)" by (rule fake.view_key [OF assms(1)])
  then have "obj_kind (read_object obj) = k" by (simp add: obj_key_def)
  then obtain x where "read_object obj = con x" "dec (con x) = Inr x" using assms(2) unfolding decodes_def by blast
  then have "decoded dec g = Inr x" using g(1) by (simp add: decoded_def)
  then show ?thesis using g(2) by blast
qed

lemma tracker_reporter_answers:
  assumes "fake_wf w"
  shows "\<exists>ok. run_state (CheckVPARecommender tracker_reporter) w = (Inr ok, w)"
proof -
  let ?n1 = "\<lparr>nn_Namespace = ''vpa'', nn_Name = ''default''\<rparr>"
  let ?n2 = "\<lparr>nn_Namespace = ''vpa'', nn_Name = ''vpa-recommender-'' @ ''default''\<rparr>"
  obtain g1 w1 where g1: "cl_Get fake_client KVPA ?n1 w = (g1, w1)" by fastforce
  obtain g2 w2 where g2: "cl_Get fake_client KDeployment ?n2 w = (g2, w2)" by fastforce
  show ?thesis
    using g1 g2 fake_get_answer [OF assms decodes_simps(5) g1] fake_get_answer [OF assms decodes_simps(1) g2]
    by (auto simp: CheckVPARecommender_def tracker_reporter_def run_simps)
qed

theorem report_after_reconcile_witness:
  "\<exists>ok d. run_state (CheckVPARecommender tracker_reporter) (rs_world (snd (example_run fmempty))) =
       (Inr ok, rs_world (snd (example_run fmempty))) \<and>
     fake_view (rs_world (snd (example_run fmempty)))
       (KDeployment, \<lparr>nn_Namespace = ''vpa'', nn_Name = ''vpa-recommender-default''\<rparr>) = Some (ODeployment d) \<and>
     (ok \<longleftrightarrow> DeploymentUpdated d)"
proof -
  have w: "fake_wf (rs_world (snd (example_run fmempty)))"
    using fake.frame [OF example_en_Client example_wf [OF fake_wf_empty] example_run_eq] by blast
  obtain ok where ok: "run_state (CheckVPARecommender tracker_reporter) (rs_world (snd (example_run fmempty))) =
      (Inr ok, rs_world (snd (example_run fmempty)))"
    using tracker_reporter_answers [OF w] by blast
  have "\<exists>d. fake_view (rs_world (snd (example_run fmempty))) (recommender_ref (sr_config tracker_reporter)) =
      Some (ODeployment d) \<and> (ok \<longleftrightarrow> DeploymentUpdated d)"
    by (rule report_after_reconcile [OF fake.kube_api_axioms example_en_Client example_wf [OF fake_wf_empty] example_view
          example_run_eq example_nil _ _ _ _ ok])
      (simp_all add: example_req_def example_state_def example_cfg_def tracker_reporter_def)
  then show ?thesis using ok by (auto simp: recommender_ref_def tracker_reporter_def)
qed

end
